(* ===== verification/Prelude.thy ===== *)
theory Prelude
  imports Main "HOL-Library.Word"
begin

text \<open>
  Shared vocabulary of the development: the machine types of the C code (an LP64
  platform: \<open>size_t\<close>, \<open>uint64_t\<close> and \<open>off_t\<close> are 64 bits wide, \<open>int\<close> is 32),
  blocks of memory and \<open>memcpy\<close>/\<open>memset\<close> on them, the faults that stand for
  undefined behaviour, little-endian loads and stores, and the facts on words that
  the component proofs share.  The collection \<open>mem_simps\<close> holds the rewrite rules
  on memory, \<open>word_nat\<close> the rules that move a comparison from words to naturals.
\<close>

unbundle bit_operations_syntax

named_theorems mem_simps
named_theorems word_nat

section \<open>Machine types\<close>

type_synonym u8 = "8 word"
type_synonym u16 = "16 word"
type_synonym u32 = "32 word"
type_synonym u64 = "64 word"

text \<open>A C \<open>int\<close> is a 32-bit word read with \<^const>\<open>sint\<close>; it enters 64-bit
  arithmetic by sign extension.\<close>

type_synonym c_int = "32 word"

abbreviation sext64 :: "c_int \<Rightarrow> u64" where
  "sext64 \<equiv> signed"

abbreviation to_int :: "u64 \<Rightarrow> c_int" where
  "to_int \<equiv> unsigned"

text \<open>What the C standard leaves undefined, and a loop that does not end, are values of
  the left summand of a result.\<close>

datatype fault =
    Out_of_bounds
  | Null_pointer
  | Stack_overflow
  | Division_by_zero
  | Int_overflow
  | Double_free
  | Diverges

section \<open>Memory\<close>

text \<open>A block of memory is its bytes from the start address; the size of an allocation
  is a constant of the code, checked where the code writes or reads.\<close>

type_synonym mem = "nat \<Rightarrow> u8"

definition memcpy :: "mem \<Rightarrow> nat \<Rightarrow> mem \<Rightarrow> nat \<Rightarrow> nat \<Rightarrow> mem" where
  "memcpy dst d src s n = (\<lambda>i. if d \<le> i \<and> i < d + n then src (s + (i - d)) else dst i)"

definition memset0 :: "mem \<Rightarrow> nat \<Rightarrow> nat \<Rightarrow> mem" where
  "memset0 dst d n = (\<lambda>i. if d \<le> i \<and> i < d + n then 0 else dst i)"

abbreviation zeros :: mem where
  "zeros \<equiv> (\<lambda>_. 0)"

lemma memcpy_in [mem_simps]: "d \<le> i \<Longrightarrow> i < d + n \<Longrightarrow> memcpy dst d src s n i = src (s + (i - d))"
  by (simp add: memcpy_def)

lemma memcpy_out [mem_simps]: "i < d \<or> d + n \<le> i \<Longrightarrow> memcpy dst d src s n i = dst i"
  by (auto simp: memcpy_def)

lemma memcpy_0 [simp]: "memcpy dst d src s 0 = dst"
  by (rule ext) (auto simp: memcpy_def)

lemma memset0_in [mem_simps]: "d \<le> i \<Longrightarrow> i < d + n \<Longrightarrow> memset0 dst d n i = 0"
  by (simp add: memset0_def)

lemma memset0_out [mem_simps]: "i < d \<or> d + n \<le> i \<Longrightarrow> memset0 dst d n i = dst i"
  by (auto simp: memset0_def)

lemma memset0_0 [simp]: "memset0 dst d 0 = dst"
  by (rule ext) (auto simp: memset0_def)

lemma memcpy_cong:
  assumes "\<And>k. k < n \<Longrightarrow> src (s + k) = src' (s' + k)"
  shows "memcpy dst d src s n = memcpy dst d src' s' n"
proof (rule ext)
  fix i
  show "memcpy dst d src s n i = memcpy dst d src' s' n i"
    using assms [of "i - d"] by (cases "d \<le> i \<and> i < d + n") (auto simp: memcpy_def)
qed

lemma memcpy_append:
  "memcpy (memcpy dst d src s n) (d + n) src (s + n) m = memcpy dst d src s (n + m)"
proof (rule ext)
  fix i
  have "d + n \<le> i \<Longrightarrow> s + n + (i - (d + n)) = s + (i - d)" by simp
  then show "memcpy (memcpy dst d src s n) (d + n) src (s + n) m i = memcpy dst d src s (n + m) i"
    by (auto simp: memcpy_def)
qed

section \<open>Little-endian integers in memory\<close>

fun load_le :: "nat \<Rightarrow> mem \<Rightarrow> nat \<Rightarrow> 'a::len word" where
  "load_le 0 m a = 0"
| "load_le (Suc n) m a = (ucast (m a) OR push_bit 8 (load_le n m (Suc a)))"

definition byte_of :: "'a::len word \<Rightarrow> nat \<Rightarrow> u8" where
  "byte_of w i = ucast (drop_bit (8 * i) w)"

text \<open>\<open>store_le n m a w\<close> writes the \<open>n\<close> low bytes of \<open>w\<close> at address \<open>a\<close>.\<close>

definition store_le :: "nat \<Rightarrow> mem \<Rightarrow> nat \<Rightarrow> 'a::len word \<Rightarrow> mem" where
  "store_le n m a w = (\<lambda>i. if a \<le> i \<and> i < a + n then byte_of w (i - a) else m i)"

lemma store_le_out [mem_simps]: "i < a \<or> a + n \<le> i \<Longrightarrow> store_le n m a w i = m i"
  by (auto simp: store_le_def)

lemma load_le_shift:
  "(\<And>i. i < n \<Longrightarrow> m (a + i) = m' (a' + i)) \<Longrightarrow> load_le n m a = load_le n m' a'"
proof (induction n arbitrary: a a')
  case 0
  then show ?case by simp
next
  case (Suc n)
  have "load_le n m (Suc a) = (load_le n m' (Suc a') :: 'a word)"
    by (rule Suc.IH) (use Suc.prems [of "Suc _"] in simp)
  then show ?case using Suc.prems [of 0] by simp
qed

lemma load_le_cong:
  "(\<And>i. a \<le> i \<Longrightarrow> i < a + n \<Longrightarrow> m i = m' i) \<Longrightarrow> load_le n m a = load_le n m' a"
  by (rule load_le_shift) simp

lemma bit_u8_lt: "bit (b :: u8) k \<Longrightarrow> k < 8"
  by (drule bit_imp_le_length) simp


lemma bit_load_le:
  "bit (load_le n m a :: 'a::len word) k \<longleftrightarrow>
     k < LENGTH('a) \<and> k < 8 * n \<and> bit (m (a + k div 8)) (k mod 8)"
proof (induction n arbitrary: a k)
  case 0
  then show ?case by simp
next
  case (Suc n)
  have step: "bit (load_le (Suc n) m a :: 'a word) k \<longleftrightarrow>
      k < LENGTH('a) \<and> (bit (m a) k \<or> 8 \<le> k \<and> bit (load_le n m (Suc a) :: 'a word) (k - 8))"
    by (simp only: load_le.simps bit_or_iff bit_unsigned_iff bit_push_bit_iff possible_bit_word) blast
  show ?case
  proof (cases "k < 8")
    case True
    then have "k div 8 = 0" "k mod 8 = k" "k < 8 * Suc n" by simp_all
    with True show ?thesis by (simp only: step) simp
  next
    case False
    then have k: "k div 8 = Suc ((k - 8) div 8)" "k mod 8 = (k - 8) mod 8"
      by (simp_all add: le_div_geq le_mod_geq)
    have "\<not> bit (m a) k" using bit_u8_lt False by blast
    moreover have "k - 8 < LENGTH('a) \<or> \<not> k < LENGTH('a)" by linarith
    moreover have "k - 8 < 8 * n \<longleftrightarrow> k < 8 * Suc n" using False by (simp; linarith)
    ultimately show ?thesis
      using False by (simp only: step Suc.IH k) auto
  qed
qed

lemma load_store_le:
  "load_le n (store_le n m a w) a = take_bit (8 * n) (w :: 'a::len word)"
proof (rule bit_word_eqI)
  fix k assume k: "k < LENGTH('a)"
  have lt: "k div 8 < n \<longleftrightarrow> k < 8 * n" by auto
  have eq: "8 * (k div 8) + k mod 8 = k" by simp
  have m8: "k mod 8 < 8" by simp
  show "bit (load_le n (store_le n m a w) a :: 'a word) k \<longleftrightarrow> bit (take_bit (8 * n) w) k"
  proof (cases "k < 8 * n")
    case True
    then have "bit (store_le n m a w (a + k div 8)) (k mod 8) \<longleftrightarrow> bit w k"
      using lt [THEN iffD2, OF True] m8 eq
      by (simp add: store_le_def byte_of_def bit_unsigned_iff bit_drop_bit_eq)
    with True k show ?thesis by (simp add: bit_load_le bit_take_bit_iff)
  next
    case False
    then show ?thesis by (simp add: bit_load_le bit_take_bit_iff)
  qed
qed

lemma load_store_le_full [simp]:
  "LENGTH('a) \<le> 8 * n \<Longrightarrow> load_le n (store_le n m a w) a = (w :: 'a::len word)"
  by (simp add: load_store_le take_bit_word_beyond_length_eq)

lemma load_store_le_other [mem_simps]:
  "a + n \<le> b \<or> b + k \<le> a \<Longrightarrow> load_le n (store_le k m b w) a = load_le n m a"
  by (rule load_le_cong) (auto simp: store_le_def)

section \<open>Words and naturals\<close>

lemma word_le_unat [word_nat]: "(a \<le> b) \<longleftrightarrow> unat a \<le> unat (b :: 'a::len word)"
  by (rule word_le_nat_alt)

lemma word_less_unat [word_nat]: "(a < b) \<longleftrightarrow> unat a < unat (b :: 'a::len word)"
  by (rule word_less_nat_alt)

lemma unat_add64 [word_nat]:
  "unat a + unat b < 2 ^ 64 \<Longrightarrow> unat (a + b :: u64) = unat a + unat b"
  using unat_add_lem [of a b] by simp

lemma unat_sub64 [word_nat]:
  "unat b \<le> unat a \<Longrightarrow> unat (a - b :: u64) = unat a - unat b"
  by (simp add: unat_sub word_le_nat_alt)

lemma unat_mult64:
  "unat a * unat b < 2 ^ 64 \<Longrightarrow> unat (a * b :: u64) = unat a * unat b"
  using unat_mult_lem [of a b] by simp

lemma unat_lt64 [simp]: "unat (a :: u64) < 18446744073709551616"
  using unsigned_less [of a] by simp

lemma unat_of_nat64: "n < 2 ^ 64 \<Longrightarrow> unat (of_nat n :: u64) = n"
  by (simp add: unat_of_nat take_bit_nat_eq_self)

text \<open>Aligning with a power of two, as \<open>n & ~(unit - 1)\<close>.\<close>

lemma and_not_mask_unat:
  "unat (n AND NOT (mask k) :: 'a::len word) = unat n div 2 ^ k * 2 ^ k"
proof -
  have eq: "n AND NOT (mask k) = push_bit k (drop_bit k n)"
    by (rule bit_word_eqI) (auto simp: bit_simps)
  have "unat (push_bit k (drop_bit k n)) = take_bit LENGTH('a) (push_bit k (drop_bit k (unat n)))"
    by (simp only: unsigned_push_bit_eq unsigned_drop_bit_eq) (simp add: take_bit_nat_eq_self)
  also have "push_bit k (drop_bit k (unat n)) = unat n div 2 ^ k * 2 ^ k"
    by (simp only: push_bit_eq_mult drop_bit_eq_div)
  also have "take_bit LENGTH('a) \<dots> = \<dots>"
  proof (rule take_bit_nat_eq_self)
    have "unat n div 2 ^ k * 2 ^ k \<le> unat n" by simp
    then show "unat n div 2 ^ k * 2 ^ k < 2 ^ LENGTH('a)"
      using unsigned_less [of n] by (rule le_less_trans)
  qed
  finally show ?thesis by (simp only: eq)
qed
text \<open>C's \<open>int\<close> and its conversions, on values that fit.\<close>

lemma sint_small:
  assumes "unat (x :: 'a::len word) < 2 ^ (LENGTH('a) - 1)"
  shows "sint x = int (unat x)"
proof -
  have "uint x < 2 ^ (LENGTH('a) - 1)"
    using assms by (metis of_nat_less_iff of_nat_numeral of_nat_power uint_nat)
  moreover have "0 \<le> uint x" by simp
  ultimately have "signed_take_bit (LENGTH('a) - 1) (uint x) = uint x"
    by (intro signed_take_bit_int_eq_self) (auto intro: order_trans [OF _ uint_ge_0])
  then show ?thesis by (simp add: sint_uint)
qed

lemma unat_sext64:
  assumes "unat x < 2 ^ 31"
  shows "unat (sext64 x) = unat x"
proof -
  have "sint x = int (unat x)" using assms by (intro sint_small) simp
  then have "sext64 x = word_of_int (int (unat x))"
    by (simp only: scast_eq)
  also have "\<dots> = of_nat (unat x)" by simp
  finally have "unat (sext64 x) = unat (of_nat (unat x) :: u64)" by (simp only:)
  also have "\<dots> = unat x" using assms by (intro unat_of_nat64) simp
  finally show ?thesis .
qed

lemma ucast_sext64: "to_int (sext64 x) = x"
proof (rule bit_word_eqI)
  fix n assume "n < LENGTH(32)"
  then show "bit (to_int (sext64 x)) n = bit x n"
    by (cases "n = 31") (auto simp: bit_simps min_def)
qed

lemma unat_sext64_negative:
  assumes "\<not> unat x < 2 ^ 31"
  shows "2 ^ 31 \<le> unat (sext64 x)"
proof (rule ccontr)
  assume a: "\<not> 2 ^ 31 \<le> unat (sext64 x)"
  then have "unat (to_int (sext64 x)) = unat (sext64 x)"
    by (simp add: unsigned_ucast_eq take_bit_nat_eq_self)
  then have "unat x = unat (sext64 x)" by (simp only: ucast_sext64)
  with a assms show False by simp
qed

lemma sext64_to_int:
  assumes "unat x < 2 ^ 31"
  shows "sext64 (to_int x) = x"
proof -
  have a: "unat (to_int x) = unat x"
    using assms by (simp add: unsigned_ucast_eq take_bit_nat_eq_self)
  then have "unat (sext64 (to_int x)) = unat x"
    using assms by (simp add: unat_sext64)
  then show ?thesis by (rule unsigned_word_eqI)
qed

lemma sint_to_int:
  assumes "unat (x :: u64) \<le> 7680"
  shows "sint (to_int x) = int (unat x)"
proof -
  have "unat (to_int x) = unat x"
    using assms by (simp add: unsigned_ucast_eq take_bit_nat_eq_self)
  then show ?thesis using assms by (subst sint_small) simp_all
qed

lemma unat_to_int:
  assumes "unat (x :: u64) < 2 ^ 32"
  shows "unat (to_int x) = unat x"
    using assms by (simp add: unsigned_ucast_eq take_bit_nat_eq_self)

lemma unat_ucast_u16 [simp]: "unat (ucast (x :: u16) :: u64) = unat x"
proof -
  have "unat x < 2 ^ LENGTH(16)" by (rule unsigned_less)
  then have "unat x < 2 ^ 64" by simp
  then show ?thesis by (simp add: unsigned_ucast_eq take_bit_nat_eq_self)
qed

lemma unat_ucast_u16_back [simp]: "(ucast (ucast (x :: u16) :: u64) :: u16) = x"
  by (rule bit_word_eqI) (simp add: bit_unsigned_iff)

text \<open>Rounding a number up to whole sectors.\<close>

lemma round512_le:
  assumes "n \<le> (m :: nat)" "512 dvd m"
  shows "(n + 511) div 512 * 512 \<le> m"
proof -
  from assms(2) obtain k where "m = 512 * k" ..
  with assms(1) have "(n + 511) div 512 \<le> k" by linarith
  then show ?thesis using \<open>m = 512 * k\<close> by simp
qed

lemma round512_ge: "(n :: nat) \<le> (n + 511) div 512 * 512"
  by linarith

text \<open>Blocks of \<open>s\<close> sectors up to a sector: the division that rounds up.\<close>

lemma ceil_div_gt: "0 < s \<Longrightarrow> n < (m :: nat) \<Longrightarrow> n div s < (m + s - 1) div s"
proof -
  assume s: "0 < s" and "n < m"
  then have "(n + s) div s \<le> (m + s - 1) div s" by (intro div_le_mono) simp
  moreover have "(n + s) div s = n div s + 1" using s by (intro div_add_self2) simp
  ultimately show ?thesis by simp
qed

lemma ceil_div_le: "0 < s \<Longrightarrow> m \<le> b * s \<Longrightarrow> (m + s - 1) div s \<le> (b :: nat)"
proof -
  assume s: "0 < s" and "m \<le> b * s"
  then have "(m + s - 1) div s \<le> (b * s + (s - 1)) div s" by (intro div_le_mono) simp
  also have "\<dots> = b + (s - 1) div s" using s by (intro div_mult_self3) simp
  also have "\<dots> = b" using s by simp
  finally show ?thesis .
qed

lemma ceil_div_mult: "0 < s \<Longrightarrow> (m :: nat) \<le> (m + s - 1) div s * s"
proof -
  assume s: "0 < s"
  have "m + s - 1 < Suc ((m + s - 1) div s) * s"
    using s by (metis dividend_less_div_times mult_Suc add.commute)
  with s show ?thesis by simp
qed

lemma round512_shift:
  assumes "512 dvd (a :: nat)"
  shows "a + (n + 511) div 512 * 512 = (a + n + 511) div 512 * 512"
proof -
  from assms obtain k where k: "a = 512 * k" ..
  have "(512 * k + (n + 511)) div 512 = k + (n + 511) div 512" by simp
  then show ?thesis by (simp add: k add.assoc add_mult_distrib)
qed

end
