(* ===== verification/Posix_File.thy ===== *)
theory Posix_File
  imports Prelude
begin

text \<open>
  The open file behind a descriptor, as far as the drivers use it: its bytes, its size, the
  file offset, and a script of the outcomes of the coming \<open>read\<close> and \<open>write\<close> calls.  An
  empty script means that no call fails; a script entry makes one call fail or transfer
  fewer bytes than asked, which POSIX allows at any time.  \<open>lseek\<close> refuses an offset that is
  negative as an \<open>off_t\<close> and then leaves the file offset alone.
\<close>

datatype io_outcome = Io_ok | Io_short nat | Io_error

record ofile =
  fdata :: mem
  fsize :: nat
  fpos :: nat
  fscript :: "io_outcome list"

definition lseek_set :: "ofile \<Rightarrow> u64 \<Rightarrow> ofile" where
  "lseek_set f off = (if sint off < 0 then f else f\<lparr>fpos := unat off\<rparr>)"

definition next_outcome :: "ofile \<Rightarrow> io_outcome" where
  "next_outcome f = (case fscript f of [] \<Rightarrow> Io_ok | x # _ \<Rightarrow> x)"

text \<open>The number of bytes a call moves when at most \<open>n\<close> can be moved; None on failure.\<close>

fun moved :: "io_outcome \<Rightarrow> nat \<Rightarrow> nat option" where
  "moved Io_ok n = Some n"
| "moved (Io_short m) n = Some (min m n)"
| "moved Io_error n = None"

text \<open>\<open>file_read f dst n\<close>: the result of \<open>read(fd, dst, n)\<close>, the memory after it, the file.\<close>

definition file_read :: "ofile \<Rightarrow> mem \<Rightarrow> u64 \<Rightarrow> int \<times> mem \<times> ofile" where
  "file_read f dst n =
     (let f' = f\<lparr>fscript := tl (fscript f)\<rparr> in
      case moved (next_outcome f) (min (unat n) (fsize f - fpos f)) of
        None \<Rightarrow> (-1, dst, f')
      | Some k \<Rightarrow> (int k, memcpy dst 0 (fdata f) (fpos f) k, f'\<lparr>fpos := fpos f + k\<rparr>))"

text \<open>\<open>file_write f src n\<close>: \<open>write(fd, src, n)\<close>; a hole before the offset reads as zeros.\<close>

definition file_write :: "ofile \<Rightarrow> mem \<Rightarrow> u64 \<Rightarrow> int \<times> ofile" where
  "file_write f src n =
     (let f' = f\<lparr>fscript := tl (fscript f)\<rparr> in
      case moved (next_outcome f) (unat n) of
        None \<Rightarrow> (-1, f')
      | Some k \<Rightarrow>
          (int k, f'\<lparr>fdata := memcpy (\<lambda>i. if i < fsize f then fdata f i else 0) (fpos f) src 0 k,
                     fsize := (if k = 0 then fsize f else max (fsize f) (fpos f + k)),
                     fpos := fpos f + k\<rparr>))"

definition file_byte :: "ofile \<Rightarrow> nat \<Rightarrow> u8" where
  "file_byte f i = (if i < fsize f then fdata f i else 0)"

section \<open>Calls that succeed\<close>

abbreviation faultless :: "ofile \<Rightarrow> bool" where
  "faultless f \<equiv> fscript f = []"

lemma lseek_simps [simp]:
  "fdata (lseek_set f p) = fdata f" "fsize (lseek_set f p) = fsize f"
  "fscript (lseek_set f p) = fscript f"
  by (simp_all add: lseek_set_def)

lemma file_byte_lseek [simp]: "file_byte (lseek_set f p) = file_byte f"
  by (simp add: file_byte_def fun_eq_iff)

lemma sint_nonneg: "unat (p :: u64) < 2 ^ 63 \<Longrightarrow> 0 \<le> sint p"
  using sint_small [of p] by simp

lemma lseek_fpos: "unat p < 2 ^ 63 \<Longrightarrow> fpos (lseek_set f p) = unat p"
  using sint_nonneg [of p] by (simp add: lseek_set_def)

lemma file_read_ok:
  assumes "faultless f"
  shows "file_read f dst n =
     (let k = min (unat n) (fsize f - fpos f) in
      (int k, memcpy dst 0 (fdata f) (fpos f) k, f\<lparr>fpos := fpos f + k\<rparr>))"
  using assms by (simp add: file_read_def next_outcome_def Let_def)

lemma file_write_ok:
  assumes "faultless f"
  shows "file_write f src n =
     (int (unat n),
      f\<lparr>fdata := memcpy (file_byte f) (fpos f) src 0 (unat n),
        fsize := (if n = 0 then fsize f else max (fsize f) (fpos f + unat n)),
        fpos := fpos f + unat n\<rparr>)"
  using assms by (simp add: file_write_def next_outcome_def Let_def file_byte_def [abs_def] unat_eq_0)

end
