(* ===== verification/Buffered_IO.thy ===== *)
theory Buffered_IO
  imports Posix_File
begin

text \<open>
  \<open>utils.c\<close> and \<open>utils.h\<close>: alignment of offsets, and the buffered descriptor
  \<open>struct buffered_io\<close> with one read window of two blocks and one append buffer.  Data is
  appended to the buffer and reaches the file when the buffer is flushed; a read below
  \<open>next_offset\<close> goes to the file through the read window, a read above it to the buffer.
\<close>

definition DEFAULT_SECTOR_SIZE :: u64 where
  "DEFAULT_SECTOR_SIZE = 512"

definition DEFAULT_BLOCK_SIZE :: u64 where
  "DEFAULT_BLOCK_SIZE = 4096"

definition sizeof_entry_header :: u64 where
  "sizeof_entry_header = 32"

definition READ_BUFFER_SIZE :: u64 where
  "READ_BUFFER_SIZE = DEFAULT_BLOCK_SIZE * 2"

definition BUFFER_SIZE :: u64 where
  "BUFFER_SIZE = (DEFAULT_BLOCK_SIZE div sizeof_entry_header + 1) * DEFAULT_BLOCK_SIZE"

definition round_down :: "u64 \<Rightarrow> u64 \<Rightarrow> u64" where
  "round_down n unit = n AND NOT (unit - 1)"

definition round_up :: "u64 \<Rightarrow> u64 \<Rightarrow> u64" where
  "round_up n unit = (n + unit - 1) AND NOT (unit - 1)"

text \<open>The \<open>buffer\<close> pointer is None while it is NULL: the read-only mode never allocates it.\<close>

record buffered_io =
  bio_read_only :: bool
  read_buffer :: mem
  read_buffer_pos :: u64
  read_buffer_enable :: bool
  buffer :: "mem option"
  buffer_pos :: c_int
  next_offset :: u64

text \<open>\<open>fresh_rb\<close> and \<open>fresh_wb\<close> are what \<open>posix_memalign\<close> left in the two buffers.\<close>

definition bio_init :: "buffered_io \<Rightarrow> mem \<Rightarrow> mem \<Rightarrow> bool \<Rightarrow> u64 \<Rightarrow> buffered_io" where
  "bio_init b fresh_rb fresh_wb ro off =
     (let b1 = b\<lparr>bio_read_only := ro, read_buffer_pos := 0, read_buffer_enable := False,
                 buffer_pos := 0, next_offset := off, read_buffer := fresh_rb\<rparr>
      in if \<not> ro then b1\<lparr>buffer := Some fresh_wb\<rparr> else b1)"

definition bio_flush :: "buffered_io \<Rightarrow> ofile \<Rightarrow> fault + buffered_io \<times> ofile" where
  "bio_flush b f =
     (if bio_read_only b then Inr (b, f)
      else if buffer_pos b \<noteq> 0 then
        (let sz = round_up (sext64 (buffer_pos b)) DEFAULT_SECTOR_SIZE in
         case buffer b of
           None \<Rightarrow> Inl Null_pointer
         | Some buf \<Rightarrow>
             if BUFFER_SIZE < sz then Inl Out_of_bounds
             else
               (let f1 = lseek_set f (next_offset b);
                    (ignored, f2) = file_write f1 buf sz
                in Inr (b\<lparr>next_offset := next_offset b + sz, buffer_pos := 0\<rparr>, f2)))
      else Inr (b, f))"

definition bio_finalize :: "buffered_io \<Rightarrow> ofile \<Rightarrow> fault + u64 \<times> buffered_io \<times> ofile" where
  "bio_finalize b f =
     (case bio_flush b f of
        Inl e \<Rightarrow> Inl e
      | Inr (b', f') \<Rightarrow> Inr (next_offset b', b', f'))"

text \<open>The copy into the buffer and the offset returned, after the flush, if any.\<close>

definition bio_append :: "buffered_io \<Rightarrow> mem \<Rightarrow> u64 \<Rightarrow> fault + u64 \<times> buffered_io" where
  "bio_append b src sz =
     (case buffer b of
        None \<Rightarrow> Inl Null_pointer
      | Some buf \<Rightarrow>
          if unat BUFFER_SIZE < unat (sext64 (buffer_pos b)) + unat sz then Inl Out_of_bounds
          else
            (let buf' = memcpy buf (unat (sext64 (buffer_pos b))) src 0 (unat sz);
                 pos' = to_int (sext64 (buffer_pos b) + sz)
             in Inr (next_offset b + sext64 pos' - sz,
                     b\<lparr>buffer := Some buf', buffer_pos := pos'\<rparr>)))"

definition bio_write ::
  "buffered_io \<Rightarrow> ofile \<Rightarrow> mem \<Rightarrow> u64 \<Rightarrow> fault + u64 \<times> buffered_io \<times> ofile" where
  "bio_write b f src sz =
     (if bio_read_only b then Inr (0, b, f)
      else
        (case (if BUFFER_SIZE < sext64 (buffer_pos b) + sz then bio_flush b f else Inr (b, f)) of
           Inl e \<Rightarrow> Inl e
         | Inr (b1, f1) \<Rightarrow>
             (case bio_append b1 src sz of
                Inl e \<Rightarrow> Inl e
              | Inr (off, b2) \<Rightarrow> Inr (off, b2, f1))))"

text \<open>The test that the read window holds \<open>[pos, pos + sz)\<close>.\<close>

definition window_hit :: "buffered_io \<Rightarrow> u64 \<Rightarrow> u64 \<Rightarrow> bool" where
  "window_hit b pos sz \<longleftrightarrow>
     read_buffer_enable b \<and> read_buffer_pos b \<le> pos \<and>
     (pos - read_buffer_pos b) + sz < READ_BUFFER_SIZE"

text \<open>
  \<open>bio_read b f pos dst d sz\<close> reads into \<open>dst\<close> at index \<open>d\<close>; the result is the C result,
  the destination afterwards, the descriptor and the file.
\<close>

definition bio_read ::
  "buffered_io \<Rightarrow> ofile \<Rightarrow> u64 \<Rightarrow> mem \<Rightarrow> nat \<Rightarrow> u64
     \<Rightarrow> fault + int \<times> mem \<times> buffered_io \<times> ofile" where
  "bio_read b f pos dst d sz =
     (if next_offset b \<le> pos then
        (case buffer b of
           None \<Rightarrow> Inl Null_pointer
         | Some buf \<Rightarrow>
             if unat BUFFER_SIZE < unat (pos - next_offset b) + unat sz then Inl Out_of_bounds
             else Inr (sint (to_int sz), memcpy dst d buf (unat (pos - next_offset b)) (unat sz), b, f))
      else
        (let (r, b1, f1) =
           (if \<not> window_hit b pos sz then
              (let p = round_down pos DEFAULT_SECTOR_SIZE;
                   (r, rb, f1) = file_read (lseek_set f p) (read_buffer b) READ_BUFFER_SIZE
               in (r, b\<lparr>read_buffer_enable := True, read_buffer_pos := p, read_buffer := rb\<rparr>, f1))
            else (0, b, f))
         in if r = -1 then Inr (-1, dst, b1, f1)
            else if unat READ_BUFFER_SIZE < unat (pos - read_buffer_pos b1) + unat sz
            then Inl Out_of_bounds
            else Inr (sint (to_int sz),
                      memcpy dst d (read_buffer b1) (unat (pos - read_buffer_pos b1)) (unat sz),
                      b1, f1)))"

end
