(* ===== verification/Buffered_IO_Laws.thy ===== *)
theory Buffered_IO_Laws
  imports Buffered_IO
begin

text \<open>
  The log a buffered descriptor stands for: \<open>log_byte\<close> is the byte at an offset, in the file
  below \<open>next_offset\<close> and in the append buffer above it; \<open>segment\<close> is a region that lies
  wholly on one side; \<open>window_ok\<close> says that the read window agrees with the file.  Appending
  extends the log and keeps every byte of it, reading returns the bytes of the log as long
  as the window agrees, and \<open>window_clear\<close> is what a flush needs to keep it so.
\<close>

lemma unat_round_down: "unat (round_down n 512) = unat n div 512 * 512"
  using and_not_mask_unat [of n 9] by (simp add: round_down_def mask_eq_decr_exp)

lemma unat_round_up:
  assumes "unat n + 511 < 2 ^ 64"
  shows "unat (round_up n 512) = (unat n + 511) div 512 * 512"
proof -
  have "unat (n + 511) = unat n + 511"
    using assms by (simp add: unat_add64)
  then show ?thesis
    using and_not_mask_unat [of "n + 511" 9] by (simp add: round_up_def mask_eq_decr_exp ac_simps)
qed

lemma BUFFER_SIZE_val [simp]: "BUFFER_SIZE = 528384"
  by (simp add: BUFFER_SIZE_def DEFAULT_BLOCK_SIZE_def sizeof_entry_header_def)

lemma READ_BUFFER_SIZE_val [simp]: "READ_BUFFER_SIZE = 8192"
  by (simp add: READ_BUFFER_SIZE_def DEFAULT_BLOCK_SIZE_def)

lemmas size_defs [simp] = DEFAULT_SECTOR_SIZE_def DEFAULT_BLOCK_SIZE_def sizeof_entry_header_def

section \<open>The log a descriptor stands for\<close>

definition log_byte :: "buffered_io \<Rightarrow> ofile \<Rightarrow> mem" where
  "log_byte b f i =
     (if i < unat (next_offset b) then file_byte f i
      else case buffer b of None \<Rightarrow> 0 | Some buf \<Rightarrow> buf (i - unat (next_offset b)))"

lemma log_byte_cong:
  assumes "next_offset b' = next_offset b" "buffer b' = buffer b"
    and "fdata f' = fdata f" "fsize f' = fsize f"
  shows "log_byte b' f' = log_byte b f"
  unfolding log_byte_def [abs_def] file_byte_def assms by (rule refl)

definition log_end :: "buffered_io \<Rightarrow> nat" where
  "log_end b = unat (next_offset b) + unat (buffer_pos b)"

definition segment :: "buffered_io \<Rightarrow> ofile \<Rightarrow> nat \<Rightarrow> nat \<Rightarrow> bool" where
  "segment b f p n \<longleftrightarrow> 0 < n \<and>
    (p + n \<le> unat (next_offset b) \<and> p + n \<le> fsize f \<or>
     buffer b \<noteq> None \<and> unat (next_offset b) \<le> p \<and> p + n \<le> log_end b)"

definition window_ok :: "buffered_io \<Rightarrow> ofile \<Rightarrow> bool" where
  "window_ok b f \<longleftrightarrow>
     (read_buffer_enable b \<longrightarrow>
       (\<forall>i. unat (read_buffer_pos b) \<le> i \<longrightarrow> i < unat (read_buffer_pos b) + 8192 \<longrightarrow>
            i < unat (next_offset b) \<longrightarrow> i < fsize f \<longrightarrow>
            read_buffer b (i - unat (read_buffer_pos b)) = fdata f i))"

definition bio_ok :: "buffered_io \<Rightarrow> ofile \<Rightarrow> bool" where
  "bio_ok b f \<longleftrightarrow>
     faultless f \<and> unat (next_offset b) < 2 ^ 62 \<and> unat (buffer_pos b) \<le> 528384 \<and>
     512 dvd unat (next_offset b) \<and> (\<not> bio_read_only b \<longrightarrow> buffer b \<noteq> None)"

lemma buffer_pos_sext [simp]: "bio_ok b f \<Longrightarrow> unat (sext64 (buffer_pos b)) = unat (buffer_pos b)"
  by (rule unat_sext64) (simp add: bio_ok_def)

lemma bio_flush_ok:
  assumes ok: "bio_ok b f" and w: "\<not> bio_read_only b"
  obtains b' f' where "bio_flush b f = Inr (b', f')"
    and "faultless f'" "\<not> bio_read_only b'" "buffer b' = buffer b" "buffer_pos b' = 0"
    and "unat (next_offset b') = (log_end b + 511) div 512 * 512"
    and "\<And>i. i < log_end b \<Longrightarrow> log_byte b' f' i = log_byte b f i"
    and "\<And>p n. segment b f p n \<Longrightarrow> p + n \<le> unat (next_offset b') \<and> p + n \<le> fsize f'"
    and "fsize f \<le> fsize f'"
    and "read_buffer b' = read_buffer b" "read_buffer_pos b' = read_buffer_pos b"
    and "read_buffer_enable b' = read_buffer_enable b"
    and "\<And>i. i < unat (next_offset b) \<Longrightarrow> file_byte f' i = file_byte f i"
proof (cases "buffer_pos b = 0")
  case True
  with ok w have "bio_flush b f = Inr (b, f)" by (simp add: bio_flush_def)
  then show ?thesis
    using ok w True
    by (intro that [of b f]) (auto simp: bio_ok_def log_end_def segment_def)
next
  case False
  let ?sz = "round_up (sext64 (buffer_pos b)) 512"
  let ?no = "unat (next_offset b)"
  from ok w obtain buf where buf: "buffer b = Some buf" by (auto simp: bio_ok_def)
  have bp: "unat (buffer_pos b) \<le> 528384" using ok by (simp add: bio_ok_def)
  have sz: "unat ?sz = (unat (buffer_pos b) + 511) div 512 * 512"
    using ok bp by (simp add: unat_round_up)
  also have "\<dots> \<le> 528384" using bp by (rule round512_le) simp
  finally have szle: "unat ?sz \<le> 528384" .
  have bpsz: "unat (buffer_pos b) \<le> unat ?sz" unfolding sz by (rule round512_ge)
  have sz0: "unat ?sz \<noteq> 0" using bpsz False by (auto simp: unat_eq_0)
  have no: "?no < 2 ^ 62" "512 dvd ?no" using ok by (auto simp: bio_ok_def)
  have no': "unat (next_offset b + ?sz) = ?no + unat ?sz"
    using no szle by (intro unat_add64) simp
  let ?f1 = "lseek_set f (next_offset b)"
  have fp: "fpos ?f1 = ?no" using no by (intro lseek_fpos) simp
  have fl: "faultless ?f1" using ok by (simp add: bio_ok_def)
  obtain f2 where wr: "file_write ?f1 buf ?sz = (int (unat ?sz), f2)"
    and f2: "fdata f2 = memcpy (file_byte f) ?no buf 0 (unat ?sz)"
            "fsize f2 = max (fsize f) (?no + unat ?sz)" "faultless f2"
    using file_write_ok [OF fl, of buf ?sz] sz0 fp ok by (auto simp: bio_ok_def unat_eq_0)
  let ?b' = "b\<lparr>next_offset := next_offset b + ?sz, buffer_pos := 0\<rparr>"
  have "\<not> BUFFER_SIZE < ?sz" using szle by (simp add: word_less_unat)
  then have fl: "bio_flush b f = Inr (?b', f2)"
    using w False buf wr by (simp add: bio_flush_def)
  have end': "?no + unat ?sz = (log_end b + 511) div 512 * 512"
    unfolding log_end_def sz by (rule round512_shift [OF no(2)])
  show ?thesis
  proof (rule that [OF fl])
    fix i assume "i < log_end b"
    then show "log_byte ?b' f2 i = log_byte b f i"
      using bpsz by (auto simp: log_byte_def no' buf log_end_def file_byte_def f2 memcpy_def)
  next
    fix p n assume "segment b f p n"
    then show "p + n \<le> unat (next_offset ?b') \<and> p + n \<le> fsize f2"
      using bpsz by (auto simp: segment_def no' f2 log_end_def)
  qed (use w f2 end' in \<open>auto simp: no' file_byte_def memcpy_def\<close>)
qed

definition flushes :: "buffered_io \<Rightarrow> u64 \<Rightarrow> bool" where
  "flushes b sz \<longleftrightarrow> BUFFER_SIZE < sext64 (buffer_pos b) + sz"

definition window_clear :: "buffered_io \<Rightarrow> ofile \<Rightarrow> bool" where
  "window_clear b f \<longleftrightarrow>
     (read_buffer_enable b \<longrightarrow>
        unat (read_buffer_pos b) + 8192 \<le> unat (next_offset b) \<and>
        unat (read_buffer_pos b) + 8192 \<le> fsize f)"

lemma window_ok_cong:
  assumes "window_ok b f" and "window_clear b f"
    and "read_buffer b' = read_buffer b" "read_buffer_pos b' = read_buffer_pos b"
    and "read_buffer_enable b' = read_buffer_enable b"
    and "\<And>i. i < unat (next_offset b) \<Longrightarrow> file_byte f' i = file_byte f i"
    and "fsize f \<le> fsize f'"
  shows "window_ok b' f'"
  unfolding window_ok_def
proof (intro impI allI)
  fix i
  assume en: "read_buffer_enable b'"
    and i: "unat (read_buffer_pos b') \<le> i" "i < unat (read_buffer_pos b') + 8192"
  with assms have lt: "i < unat (next_offset b)" "i < fsize f"
    by (auto simp: window_clear_def)
  with assms i en have "read_buffer b (i - unat (read_buffer_pos b)) = fdata f i"
    by (auto simp: window_ok_def)
  moreover have "fdata f' i = fdata f i"
    using assms(6) [OF lt(1)] assms(7) lt by (simp add: file_byte_def)
  ultimately show "read_buffer b' (i - unat (read_buffer_pos b')) = fdata f' i"
    using assms by simp
qed

text \<open>The copy into the buffer, when it fits.\<close>

lemma bio_append_ok:
  assumes ok: "bio_ok b f" and w: "\<not> bio_read_only b"
    and sz: "0 < unat sz" "unat (buffer_pos b) + unat sz \<le> 528384"
  obtains off b' where "bio_append b src sz = Inr (off, b')"
    and "bio_ok b' f" "\<not> bio_read_only b'"
    and "unat off = log_end b" and "log_end b' = log_end b + unat sz"
    and "next_offset b' = next_offset b"
    and "\<And>i. i < log_end b \<Longrightarrow> log_byte b' f i = log_byte b f i"
    and "\<And>i. i < unat sz \<Longrightarrow> log_byte b' f (log_end b + i) = src i"
    and "\<And>p n. segment b f p n \<Longrightarrow> segment b' f p n"
    and "segment b' f (log_end b) (unat sz)"
    and "read_buffer b' = read_buffer b" "read_buffer_pos b' = read_buffer_pos b"
    and "read_buffer_enable b' = read_buffer_enable b"
    and "unat (buffer_pos b') = unat (buffer_pos b) + unat sz"
proof -
  let ?bp = "sext64 (buffer_pos b)" and ?no = "unat (next_offset b)"
  from ok w obtain buf where buf: "buffer b = Some buf" by (auto simp: bio_ok_def)
  have bp: "unat ?bp = unat (buffer_pos b)" using ok by simp
  have sum: "unat (?bp + sz) = unat (buffer_pos b) + unat sz"
    using sz bp by (simp add: unat_add64)
  then have pos': "sext64 (to_int (?bp + sz)) = ?bp + sz"
    using sz by (intro sext64_to_int) simp
  let ?off = "next_offset b + (?bp + sz) - sz"
  have off: "?off = next_offset b + ?bp" by simp
  have uoff: "unat ?off = log_end b"
    unfolding off log_end_def using ok sz bp by (subst unat_add64) (auto simp: bio_ok_def)
  let ?b' = "b\<lparr>buffer := Some (memcpy buf (unat ?bp) src 0 (unat sz)), buffer_pos := to_int (?bp + sz)\<rparr>"
  have ev: "bio_append b src sz = Inr (?off, ?b')"
    using buf sz bp by (simp add: bio_append_def pos')
  have bp': "unat (to_int (?bp + sz)) = unat (buffer_pos b) + unat sz"
    using sum sz by (subst unat_to_int) auto
  have le': "log_end ?b' = log_end b + unat sz"
    by (simp add: log_end_def bp')
  show ?thesis
  proof (rule that [OF ev])
    show "bio_ok ?b' f" using ok sz by (simp add: bio_ok_def bp')
    show "log_byte ?b' f i = log_byte b f i" if "i < log_end b" for i
      using that by (auto simp: log_byte_def buf log_end_def bp memcpy_def)
    show "log_byte ?b' f (log_end b + i) = src i" if "i < unat sz" for i
      using that by (auto simp: log_byte_def buf log_end_def bp memcpy_def)
    show "segment ?b' f p n" if "segment b f p n" for p n
      using that by (auto simp: segment_def le')
    show "segment ?b' f (log_end b) (unat sz)"
      using sz by (auto simp: segment_def le') (auto simp: log_end_def)
  qed (use w uoff le' bp' in simp_all)
qed

lemma bio_write_ok:
  assumes ok: "bio_ok b f" and w: "\<not> bio_read_only b"
    and room: "unat (next_offset b) + 528384 < 2 ^ 62"
    and sz: "0 < unat sz" "unat sz \<le> 528384"
  obtains off b' f' where "bio_write b f src sz = Inr (off, b', f')"
    and "bio_ok b' f'" "\<not> bio_read_only b'"
    and "log_end b \<le> unat off" "log_end b' = unat off + unat sz"
    and "\<And>i. i < log_end b \<Longrightarrow> log_byte b' f' i = log_byte b f i"
    and "\<And>i. i < unat sz \<Longrightarrow> log_byte b' f' (unat off + i) = src i"
    and "\<And>p n. segment b f p n \<Longrightarrow> segment b' f' p n"
    and "segment b' f' (unat off) (unat sz)"
    and "window_ok b f \<Longrightarrow> \<not> flushes b sz \<or> window_clear b f \<Longrightarrow> window_ok b' f'"
    and "\<not> flushes b sz \<Longrightarrow> next_offset b' = next_offset b \<and>
           unat (buffer_pos b') = unat (buffer_pos b) + unat sz"
    and "unat (next_offset b) \<le> unat (next_offset b')"
    and "\<And>i. i < unat (next_offset b) \<Longrightarrow> file_byte f' i = file_byte f i"
proof (cases "flushes b sz")
  case False
  have sum: "unat (sext64 (buffer_pos b) + sz) = unat (buffer_pos b) + unat sz"
    using ok sz by (subst unat_add64) (auto simp: bio_ok_def)
  with False have fit: "unat (buffer_pos b) + unat sz \<le> 528384"
    by (simp add: flushes_def word_less_unat)
  have fl: "(if BUFFER_SIZE < sext64 (buffer_pos b) + sz then bio_flush b f else Inr (b, f)) = Inr (b, f)"
    using False by (simp add: flushes_def)
  from bio_append_ok [OF ok w sz(1) fit, of src] obtain off b' where
    ev: "bio_append b src sz = Inr (off, b')"
    and p: "bio_ok b' f" "\<not> bio_read_only b'" "unat off = log_end b"
      "log_end b' = log_end b + unat sz" "next_offset b' = next_offset b"
      "\<And>i. i < log_end b \<Longrightarrow> log_byte b' f i = log_byte b f i"
      "\<And>i. i < unat sz \<Longrightarrow> log_byte b' f (log_end b + i) = src i"
      "\<And>p n. segment b f p n \<Longrightarrow> segment b' f p n"
      "segment b' f (log_end b) (unat sz)"
      "read_buffer b' = read_buffer b" "read_buffer_pos b' = read_buffer_pos b"
      "read_buffer_enable b' = read_buffer_enable b"
      "unat (buffer_pos b') = unat (buffer_pos b) + unat sz" by blast
  have "bio_write b f src sz = Inr (off, b', f)"
    using w unfolding bio_write_def fl by (simp add: ev)
  moreover have "window_ok b f \<Longrightarrow> window_ok b' f" using p by (simp add: window_ok_def)
  ultimately show ?thesis using p by (intro that [of off b' f]) auto
next
  case True
  have fl: "(if BUFFER_SIZE < sext64 (buffer_pos b) + sz then bio_flush b f else Inr (b, f)) = bio_flush b f"
    using True by (simp add: flushes_def)
  obtain b1 f1 where ev1: "bio_flush b f = Inr (b1, f1)"
    and q: "faultless f1" "\<not> bio_read_only b1" "buffer b1 = buffer b" "buffer_pos b1 = 0"
      "unat (next_offset b1) = (log_end b + 511) div 512 * 512"
      "\<And>i. i < log_end b \<Longrightarrow> log_byte b1 f1 i = log_byte b f i"
      "\<And>p n. segment b f p n \<Longrightarrow> p + n \<le> unat (next_offset b1) \<and> p + n \<le> fsize f1"
      "fsize f \<le> fsize f1" "read_buffer b1 = read_buffer b"
      "read_buffer_pos b1 = read_buffer_pos b" "read_buffer_enable b1 = read_buffer_enable b"
      "\<And>i. i < unat (next_offset b) \<Longrightarrow> file_byte f1 i = file_byte f i"
    using bio_flush_ok [OF ok w] by blast
  have "(log_end b + 511) div 512 * 512 \<le> unat (next_offset b) + 528384"
    using ok by (intro round512_le) (auto simp: log_end_def bio_ok_def)
  then have no1: "log_end b \<le> unat (next_offset b1)" "unat (next_offset b1) < 2 ^ 62"
    using q(5) room round512_ge [of "log_end b"] by auto
  have ok1: "bio_ok b1 f1"
    using q no1 ok w by (auto simp: bio_ok_def)
  have end1: "log_end b1 = unat (next_offset b1)" using q by (simp add: log_end_def)
  have "unat (buffer_pos b1) + unat sz \<le> 528384" using q sz by simp
  from bio_append_ok [OF ok1 q(2) sz(1) this, of src] obtain off b' where
    ev: "bio_append b1 src sz = Inr (off, b')"
    and p: "bio_ok b' f1" "\<not> bio_read_only b'" "unat off = log_end b1"
      "log_end b' = log_end b1 + unat sz" "next_offset b' = next_offset b1"
      "\<And>i. i < log_end b1 \<Longrightarrow> log_byte b' f1 i = log_byte b1 f1 i"
      "\<And>i. i < unat sz \<Longrightarrow> log_byte b' f1 (log_end b1 + i) = src i"
      "\<And>p n. segment b1 f1 p n \<Longrightarrow> segment b' f1 p n"
      "segment b' f1 (log_end b1) (unat sz)"
      "read_buffer b' = read_buffer b1" "read_buffer_pos b' = read_buffer_pos b1"
      "read_buffer_enable b' = read_buffer_enable b1"
      "unat (buffer_pos b') = unat (buffer_pos b1) + unat sz" by blast
  have wr: "bio_write b f src sz = Inr (off, b', f1)"
    using w unfolding bio_write_def fl by (simp add: ev1 ev)
  have seg: "segment b' f1 p n" if "segment b f p n" for p n
    using q(7) [OF that] that by (intro p(8)) (auto simp: segment_def)
  have win: "window_ok b' f1" if "window_ok b f" "window_clear b f"
    using that by (rule window_ok_cong) (use p q in auto)
  have le: "log_end b \<le> log_end b1" using no1 end1 by simp
  have "unat (next_offset b) \<le> log_end b" by (simp add: log_end_def)
  with p q no1 end1 le True show ?thesis
    by (intro that [OF wr _ _ _ _ _ _ seg _ win]) auto
qed

lemma window_bytes:
  assumes win: "window_ok b1 f1" and en: "read_buffer_enable b1"
    and pos: "unat (read_buffer_pos b1) \<le> unat pos"
      "unat (pos - read_buffer_pos b1) + n \<le> 8192"
    and fit: "unat pos + n \<le> unat (next_offset b1)" "unat pos + n \<le> fsize f1"
    and i: "i < n"
  shows "read_buffer b1 (unat (pos - read_buffer_pos b1) + i) = log_byte b1 f1 (unat pos + i)"
proof -
  let ?r = "unat (read_buffer_pos b1)"
  have d: "unat (pos - read_buffer_pos b1) = unat pos - ?r"
    using pos(1) by (rule unat_sub64)
  have "read_buffer b1 ((unat pos + i) - ?r) = fdata f1 (unat pos + i)"
    using win en pos fit i by (simp add: window_ok_def d)
  moreover have "(unat pos + i) - ?r = unat pos - ?r + i" using pos by simp
  ultimately show ?thesis using fit i by (simp add: log_byte_def file_byte_def d)
qed

lemma bio_read_ok:
  assumes ok: "bio_ok b f" and win: "window_ok b f"
    and seg: "segment b f (unat pos) (unat sz)" and sz: "unat sz \<le> 7680"
  obtains src o' b' f' where
    "bio_read b f pos dst d sz = Inr (int (unat sz), memcpy dst d src o' (unat sz), b', f')"
    and "\<And>i. i < unat sz \<Longrightarrow> src (o' + i) = log_byte b f (unat pos + i)"
    and "bio_ok b' f'" "window_ok b' f'"
    and "fdata f' = fdata f" "fsize f' = fsize f"
    and "bio_read_only b' = bio_read_only b" "buffer b' = buffer b"
    and "buffer_pos b' = buffer_pos b" "next_offset b' = next_offset b"
proof (cases "next_offset b \<le> pos")
  case True
  then have le: "unat (next_offset b) \<le> unat pos" by (simp add: word_le_unat)
  with seg have fit: "buffer b \<noteq> None" "unat pos + unat sz \<le> log_end b"
    by (auto simp: segment_def)
  then obtain buf where buf: "buffer b = Some buf" by auto
  have o': "unat (pos - next_offset b) = unat pos - unat (next_offset b)"
    using le by (rule unat_sub64)
  have "unat (pos - next_offset b) + unat sz \<le> 528384"
    using fit ok le by (auto simp: o' log_end_def bio_ok_def)
  then have ev: "bio_read b f pos dst d sz =
      Inr (int (unat sz), memcpy dst d buf (unat (pos - next_offset b)) (unat sz), b, f)"
    using True buf sint_to_int [OF sz] by (simp add: bio_read_def)
  show ?thesis
    by (rule that [OF ev]) (use ok win le buf in \<open>auto simp: log_byte_def o'\<close>)
next
  case False
  then have lt: "unat pos < unat (next_offset b)" by (simp add: word_le_unat)
  with seg have fit: "unat pos + unat sz \<le> unat (next_offset b)" "unat pos + unat sz \<le> fsize f"
    by (auto simp: segment_def)

  show ?thesis
  proof (cases "window_hit b pos sz")
    case True
    let ?r = "read_buffer_pos b"
    from True have hit: "read_buffer_enable b" "unat ?r \<le> unat pos"
      and bnd: "(pos - ?r) + sz < 8192" by (auto simp: window_hit_def word_le_unat)
    have "unat ((pos - ?r) + sz) = unat (pos - ?r) + unat sz"
      using hit(2) lt ok sz by (intro unat_add64) (auto simp: unat_sub64 bio_ok_def)
    with bnd have in8: "unat (pos - ?r) + unat sz \<le> 8192" by (simp add: word_less_unat)
    have ev: "bio_read b f pos dst d sz =
        Inr (int (unat sz), memcpy dst d (read_buffer b) (unat (pos - ?r)) (unat sz), b, f)"
      using True in8 \<open>\<not> next_offset b \<le> pos\<close> sint_to_int [OF sz] by (simp add: bio_read_def)
    show ?thesis
      by (rule that [OF ev]) (use ok win window_bytes [OF win hit in8 fit] in auto)
  next
    case False
    let ?p = "round_down pos 512"
    let ?k = "min 8192 (fsize f - unat ?p)"
    let ?b1 = "b\<lparr>read_buffer_enable := True, read_buffer_pos := ?p,
                 read_buffer := memcpy (read_buffer b) 0 (fdata f) (unat ?p) ?k\<rparr>"
    have p: "unat ?p \<le> unat pos" "unat pos < unat ?p + 512"
      unfolding unat_round_down by linarith+
    have fp: "fpos (lseek_set f ?p) = unat ?p"
      using p lt ok by (intro lseek_fpos) (simp add: bio_ok_def)
    obtain f1 where rd: "file_read (lseek_set f ?p) (read_buffer b) 8192 =
        (int ?k, memcpy (read_buffer b) 0 (fdata f) (unat ?p) ?k, f1)"
      and f1: "fdata f1 = fdata f" "fsize f1 = fsize f" "faultless f1"
      using file_read_ok [of "lseek_set f ?p" "read_buffer b" 8192] ok fp
      by (auto simp: bio_ok_def Let_def)
    have win1: "window_ok ?b1 f1"
      by (auto simp: window_ok_def f1 memcpy_def)
    have in8: "unat (pos - ?p) + unat sz \<le> 8192"
      using p sz by (simp add: unat_sub64)
    have ev: "bio_read b f pos dst d sz =
        Inr (int (unat sz), memcpy dst d (read_buffer ?b1) (unat (pos - ?p)) (unat sz), ?b1, f1)"
      using False in8 \<open>\<not> next_offset b \<le> pos\<close> sint_to_int [OF sz]
      by (simp add: bio_read_def rd Let_def)
    have by_log: "read_buffer ?b1 (unat (pos - ?p) + i) = log_byte b f (unat pos + i)" if "i < unat sz" for i
    proof -
      have "read_buffer ?b1 (unat (pos - read_buffer_pos ?b1) + i) = log_byte ?b1 f1 (unat pos + i)"
        using that p in8 fit f1 by (intro window_bytes [OF win1]) auto
      also have "log_byte ?b1 f1 = log_byte b f" by (rule log_byte_cong) (simp_all add: f1)
      finally show ?thesis by simp
    qed
    show ?thesis
      by (rule that [OF ev by_log]) (use ok win1 f1 in \<open>auto simp: bio_ok_def\<close>)
  qed
qed
end
