(* ===== verification/Preservation_Format.thy ===== *)
theory Preservation_Format
  imports Buffered_IO
begin

text \<open>
  \<open>preservation.h\<close>: the on-disk structures of a preservation file and the state of an open
  one.  The file starts with a data header padded to one sector, then the index table (one
  file offset per block, padded to whole sectors), then the log of entries, each an entry
  header followed by its data.  The structures are laid out as the LP64 ABI lays them out.
\<close>

section \<open>Time stamps\<close>

record timespec =
  tv_sec :: u64
  tv_nsec :: u64

text \<open>The comparison of \<open>read_current_block\<close>; both fields are signed.\<close>

definition ts_before :: "timespec \<Rightarrow> timespec \<Rightarrow> bool" where
  "ts_before a b \<longleftrightarrow>
     sint (tv_sec a) < sint (tv_sec b) \<or>
     sint (tv_sec a) = sint (tv_sec b) \<and> sint (tv_nsec a) < sint (tv_nsec b)"

section \<open>Entry headers\<close>

record entry_header =
  entry_ts :: timespec
  entry_next :: u64
  data_size :: u16

text \<open>\<open>struct entry_header\<close> in memory over the bytes \<open>pad\<close> that were there: the six bytes of
  padding keep their old values.\<close>

definition put_entry_header :: "mem \<Rightarrow> entry_header \<Rightarrow> mem" where
  "put_entry_header pad h =
     store_le 2
       (store_le 8
         (store_le 8
           (store_le 8 pad 0 (tv_sec (entry_ts h)))
           8 (tv_nsec (entry_ts h)))
         16 (entry_next h))
       24 (data_size h)"

definition get_entry_header :: "mem \<Rightarrow> nat \<Rightarrow> entry_header" where
  "get_entry_header m a =
     \<lparr>entry_ts = \<lparr>tv_sec = load_le 8 m a, tv_nsec = load_le 8 m (a + 8)\<rparr>,
      entry_next = load_le 8 m (a + 16), data_size = load_le 2 m (a + 24)\<rparr>"

section \<open>The data header\<close>

definition sizeof_data_header :: u64 where
  "sizeof_data_header = 24"

definition ROUND_UPPED_DATA_HEADER_SIZE :: u64 where
  "ROUND_UPPED_DATA_HEADER_SIZE =
     (sizeof_data_header + DEFAULT_SECTOR_SIZE - 1) AND NOT (DEFAULT_SECTOR_SIZE - 1)"

text \<open>The header is one sector of memory, of which \<open>struct data_header\<close> is the start.\<close>

definition hdr_disk_size :: "mem \<Rightarrow> u64" where
  "hdr_disk_size h = load_le 8 h 0"

definition hdr_block_size :: "mem \<Rightarrow> u64" where
  "hdr_block_size h = load_le 8 h 8"

definition hdr_next_offset :: "mem \<Rightarrow> u64" where
  "hdr_next_offset h = load_le 8 h 16"

definition set_hdr_next_offset :: "mem \<Rightarrow> u64 \<Rightarrow> mem" where
  "set_hdr_next_offset h off = store_le 8 h 16 off"

section \<open>An open preservation disk\<close>

record preservation_disk =
  disk_header :: mem
  bio :: buffered_io
  disk_read_only :: bool
  disk_ts :: timespec
  sectors_per_block :: u64
  index_table :: "u64 list"
  index_cache_enable :: "u8 list"
  cached_data_size :: "u16 list"

abbreviation block_size :: "preservation_disk \<Rightarrow> u64" where
  "block_size d \<equiv> hdr_block_size (disk_header d)"

abbreviation disk_size :: "preservation_disk \<Rightarrow> u64" where
  "disk_size d \<equiv> hdr_disk_size (disk_header d)"

text \<open>The part of tapdisk's \<open>td_request_t\<close> that the drivers use: first sector, number of
  sectors, and the buffer, which holds at least \<open>secs\<close> sectors.\<close>

record td_request =
  sec :: u64
  secs :: c_int
  req_buf :: mem

record td_disk_info =
  info_size :: u64
  info_sector_size :: u64
  info_flags :: u32

section \<open>Layout facts\<close>

lemma ROUND_UPPED_val [simp]: "ROUND_UPPED_DATA_HEADER_SIZE = 512"
  by (simp add: ROUND_UPPED_DATA_HEADER_SIZE_def sizeof_data_header_def DEFAULT_SECTOR_SIZE_def)

lemma get_put_entry_header [simp]: "get_entry_header (put_entry_header pad h) 0 = h"
  by (simp add: get_entry_header_def put_entry_header_def mem_simps)

lemma get_entry_header_cong:
  "(\<And>i. i < 32 \<Longrightarrow> m (a + i) = m' (a' + i)) \<Longrightarrow> get_entry_header m a = get_entry_header m' a'"
  using load_le_shift [of 8 m a m' a'] load_le_shift [of 8 m "a + 8" m' "a' + 8"]
    load_le_shift [of 8 m "a + 16" m' "a' + 16"] load_le_shift [of 2 m "a + 24" m' "a' + 24"]
  by (simp add: get_entry_header_def add.assoc)

lemma set_hdr_next_offset_simps [simp]:
  "hdr_next_offset (set_hdr_next_offset h off) = off"
  "hdr_block_size (set_hdr_next_offset h off) = hdr_block_size h"
  "hdr_disk_size (set_hdr_next_offset h off) = hdr_disk_size h"
  by (simp_all add: hdr_next_offset_def hdr_block_size_def hdr_disk_size_def
      set_hdr_next_offset_def mem_simps)

lemma ts_before_irrefl [simp]: "\<not> ts_before a a"
  by (simp add: ts_before_def)

lemma ts_before_trans: "ts_before a b \<Longrightarrow> ts_before b c \<Longrightarrow> ts_before a c"
  by (auto simp: ts_before_def)

end
