(* ===== verification/Preservation.thy ===== *)
theory Preservation
  imports Preservation_Format
begin

text \<open>
  \<open>preservation.c\<close>: opening and closing a preservation file, reading a block (the latest
  version, or the version at the disk's time stamp) and writing sectors by appending a new
  version of each block they touch.  Every function takes and returns the disk state and the
  open file.  A fault is what the C code leaves undefined; the bytes and the size that a
  \<open>junk\<close> carries are what the uninitialised local variables hold.
\<close>

record junk =
  junk_header :: mem
  junk_size :: u64

text \<open>What the allocations return before they are written.\<close>

record fresh_mem =
  fresh_header :: mem
  fresh_read_buffer :: mem
  fresh_buffer :: mem

section \<open>Opening and closing\<close>

definition read_header :: "ofile \<Rightarrow> mem \<Rightarrow> int \<times> mem \<times> ofile" where
  "read_header f h = file_read f h ROUND_UPPED_DATA_HEADER_SIZE"

definition write_header :: "preservation_disk \<Rightarrow> ofile \<Rightarrow> int \<times> ofile" where
  "write_header d f = file_write (lseek_set f 0) (disk_header d) ROUND_UPPED_DATA_HEADER_SIZE"

definition index_table_size :: "mem \<Rightarrow> u64" where
  "index_table_size h = round_up (hdr_disk_size h div hdr_block_size h * 8) DEFAULT_SECTOR_SIZE"

text \<open>The index table as the array of 64-bit offsets it is, and back.\<close>

definition table_of_mem :: "mem \<Rightarrow> nat \<Rightarrow> u64 list" where
  "table_of_mem m n = map (\<lambda>i. load_le 8 m (8 * i)) [0..<n]"

definition mem_of_table :: "u64 list \<Rightarrow> mem" where
  "mem_of_table t i = byte_of (t ! (i div 8)) (i mod 8)"

text \<open>\<open>opened\<close> is what \<open>open(2)\<close> gave: None for -1.\<close>

definition open_disk ::
  "preservation_disk \<Rightarrow> fresh_mem \<Rightarrow> ofile option \<Rightarrow> bool
     \<Rightarrow> fault + int \<times> preservation_disk \<times> ofile option" where
  "open_disk d fr opened ro =
     (case opened of
        None \<Rightarrow> Inr (-1, d, None)
      | Some f \<Rightarrow>
          (let (r, h, f1) = read_header f (fresh_header fr) in
           if hdr_block_size h = 0 then Inl Division_by_zero
           else
             (let blocks = hdr_disk_size h div hdr_block_size h;
                  b = bio_init (bio d) (fresh_read_buffer fr) (fresh_buffer fr) ro (hdr_next_offset h);
                  tsize = index_table_size h;
                  (r2, tm, f2) = file_read f1 zeros tsize;
                  d1 = d\<lparr>disk_header := h, disk_read_only := ro, bio := b,
                         sectors_per_block := hdr_block_size h div DEFAULT_SECTOR_SIZE,
                         index_table := table_of_mem tm (unat tsize div 8)\<rparr>
              in Inr (0,
                   (if ro then d1\<lparr>index_cache_enable := replicate (unat (round_up blocks 8)) 0,
                                  cached_data_size := replicate (unat blocks) 0\<rparr>
                    else d1),
                   Some f2))))"

definition pd_initialize ::
  "preservation_disk \<Rightarrow> fresh_mem \<Rightarrow> ofile option \<Rightarrow> fault + int \<times> preservation_disk \<times> ofile option" where
  "pd_initialize d fr opened = open_disk d fr opened False"

definition pd_initialize_read_only ::
  "preservation_disk \<Rightarrow> fresh_mem \<Rightarrow> ofile option \<Rightarrow> timespec
     \<Rightarrow> fault + int \<times> preservation_disk \<times> ofile option" where
  "pd_initialize_read_only d fr opened t =
     (case open_disk d fr opened True of
        Inl e \<Rightarrow> Inl e
      | Inr (r, d1, f1) \<Rightarrow> Inr (r, d1\<lparr>disk_ts := t\<rparr>, f1))"

definition SECTOR_SHIFT :: nat where
  "SECTOR_SHIFT = 9"

definition pd_set_driver_info :: "preservation_disk \<Rightarrow> td_disk_info" where
  "pd_set_driver_info d =
     \<lparr>info_size = drop_bit SECTOR_SHIFT (disk_size d),
      info_sector_size = DEFAULT_SECTOR_SIZE, info_flags = 0\<rparr>"

definition pd_finalize ::
  "preservation_disk \<Rightarrow> ofile \<Rightarrow> fault + preservation_disk \<times> ofile" where
  "pd_finalize d f =
     (case bio_finalize (bio d) f of
        Inl e \<Rightarrow> Inl e
      | Inr (off, b, f1) \<Rightarrow>
          if disk_read_only d then Inr (d\<lparr>bio := b\<rparr>, f1)
          else if block_size d = 0 then Inl Division_by_zero
          else
            (let tsize = index_table_size (disk_header d);
                 d1 = d\<lparr>bio := b, disk_header := set_hdr_next_offset (disk_header d) off\<rparr>;
                 (r1, f2) = write_header d1 f1;
                 (r2, f3) = file_write (lseek_set f2 ROUND_UPPED_DATA_HEADER_SIZE)
                              (mem_of_table (index_table d)) tsize
             in Inr (d1, f3)))"

section \<open>The size of a block's data\<close>

definition round16 :: "nat \<Rightarrow> nat" where
  "round16 n = (if n mod 16 \<noteq> 0 then n + (16 - n mod 16) else n)"

text \<open>The scan from the end of the block at \<open>a\<close>, with \<open>n\<close> bytes left to look at.\<close>

fun get_actual_data_size :: "mem \<Rightarrow> nat \<Rightarrow> nat \<Rightarrow> nat" where
  "get_actual_data_size m a 0 = 0"
| "get_actual_data_size m a (Suc n) =
     (if m (a + n) \<noteq> 0 then round16 (Suc n) else get_actual_data_size m a n)"

section \<open>Reading a block\<close>

text \<open>The two ways a block's bytes end up at \<open>buf + a\<close>: data followed by zeros, or zeros.\<close>

definition fill_block ::
  "preservation_disk \<Rightarrow> ofile \<Rightarrow> mem \<Rightarrow> nat \<Rightarrow> u64 \<Rightarrow> u64
     \<Rightarrow> fault + int \<times> mem \<times> preservation_disk \<times> ofile" where
  "fill_block d f buf a offset dsize =
     (if unat (block_size d) < unat dsize then Inl Out_of_bounds
      else
        (case bio_read (bio d) f (offset + sizeof_entry_header) buf a dsize of
           Inl e \<Rightarrow> Inl e
         | Inr (r, buf1, b1, f1) \<Rightarrow>
             Inr (0, memset0 buf1 (a + unat dsize) (unat (block_size d) - unat dsize),
                  d\<lparr>bio := b1\<rparr>, f1)))"

definition zero_block ::
  "preservation_disk \<Rightarrow> ofile \<Rightarrow> mem \<Rightarrow> nat \<Rightarrow> fault + int \<times> mem \<times> preservation_disk \<times> ofile" where
  "zero_block d f buf a = Inr (0, memset0 buf a (unat (block_size d)), d, f)"

definition read_latest_block ::
  "junk \<Rightarrow> preservation_disk \<Rightarrow> ofile \<Rightarrow> mem \<Rightarrow> nat \<Rightarrow> u64
     \<Rightarrow> fault + int \<times> mem \<times> preservation_disk \<times> ofile" where
  "read_latest_block j d f buf a block =
     (if length (index_table d) \<le> unat block then Inl Out_of_bounds
      else
        (let offset = index_table d ! unat block in
         if offset = 0 then zero_block d f buf a
         else
           (case bio_read (bio d) f offset (junk_header j) 0 sizeof_entry_header of
              Inl e \<Rightarrow> Inl e
            | Inr (r, hm, b1, f1) \<Rightarrow>
                (let dsize = ucast (data_size (get_entry_header hm 0)) in
                 if dsize = 0 then zero_block (d\<lparr>bio := b1\<rparr>) f1 buf a
                 else fill_block (d\<lparr>bio := b1\<rparr>) f1 buf a offset dsize))))"

text \<open>
  The walk along the entries of a block, newest first, to the first one written before
  \<open>t\<close>; \<open>hm\<close> is the local entry header and \<open>dsize\<close> the local data size.  More than \<open>2 ^ 64\<close>
  steps count as divergence: by then the walk has been at every offset.
\<close>

fun find_entry ::
  "nat \<Rightarrow> timespec \<Rightarrow> mem \<Rightarrow> u64 \<Rightarrow> u64 \<Rightarrow> buffered_io \<Rightarrow> ofile
     \<Rightarrow> fault + u64 \<times> u64 \<times> buffered_io \<times> ofile" where
  "find_entry fuel t hm dsize offset b f =
     (if offset = 0 then Inr (offset, dsize, b, f)
      else if fuel = 0 then Inl Diverges
      else
        (case bio_read b f offset hm 0 sizeof_entry_header of
           Inl e \<Rightarrow> Inl e
         | Inr (r, hm', b', f') \<Rightarrow>
             (let h = get_entry_header hm' 0; dsize' = ucast (data_size h) in
              if ts_before (entry_ts h) t then Inr (offset, dsize', b', f')
              else find_entry (fuel - 1) t hm' dsize' (entry_next h) b' f')))"

declare find_entry.simps [simp del]

definition max_steps :: nat where
  "max_steps = 2 ^ 64"

definition cache_bit :: "u64 \<Rightarrow> u8" where
  "cache_bit block = push_bit (unat (block mod 8)) 1"

definition read_current_block ::
  "junk \<Rightarrow> preservation_disk \<Rightarrow> ofile \<Rightarrow> mem \<Rightarrow> nat \<Rightarrow> u64
     \<Rightarrow> fault + int \<times> mem \<times> preservation_disk \<times> ofile" where
  "read_current_block j d f buf a block =
     (let n = unat block; c = unat (block div 8) in
      if length (index_table d) \<le> n \<or> length (index_cache_enable d) \<le> c \<or>
         length (cached_data_size d) \<le> n
      then Inl Out_of_bounds
      else
        (case
           (if index_cache_enable d ! c AND cache_bit block = 0 then
              (case find_entry max_steps (disk_ts d) (junk_header j) (junk_size j)
                      (index_table d ! n) (bio d) f of
                 Inl e \<Rightarrow> Inl e
               | Inr (offset, dsize, b, f') \<Rightarrow>
                   Inr (offset, dsize,
                        d\<lparr>bio := b, index_table := (index_table d)[n := offset],
                          index_cache_enable := (index_cache_enable d)
                            [c := index_cache_enable d ! c OR cache_bit block],
                          cached_data_size := (cached_data_size d)[n := ucast dsize]\<rparr>, f'))
            else Inr (index_table d ! n, ucast (cached_data_size d ! n), d, f)) of
           Inl e \<Rightarrow> Inl e
         | Inr (offset, dsize, d1, f1) \<Rightarrow>
             if offset \<noteq> 0 \<and> 0 < dsize then fill_block d1 f1 buf a offset dsize
             else zero_block d1 f1 buf a))"

definition read_block ::
  "junk \<Rightarrow> preservation_disk \<Rightarrow> ofile \<Rightarrow> mem \<Rightarrow> nat \<Rightarrow> u64
     \<Rightarrow> fault + int \<times> mem \<times> preservation_disk \<times> ofile" where
  "read_block j d = (if disk_read_only d then read_current_block j d else read_latest_block j d)"

end
