(* ===== verification/Version_Log.thy ===== *)
theory Version_Log
  imports Buffered_IO_Laws Preservation
begin

text \<open>
  What a preservation file means: for every block the list of its versions, newest first,
  each a time stamp with the content of the block.  \<open>chain\<close> relates an offset of the index
  table to the versions its linked entries hold.  The locale \<open>append_log\<close> is the interface
  the entries need from the buffered descriptor: a log that keeps what was appended; the
  lemmas on chains are proved in it and reach the model through its interpretation.
\<close>

type_synonym version = "timespec \<times> mem"

definition latest :: "version list \<Rightarrow> mem" where
  "latest vs = (case vs of [] \<Rightarrow> zeros | v # _ \<Rightarrow> snd v)"

text \<open>The version a time stamp selects: the first one, newest first, written before it.\<close>

definition version_at :: "timespec \<Rightarrow> version list \<Rightarrow> mem" where
  "version_at t vs = latest (dropWhile (\<lambda>v. \<not> ts_before (fst v) t) vs)"

definition clip :: "nat \<Rightarrow> mem \<Rightarrow> mem" where
  "clip n m = (\<lambda>i. if i < n then m i else 0)"

text \<open>The effect of writing content \<open>c\<close> to a block: zeros over a block that has never been
  written leave no trace.\<close>

definition add_version :: "nat \<Rightarrow> timespec \<Rightarrow> mem \<Rightarrow> version list \<Rightarrow> version list" where
  "add_version bs now c vs =
     (if vs = [] \<and> (\<forall>i<bs. c i = 0) then vs else (now, clip bs c) # vs)"

lemma latest_simps [simp]: "latest [] = zeros" "latest (v # vs) = snd v"
  by (simp_all add: latest_def)

lemma version_at_simps [simp]:
  "version_at t [] = zeros"
  "version_at t (v # vs) = (if ts_before (fst v) t then snd v else version_at t vs)"
  by (simp_all add: version_at_def)

lemma latest_add_version: "latest (add_version bs now c vs) = clip bs c"
  by (auto simp: add_version_def clip_def fun_eq_iff)

section \<open>Chains of entries\<close>

inductive chain :: "nat \<Rightarrow> mem \<Rightarrow> (nat \<Rightarrow> nat \<Rightarrow> bool) \<Rightarrow> u64 \<Rightarrow> version list \<Rightarrow> bool"
  for bs :: nat and L :: mem and S :: "nat \<Rightarrow> nat \<Rightarrow> bool" where
  chain_nil: "chain bs L S 0 []"
| chain_cons:
    "off \<noteq> 0 \<Longrightarrow> h = get_entry_header L (unat off) \<Longrightarrow> n = unat (data_size h) \<Longrightarrow> n \<le> bs \<Longrightarrow>
     S (unat off) (32 + n) \<Longrightarrow> unat (entry_next h) < unat off \<Longrightarrow>
     chain bs L S (entry_next h) vs \<Longrightarrow>
     chain bs L S off ((entry_ts h, \<lambda>i. if i < n then L (unat off + 32 + i) else 0) # vs)"

inductive_cases chain_ConsE: "chain bs L S off (v # vs)"
inductive_simps chain_zero_simp: "chain bs L S 0 vs"
inductive_simps chain_Nil_simp: "chain bs L S off []"

lemma chain_0 [simp]: "chain bs L S 0 vs \<longleftrightarrow> vs = []"
  by (auto simp: chain_zero_simp)

lemma chain_Nil [simp]: "chain bs L S off [] \<longleftrightarrow> off = 0"
  by (auto simp: chain_Nil_simp)

lemma chain_length: "chain bs L S off vs \<Longrightarrow> length vs \<le> unat off"
  by (induction rule: chain.induct) auto

text \<open>A chain only depends on the bytes of its segments.\<close>

lemma chain_transfer:
  assumes "chain bs L S off vs"
    and seg: "\<And>p n. S p n \<Longrightarrow> S' p n"
    and eq: "\<And>p n i. S p n \<Longrightarrow> p \<le> i \<Longrightarrow> i < p + n \<Longrightarrow> L' i = L i"
  shows "chain bs L' S' off vs"
  using assms(1)
proof (induction rule: chain.induct)
  case chain_nil
  show ?case by (rule chain.chain_nil)
next
  case (chain_cons off h n vs)
  have bytes: "L' i = L i" if "unat off \<le> i" "i < unat off + (32 + n)" for i
    using chain_cons.hyps(5) that by (rule eq)
  have h: "h = get_entry_header L' (unat off)"
    unfolding chain_cons.hyps(2) by (rule get_entry_header_cong) (simp add: bytes)
  have data: "(\<lambda>i. if i < n then L (unat off + 32 + i) else 0) =
      (\<lambda>i. if i < n then L' (unat off + 32 + i) else 0)"
    by (rule ext) (simp add: bytes)
  show ?case
    unfolding data using chain_cons.hyps(1) h chain_cons.hyps(3,4) seg [OF chain_cons.hyps(5)]
      chain_cons.hyps(6) chain_cons.IH
    by (rule chain.chain_cons)
qed

section \<open>The interface the entries need\<close>

locale append_log =
  fixes good :: "'s \<Rightarrow> bool"
    and content :: "'s \<Rightarrow> mem"
    and seg :: "'s \<Rightarrow> nat \<Rightarrow> nat \<Rightarrow> bool"
    and top :: "'s \<Rightarrow> nat"
    and append_to :: "'s \<Rightarrow> mem \<Rightarrow> u64 \<Rightarrow> u64 \<Rightarrow> 's \<Rightarrow> bool"
  assumes append_good: "good s \<Longrightarrow> append_to s src n off s' \<Longrightarrow> good s'"
    and append_off: "good s \<Longrightarrow> append_to s src n off s' \<Longrightarrow> top s \<le> unat off"
    and append_keeps: "good s \<Longrightarrow> append_to s src n off s' \<Longrightarrow> i < top s \<Longrightarrow> content s' i = content s i"
    and append_bytes: "good s \<Longrightarrow> append_to s src n off s' \<Longrightarrow> i < unat n \<Longrightarrow>
      content s' (unat off + i) = src i"
    and append_seg: "good s \<Longrightarrow> append_to s src n off s' \<Longrightarrow> seg s p m \<Longrightarrow> seg s' p m"
    and append_new_seg: "good s \<Longrightarrow> append_to s src n off s' \<Longrightarrow> seg s' (unat off) (unat n)"
    and seg_top: "good s \<Longrightarrow> seg s p m \<Longrightarrow> p + m \<le> top s"
begin

lemma chain_kept:
  assumes "good s" "append_to s src n off s'" and "chain bs (content s) (seg s) o' vs"
  shows "chain bs (content s') (seg s') o' vs"
  using assms(3)
proof (rule chain_transfer)
  show "seg s' p m" if "seg s p m" for p m
    using assms(1,2) that by (rule append_seg)
  show "content s' i = content s i" if "seg s p m" "p \<le> i" "i < p + m" for p m i
    using assms(1,2) seg_top [OF assms(1) that(1)] that by (intro append_keeps) auto
qed

lemma chain_top:
  assumes "good s" and "chain bs (content s) (seg s) o' vs" and "0 < top s"
  shows "unat o' < top s"
  using assms(2)
proof cases
  case chain_nil
  with assms(3) show ?thesis by simp
next
  case (chain_cons h n vs)
  then have "unat o' + (32 + n) \<le> top s" using assms(1) by (intro seg_top)
  then show ?thesis by simp
qed

text \<open>Appending an entry that points at a chain puts its version in front of the chain.\<close>

lemma chain_extend:
  assumes "good s" "append_to s src sz off s'" and ch: "chain bs (content s) (seg s) o' vs"
    and top: "0 < top s" and hd: "get_entry_header src 0 = h" and nx: "entry_next h = o'"
    and sz: "unat sz = 32 + unat (data_size h)" and bs: "unat (data_size h) \<le> bs"
  shows "chain bs (content s') (seg s') off
           ((entry_ts h, \<lambda>i. if i < unat (data_size h) then src (32 + i) else 0) # vs)"
proof -
  let ?n = "unat (data_size h)"
  have bytes: "content s' (unat off + i) = src i" if "i < 32 + ?n" for i
  proof -
    have "i < unat sz" using that by (simp only: sz)
    with assms(1,2) show ?thesis by (rule append_bytes)
  qed
  have le: "top s \<le> unat off" using assms(1,2) by (rule append_off)
  have h: "h = get_entry_header (content s') (unat off)"
    unfolding hd [symmetric] by (rule get_entry_header_cong) (simp add: bytes)
  have data: "(\<lambda>i. if i < ?n then src (32 + i) else 0) =
      (\<lambda>i. if i < ?n then content s' (unat off + 32 + i) else 0)"
    by (rule ext) (simp add: bytes add.assoc)
  show ?thesis
    unfolding data
  proof (rule chain.chain_cons [OF _ h refl bs])
    show "off \<noteq> 0" using le top by auto
    show "seg s' (unat off) (32 + ?n)"
      using append_new_seg [OF assms(1,2)] by (simp add: sz)
    show "unat (entry_next h) < unat off"
      using chain_top [OF assms(1) ch top] le by (simp add: nx)
    show "chain bs (content s') (seg s') (entry_next h) vs"
      unfolding nx using assms(1,2) ch by (rule chain_kept)
  qed
qed

end

section \<open>The buffered descriptor provides it\<close>

text \<open>Entries live above the header and the index table: \<open>base\<close> is where the log starts.\<close>

definition entry_segment :: "nat \<Rightarrow> buffered_io \<times> ofile \<Rightarrow> nat \<Rightarrow> nat \<Rightarrow> bool" where
  "entry_segment base s p n \<longleftrightarrow> base \<le> p \<and> segment (fst s) (snd s) p n"

definition bio_good :: "nat \<Rightarrow> buffered_io \<times> ofile \<Rightarrow> bool" where
  "bio_good base s \<longleftrightarrow>
     bio_ok (fst s) (snd s) \<and> \<not> bio_read_only (fst s) \<and> base \<le> unat (next_offset (fst s))"

definition bio_appends :: "buffered_io \<times> ofile \<Rightarrow> mem \<Rightarrow> u64 \<Rightarrow> u64 \<Rightarrow> buffered_io \<times> ofile \<Rightarrow> bool" where
  "bio_appends s src sz off s' \<longleftrightarrow>
     unat (next_offset (fst s)) + 528384 < 2 ^ 62 \<and> 0 < unat sz \<and> unat sz \<le> 528384 \<and>
     bio_write (fst s) (snd s) src sz = Inr (off, fst s', snd s')"

lemma bio_appendsD:
  assumes "bio_good base (b, f)" "bio_appends (b, f) src sz off (b', f')"
  shows "bio_good base (b', f')" and "log_end b \<le> unat off"
    and "i < log_end b \<Longrightarrow> log_byte b' f' i = log_byte b f i"
    and "i < unat sz \<Longrightarrow> log_byte b' f' (unat off + i) = src i"
    and "segment b f p m \<Longrightarrow> segment b' f' p m"
    and "segment b' f' (unat off) (unat sz)"
proof -
  from assms have pre: "bio_ok b f" "\<not> bio_read_only b" "unat (next_offset b) + 528384 < 2 ^ 62"
      "0 < unat sz" "unat sz \<le> 528384"
    and base: "base \<le> unat (next_offset b)"
    and ev: "bio_write b f src sz = Inr (off, b', f')"
    by (auto simp: bio_good_def bio_appends_def)
  have "bio_good base (b', f') \<and> log_end b \<le> unat off \<and>
      (i < log_end b \<longrightarrow> log_byte b' f' i = log_byte b f i) \<and>
      (i < unat sz \<longrightarrow> log_byte b' f' (unat off + i) = src i) \<and>
      (segment b f p m \<longrightarrow> segment b' f' p m) \<and> segment b' f' (unat off) (unat sz)"
    by (rule bio_write_ok [OF pre, of src]) (use base in \<open>auto simp: ev bio_good_def\<close>)
  then show "bio_good base (b', f')" and "log_end b \<le> unat off"
    and "i < log_end b \<Longrightarrow> log_byte b' f' i = log_byte b f i"
    and "i < unat sz \<Longrightarrow> log_byte b' f' (unat off + i) = src i"
    and "segment b f p m \<Longrightarrow> segment b' f' p m"
    and "segment b' f' (unat off) (unat sz)" by simp_all
qed

lemma segment_end: "segment b f p n \<Longrightarrow> p + n \<le> log_end b"
  by (auto simp: segment_def log_end_def)

lemma good_base: "bio_good base s \<Longrightarrow> base \<le> log_end (fst s)"
  by (simp add: bio_good_def log_end_def)

lemma appends_base:
  assumes "bio_good base (b, f)" "bio_appends (b, f) src sz off (b', f')"
  shows "base \<le> unat off"
  using good_base [OF assms(1)] bio_appendsD(2) [OF assms] by simp

interpretation bio_log: append_log "bio_good base"
  "\<lambda>s. log_byte (fst s) (snd s)" "entry_segment base" "\<lambda>s. log_end (fst s)" bio_appends
  for base :: nat
  by unfold_locales
    (auto simp: entry_segment_def dest: bio_appendsD segment_end intro: appends_base)

section \<open>Reads leave the log alone\<close>

definition same_log :: "buffered_io \<Rightarrow> ofile \<Rightarrow> buffered_io \<Rightarrow> ofile \<Rightarrow> bool" where
  "same_log b f b' f' \<longleftrightarrow>
     bio_ok b' f' \<and> window_ok b' f' \<and> fdata f' = fdata f \<and> fsize f' = fsize f \<and>
     bio_read_only b' = bio_read_only b \<and> buffer b' = buffer b \<and>
     buffer_pos b' = buffer_pos b \<and> next_offset b' = next_offset b"

lemma same_log_refl: "bio_ok b f \<Longrightarrow> window_ok b f \<Longrightarrow> same_log b f b f"
  by (simp add: same_log_def)

lemma same_log_trans: "same_log b f b1 f1 \<Longrightarrow> same_log b1 f1 b2 f2 \<Longrightarrow> same_log b f b2 f2"
  by (simp add: same_log_def)

lemma same_logD:
  assumes "same_log b f b' f'"
  shows "bio_ok b' f'" "window_ok b' f'" "log_byte b' f' = log_byte b f"
    "segment b' f' = segment b f" "log_end b' = log_end b"
    "bio_read_only b' = bio_read_only b" "next_offset b' = next_offset b"
    "buffer_pos b' = buffer_pos b"
  using assms log_byte_cong [of b' b f' f]
  by (auto simp: same_log_def segment_def log_end_def fun_eq_iff)

lemma read_log:
  assumes "bio_ok b f" "window_ok b f" "segment b f (unat pos) (unat sz)" "unat sz \<le> 7680"
  shows "\<exists>b' f'. bio_read b f pos dst d sz =
      Inr (int (unat sz), memcpy dst d (log_byte b f) (unat pos) (unat sz), b', f') \<and>
      same_log b f b' f'"
proof (rule bio_read_ok [OF assms, of dst d], goal_cases)
  case (1 src o' b' f')
  have "memcpy dst d src o' (unat sz) = memcpy dst d (log_byte b f) (unat pos) (unat sz)"
  proof (rule ext)
    fix i
    show "memcpy dst d src o' (unat sz) i = memcpy dst d (log_byte b f) (unat pos) (unat sz) i"
      using 1(2) [of "i - d"] by (cases "d \<le> i \<and> i < d + unat sz") (auto simp: memcpy_def)
  qed
  moreover have "same_log b f b' f'" using 1 by (simp add: same_log_def)
  ultimately show ?case using 1(1) by auto
qed

lemma segment_sub:
  "segment b f p n \<Longrightarrow> p \<le> q \<Longrightarrow> 0 < m \<Longrightarrow> q + m \<le> p + n \<Longrightarrow> segment b f q m"
  by (auto simp: segment_def)

lemma read_log_header:
  assumes "bio_ok b f" "window_ok b f" "segment b f (unat pos) (32 + n)"
  shows "\<exists>hm b' f'. bio_read b f pos dst 0 32 = Inr (32, hm, b', f') \<and>
      get_entry_header hm 0 = get_entry_header (log_byte b f) (unat pos) \<and> same_log b f b' f'"
proof -
  have "segment b f (unat pos) (unat (32 :: u64))"
    using assms(3) by (rule segment_sub) auto
  from read_log [OF assms(1,2) this, of dst 0] obtain b' f' where
    "bio_read b f pos dst 0 32 = Inr (32, memcpy dst 0 (log_byte b f) (unat pos) 32, b', f')"
    and "same_log b f b' f'" by auto
  moreover have "get_entry_header (memcpy dst 0 (log_byte b f) (unat pos) 32) 0 =
      get_entry_header (log_byte b f) (unat pos)"
    by (rule get_entry_header_cong) (simp add: memcpy_def)
  ultimately show ?thesis by blast
qed

end
