(* ===== verification/Preservation_Request.thy ===== *)
theory Preservation_Request
  imports Preservation
begin

text \<open>
  \<open>pd_read\<close> and \<open>pd_write\<close> of \<open>preservation.c\<close>: requests in sectors, served block by
  block.  A request that starts and ends on block boundaries is read straight into the
  caller's buffer; any other is read into a stack buffer of two default blocks and copied.
  A write merges the caller's sectors into the latest version of each block it touches
  and appends the result as a new entry.
\<close>

section \<open>Reading\<close>

text \<open>The loop over whole blocks; \<open>cap\<close> is the size of the caller's buffer.\<close>

fun read_blocks ::
  "junk \<Rightarrow> nat \<Rightarrow> u64 \<Rightarrow> nat \<Rightarrow> nat \<Rightarrow> preservation_disk \<Rightarrow> ofile \<Rightarrow> mem
     \<Rightarrow> fault + int \<times> mem \<times> preservation_disk \<times> ofile" where
  "read_blocks j cap first 0 i d f buf = Inr (0, buf, d, f)"
| "read_blocks j cap first (Suc n) i d f buf =
     (let a = i * unat (block_size d) in
      if cap < a + unat (block_size d) then Inl Out_of_bounds
      else
        (case read_block j d f buf a (first + of_nat i) of
           Inl e \<Rightarrow> Inl e
         | Inr (r, buf1, d1, f1) \<Rightarrow>
             if r = -1 then Inr (-1, buf1, d1, f1)
             else read_blocks j cap first n (Suc i) d1 f1 buf1))"

text \<open>The block a sector is in, as the code computes it: through an \<open>int\<close>.\<close>

definition block_of :: "preservation_disk \<Rightarrow> u64 \<Rightarrow> u64" where
  "block_of d sector = sext64 (to_int (sector div sectors_per_block d))"

text \<open>The loop over the blocks under a span of sectors, into the stack buffer of two default
  blocks; \<open>k\<close> is \<open>read_blocks\<close>.  The bound of the stack buffer ends the recursion.\<close>

function read_span ::
  "junk \<Rightarrow> u64 \<Rightarrow> u64 \<Rightarrow> nat \<Rightarrow> preservation_disk \<Rightarrow> ofile \<Rightarrow> mem
     \<Rightarrow> fault + int \<times> mem \<times> preservation_disk \<times> ofile" where
  "read_span j stop sector k d f buf =
     (if sector < stop then
        (let a = k * (512 * unat (sectors_per_block d));
             block = block_of d sector in
         if sectors_per_block d = 0 then Inl Division_by_zero
         else if 2 * 4096 < a + unat (block_size d) then Inl Stack_overflow
         else
           (case read_block j d f buf a block of
              Inl e \<Rightarrow> Inl e
            | Inr (r, buf1, d1, f1) \<Rightarrow>
                if r = -1 then Inr (-1, buf1, d1, f1)
                else read_span j stop ((block + 1) * sectors_per_block d) (Suc k) d1 f1 buf1))
      else Inr (0, buf, d, f))"
  by pat_completeness auto
termination
proof (relation "measure (\<lambda>(j, stop, sector, k, d, f, buf). 8193 - k)", goal_cases)
  case 1
  show ?case by simp
next
  case (2 j stop sector k d f buf a block x r y buf1 z d1 f1)
  have "0 < 512 * unat (sectors_per_block d)" using 2 by (simp add: unat_gt_0)
  then have "k \<le> k * (512 * unat (sectors_per_block d))"
    by (metis One_nat_def Suc_leI mult.right_neutral mult_le_mono2)
  also have "\<dots> \<le> 8192" using 2 by simp
  finally show ?case by simp
qed

declare read_span.simps [simp del]

definition pd_read ::
  "junk \<Rightarrow> preservation_disk \<Rightarrow> ofile \<Rightarrow> td_request
     \<Rightarrow> fault + int \<times> mem \<times> preservation_disk \<times> ofile" where
  "pd_read j d f q =
     (let spb = sectors_per_block d; n = sext64 (secs q);
          cap = unat (n * DEFAULT_SECTOR_SIZE) in
      if spb = 0 then Inl Division_by_zero
      else if sec q mod spb = 0 \<and> n mod spb = 0 then
        read_blocks j cap (sec q div spb) (unat (n div spb)) 0 d f (req_buf q)
      else
        (case read_span j (sec q + n) (sec q) 0 d f zeros of
           Inl e \<Rightarrow> Inl e
         | Inr (r, buf, d1, f1) \<Rightarrow>
             if r = -1 then Inr (-1, req_buf q, d1, f1)
             else
               (let a = unat ((sec q mod spb) * DEFAULT_SECTOR_SIZE) in
                if 2 * unat DEFAULT_BLOCK_SIZE < a + cap then Inl Stack_overflow
                else Inr (0, memcpy (req_buf q) 0 buf a cap, d1, f1))))"

section \<open>Writing\<close>

text \<open>How many sectors of the request go to the block of \<open>sector\<close>, and how many remain.\<close>

definition split_sectors :: "u64 \<Rightarrow> u64 \<Rightarrow> c_int \<Rightarrow> c_int \<times> c_int" where
  "split_sectors spb sector remain =
     (let room = spb - (sector mod spb) in
      if room < sext64 remain then (to_int room, remain - to_int room) else (remain, 0))"

text \<open>One block of the request: the body of the loop.  \<open>buf\<close> is the stack buffer of one
  entry header and one default block.\<close>

definition write_block ::
  "junk \<Rightarrow> timespec \<Rightarrow> td_request \<Rightarrow> u64 \<Rightarrow> c_int \<Rightarrow> mem \<Rightarrow> preservation_disk \<Rightarrow> ofile
     \<Rightarrow> fault + int \<times> c_int \<times> mem \<times> preservation_disk \<times> ofile" where
  "write_block j now q sector remain buf d f =
     (let spb = sectors_per_block d; h = unat sizeof_entry_header; block = block_of d sector in
      if unat DEFAULT_BLOCK_SIZE < unat (block_size d) then Inl Stack_overflow
      else
        (case read_latest_block j d f buf h block of
           Inl e \<Rightarrow> Inl e
         | Inr (r, buf1, d1, f1) \<Rightarrow>
             if r = -1 then Inr (-1, remain, buf1, d1, f1)
             else
               (let (cur, remain') = split_sectors spb sector remain;
                    dst = h + unat ((sector mod spb) * DEFAULT_SECTOR_SIZE);
                    src = sint ((secs q - remain' - cur) * 512);
                    n = unat (sext64 (cur * 512)) in
                if h + unat DEFAULT_BLOCK_SIZE < dst + n then Inl Stack_overflow
                else if src < 0 \<or> sint (secs q) * 512 < src + int n then Inl Out_of_bounds
                else
                  (let buf2 = memcpy buf1 dst (req_buf q) (nat src) n;
                       dsize = get_actual_data_size buf2 h (unat (block_size d));
                       hd = \<lparr>entry_ts = now, entry_next = index_table d1 ! unat block,
                             data_size = of_nat dsize\<rparr>;
                       buf3 = memcpy buf2 0 (put_entry_header (junk_header j) hd) 0 h in
                   if dsize = 0 \<and> index_table d1 ! unat block = 0
                   then Inr (0, remain', buf3, d1, f1)
                   else
                     (case bio_write (bio d1) f1 buf3 (sizeof_entry_header + of_nat dsize) of
                        Inl e \<Rightarrow> Inl e
                      | Inr (off, b2, f2) \<Rightarrow>
                          Inr (0, remain', buf3,
                               d1\<lparr>bio := b2, index_table := (index_table d1)[unat block := off]\<rparr>,
                               f2))))))"

fun write_loop ::
  "nat \<Rightarrow> junk \<Rightarrow> timespec \<Rightarrow> td_request \<Rightarrow> u64 \<Rightarrow> c_int \<Rightarrow> mem \<Rightarrow> preservation_disk \<Rightarrow> ofile
     \<Rightarrow> fault + int \<times> preservation_disk \<times> ofile" where
  "write_loop fuel j now q sector remain buf d f =
     (if sector < sec q + sext64 (secs q) then
        (if fuel = 0 then Inl Diverges
         else
           (case write_block j now q sector remain buf d f of
              Inl e \<Rightarrow> Inl e
            | Inr (r, remain', buf', d', f') \<Rightarrow>
                if r = -1 then Inr (-1, d', f')
                else write_loop (fuel - 1) j now q
                       ((block_of d sector + 1) * sectors_per_block d) remain' buf' d' f'))
      else Inr (0, d, f))"

declare write_loop.simps [simp del]

text \<open>\<open>now\<close> is what \<open>clock_gettime(CLOCK_REALTIME)\<close> gives.\<close>

definition pd_write ::
  "junk \<Rightarrow> timespec \<Rightarrow> preservation_disk \<Rightarrow> ofile \<Rightarrow> td_request
     \<Rightarrow> fault + int \<times> preservation_disk \<times> ofile" where
  "pd_write j now d f q =
     (if sectors_per_block d = 0 \<and> sec q < sec q + sext64 (secs q) then Inl Division_by_zero
      else write_loop max_steps j now q (sec q) (secs q) zeros d f)"

end
