(* ===== verification/Preservation_Read.thy ===== *)
theory Preservation_Read
  imports Version_Log Preservation_Request
begin

text \<open>
  Reading is right: on a disk whose index table and log represent the versions \<open>H\<close>, the
  latest-version reader returns the newest version of a block and the time-stamped reader
  the version its time stamp selects, whatever its cache holds, and neither changes what
  the disk represents.  On top of them, \<open>pd_read\<close> returns the sectors asked for.
\<close>

definition geometry_ok :: "preservation_disk \<Rightarrow> bool" where
  "geometry_ok d \<longleftrightarrow>
     0 < unat (block_size d) \<and> unat (block_size d) \<le> 4096 \<and> 512 dvd unat (block_size d) \<and>
     sectors_per_block d = block_size d div 512 \<and> length (index_table d) \<le> 2 ^ 31 \<and>
     unat (index_table_size (disk_header d)) = 8 * length (index_table d)"

definition data_start :: "preservation_disk \<Rightarrow> nat" where
  "data_start d = 512 + 8 * length (index_table d)"

definition represents :: "preservation_disk \<Rightarrow> ofile \<Rightarrow> (nat \<Rightarrow> version list) \<Rightarrow> bool" where
  "represents d f H \<longleftrightarrow>
     (\<forall>n < length (index_table d).
        chain (unat (block_size d)) (log_byte (bio d) f) (entry_segment (data_start d) (bio d, f))
          (index_table d ! n) (H n))"

lemma representsD:
  assumes "represents d f H" "n < length (index_table d)"
  shows "chain (unat (block_size d)) (log_byte (bio d) f) (segment (bio d) f) (index_table d ! n) (H n)"
proof (rule chain_transfer)
  show "chain (unat (block_size d)) (log_byte (bio d) f) (entry_segment (data_start d) (bio d, f))
      (index_table d ! n) (H n)"
    using assms by (simp add: represents_def)
qed (simp_all add: entry_segment_def)

section \<open>Filling a block\<close>

lemma zero_block_latest:
  "zero_block d f buf a = Inr (0, memcpy buf a zeros 0 (unat (block_size d)), d, f)"
  by (simp add: zero_block_def memset0_def memcpy_def)

lemma fill_block_ok:
  assumes ok: "bio_ok (bio d) f" "window_ok (bio d) f"
    and seg: "segment (bio d) f (unat off) (32 + n)" and n: "n = unat dsize" "0 < n"
    and bs: "n \<le> unat (block_size d)" "unat (block_size d) \<le> 4096"
  shows "\<exists>b' f'. fill_block d f buf a off dsize =
      Inr (0, memcpy buf a (\<lambda>i. if i < n then log_byte (bio d) f (unat off + 32 + i) else 0) 0
                (unat (block_size d)), d\<lparr>bio := b'\<rparr>, f') \<and> same_log (bio d) f b' f'"
proof -
  have "unat off + (32 + n) < 2 ^ 64"
    using seg ok(1) by (auto simp: segment_def bio_ok_def log_end_def)
  then have off: "unat (off + 32) = unat off + 32"
    by (subst unat_add64) auto
  have seg': "segment (bio d) f (unat (off + 32)) (unat dsize)"
    using seg n by (auto simp: off intro: segment_sub)
  have "unat dsize \<le> 7680" using n bs by simp
  from read_log [OF ok seg' this, of buf a] obtain b' f' where
    r: "bio_read (bio d) f (off + 32) buf a dsize =
        Inr (int n, memcpy buf a (log_byte (bio d) f) (unat off + 32) n, b', f')"
    and s: "same_log (bio d) f b' f'" by (auto simp: off n)
  have "memset0 (memcpy buf a (log_byte (bio d) f) (unat off + 32) n) (a + n) (unat (block_size d) - n) =
      memcpy buf a (\<lambda>i. if i < n then log_byte (bio d) f (unat off + 32 + i) else 0) 0 (unat (block_size d))"
    using bs by (auto simp: memcpy_def memset0_def fun_eq_iff)
  then show ?thesis
    using r s bs by (auto simp: fill_block_def n)
qed

lemma read_latest_block_ok:
  assumes ok: "bio_ok (bio d) f" "window_ok (bio d) f" and geo: "geometry_ok d"
    and rep: "represents d f H" and n: "unat block < length (index_table d)"
  shows "\<exists>b' f'. read_latest_block j d f buf a block =
      Inr (0, memcpy buf a (latest (H (unat block))) 0 (unat (block_size d)), d\<lparr>bio := b'\<rparr>, f') \<and>
      same_log (bio d) f b' f'"
proof -
  let ?off = "index_table d ! unat block" and ?L = "log_byte (bio d) f"
  note ch = representsD [OF rep n]
  show ?thesis
  proof (cases "?off = 0")
    case True
    with ch have "H (unat block) = []" by simp
    then show ?thesis
      using True n same_log_refl [OF ok]
      by (intro exI [of _ "bio d"] exI [of _ f]) (simp add: read_latest_block_def zero_block_latest)
  next
    case False
    from ch False obtain vs h m where
      H: "H (unat block) = (entry_ts h, \<lambda>i. if i < m then ?L (unat ?off + 32 + i) else 0) # vs"
      and h: "h = get_entry_header ?L (unat ?off)" and m: "m = unat (data_size h)"
      and mb: "m \<le> unat (block_size d)"
      and seg: "segment (bio d) f (unat ?off) (32 + m)"
      by (cases rule: chain.cases) auto
    from read_log_header [OF ok seg, of "junk_header j"] obtain hm b1 f1 where
      r: "bio_read (bio d) f ?off (junk_header j) 0 32 = Inr (32, hm, b1, f1)"
      and hm: "get_entry_header hm 0 = h" and s: "same_log (bio d) f b1 f1"
      by (auto simp: h)
    let ?ds = "ucast (data_size h) :: u64" and ?d1 = "d\<lparr>bio := b1\<rparr>"
    have ds: "unat ?ds = m" by (simp add: m)
    show ?thesis
    proof (cases "m = 0")
      case True
      then have "?ds = 0" using ds by (simp add: unat_eq_0)
      then have "read_latest_block j d f buf a block = zero_block ?d1 f1 buf a"
        using n False r hm by (simp add: read_latest_block_def Let_def)
      then show ?thesis using s True H by (auto simp: zero_block_latest)
    next
      case False
      then have "?ds \<noteq> 0" using ds by (metis unat_0)
      then have ev: "read_latest_block j d f buf a block = fill_block ?d1 f1 buf a ?off ?ds"
        using n \<open>?off \<noteq> 0\<close> r hm by (simp add: read_latest_block_def Let_def)
      have pre: "bio_ok (bio ?d1) f1" "window_ok (bio ?d1) f1" "segment (bio ?d1) f1 (unat ?off) (32 + m)"
        "0 < m" "m \<le> unat (block_size ?d1)" "unat (block_size ?d1) \<le> 4096"
        using seg mb geo False s by (simp_all add: same_logD geometry_ok_def)
      from fill_block_ok [OF pre(1,2,3) ds [symmetric] pre(4-6), of buf a]
      obtain b' f' where "fill_block ?d1 f1 buf a ?off ?ds =
          Inr (0, memcpy buf a (\<lambda>i. if i < m then log_byte (bio ?d1) f1 (unat ?off + 32 + i) else 0) 0
             (unat (block_size ?d1)), ?d1\<lparr>bio := b'\<rparr>, f')" and "same_log (bio ?d1) f1 b' f'"
        by blast
      moreover have "log_byte (bio ?d1) f1 = log_byte (bio d) f" using s by (simp add: same_logD)
      ultimately have "fill_block ?d1 f1 buf a ?off ?ds =
          Inr (0, memcpy buf a (latest (H (unat block))) 0 (unat (block_size d)), d\<lparr>bio := b'\<rparr>, f')"
        by (simp only: H) simp
      moreover have "same_log (bio d) f b' f'"
        using s \<open>same_log (bio ?d1) f1 b' f'\<close> by (auto intro: same_log_trans)
      ultimately show ?thesis using ev by auto
    qed
  qed
qed


section \<open>The walk back in time\<close>

text \<open>The walk ends at the version the time stamp selects; it takes one step per version.\<close>

lemma find_entry_ok:
  assumes "chain bs L S off vs" and "length vs \<le> fuel"
    and "bio_ok b f" "window_ok b f" "log_byte b f = L" "segment b f = S"
  shows "\<exists>off' ds' b' f'. find_entry fuel t hm ds off b f = Inr (off', ds', b', f') \<and>
      same_log b f b' f' \<and> chain bs L S off' (dropWhile (\<lambda>v. \<not> ts_before (fst v) t) vs) \<and>
      (off' \<noteq> 0 \<longrightarrow> ds' = ucast (data_size (get_entry_header L (unat off'))))"
  using assms
proof (induction arbitrary: fuel hm ds b f rule: chain.induct)
  case chain_nil
  then show ?case by (simp add: find_entry.simps same_log_refl)
next
  case (chain_cons off h n vs)
  have seg: "segment b f (unat off) (32 + n)" using chain_cons by simp
  from read_log_header [OF chain_cons.prems(2,3) seg, of hm] obtain hm1 b1 f1 where
    r: "bio_read b f off hm 0 32 = Inr (32, hm1, b1, f1)"
    and hm1: "get_entry_header hm1 0 = h" and s: "same_log b f b1 f1"
    by (auto simp: chain_cons.prems(4) chain_cons.hyps(2))
  have fuel: "fuel \<noteq> 0" "length vs \<le> fuel - 1" using chain_cons.prems(1) by auto
  have step: "find_entry fuel t hm ds off b f =
      (if ts_before (entry_ts h) t then Inr (off, ucast (data_size h), b1, f1)
       else find_entry (fuel - 1) t hm1 (ucast (data_size h)) (entry_next h) b1 f1)"
    using chain_cons.hyps(1) fuel(1) by (subst find_entry.simps) (simp add: r hm1 Let_def)
  show ?case
  proof (cases "ts_before (entry_ts h) t")
    case True
    have "chain bs L S off ((entry_ts h, \<lambda>i. if i < n then L (unat off + 32 + i) else 0) # vs)"
      using chain_cons.hyps by (rule chain.chain_cons)
    with True step s show ?thesis by (simp add: chain_cons.hyps(2))
  next
    case False
    have "\<exists>off' ds' b' f'. find_entry (fuel - 1) t hm1 (ucast (data_size h)) (entry_next h) b1 f1 =
        Inr (off', ds', b', f') \<and> same_log b1 f1 b' f' \<and>
        chain bs L S off' (dropWhile (\<lambda>v. \<not> ts_before (fst v) t) vs) \<and>
        (off' \<noteq> 0 \<longrightarrow> ds' = ucast (data_size (get_entry_header L (unat off'))))"
      using fuel(2) same_logD(1-4) [OF s] chain_cons.prems(4,5) by (intro chain_cons.IH) simp_all
    with False step s show ?thesis by (auto intro: same_log_trans)
  qed
qed

section \<open>The cache of the time-stamped reader\<close>

definition cache_set :: "preservation_disk \<Rightarrow> nat \<Rightarrow> bool" where
  "cache_set d n \<longleftrightarrow> bit (index_cache_enable d ! (n div 8)) (n mod 8)"

abbreviation current :: "timespec \<Rightarrow> version list \<Rightarrow> version list" where
  "current t vs \<equiv> dropWhile (\<lambda>v. \<not> ts_before (fst v) t) vs"

text \<open>A block that is not cached has its whole chain, a cached one the chain from the selected
  version on, with the size of that version's data.\<close>

definition represents_at :: "preservation_disk \<Rightarrow> ofile \<Rightarrow> (nat \<Rightarrow> version list) \<Rightarrow> bool" where
  "represents_at d f H \<longleftrightarrow>
     (\<forall>n < length (cached_data_size d).
        (if cache_set d n then
           chain (unat (block_size d)) (log_byte (bio d) f) (segment (bio d) f)
             (index_table d ! n) (current (disk_ts d) (H n)) \<and>
           (index_table d ! n \<noteq> 0 \<longrightarrow> cached_data_size d ! n =
              data_size (get_entry_header (log_byte (bio d) f) (unat (index_table d ! n))))
         else
           chain (unat (block_size d)) (log_byte (bio d) f) (segment (bio d) f)
             (index_table d ! n) (H n)))"

definition arrays_ok :: "preservation_disk \<Rightarrow> bool" where
  "arrays_ok d \<longleftrightarrow>
     length (cached_data_size d) \<le> length (index_table d) \<and>
     length (cached_data_size d) \<le> 8 * length (index_cache_enable d)"

text \<open>What a timed read may change.\<close>

definition timed_step :: "preservation_disk \<Rightarrow> ofile \<Rightarrow> preservation_disk \<Rightarrow> ofile \<Rightarrow> bool" where
  "timed_step d f d' f' \<longleftrightarrow>
     same_log (bio d) f (bio d') f' \<and> disk_header d' = disk_header d \<and>
     disk_read_only d' = disk_read_only d \<and> disk_ts d' = disk_ts d \<and>
     sectors_per_block d' = sectors_per_block d \<and>
     length (index_table d') = length (index_table d) \<and>
     length (index_cache_enable d') = length (index_cache_enable d) \<and>
     length (cached_data_size d') = length (cached_data_size d)"

lemma cache_bit_exp: "cache_bit block = 2 ^ (unat block mod 8)"
  by (simp add: cache_bit_def push_bit_eq_mult unat_mod)

lemma cache_bit_and: "x AND cache_bit block = 0 \<longleftrightarrow> \<not> bit x (unat block mod 8)"
  by (simp add: cache_bit_exp and_exp_eq_0_iff_not_bit)

lemma cache_bit_or: "k < 8 \<Longrightarrow> bit (x OR cache_bit block) k \<longleftrightarrow> bit x k \<or> k = unat block mod 8"
  by (auto simp: cache_bit_exp bit_or_iff bit_exp_iff)

lemma unat_div8: "unat (block div 8 :: u64) = unat block div 8"
  by (simp add: unat_div)

lemma cache_set_update:
  assumes "n = unat block" "n div 8 < length ice"
    and "index_cache_enable d = ice"
    and "index_cache_enable d' = ice[n div 8 := ice ! (n div 8) OR cache_bit block]"
  shows "cache_set d' m \<longleftrightarrow> cache_set d m \<or> m = n"
proof (cases "m div 8 = n div 8")
  case True
  have "m = n \<longleftrightarrow> m mod 8 = n mod 8"
    using True by (metis mult_div_mod_eq)
  then show ?thesis using assms True by (simp add: cache_set_def cache_bit_or)
next
  case False
  then have "m \<noteq> n" by auto
  with False show ?thesis using assms by (simp add: cache_set_def)
qed

text \<open>After the cache has been filled for a block, the offset at hand is that of the selected
  version, and the block's content follows.\<close>

lemma current_content:
  assumes ch: "chain bs L S off (current t vs)" and "off \<noteq> 0"
  obtains m where "m = unat (data_size (get_entry_header L (unat off)))" "m \<le> bs"
    "S (unat off) (32 + m)"
    "version_at t vs = (\<lambda>i. if i < m then L (unat off + 32 + i) else 0)"
  using assms by (cases rule: chain.cases) (auto simp: version_at_def)

lemma read_current_tail:
  assumes ok: "bio_ok (bio d) f" "window_ok (bio d) f" and geo: "geometry_ok d"
    and ch: "chain (unat (block_size d)) (log_byte (bio d) f) (segment (bio d) f) off (current t vs)"
    and ds: "off \<noteq> 0 \<Longrightarrow> dsize = ucast (data_size (get_entry_header (log_byte (bio d) f) (unat off)))"
  shows "\<exists>b' f'. (if off \<noteq> 0 \<and> 0 < dsize then fill_block d f buf a off dsize else zero_block d f buf a) =
      Inr (0, memcpy buf a (version_at t vs) 0 (unat (block_size d)), d\<lparr>bio := b'\<rparr>, f') \<and>
      same_log (bio d) f b' f'"
proof (cases "off = 0")
  case True
  with ch have "current t vs = []" by (simp only: chain_0)
  then have "version_at t vs = zeros" by (simp only: version_at_def latest_simps)
  with True ok show ?thesis
    by (intro exI [of _ "bio d"] exI [of _ f]) (simp add: zero_block_latest same_log_refl)
next
  case False
  from current_content [OF ch False] obtain m where
    m: "m = unat (data_size (get_entry_header (log_byte (bio d) f) (unat off)))"
    and mb: "m \<le> unat (block_size d)" and seg: "segment (bio d) f (unat off) (32 + m)"
    and va: "version_at t vs = (\<lambda>i. if i < m then log_byte (bio d) f (unat off + 32 + i) else 0)"
    by blast
  have um: "unat dsize = m" using ds [OF False] m by simp
  show ?thesis
  proof (cases "m = 0")
    case True
    then have "dsize = 0" using um by (simp add: unat_eq_0)
    moreover have "version_at t vs = zeros" using va True by simp
    ultimately show ?thesis using ok
      by (intro exI [of _ "bio d"] exI [of _ f]) (simp add: zero_block_latest same_log_refl)
  next
    case nz: False
    then have "0 < dsize" using um by (simp add: word_less_unat)
    moreover have "unat (block_size d) \<le> 4096" using geo by (simp add: geometry_ok_def)
    ultimately show ?thesis
      using fill_block_ok [OF ok seg um [symmetric] _ mb, of buf a] nz False va by simp
  qed
qed

lemma read_current_block_ok:
  assumes ok: "bio_ok (bio d) f" "window_ok (bio d) f" and geo: "geometry_ok d" and arr: "arrays_ok d"
    and rep: "represents_at d f H" and n: "unat block < length (cached_data_size d)"
  shows "\<exists>d' f'. read_current_block j d f buf a block =
      Inr (0, memcpy buf a (version_at (disk_ts d) (H (unat block))) 0 (unat (block_size d)), d', f') \<and>
      timed_step d f d' f' \<and> represents_at d' f' H"
proof -
  let ?n = "unat block" and ?c = "unat block div 8"
  have len: "?n < length (index_table d)" "?c < length (index_cache_enable d)"
    using n arr by (auto simp: arrays_ok_def)
  have inr: "\<not> (length (index_table d) \<le> ?n \<or> length (index_cache_enable d) \<le> unat (block div 8) \<or>
      length (cached_data_size d) \<le> ?n)"
    using n len by (simp add: unat_div8)
  show ?thesis
  proof (cases "cache_set d ?n")
    case True
    have bit: "index_cache_enable d ! ?c AND cache_bit block \<noteq> 0"
      using True by (simp add: cache_bit_and cache_set_def)
    have r: "chain (unat (block_size d)) (log_byte (bio d) f) (segment (bio d) f) (index_table d ! ?n)
          (current (disk_ts d) (H ?n))"
      and "index_table d ! ?n \<noteq> 0 \<Longrightarrow> ucast (cached_data_size d ! ?n) =
          (ucast (data_size (get_entry_header (log_byte (bio d) f) (unat (index_table d ! ?n)))) :: u64)"
      using rep n True by (auto simp: represents_at_def)
    from read_current_tail [OF ok geo this, of buf a] obtain b' f' where
      "(if index_table d ! ?n \<noteq> 0 \<and> (0 :: u64) < ucast (cached_data_size d ! ?n)
        then fill_block d f buf a (index_table d ! ?n) (ucast (cached_data_size d ! ?n))
        else zero_block d f buf a) =
       Inr (0, memcpy buf a (version_at (disk_ts d) (H ?n)) 0 (unat (block_size d)), d\<lparr>bio := b'\<rparr>, f')"
      and s: "same_log (bio d) f b' f'" by blast
    then have "read_current_block j d f buf a block =
       Inr (0, memcpy buf a (version_at (disk_ts d) (H ?n)) 0 (unat (block_size d)), d\<lparr>bio := b'\<rparr>, f')"
      using inr bit by (simp add: read_current_block_def Let_def unat_div8)
    moreover have "timed_step d f (d\<lparr>bio := b'\<rparr>) f'" using s by (simp add: timed_step_def)
    moreover have "represents_at (d\<lparr>bio := b'\<rparr>) f' H"
      using rep s by (simp add: represents_at_def same_logD cache_set_def)
    ultimately show ?thesis by blast
  next
    case False
    have bit: "index_cache_enable d ! ?c AND cache_bit block = 0"
      using False by (simp add: cache_bit_and cache_set_def)
    have ch: "chain (unat (block_size d)) (log_byte (bio d) f) (segment (bio d) f) (index_table d ! ?n) (H ?n)"
      using rep n False by (auto simp: represents_at_def)
    have "length (H ?n) \<le> max_steps"
      by (rule order_trans [OF chain_length [OF ch]]) (simp add: max_steps_def less_imp_le)
    from find_entry_ok [OF ch this ok refl refl, of "disk_ts d" "junk_header j" "junk_size j"]
    obtain off ds b1 f1 where fe: "find_entry max_steps (disk_ts d) (junk_header j) (junk_size j)
        (index_table d ! ?n) (bio d) f = Inr (off, ds, b1, f1)"
      and s1: "same_log (bio d) f b1 f1"
      and ch1: "chain (unat (block_size d)) (log_byte (bio d) f) (segment (bio d) f) off
          (current (disk_ts d) (H ?n))"
      and ds: "off \<noteq> 0 \<Longrightarrow> ds = ucast (data_size (get_entry_header (log_byte (bio d) f) (unat off)))"
      by blast
    let ?d1 = "d\<lparr>bio := b1, index_table := (index_table d)[?n := off],
        index_cache_enable := (index_cache_enable d)[?c := index_cache_enable d ! ?c OR cache_bit block],
        cached_data_size := (cached_data_size d)[?n := ucast ds]\<rparr>"
    have "bio_ok (bio ?d1) f1" "window_ok (bio ?d1) f1" "geometry_ok ?d1"
      and ch1': "chain (unat (block_size ?d1)) (log_byte (bio ?d1) f1) (segment (bio ?d1) f1) off
          (current (disk_ts d) (H ?n))"
      and ds': "off \<noteq> 0 \<Longrightarrow> ds = ucast (data_size (get_entry_header (log_byte (bio ?d1) f1) (unat off)))"
      using s1 geo ch1 ds by (simp_all add: same_logD geometry_ok_def)
    from read_current_tail [OF this, of buf a] obtain b' f' where
      "(if off \<noteq> 0 \<and> 0 < ds then fill_block ?d1 f1 buf a off ds else zero_block ?d1 f1 buf a) =
       Inr (0, memcpy buf a (version_at (disk_ts d) (H ?n)) 0 (unat (block_size d)), ?d1\<lparr>bio := b'\<rparr>, f')"
      and s2: "same_log b1 f1 b' f'" by auto
    then have ev: "read_current_block j d f buf a block =
       Inr (0, memcpy buf a (version_at (disk_ts d) (H ?n)) 0 (unat (block_size d)), ?d1\<lparr>bio := b'\<rparr>, f')"
      using inr bit fe by (simp add: read_current_block_def Let_def unat_div8)
    have s: "same_log (bio d) f b' f'" using s1 s2 by (rule same_log_trans)
    have step: "timed_step d f (?d1\<lparr>bio := b'\<rparr>) f'" using s by (simp add: timed_step_def)
    have cs: "cache_set (?d1\<lparr>bio := b'\<rparr>) m \<longleftrightarrow> cache_set d m \<or> m = ?n" for m
      by (rule cache_set_update [OF refl len(2) refl]) simp
    have "represents_at (?d1\<lparr>bio := b'\<rparr>) f' H"
      unfolding represents_at_def
    proof (intro allI impI, goal_cases)
      case (1 m)
      show ?case
      proof (cases "m = ?n")
        case True
        then show ?thesis using cs [of m] ch1 ds s len n by (simp add: same_logD)
      next
        case False
        then show ?thesis using cs [of m] rep 1 s by (simp add: represents_at_def same_logD)
      qed
    qed
    with ev step show ?thesis by blast
  qed
qed
end
