(* ===== verification/Request_Read.thy ===== *)
theory Request_Read
  imports Preservation_Read
begin

text \<open>
  \<open>pd_read\<close> over any block reader: the locale \<open>block_source\<close> is what the request loop needs
  of \<open>read_block\<close> (it returns the content of the block and keeps the invariant); the lemmas
  on the loops are proved in it once and reach both readers by interpretation.
\<close>

text \<open>The disk as one array of bytes.\<close>

definition disk_bytes :: "nat \<Rightarrow> (nat \<Rightarrow> mem) \<Rightarrow> mem" where
  "disk_bytes bs content i = content (i div bs) (i mod bs)"

lemma disk_bytes_block: "k < bs \<Longrightarrow> disk_bytes bs content (b * bs + k) = content b k"
  by (simp add: disk_bytes_def)

text \<open>The number of blocks under a request, from the one of its first sector on.\<close>

definition blocks_under :: "nat \<Rightarrow> nat \<Rightarrow> nat \<Rightarrow> nat" where
  "blocks_under s first stop = (stop + s - 1) div s - first div s"

text \<open>A request is served whole when it lies on block boundaries or under at most as many
  blocks as the stack buffer of \<open>pd_read\<close> holds.\<close>

definition fits_stack :: "nat \<Rightarrow> nat \<Rightarrow> nat \<Rightarrow> nat \<Rightarrow> bool" where
  "fits_stack s bs first n \<longleftrightarrow>
     first mod s = 0 \<and> n mod s = 0 \<or> blocks_under s first (first + n) * bs \<le> 8192"

locale block_source =
  fixes I :: "preservation_disk \<Rightarrow> ofile \<Rightarrow> bool"
    and content :: "nat \<Rightarrow> mem" and nblocks :: nat and bs :: nat and spb :: u64
  assumes block_read: "I d f \<Longrightarrow> unat block < nblocks \<Longrightarrow>
      \<exists>d' f'. read_block j d f buf a block =
        Inr (0, memcpy buf a (content (unat block)) 0 bs, d', f') \<and> I d' f'"
    and geometry: "I d f \<Longrightarrow> unat (block_size d) = bs \<and> sectors_per_block d = spb \<and>
      bs = unat spb * 512 \<and> 0 < bs \<and> bs \<le> 4096 \<and> nblocks \<le> 2 ^ 31"
begin

lemma read_blocks_ok:
  assumes "I d f" and "unat first + i + n \<le> nblocks" and "(i + n) * bs \<le> cap"
  shows "\<exists>d' f'. read_blocks j cap first n i d f buf =
      Inr (0, memcpy buf (i * bs) (disk_bytes bs content) ((unat first + i) * bs) (n * bs), d', f') \<and>
      I d' f'"
  using assms
proof (induction n arbitrary: i d f buf)
  case 0
  then show ?case by simp
next
  case (Suc n)
  let ?b = "unat first + i"
  note geo = geometry [OF Suc.prems(1)]
  have b: "unat (first + of_nat i) = ?b"
  proof -
    have "unat (of_nat i :: u64) = i" using Suc.prems(2) geo by (intro unat_of_nat64) simp
    then show ?thesis using Suc.prems(2) geo by (subst unat_add64) simp_all
  qed
  from block_read [OF Suc.prems(1), of "first + of_nat i" j buf "i * bs"] Suc.prems(2) b
  obtain d1 f1 where r: "read_block j d f buf (i * bs) (first + of_nat i) =
      Inr (0, memcpy buf (i * bs) (content ?b) 0 bs, d1, f1)" and I1: "I d1 f1"
    by auto
  have c: "memcpy buf (i * bs) (content ?b) 0 bs = memcpy buf (i * bs) (disk_bytes bs content) (?b * bs) bs"
    by (rule memcpy_cong) (simp add: disk_bytes_block)
  have "\<not> cap < i * bs + bs" using Suc.prems(3) by (simp add: algebra_simps)
  then have step: "read_blocks j cap first (Suc n) i d f buf =
      read_blocks j cap first n (Suc i) d1 f1
        (memcpy buf (i * bs) (disk_bytes bs content) (?b * bs) bs)"
    using r geo [THEN conjunct1] by (simp add: Let_def c)
  have "unat first + Suc i + n \<le> nblocks" "(Suc i + n) * bs \<le> cap"
    using Suc.prems by simp_all
  from Suc.IH [OF I1 this] obtain d' f' where "read_blocks j cap first n (Suc i) d1 f1
        (memcpy buf (i * bs) (disk_bytes bs content) (?b * bs) bs) =
      Inr (0, memcpy (memcpy buf (i * bs) (disk_bytes bs content) (?b * bs) bs) (i * bs + bs)
        (disk_bytes bs content) (?b * bs + bs) (n * bs), d', f')" and "I d' f'"
    by (fastforce simp: algebra_simps)
  then show ?case unfolding step by (auto simp: memcpy_append)
qed

lemma block_of_eq:
  assumes "I d f" "unat sector div unat spb < nblocks"
  shows "unat (block_of d sector) = unat sector div unat spb"
proof -
  note geo = geometry [OF assms(1)]
  have "unat (sector div spb) < 2 ^ 31" using assms(2) geo by (simp add: unat_div)
  then show ?thesis using geo by (simp add: block_of_def sext64_to_int unat_div)
qed

text \<open>One turn of the loop over a span.\<close>

lemma read_span_step:
  assumes "I d f" and lt: "unat sector < unat stop" and b: "unat sector div unat spb = b" "b < nblocks"
    and k: "k * bs + bs \<le> 8192"
  obtains d1 f1 where "read_span j stop sector k d f buf =
      read_span j stop ((block_of d sector + 1) * spb) (Suc k) d1 f1
        (memcpy buf (k * bs) (disk_bytes bs content) (b * bs) bs)"
    and "I d1 f1" and "unat ((block_of d sector + 1) * spb) = (b + 1) * unat spb"
proof -
  note geo = geometry [OF assms(1)]
  have blk: "unat (block_of d sector) = b" using block_of_eq [OF assms(1)] b by simp
  then have "unat (block_of d sector) < nblocks" using b by simp
  from block_read [OF assms(1) this, of j buf "k * bs"] blk
  obtain d1 f1 where r: "read_block j d f buf (k * bs) (block_of d sector) =
      Inr (0, memcpy buf (k * bs) (content b) 0 bs, d1, f1)" and I1: "I d1 f1"
    by auto
  have c: "memcpy buf (k * bs) (content b) 0 bs = memcpy buf (k * bs) (disk_bytes bs content) (b * bs) bs"
    by (rule memcpy_cong) (simp add: disk_bytes_block)
  let ?next = "(block_of d sector + 1) * spb"
  have nx: "unat ?next = (b + 1) * unat spb"
  proof -
    have b1: "unat (block_of d sector + 1) = b + 1"
      using blk b geo by (subst unat_add64) simp_all
    have "(b + 1) * unat spb \<le> 2 ^ 31 * 8"
      using b geo by (intro mult_le_mono) auto
    then show ?thesis by (subst unat_mult64) (simp_all add: b1 del: mult_Suc)
  qed
  have step: "read_span j stop sector k d f buf =
      read_span j stop ?next (Suc k) d1 f1 (memcpy buf (k * bs) (disk_bytes bs content) (b * bs) bs)"
  proof -
    have a: "512 * unat spb = bs" "\<not> 8192 < k * bs + bs" "spb \<noteq> 0"
      using geo k by (auto simp: algebra_simps)
    have "sector < stop" using lt by (simp add: word_less_unat)
    then show ?thesis
      using r a geo [THEN conjunct1] geo [THEN conjunct2, THEN conjunct1]
      by (subst read_span.simps) (simp add: Let_def c)
  qed
  from step I1 nx show ?thesis by (rule that)
qed

lemma read_span_ok:
  assumes "I d f" and "unat sector div unat spb = b"
    and "if unat sector < unat stop then (unat stop + unat spb - 1) div unat spb = b + m else m = 0"
    and "b + m \<le> nblocks" and "(k + m) * bs \<le> 8192"
  shows "\<exists>d' f'. read_span j stop sector k d f buf =
      Inr (0, memcpy buf (k * bs) (disk_bytes bs content) (b * bs) (m * bs), d', f') \<and> I d' f'"
  using assms
proof (induction m arbitrary: sector b k d f buf)
  case 0
  note geo = geometry [OF 0(1)]
  have "\<not> unat sector < unat stop"
  proof
    assume "unat sector < unat stop"
    with 0(2,3) have "(unat stop + unat spb - 1) div unat spb = unat sector div unat spb" by simp
    moreover have "unat sector div unat spb < (unat stop + unat spb - 1) div unat spb"
      using \<open>unat sector < unat stop\<close> geo by (intro ceil_div_gt) auto
    ultimately show False by simp
  qed
  then have "read_span j stop sector k d f buf = Inr (0, buf, d, f)"
    by (subst read_span.simps) (simp add: word_less_unat)
  with 0(1) show ?case by simp
next
  case (Suc m)
  note geo = geometry [OF Suc.prems(1)]
  from Suc.prems(3) have lt: "unat sector < unat stop" by (simp split: if_splits)
  have bn: "b < nblocks" "k * bs + bs \<le> 8192" using Suc.prems(4,5) by (simp_all add: algebra_simps)
  from read_span_step [OF Suc.prems(1) lt Suc.prems(2) bn, of j buf] obtain d1 f1 where
    step: "read_span j stop sector k d f buf =
      read_span j stop ((block_of d sector + 1) * spb) (Suc k) d1 f1
        (memcpy buf (k * bs) (disk_bytes bs content) (b * bs) bs)" and I1: "I d1 f1"
    and nx: "unat ((block_of d sector + 1) * spb) = (b + 1) * unat spb" by blast
  let ?next = "(block_of d sector + 1) * spb"
  have "unat ?next div unat spb = b + 1" unfolding nx using geo by simp
  moreover have "if unat ?next < unat stop then (unat stop + unat spb - 1) div unat spb = b + 1 + m else m = 0"
  proof -
    have "(unat stop + unat spb - 1) div unat spb = b + 1 + m" using Suc.prems(3) lt by simp
    moreover have "m = 0" if "\<not> (b + 1) * unat spb < unat stop"
      using ceil_div_le [of "unat spb" "unat stop" "b + 1"] that geo calculation by auto
    ultimately show ?thesis unfolding nx by simp
  qed
  moreover have "b + 1 + m \<le> nblocks" "(Suc k + m) * bs \<le> 8192" using Suc.prems by simp_all
  ultimately obtain d' f' where "read_span j stop ?next (Suc k) d1 f1
        (memcpy buf (k * bs) (disk_bytes bs content) (b * bs) bs) =
      Inr (0, memcpy (memcpy buf (k * bs) (disk_bytes bs content) (b * bs) bs) (k * bs + bs)
        (disk_bytes bs content) (b * bs + bs) (m * bs), d', f')" and "I d' f'"
    using Suc.IH [OF I1, of ?next "b + 1" "Suc k"] by (fastforce simp: algebra_simps)
  then show ?case unfolding step by (auto simp: memcpy_append)
qed

text \<open>A span over more blocks than the stack buffer holds runs over its end.\<close>

lemma read_span_overflow:
  assumes "I d f" and "unat sector div unat spb = b" and "unat sector < unat stop"
    and "(unat stop + unat spb - 1) div unat spb = b + m"
    and "b + m \<le> nblocks" and "8192 < (k + m) * bs"
  shows "read_span j stop sector k d f buf = Inl Stack_overflow"
  using assms
proof (induction m arbitrary: sector b k d f buf)
  case 0
  note geo = geometry [OF 0(1)]
  have "unat sector div unat spb < (unat stop + unat spb - 1) div unat spb"
    using 0(3) geo by (intro ceil_div_gt) auto
  with 0 show ?case by simp
next
  case (Suc m)
  note geo = geometry [OF Suc.prems(1)]
  have bn: "b < nblocks" using Suc.prems(5) by simp
  show ?case
  proof (cases "k * bs + bs \<le> 8192")
    case False
    moreover have "512 * unat spb = bs" "spb \<noteq> 0" using geo by auto
    ultimately show ?thesis
      using Suc.prems(3) geo by (subst read_span.simps) (simp add: Let_def word_less_unat)
  next
    case True
    from read_span_step [OF Suc.prems(1,3,2) bn True, of j buf] obtain d1 f1 where
      step: "read_span j stop sector k d f buf =
        read_span j stop ((block_of d sector + 1) * spb) (Suc k) d1 f1
          (memcpy buf (k * bs) (disk_bytes bs content) (b * bs) bs)" and I1: "I d1 f1"
      and nx: "unat ((block_of d sector + 1) * spb) = (b + 1) * unat spb" by blast
    have div: "unat ((block_of d sector + 1) * spb) div unat spb = b + 1" unfolding nx using geo by simp
    have "0 < m" using True Suc.prems(6) by (cases m) (simp_all add: algebra_simps)
    then have "unat ((block_of d sector + 1) * spb) < unat stop"
      unfolding nx using Suc.prems(4) ceil_div_le [of "unat spb" "unat stop" "b + 1"] geo by (cases "unat stop \<le> (b + 1) * unat spb") auto
    then show ?thesis
      unfolding step using Suc.prems(4-6) by (intro Suc.IH [OF I1 div]) simp_all
  qed
qed

lemma pd_read_ok:
  assumes I: "I d f" and n: "unat (secs q) < 2 ^ 31"
    and range: "unat (sec q) + unat (secs q) \<le> nblocks * unat spb"
    and fits: "fits_stack (unat spb) bs (unat (sec q)) (unat (secs q))"
  shows "\<exists>d' f'. pd_read j d f q =
      Inr (0, memcpy (req_buf q) 0 (disk_bytes bs content) (unat (sec q) * 512) (unat (secs q) * 512), d', f') \<and>
      I d' f'"
proof -
  let ?s = "unat spb" and ?first = "unat (sec q)" and ?n = "unat (secs q)" and ?D = "disk_bytes bs content"
  note geo = geometry [OF I]
  have bs: "unat (block_size d) = bs" "sectors_per_block d = spb" "bs = ?s * 512" "0 < ?s" "?s \<le> 8"
    "nblocks \<le> 2 ^ 31" using geo by auto
  have sx: "unat (sext64 (secs q)) = ?n" using n by (simp add: unat_sext64)
  have cap: "unat (sext64 (secs q) * 512) = ?n * 512"
    using n sx by (subst unat_mult64) simp_all
  have spb0: "spb \<noteq> 0" using bs by auto
  have al: "sec q mod spb = 0 \<and> sext64 (secs q) mod spb = 0 \<longleftrightarrow> ?first mod ?s = 0 \<and> ?n mod ?s = 0"
    unfolding unat_mod [symmetric] sx [symmetric] unat_eq_0 by (rule refl)
  show ?thesis
  proof (cases "?first mod ?s = 0 \<and> ?n mod ?s = 0")
    case True
    have fs: "?first = ?first div ?s * ?s" and ns: "?n = ?n div ?s * ?s" using True by auto
    have "(?first div ?s + ?n div ?s) * ?s = ?first + ?n"
      using fs ns by (simp add: add_mult_distrib)
    then have "(?first div ?s + ?n div ?s) * ?s \<le> nblocks * ?s" using range by simp
    then have r: "unat (sec q div spb) + 0 + ?n div ?s \<le> nblocks"
      using bs by (simp add: unat_div)
    have c: "?n * 512 = ?n div ?s * bs" unfolding bs(3) by (subst ns) simp
    have "(0 + ?n div ?s) * bs \<le> ?n * 512" unfolding c by simp
    from read_blocks_ok [OF I r this, of j "req_buf q"] obtain d' f' where
      "read_blocks j (?n * 512) (sec q div spb) (?n div ?s) 0 d f (req_buf q) =
        Inr (0, memcpy (req_buf q) 0 ?D (?first div ?s * bs) (?n div ?s * bs), d', f')" and "I d' f'"
      by (auto simp: unat_div)
    moreover have "?first div ?s * bs = ?first * 512" unfolding bs(3) by (subst (2) fs) simp
    moreover have "unat (sext64 (secs q) div spb) = ?n div ?s" by (simp add: unat_div sx)
    ultimately show ?thesis
      using True al spb0 bs(2) cap c by (simp add: pd_read_def Let_def)
  next
    case False
    let ?b = "?first div ?s" and ?under = "blocks_under ?s ?first (?first + ?n)"
    let ?m = "if ?n = 0 then 0 else ?under"
    have stop: "unat (sec q + sext64 (secs q)) = ?first + ?n"
    proof -
      have "nblocks * ?s \<le> 2 ^ 31 * 8" using bs by (intro mult_le_mono) auto
      then show ?thesis using range sx by (subst unat_add64) simp_all
    qed
    have ceil: "(?first + ?n + ?s - 1) div ?s \<le> nblocks" using range bs by (intro ceil_div_le) auto
    have m0: "?b + ?under = (?first + ?n + ?s - 1) div ?s"
    proof -
      have "?b \<le> (?first + ?n + ?s - 1) div ?s" using bs by (intro div_le_mono) simp
      then show ?thesis unfolding blocks_under_def by (rule le_add_diff_inverse)
    qed
    have big: "?m * bs \<le> 8192" using fits False by (simp add: fits_stack_def)
    have A: "if ?first < ?first + ?n then (?first + ?n + ?s - 1) div ?s = ?b + ?m else ?m = 0"
      using m0 by simp
    have B: "?b + ?m \<le> nblocks"
    proof (cases "?n = 0")
      case True
      have "?b \<le> nblocks * ?s div ?s" using range by (intro div_le_mono) simp
      with True bs show ?thesis by simp
    qed (use m0 ceil in simp)
    have A': "if unat (sec q) < unat (sec q + sext64 (secs q))
        then (unat (sec q + sext64 (secs q)) + ?s - 1) div ?s = ?b + ?m else ?m = 0"
      using A unfolding stop .
    have "(0 + ?m) * bs \<le> 8192" using big by simp
    from read_span_ok [OF I refl A' B this, of j zeros]
    obtain d' f' where sp: "read_span j (sec q + sext64 (secs q)) (sec q) 0 d f zeros =
        Inr (0, memcpy zeros 0 ?D (?b * bs) (?m * bs), d', f')" and I': "I d' f'"
      unfolding mult_zero_left by blast
    let ?a = "?first mod ?s * 512"
    have a: "unat ((sec q mod spb) * 512) = ?a"
    proof -
      have "?first mod ?s < ?s" using bs by simp
      then have "?first mod ?s < 8" using bs by linarith
      then have "unat (sec q mod spb) * unat (512 :: u64) < 2 ^ 64" by (simp add: unat_mod)
      then show ?thesis by (simp add: unat_mult64 unat_mod)
    qed
    have inside: "?a + ?n * 512 \<le> ?m * bs \<or> ?n = 0"
    proof (cases "?n = 0")
      case False
      have "?first + ?n \<le> (?b + ?under) * ?s" unfolding m0 using bs by (intro ceil_div_mult) simp
      moreover have "?first = ?b * ?s + ?first mod ?s" by simp
      ultimately have "?first mod ?s + ?n \<le> ?under * ?s" unfolding add_mult_distrib by linarith
      then have "(?first mod ?s + ?n) * 512 \<le> ?under * ?s * 512" by (rule mult_le_mono1)
      then show ?thesis using False bs(3) by (simp add: add_mult_distrib)
    qed simp
    have room: "?a + ?n * 512 \<le> 8192"
    proof (cases "?n = 0")
      case True
      have "?first mod ?s < ?s" using bs by simp
      then have "?first mod ?s < 8" using bs by linarith
      with True show ?thesis by simp
    qed (use inside big in linarith)
    have "memcpy (req_buf q) 0 (memcpy zeros 0 ?D (?b * bs) (?m * bs)) ?a (?n * 512) =
        memcpy (req_buf q) 0 ?D (?first * 512) (?n * 512)"
    proof (rule memcpy_cong)
      fix k assume k: "k < ?n * 512"
      have "?b * bs + ?a = (?b * ?s + ?first mod ?s) * 512"
        unfolding bs(3) add_mult_distrib by simp
      then have at: "?b * bs + (?a + k) = ?first * 512 + k" by simp
      have "memcpy zeros 0 ?D (?b * bs) (?m * bs) (?a + k) = ?D (?b * bs + (?a + k))"
        using k inside by (auto simp: memcpy_def)
      then show "memcpy zeros 0 ?D (?b * bs) (?m * bs) (?a + k) = ?D (?first * 512 + k)"
        by (simp only: at)
    qed
    moreover have "\<not> (sec q mod spb = 0 \<and> sext64 (secs q) mod spb = 0)" using al False by (simp only:) simp
    ultimately show ?thesis
      using sp I' spb0 bs(2) cap a room unfolding pd_read_def by (auto simp: Let_def)
  qed
qed

text \<open>Off block boundaries, more blocks than fit are more than the buffer holds.\<close>

lemma pd_read_overflow:
  assumes I: "I d f" and n: "unat (secs q) < 2 ^ 31" "unat (secs q) \<noteq> 0"
    and range: "unat (sec q) + unat (secs q) \<le> nblocks * unat spb"
    and fits: "\<not> fits_stack (unat spb) bs (unat (sec q)) (unat (secs q))"
  shows "pd_read j d f q = Inl Stack_overflow"
proof -
  let ?s = "unat spb" and ?first = "unat (sec q)" and ?n = "unat (secs q)"
  note geo = geometry [OF I]
  have s: "0 < ?s" "?s \<le> 8" "spb \<noteq> 0" "sectors_per_block d = spb" "nblocks \<le> 2 ^ 31" using geo by auto
  have sx: "unat (sext64 (secs q)) = ?n" using n by (simp add: unat_sext64)
  have al: "\<not> (sec q mod spb = 0 \<and> sext64 (secs q) mod spb = 0)"
    using fits unfolding fits_stack_def sx [symmetric] unat_mod [symmetric] unat_eq_0 by simp
  have stop: "unat (sec q + sext64 (secs q)) = ?first + ?n"
  proof -
    have "nblocks * ?s \<le> 2 ^ 31 * 8" using s by (intro mult_le_mono) auto
    then show ?thesis using range sx by (subst unat_add64) simp_all
  qed
  have under: "(?first + ?n + ?s - 1) div ?s = ?first div ?s + blocks_under ?s ?first (?first + ?n)"
  proof -
    have "?first div ?s \<le> (?first + ?n + ?s - 1) div ?s" using s by (intro div_le_mono) simp
    then show ?thesis unfolding blocks_under_def by (rule le_add_diff_inverse [symmetric])
  qed
  have "(?first + ?n + ?s - 1) div ?s \<le> nblocks" using range s by (intro ceil_div_le) auto
  moreover have "8192 < blocks_under ?s ?first (?first + ?n) * bs" using fits by (simp add: fits_stack_def)
  ultimately have "read_span j (sec q + sext64 (secs q)) (sec q) 0 d f zeros = Inl Stack_overflow"
    using n(2) under by (intro read_span_overflow [OF I refl]) (simp_all add: stop)
  then show ?thesis using al s by (auto simp: pd_read_def Let_def)
qed

end

section \<open>The two readers as block sources\<close>

text \<open>A disk open for writing with \<open>n\<close> blocks whose versions are \<open>H\<close>, and a disk open at a
  time stamp.\<close>

definition latest_state ::
  "nat \<Rightarrow> nat \<Rightarrow> u64 \<Rightarrow> (nat \<Rightarrow> version list) \<Rightarrow> preservation_disk \<Rightarrow> ofile \<Rightarrow> bool" where
  "latest_state n bs spb H d f \<longleftrightarrow>
     bio_ok (bio d) f \<and> window_ok (bio d) f \<and> geometry_ok d \<and> represents d f H \<and>
     \<not> disk_read_only d \<and> length (index_table d) = n \<and> unat (block_size d) = bs \<and>
     sectors_per_block d = spb"

definition timed_state ::
  "nat \<Rightarrow> nat \<Rightarrow> u64 \<Rightarrow> timespec \<Rightarrow> (nat \<Rightarrow> version list) \<Rightarrow> preservation_disk \<Rightarrow> ofile \<Rightarrow> bool" where
  "timed_state n bs spb t H d f \<longleftrightarrow>
     bio_ok (bio d) f \<and> window_ok (bio d) f \<and> geometry_ok d \<and> arrays_ok d \<and> represents_at d f H \<and>
     disk_read_only d \<and> disk_ts d = t \<and> length (cached_data_size d) = n \<and>
     unat (block_size d) = bs \<and> sectors_per_block d = spb"

lemma same_log_represents:
  assumes "same_log (bio d) f b' f'"
  shows "represents (d\<lparr>bio := b'\<rparr>) f' H = represents d f H"
  using same_logD(3,4) [OF assms]
  by (simp add: represents_def entry_segment_def [abs_def] data_start_def)

lemma geometry_sectors:
  assumes "geometry_ok d"
  shows "unat (block_size d) = unat (sectors_per_block d) * 512" "0 < unat (sectors_per_block d)"
    "unat (sectors_per_block d) \<le> 8"
proof -
  have "unat (sectors_per_block d) = unat (block_size d) div 512"
    using assms by (simp add: geometry_ok_def unat_div)
  with assms show "unat (block_size d) = unat (sectors_per_block d) * 512"
    by (auto simp: geometry_ok_def)
  with assms show "0 < unat (sectors_per_block d)" "unat (sectors_per_block d) \<le> 8"
    by (auto simp: geometry_ok_def)
qed

interpretation latest_source: block_source "latest_state n bs spb H" "\<lambda>b. latest (H b)" n bs spb
  for n bs :: nat and spb :: u64 and H :: "nat \<Rightarrow> version list"
proof (unfold_locales, goal_cases)
  case (1 d f block j buf a)
  then have pre: "bio_ok (bio d) f" "window_ok (bio d) f" "geometry_ok d" "represents d f H"
    "unat block < length (index_table d)" by (auto simp: latest_state_def)
  from read_latest_block_ok [OF pre, of j buf a] obtain b' f' where
    r: "read_latest_block j d f buf a block =
      Inr (0, memcpy buf a (latest (H (unat block))) 0 (unat (block_size d)), d\<lparr>bio := b'\<rparr>, f')"
    and s: "same_log (bio d) f b' f'" by blast
  then have "latest_state n bs spb H (d\<lparr>bio := b'\<rparr>) f'"
    using 1 by (auto simp: latest_state_def same_log_represents same_logD geometry_ok_def)
  then show ?case using 1 r by (auto simp: read_block_def latest_state_def)
next
  case (2 d f)
  then show ?case
    using geometry_sectors [of d] by (auto simp: latest_state_def) (auto simp: geometry_ok_def)
qed

interpretation timed_source: block_source "timed_state n bs spb t H" "\<lambda>b. version_at t (H b)" n bs spb
  for n bs :: nat and spb :: u64 and t :: timespec and H :: "nat \<Rightarrow> version list"
proof (unfold_locales, goal_cases)
  case (1 d f block j buf a)
  then have pre: "bio_ok (bio d) f" "window_ok (bio d) f" "geometry_ok d" "arrays_ok d"
    "represents_at d f H" "unat block < length (cached_data_size d)" by (auto simp: timed_state_def)
  from read_current_block_ok [OF pre, of j buf a] obtain d' f' where
    r: "read_current_block j d f buf a block =
      Inr (0, memcpy buf a (version_at (disk_ts d) (H (unat block))) 0 (unat (block_size d)), d', f')"
    and s: "timed_step d f d' f'" "represents_at d' f' H" by blast
  then have "timed_state n bs spb t H d' f'"
    using 1 by (auto simp: timed_state_def timed_step_def same_logD geometry_ok_def arrays_ok_def)
  then show ?case using 1 r by (auto simp: read_block_def timed_state_def)
next
  case (2 d f)
  then show ?case
    using geometry_sectors [of d] by (auto simp: timed_state_def) (auto simp: geometry_ok_def arrays_ok_def)
qed

end
