(* ===== verification/Request_Write.thy ===== *)
theory Request_Write
  imports Request_Read
begin

text \<open>
  Writing is right: \<open>write_block\<close> puts one version in front of the versions of the block it
  touches and leaves every other block alone, and \<open>pd_write\<close> does so for every block
  under the request, so that the disk's bytes are the old ones overlaid with the request.
  The appended entries reach the chains through the facts of \<open>bio_log\<close>.
\<close>

section \<open>The size of the data\<close>

lemma round16_ge: "n \<le> round16 n"
  unfolding round16_def by (rule if_split [THEN iffD2]) (blast intro: le_add1 order_refl)

lemma actual_size_tail:
  "get_actual_data_size m a n \<le> i \<Longrightarrow> i < n \<Longrightarrow> m (a + i) = 0"
proof (induction n)
  case (Suc n)
  show ?case
  proof (cases "m (a + n) = 0")
    case True
    then show ?thesis using Suc by (cases "i = n") auto
  next
    case False
    then have "Suc n \<le> get_actual_data_size m a (Suc n)" using round16_ge [of "Suc n"] by simp
    with Suc.prems show ?thesis by linarith
  qed
qed simp

lemma actual_size_le:
  assumes "n \<le> N" "16 dvd N"
  shows "get_actual_data_size m a n \<le> N"
  using assms(1)
proof (induction n)
  case (Suc n)
  from assms(2) obtain k where k: "N = 16 * k" ..
  have "round16 (Suc n) \<le> N"
  proof (cases "Suc n mod 16 = 0")
    case False
    have "Suc n = 16 * (Suc n div 16) + Suc n mod 16" by simp
    with False Suc.prems k have "16 * (Suc n div 16) < 16 * k" by linarith
    then have "Suc n div 16 + 1 \<le> k" by simp
    then have "16 * (Suc n div 16) + 16 \<le> N" using k by simp
    moreover have "round16 (Suc n) = 16 * (Suc n div 16) + 16"
      using False \<open>Suc n = 16 * (Suc n div 16) + Suc n mod 16\<close> mod_less_divisor [of 16 "Suc n"]
      by (simp only: round16_def if_True not_False_eq_True)
    ultimately show ?thesis by simp
  qed (use Suc.prems in \<open>simp add: round16_def\<close>)
  then show ?case using Suc by simp
qed simp

lemma actual_size_0: "get_actual_data_size m a n = 0 \<longleftrightarrow> (\<forall>i<n. m (a + i) = 0)"
proof (induction n)
  case (Suc n)
  have "round16 (Suc n) \<noteq> 0" by (simp add: round16_def)
  with Suc show ?case by (auto simp: less_Suc_eq)
qed simp

section \<open>Which sectors go to a block\<close>

lemma split_sectors_ok:
  assumes "unat remain < 2 ^ 31" "0 < unat spb" "unat spb \<le> 8"
  shows "\<exists>cur rem. split_sectors spb sector remain = (cur, rem) \<and>
      unat cur = min (unat spb - unat sector mod unat spb) (unat remain) \<and>
      unat rem = unat remain - unat cur \<and> remain - rem = cur"
proof -
  let ?room = "spb - (sector mod spb)"
  have m: "unat sector mod unat spb < unat spb" using assms by simp
  then have room: "unat ?room = unat spb - unat sector mod unat spb"
    by (simp add: unat_sub64 unat_mod)
  then have ti: "unat (to_int ?room) = unat ?room" using assms by (subst unat_to_int) auto
  have lt: "?room < sext64 remain \<longleftrightarrow> unat ?room < unat remain"
    using assms by (simp add: word_less_unat unat_sext64)
  show ?thesis
  proof (cases "unat ?room < unat remain")
    case True
    then have "to_int ?room \<le> remain" using ti by (simp add: word_le_unat)
    then have "unat (remain - to_int ?room) = unat remain - unat (to_int ?room)"
      by (rule unat_sub)
    then show ?thesis
      using True lt ti room by (simp add: split_sectors_def Let_def)
  next
    case False
    then show ?thesis using lt room by (simp add: split_sectors_def Let_def)
  qed
qed

lemma unat_sub32: "unat b \<le> unat a \<Longrightarrow> unat (a - b :: c_int) = unat a - unat b"
  by (simp add: unat_sub word_le_nat_alt)

lemma unat_times512:
  assumes "unat (x :: c_int) * 512 < 2 ^ 31"
  shows "unat (x * 512) = unat x * 512"
  using assms unat_mult_lem [of x 512] by simp

section \<open>One block\<close>

definition writable_state ::
  "u64 \<Rightarrow> nat \<Rightarrow> nat \<Rightarrow> u64 \<Rightarrow> (nat \<Rightarrow> version list) \<Rightarrow> preservation_disk \<Rightarrow> ofile \<Rightarrow> bool" where
  "writable_state dz n bs spb H d f \<longleftrightarrow>
     latest_state n bs spb H d f \<and> \<not> bio_read_only (bio d) \<and>
     data_start d \<le> unat (next_offset (bio d)) \<and> disk_size d = dz"

text \<open>The entry appended: the header of the new version and the data without its zero tail.\<close>

lemma append_version:
  assumes st: "writable_state dz n bs spb H d f" and b: "unat block < n"
    and off: "index_table d ! unat block = old"
    and nofl: "unat (next_offset (bio d)) + 528384 < 2 ^ 62" "unat (buffer_pos (bio d)) + 4128 \<le> 528384"
    and h: "get_entry_header m 0 = \<lparr>entry_ts = now, entry_next = old, data_size = of_nat k\<rparr>"
    and k: "k \<le> bs" and tail: "\<And>i. k \<le> i \<Longrightarrow> i < bs \<Longrightarrow> c i = 0" and data: "\<And>i. i < k \<Longrightarrow> m (32 + i) = c i"
  shows "\<exists>o' b' f'. bio_write (bio d) f m (32 + of_nat k) = Inr (o', b', f') \<and>
      writable_state dz n bs spb (H(unat block := (now, clip bs c) # H (unat block)))
        (d\<lparr>bio := b', index_table := (index_table d)[unat block := o']\<rparr>) f' \<and>
      next_offset b' = next_offset (bio d) \<and>
      unat (buffer_pos b') \<le> unat (buffer_pos (bio d)) + 4128"
proof -
  let ?b = "bio d" and ?base = "data_start d" and ?sz = "32 + of_nat k :: u64"
  have bs: "bs \<le> 4096" and ok: "bio_ok ?b f" and win: "window_ok ?b f" and w: "\<not> bio_read_only ?b"
    and good: "bio_good ?base (?b, f)" and geo: "geometry_ok d" and len: "length (index_table d) = n"
    and rep: "represents d f H" and bsd: "unat (block_size d) = bs"
    using st by (auto simp: writable_state_def latest_state_def geometry_ok_def bio_good_def)
  have uk: "unat (of_nat k :: u64) = k" "unat (of_nat k :: u16) = k"
    using k bs by (auto simp: unat_of_nat64 unat_of_nat take_bit_nat_eq_self)
  have sz: "unat ?sz = 32 + k" using k bs uk by (subst unat_add64) auto
  have "unat (sext64 (buffer_pos ?b) + ?sz) = unat (buffer_pos ?b) + (32 + k)"
    using ok sz nofl k bs by (subst unat_add64) auto
  then have nf: "\<not> flushes ?b ?sz" using nofl k bs by (simp add: flushes_def word_less_unat)
  have "0 < unat ?sz" "unat ?sz \<le> 528384" using sz k bs by auto
  from bio_write_ok [OF ok w nofl(1) this, of m] obtain o' b' f' where
    ev: "bio_write ?b f m ?sz = Inr (o', b', f')"
    and ok': "bio_ok b' f'" "\<not> bio_read_only b'" and win': "window_ok b' f'"
    and no: "next_offset b' = next_offset ?b" "unat (buffer_pos b') = unat (buffer_pos ?b) + (32 + k)"
    using nf win sz by metis
  have app: "bio_appends (?b, f) m ?sz o' (b', f')"
    using ev nofl(1) sz k bs by (simp add: bio_appends_def)
  let ?d' = "d\<lparr>bio := b', index_table := (index_table d)[unat block := o']\<rparr>"
  let ?H' = "H(unat block := (now, clip bs c) # H (unat block))"
  have top: "0 < log_end ?b" using good by (auto simp: bio_good_def log_end_def data_start_def)
  have ch: "chain bs (log_byte ?b f) (entry_segment ?base (?b, f)) (index_table d ! i) (H i)"
    if "i < n" for i using rep that by (simp add: represents_def len bsd)
  have "chain bs (log_byte b' f') (entry_segment ?base (b', f')) (index_table ?d' ! i) (?H' i)"
    if i: "i < n" for i
  proof (cases "i = unat block")
    case True
    have "chain bs (log_byte b' f') (entry_segment ?base (b', f')) o'
        ((now, \<lambda>i. if i < k then m (32 + i) else 0) # H i)"
      using bio_log.chain_extend [OF good app, of bs "index_table d ! i" "H i", OF _ _ h] ch [OF i] top sz k uk off True
      by simp
    moreover have "(\<lambda>i. if i < k then m (32 + i) else 0) = clip bs c"
      using k data tail by (auto simp: clip_def fun_eq_iff)
    ultimately show ?thesis using True len i by simp
  next
    case False
    then show ?thesis using bio_log.chain_kept [OF good app] ch [OF i] by simp
  qed
  then have "represents ?d' f' ?H'"
    by (simp add: represents_def data_start_def len bsd)
  then have "writable_state dz n bs spb ?H' ?d' f'"
    using st ok' win' no geo
    by (auto simp: writable_state_def latest_state_def geometry_ok_def data_start_def)
  with ev no k bs show ?thesis by auto
qed

text \<open>The disk's bytes with the request written over them.\<close>

definition overlay :: "td_request \<Rightarrow> mem \<Rightarrow> mem" where
  "overlay q D = memcpy D (unat (sec q) * 512) (req_buf q) 0 (unat (secs q) * 512)"

definition new_content :: "nat \<Rightarrow> td_request \<Rightarrow> (nat \<Rightarrow> version list) \<Rightarrow> nat \<Rightarrow> mem" where
  "new_content bs q H b i = overlay q (disk_bytes bs (\<lambda>b. latest (H b))) (b * bs + i)"

text \<open>What the merge of the caller's sectors into the block read leaves there.\<close>

lemma merged_content:
  assumes s: "0 < s" "bs = s * 512" and b: "sector div s = b" and o: "sector mod s = o'"
    and first: "first = unat (sec q)" and n: "n = unat (secs q)"
    and sector: "first \<le> sector" "sector < first + n" "sector = first \<or> o' = 0"
    and cur: "cur = min (s - o') (first + n - sector)" and i: "i < bs"
  shows "memcpy (memcpy buf 32 (latest (H b)) 0 bs) (32 + o' * 512) (req_buf q)
           ((sector - first) * 512) (cur * 512) (32 + i) = new_content bs q H b i"
proof -
  have sec_eq: "sector = b * s + o'" using b o by auto
  have pos: "b * bs + o' * 512 = sector * 512" unfolding s(2) sec_eq by (simp add: add_mult_distrib)
  have db: "disk_bytes bs (\<lambda>b. latest (H b)) (b * bs + i) = latest (H b) i"
    using i by (simp add: disk_bytes_block)
  show ?thesis
  proof (cases "o' * 512 \<le> i \<and> i < (o' + cur) * 512")
    case True
    have "b * bs + i < (first + n) * 512"
    proof -
      have "i < o' * 512 + cur * 512" using True by (simp add: add_mult_distrib)
      moreover have "cur * 512 \<le> (first + n - sector) * 512" using cur by simp
      ultimately have "b * bs + i < sector * 512 + (first + n - sector) * 512" using pos by linarith
      also have "\<dots> = (first + n) * 512"
        using sector(2) by (simp only: add_mult_distrib [symmetric] le_add_diff_inverse less_imp_le)
      finally show ?thesis .
    qed
    moreover have "first * 512 \<le> sector * 512" using sector by simp
    moreover have "(sector - first) * 512 + (i - o' * 512) = b * bs + i - first * 512"
      using True pos calculation(2) by (simp add: diff_mult_distrib)
    ultimately show ?thesis
      using True pos by (simp add: new_content_def overlay_def memcpy_def first [symmetric] n [symmetric]
          add_mult_distrib)
  next
    case False
    have out: "\<not> (first * 512 \<le> b * bs + i \<and> b * bs + i < first * 512 + n * 512)"
    proof (cases "i < o' * 512")
      case True
      with sector(3) have "sector = first" by auto
      with True pos show ?thesis by simp
    next
      case ge: False
      with False have ge': "(o' + cur) * 512 \<le> i" by simp
      have "cur \<noteq> s - o'"
      proof
        assume "cur = s - o'"
        moreover have "o' < s" using o s by auto
        ultimately have "o' + cur = s" by simp
        with ge' i s(2) show False by simp
      qed
      with cur have "cur = first + n - sector" by (simp add: min_def split: if_splits)
      then have "cur + sector = first + n" using sector(2) by simp
      have "first * 512 + n * 512 = (cur + sector) * 512"
        by (simp only: \<open>cur + sector = first + n\<close> add_mult_distrib)
      also have "\<dots> = cur * 512 + (b * bs + o' * 512)" by (simp only: pos add_mult_distrib)
      also have "\<dots> \<le> b * bs + i" using ge' by (simp add: add_mult_distrib)
      finally have "first * 512 + n * 512 \<le> b * bs + i" .
      then show ?thesis by simp
    qed
    have "memcpy (memcpy buf 32 (latest (H b)) 0 bs) (32 + o' * 512) (req_buf q)
           ((sector - first) * 512) (cur * 512) (32 + i) = latest (H b) i"
      using False i by (auto simp: memcpy_def add_mult_distrib)
    moreover have "new_content bs q H b i = latest (H b) i"
      using out by (auto simp: new_content_def overlay_def memcpy_def first [symmetric] n [symmetric] db)
    ultimately show ?thesis by simp
  qed
qed

lemma write_block_ok:
  assumes st: "writable_state dz n bs spb H d f" and b: "b < n" "unat sector div unat spb = b"
    and room: "unat (next_offset (bio d)) + 528384 < 2 ^ 62" "unat (buffer_pos (bio d)) + 4128 \<le> 528384"
    and nsecs: "unat (secs q) < 2 ^ 22"
    and sector: "unat (sec q) \<le> unat sector" "unat sector < unat (sec q) + unat (secs q)"
      "unat sector = unat (sec q) \<or> unat sector mod unat spb = 0"
    and remain: "unat remain = unat (sec q) + unat (secs q) - unat sector"
  shows "\<exists>remain' buf' d' f'. write_block j now q sector remain buf d f = Inr (0, remain', buf', d', f') \<and>
      unat remain' = unat (sec q) + unat (secs q) - (b + 1) * unat spb \<and>
      writable_state dz n bs spb (H(b := add_version bs now (new_content bs q H b) (H b))) d' f' \<and>
      next_offset (bio d') = next_offset (bio d) \<and>
      unat (buffer_pos (bio d')) \<le> unat (buffer_pos (bio d)) + 4128"
proof -
  let ?s = "unat spb" and ?first = "unat (sec q)" and ?n = "unat (secs q)" and ?o = "unat sector mod unat spb"
  let ?old = "index_table d ! b" and ?blk = "block_of d sector"
  from st have ls: "latest_state n bs spb H d f" and geo: "geometry_ok d"
    and pre: "bio_ok (bio d) f" "window_ok (bio d) f" "represents d f H"
    and len: "length (index_table d) = n" and bsd: "unat (block_size d) = bs"
    and spb: "sectors_per_block d = spb"
    by (auto simp: writable_state_def latest_state_def)
  have s: "0 < ?s" "?s \<le> 8" "bs = ?s * 512" using geometry_sectors [OF geo] bsd spb by auto
  have blk: "unat ?blk = b" using latest_source.block_of_eq [OF ls, of sector] b by simp
  let ?cur = "min (?s - ?o) (?first + ?n - unat sector)"
  have ol: "?o < ?s" using s by simp
  have sec_eq: "unat sector = b * ?s + ?o" using b(2) by (metis mult.commute mult_div_mod_eq)
  have "unat remain < 2 ^ 31" using remain sector nsecs by simp
  from split_sectors_ok [OF this s(1,2), of sector] obtain cur rem where
    sp: "split_sectors spb sector remain = (cur, rem)" and ucur: "unat cur = ?cur"
    and urem: "unat rem = unat remain - ?cur" and sub: "remain - rem = cur"
    unfolding remain by metis
  have left: "secs q - rem - cur = secs q - remain" using sub by (simp add: algebra_simps)
  have le: "unat remain \<le> ?n" using remain sector by simp
  have src: "sint ((secs q - rem - cur) * 512) = int ((unat sector - ?first) * 512)"
  proof -
    have "unat (secs q - remain) = unat sector - ?first"
      using le remain sector by (simp add: unat_sub32)
    moreover have "unat sector - ?first \<le> ?n" using sector by simp
    ultimately have "unat ((secs q - remain) * 512) = (unat sector - ?first) * 512"
      using nsecs by (subst unat_times512) simp_all
    then show ?thesis
      unfolding left using sector nsecs by (subst sint_small) simp_all
  qed
  have cur8: "?cur \<le> 8" using s by simp
  have len_c: "unat (sext64 (cur * 512)) = ?cur * 512"
    using ucur cur8 by (subst unat_sext64; subst unat_times512) simp_all
  have "?o < 8" using ol s(2) by (rule less_le_trans)
  then have dst: "unat ((sector mod spb) * 512) = ?o * 512"
    by (subst unat_mult64) (simp_all add: unat_mod)
  have room2: "?o * 512 + ?cur * 512 \<le> 4096" "(unat sector - ?first) * 512 + ?cur * 512 \<le> ?n * 512"
  proof -
    have "?o + ?cur \<le> ?s" using ol by simp
    then have "(?o + ?cur) * 512 \<le> 8 * 512" using s by (intro mult_le_mono1) simp
    then show "?o * 512 + ?cur * 512 \<le> 4096" by (simp add: add_mult_distrib)
    have "(unat sector - ?first) + ?cur \<le> ?n" using sector by linarith
    then have "((unat sector - ?first) + ?cur) * 512 \<le> ?n * 512" by (rule mult_le_mono1)
    then show "(unat sector - ?first) * 512 + ?cur * 512 \<le> ?n * 512" by (simp only: add_mult_distrib)
  qed
  have sn: "sint (secs q) = int ?n" using nsecs by (subst sint_small) simp_all
  from read_latest_block_ok [OF pre(1,2) geo pre(3), of ?blk j buf 32] b blk len obtain b1 f1 where
    rd: "read_latest_block j d f buf 32 ?blk =
      Inr (0, memcpy buf 32 (latest (H b)) 0 bs, d\<lparr>bio := b1\<rparr>, f1)"
    and same: "same_log (bio d) f b1 f1" by (auto simp: bsd)
  let ?buf2 = "memcpy (memcpy buf 32 (latest (H b)) 0 bs) (32 + ?o * 512) (req_buf q)
      ((unat sector - ?first) * 512) (?cur * 512)"
  let ?c = "new_content bs q H b"
  have content: "?buf2 (32 + i) = ?c i" if "i < bs" for i
    using s b(2) sector that by (intro merged_content) auto
  let ?k = "get_actual_data_size ?buf2 32 bs"
  let ?hd = "\<lparr>entry_ts = now, entry_next = ?old, data_size = of_nat ?k\<rparr>"
  let ?buf3 = "memcpy ?buf2 0 (put_entry_header (junk_header j) ?hd) 0 32"
  let ?d1 = "d\<lparr>bio := b1\<rparr>"
  have "16 dvd bs" using s(3) by simp
  then have k: "?k \<le> bs" by (intro actual_size_le) simp_all
  have k0: "?k = 0 \<longleftrightarrow> (\<forall>i<bs. ?c i = 0)" using content by (simp add: actual_size_0)
  have tail: "?c i = 0" if "?k \<le> i" "i < bs" for i using actual_size_tail [OF that] content [OF that(2)] by simp
  have old0: "?old = 0 \<longleftrightarrow> H b = []"
    using pre(3) b(1) len representsD [of d f H b] by (cases "H b") (auto elim: chain.cases)
  have st1: "writable_state dz n bs spb H ?d1 f1"
    using st same
    by (auto simp: writable_state_def latest_state_def same_log_represents same_logD geometry_ok_def data_start_def)
  have rem': "unat rem = ?first + ?n - (b + 1) * ?s"
  proof -
    have "(b + 1) * ?s = b * ?s + ?o + (?s - ?o)" using ol by simp
    then have "(b + 1) * ?s = unat sector + (?s - ?o)" by (simp only: sec_eq [symmetric])
    then show ?thesis unfolding urem remain by (simp add: min_def)
  qed
  have ev: "write_block j now q sector remain buf d f =
      (if ?k = 0 \<and> ?old = 0 then Inr (0, rem, ?buf3, ?d1, f1)
       else case bio_write b1 f1 ?buf3 (32 + of_nat ?k) of
              Inl e \<Rightarrow> Inl e
            | Inr (off, b2, f2) \<Rightarrow>
                Inr (0, rem, ?buf3, ?d1\<lparr>bio := b2, index_table := (index_table ?d1)[b := off]\<rparr>, f2))"
  proof -
    have "int ((unat sector - ?first) * 512 + ?cur * 512) \<le> int (?n * 512)"
      by (simp only: of_nat_le_iff room2(2))
    then have "\<not> int ?n * 512 < int ((unat sector - ?first) * 512) + int (?cur * 512)"
      by (simp only: not_less of_nat_add of_nat_mult of_nat_numeral)
    moreover have "\<not> 32 + 4096 < 32 + ?o * 512 + ?cur * 512" "\<not> 4096 < bs"
      using room2(1) s by simp_all
    ultimately have c: "\<not> 32 + 4096 < 32 + ?o * 512 + ?cur * 512" "\<not> 4096 < bs"
      "\<not> int ?n * 512 < int ((unat sector - ?first) * 512) + int (?cur * 512)"
      "\<not> int ((unat sector - ?first) * 512) < 0" by simp_all
    have z: "unat (32 :: u64) = 32" "unat DEFAULT_BLOCK_SIZE = 4096" "((0::int) = -1) = False"
      "DEFAULT_SECTOR_SIZE = 512" "sizeof_entry_header = 32"
      "index_table (d\<lparr>bio := b1\<rparr>) = index_table d" "bio (d\<lparr>bio := b1\<rparr>) = b1" by simp_all
    show ?thesis
      by (simp only: write_block_def Let_def z spb bsd c if_False rd sum.case prod.case sp dst len_c src sn
          nat_int blk de_Morgan_disj simp_thms)
  qed
  show ?thesis
  proof (cases "?k = 0 \<and> ?old = 0")
    case True
    then have "add_version bs now ?c (H b) = H b" using k0 old0 by (simp add: add_version_def)
    then have "H(b := add_version bs now ?c (H b)) = H" by simp
    with True ev rem' st1 same show ?thesis by (auto simp: same_logD)
  next
    case False
    then have nv: "add_version bs now ?c (H b) = (now, clip bs ?c) # H b"
      using k0 old0 by (auto simp: add_version_def)
    have h: "get_entry_header ?buf3 0 = ?hd"
      using get_entry_header_cong [of ?buf3 0 "put_entry_header (junk_header j) ?hd" 0] by (simp add: memcpy_def)
    have data: "?buf3 (32 + i) = ?c i" if "i < ?k" for i
      using content [of i] that k by (simp add: memcpy_def)
    have "unat (next_offset (bio ?d1)) + 528384 < 2 ^ 62" "unat (buffer_pos (bio ?d1)) + 4128 \<le> 528384"
      using room same by (simp_all add: same_logD)
    note fits = this
    have "unat ?blk < n" "index_table ?d1 ! unat ?blk = ?old" using b(1) blk by simp_all
    from append_version [OF st1 this fits h k tail data] obtain off b2 f2 where
      w: "bio_write (bio ?d1) f1 ?buf3 (32 + of_nat ?k) = Inr (off, b2, f2)"
      and st2: "writable_state dz n bs spb (H(unat ?blk := (now, clip bs ?c) # H (unat ?blk)))
        (?d1\<lparr>bio := b2, index_table := (index_table ?d1)[unat ?blk := off]\<rparr>) f2"
      and no: "next_offset b2 = next_offset (bio ?d1)"
        "unat (buffer_pos b2) \<le> unat (buffer_pos (bio ?d1)) + 4128"
      by blast
    have ev': "write_block j now q sector remain buf d f =
        Inr (0, rem, ?buf3, ?d1\<lparr>bio := b2, index_table := (index_table ?d1)[b := off]\<rparr>, f2)"
      using ev False w by auto
    show ?thesis
      using ev' rem' st2 [unfolded blk] no same nv by (auto simp: same_logD)
  qed
qed

section \<open>The request\<close>

text \<open>The versions after the blocks of the request below \<open>m\<close> have been written, and after
  the whole request.\<close>

definition written ::
  "nat \<Rightarrow> nat \<Rightarrow> timespec \<Rightarrow> td_request \<Rightarrow> (nat \<Rightarrow> version list) \<Rightarrow> nat \<Rightarrow> nat \<Rightarrow> version list" where
  "written s bs now q H m b =
     (if unat (sec q) div s \<le> b \<and> b < m then add_version bs now (new_content bs q H b) (H b) else H b)"

definition write_request ::
  "nat \<Rightarrow> nat \<Rightarrow> timespec \<Rightarrow> td_request \<Rightarrow> (nat \<Rightarrow> version list) \<Rightarrow> nat \<Rightarrow> version list" where
  "write_request s bs now q H b =
     (if 0 < unat (secs q) \<and> unat (sec q) div s \<le> b \<and> b * s < unat (sec q) + unat (secs q)
      then add_version bs now (new_content bs q H b) (H b) else H b)"

lemma add_version_cong: "(\<And>i. i < bs \<Longrightarrow> c i = c' i) \<Longrightarrow> add_version bs now c vs = add_version bs now c' vs"
  by (auto simp: add_version_def clip_def fun_eq_iff)

lemma written_Suc:
  assumes "unat (sec q) div s \<le> m"
  shows "(written s bs now q H m)
    (m := add_version bs now (new_content bs q (written s bs now q H m) m) (written s bs now q H m m)) =
   written s bs now q H (Suc m)"
proof -
  have "new_content bs q (written s bs now q H m) m i = new_content bs q H m i" if "i < bs" for i
    using that by (simp add: new_content_def overlay_def memcpy_def disk_bytes_block written_def)
  then have "add_version bs now (new_content bs q (written s bs now q H m) m) (H m) =
      add_version bs now (new_content bs q H m) (H m)" by (rule add_version_cong)
  then show ?thesis using assms by (auto simp: written_def fun_eq_iff)
qed

lemma write_loop_ok:
  assumes "writable_state dz n bs spb (written (unat spb) bs now q H b) d f"
    and "unat (secs q) < 2 ^ 22" and "unat (next_offset (bio d)) + 528384 < 2 ^ 62"
    and "unat (buffer_pos (bio d)) + k * 4128 \<le> 528384"
    and "b + k \<le> n" "k \<le> fuel" "unat (sec q) div unat spb \<le> b" "unat (sec q) \<le> unat sector"
    and "if unat sector < unat (sec q) + unat (secs q)
         then (unat (sec q) + unat (secs q) + unat spb - 1) div unat spb = b + k \<and>
           unat sector div unat spb = b \<and>
           (unat sector = unat (sec q) \<or> unat sector mod unat spb = 0) \<and>
           unat remain = unat (sec q) + unat (secs q) - unat sector
         else k = 0"
  shows "\<exists>d' f'. write_loop fuel j now q sector remain buf d f = Inr (0, d', f') \<and>
      writable_state dz n bs spb (written (unat spb) bs now q H (b + k)) d' f' \<and>
      next_offset (bio d') = next_offset (bio d) \<and>
      unat (buffer_pos (bio d')) \<le> unat (buffer_pos (bio d)) + k * 4128"
  using assms
proof (induction k arbitrary: fuel sector remain b d f buf)
  case 0
  from 0(1) have ls: "latest_state n bs spb (written (unat spb) bs now q H b) d f"
    by (simp add: writable_state_def)
  note geo = latest_source.geometry [OF ls]
  have spb: "0 < unat spb" using geo by auto
  let ?stop = "unat (sec q) + unat (secs q)"
  have "\<not> unat sector < ?stop"
  proof
    assume lt: "unat sector < ?stop"
    with 0(9) have "(?stop + unat spb - 1) div unat spb = unat sector div unat spb" by simp
    with ceil_div_gt [OF spb lt] show False by simp
  qed
  moreover have "unat (sec q + sext64 (secs q)) \<le> ?stop"
  proof -
    have "unat (sext64 (secs q)) = unat (secs q)" using 0(2) by (simp add: unat_sext64)
    then show ?thesis by (simp only: unat_word_ariths(1) mod_less_eq_dividend)
  qed
  ultimately have "\<not> sector < sec q + sext64 (secs q)" by (simp add: word_less_unat)
  then show ?case using 0(1) by (simp add: write_loop.simps)
next
  case (Suc k)
  let ?s = "unat spb" and ?stop = "unat (sec q) + unat (secs q)"
  let ?Hb = "written ?s bs now q H b"
  from Suc.prems(1) have ls: "latest_state n bs spb ?Hb d f" by (simp add: writable_state_def)
  note geo = latest_source.geometry [OF ls]
  from Suc.prems(9) have lt: "unat sector < ?stop" by (simp split: if_splits)
  with Suc.prems(9) have ceil: "(?stop + ?s - 1) div ?s = b + Suc k" and bsec: "unat sector div ?s = b"
    and sect: "unat sector = unat (sec q) \<or> unat sector mod ?s = 0"
    and remain: "unat remain = ?stop - unat sector" by simp_all
  have bn: "b < n" using Suc.prems(5) by simp
  have fits: "unat (buffer_pos (bio d)) + 4128 \<le> 528384" using Suc.prems(4) by simp
  from write_block_ok [OF Suc.prems(1) bn bsec Suc.prems(3) fits Suc.prems(2) Suc.prems(8) lt sect remain, of j now buf]
  obtain remain' buf' d1 f1 where
    wb: "write_block j now q sector remain buf d f = Inr (0, remain', buf', d1, f1)"
    and rem': "unat remain' = ?stop - (b + 1) * ?s"
    and st1: "writable_state dz n bs spb (?Hb(b := add_version bs now (new_content bs q ?Hb b) (?Hb b))) d1 f1"
    and no1: "next_offset (bio d1) = next_offset (bio d)"
    and bp1: "unat (buffer_pos (bio d1)) \<le> unat (buffer_pos (bio d)) + 4128" by blast
  note st1' = st1 [unfolded written_Suc [OF Suc.prems(7)]]
  have n31: "n \<le> 2 ^ 31" "0 < ?s" "?s \<le> 8" "sectors_per_block d = spb" using geo by auto
  have blk: "unat (block_of d sector) = b" using latest_source.block_of_eq [OF ls, of sector] bsec bn by simp
  let ?next = "(block_of d sector + 1) * spb"
  have nx: "unat ?next = (b + 1) * ?s"
  proof -
    have b1: "unat (block_of d sector + 1) = b + 1"
      using blk bn n31 by (subst unat_add64) simp_all
    have "(b + 1) * ?s \<le> 2 ^ 31 * 8" using bn n31 by (intro mult_le_mono) auto
    then show ?thesis by (subst unat_mult64) (simp_all add: b1 del: mult_Suc)
  qed
  have stop: "unat (sec q + sext64 (secs q)) = ?stop"
  proof -
    have "?stop \<le> (b + Suc k) * ?s" using ceil_div_mult [OF n31(2), of ?stop] ceil by simp
    also have "\<dots> \<le> 2 ^ 31 * 8" using Suc.prems(5) n31 by (intro mult_le_mono) auto
    finally show ?thesis using Suc.prems(2) by (subst unat_add64) (simp_all add: unat_sext64)
  qed
  have "sector < sec q + sext64 (secs q)" using lt stop by (simp add: word_less_unat)
  then have step: "write_loop fuel j now q sector remain buf d f =
      write_loop (fuel - 1) j now q ?next remain' buf' d1 f1"
    using wb n31(4) Suc.prems(6) by (subst write_loop.simps) simp
  have "\<exists>d' f'. write_loop (fuel - 1) j now q ?next remain' buf' d1 f1 = Inr (0, d', f') \<and>
      writable_state dz n bs spb (written ?s bs now q H (Suc b + k)) d' f' \<and>
      next_offset (bio d') = next_offset (bio d1) \<and>
      unat (buffer_pos (bio d')) \<le> unat (buffer_pos (bio d1)) + k * 4128"
  proof (rule Suc.IH [OF st1' Suc.prems(2)])
    show "unat (next_offset (bio d1)) + 528384 < 2 ^ 62" using Suc.prems(3) no1 by simp
    show "unat (buffer_pos (bio d1)) + k * 4128 \<le> 528384" using Suc.prems(4) bp1 by simp
    show "Suc b + k \<le> n" "k \<le> fuel - 1" "unat (sec q) div ?s \<le> Suc b" using Suc.prems by simp_all
    have "unat sector < (b + 1) * ?s"
      using bsec n31(2) by (metis Suc_eq_plus1 dividend_less_div_times mult.commute mult_Suc_right)
    then show "unat (sec q) \<le> unat ?next" unfolding nx using Suc.prems(8) by simp
    show "if unat ?next < ?stop
         then (?stop + ?s - 1) div ?s = Suc b + k \<and> unat ?next div ?s = Suc b \<and>
           (unat ?next = unat (sec q) \<or> unat ?next mod ?s = 0) \<and> unat remain' = ?stop - unat ?next
         else k = 0"
    proof (cases "(b + 1) * ?s < ?stop")
      case True
      then show ?thesis unfolding nx using ceil rem' n31(2) by (simp del: mult_Suc)
    next
      case False
      then have "(?stop + ?s - 1) div ?s \<le> b + 1" using n31(2) by (intro ceil_div_le) simp_all
      with ceil False show ?thesis unfolding nx by simp
    qed
  qed
  with step no1 bp1 show ?case by auto
qed

lemma add_version_touch:
  "0 < s \<Longrightarrow> (stop + s - 1) div s = m \<Longrightarrow> b < m \<longleftrightarrow> b * s < (stop :: nat)"
  using ceil_div_le [of s stop b] ceil_div_mult [of s stop]
  by (metis div_less_iff_less_mult le_less_trans less_mult_imp_div_less linorder_not_less mult_le_mono1)

lemma pd_write_ok:
  assumes st: "writable_state dz n bs spb H d f"
    and range: "unat (sec q) + unat (secs q) \<le> n * unat spb" and nsecs: "unat (secs q) < 2 ^ 22"
    and room: "unat (next_offset (bio d)) + 528384 < 2 ^ 62"
    and fits: "unat (buffer_pos (bio d)) +
      blocks_under (unat spb) (unat (sec q)) (unat (sec q) + unat (secs q)) * 4128 \<le> 528384"
  shows "\<exists>d' f'. pd_write j now d f q = Inr (0, d', f') \<and>
      writable_state dz n bs spb (write_request (unat spb) bs now q H) d' f' \<and>
      next_offset (bio d') = next_offset (bio d) \<and>
      unat (buffer_pos (bio d')) \<le> unat (buffer_pos (bio d)) +
        blocks_under (unat spb) (unat (sec q)) (unat (sec q) + unat (secs q)) * 4128"
proof -
  let ?s = "unat spb" and ?first = "unat (sec q)" and ?n = "unat (secs q)"
  let ?b = "?first div ?s" and ?under = "blocks_under ?s ?first (?first + ?n)"
  let ?k = "if ?n = 0 then 0 else ?under"
  from st have ls: "latest_state n bs spb H d f" by (simp add: writable_state_def)
  note geo = latest_source.geometry [OF ls]
  have s: "0 < ?s" "?s \<le> 8" "sectors_per_block d = spb" "spb \<noteq> 0" "n \<le> 2 ^ 31" using geo by auto
  have ceil: "(?first + ?n + ?s - 1) div ?s \<le> n" using range s by (intro ceil_div_le) auto
  have under: "?b + ?under = (?first + ?n + ?s - 1) div ?s"
  proof -
    have "?b \<le> (?first + ?n + ?s - 1) div ?s" using s by (intro div_le_mono) simp
    then show ?thesis unfolding blocks_under_def by (rule le_add_diff_inverse)
  qed
  have H0: "written ?s bs now q H ?b = H" by (auto simp: written_def fun_eq_iff)
  have Hk: "written ?s bs now q H (?b + ?k) = write_request ?s bs now q H"
  proof (cases "?n = 0")
    case True
    then show ?thesis by (auto simp: written_def write_request_def fun_eq_iff)
  next
    case False
    have "b < ?b + ?k \<longleftrightarrow> b * ?s < ?first + ?n" for b
      using add_version_touch [OF s(1) under [symmetric], of b] False by (simp only: if_False)
    then show ?thesis using False by (simp only: written_def [abs_def] write_request_def [abs_def]) simp
  qed
  have "?b \<le> n * ?s div ?s" using range by (intro div_le_mono) simp
  then have bn: "?b + ?k \<le> n" using under ceil s by simp
  have "\<exists>d' f'. write_loop max_steps j now q (sec q) (secs q) zeros d f = Inr (0, d', f') \<and>
      writable_state dz n bs spb (written ?s bs now q H (?b + ?k)) d' f' \<and>
      next_offset (bio d') = next_offset (bio d) \<and>
      unat (buffer_pos (bio d')) \<le> unat (buffer_pos (bio d)) + ?k * 4128"
  proof (rule write_loop_ok [OF _ nsecs room _ bn])
    show "writable_state dz n bs spb (written ?s bs now q H ?b) d f" using st by (simp only: H0)
    show "unat (buffer_pos (bio d)) + ?k * 4128 \<le> 528384" using fits by simp
    show "?k \<le> max_steps" using bn s(5) by (simp add: max_steps_def)
    show "if ?first < ?first + ?n then (?first + ?n + ?s - 1) div ?s = ?b + ?k \<and> ?b = ?b \<and>
        (?first = ?first \<or> ?first mod ?s = 0) \<and> ?n = ?first + ?n - ?first else ?k = 0"
      using under by simp
  qed simp_all
  moreover have "?k * 4128 \<le> ?under * 4128" by simp
  ultimately show ?thesis
    unfolding Hk pd_write_def using s by (auto intro: order_trans)
qed

text \<open>After a write the disk's bytes are the old ones with the request over them.\<close>

lemma write_request_bytes:
  assumes "0 < s" "bs = s * 512"
  shows "disk_bytes bs (\<lambda>b. latest (write_request s bs now q H b)) =
     overlay q (disk_bytes bs (\<lambda>b. latest (H b)))"
proof
  fix p
  let ?b = "p div bs" and ?i = "p mod bs" and ?first = "unat (sec q)" and ?n = "unat (secs q)"
  have i: "?i < bs" using assms by simp
  have p: "?b * bs + ?i = p" by (rule div_mult_mod_eq)
  show "disk_bytes bs (\<lambda>b. latest (write_request s bs now q H b)) p =
      overlay q (disk_bytes bs (\<lambda>b. latest (H b))) p"
  proof (cases "0 < ?n \<and> ?first div s \<le> ?b \<and> ?b * s < ?first + ?n")
    case True
    then have "disk_bytes bs (\<lambda>b. latest (write_request s bs now q H b)) p =
        clip bs (new_content bs q H ?b) ?i"
      by (simp add: disk_bytes_def write_request_def latest_add_version)
    also have "\<dots> = overlay q (disk_bytes bs (\<lambda>b. latest (H b))) p"
      using i p by (simp add: clip_def new_content_def)
    finally show ?thesis .
  next
    case False
    have "\<not> (?first * 512 \<le> p \<and> p < ?first * 512 + ?n * 512)"
    proof
      assume in_req: "?first * 512 \<le> p \<and> p < ?first * 512 + ?n * 512"
      then have n: "0 < ?n" by (cases "?n = 0") auto
      have blk: "?b = p div 512 div s" unfolding assms(2) by (subst mult.commute) (rule div_mult2_eq)
      have "?first \<le> p div 512" using in_req by (simp add: less_eq_div_iff_mult_less_eq)
      then have "?first div s \<le> ?b" unfolding blk by (rule div_le_mono)
      moreover have "?b * s \<le> p div 512" unfolding blk by simp
      moreover have "p div 512 < ?first + ?n" using in_req by (simp add: div_less_iff_less_mult add_mult_distrib)
      ultimately show False using False n by simp
    qed
    with False show ?thesis
      by (auto simp: disk_bytes_def write_request_def overlay_def memcpy_def)
  qed
qed

end
