(* ===== verification/Lifecycle.thy ===== *)
theory Lifecycle
  imports Request_Write
begin

text \<open>
  Closing and opening: the file that \<open>pd_finalize\<close> leaves holds the same versions as the
  open disk did, and opening it, for writing or at a time stamp, gives a disk state that
  represents them.  \<open>holds_image\<close> is the invariant of a closed preservation file.
\<close>

definition blocks_of :: "mem \<Rightarrow> nat" where
  "blocks_of h = unat (hdr_disk_size h div hdr_block_size h)"

definition stored :: "nat \<Rightarrow> ofile \<Rightarrow> nat \<Rightarrow> nat \<Rightarrow> bool" where
  "stored base f p m \<longleftrightarrow>
     base \<le> p \<and> 0 < m \<and> p + m \<le> unat (hdr_next_offset (fdata f)) \<and> p + m \<le> fsize f"

text \<open>The header of a file whose index table has \<open>n\<close> entries.\<close>

definition header_ok :: "nat \<Rightarrow> nat \<Rightarrow> mem \<Rightarrow> bool" where
  "header_ok n bs h \<longleftrightarrow>
     unat (hdr_block_size h) = bs \<and> 0 < bs \<and> bs \<le> 4096 \<and> 512 dvd bs \<and> n \<le> 2 ^ 31 \<and>
     unat (index_table_size h) = 8 * n \<and> blocks_of h \<le> n"

definition holds_image :: "nat \<Rightarrow> nat \<Rightarrow> (nat \<Rightarrow> version list) \<Rightarrow> ofile \<Rightarrow> bool" where
  "holds_image n bs H f \<longleftrightarrow>
     faultless f \<and> header_ok n bs (fdata f) \<and> 512 + 8 * n \<le> fsize f \<and>
     512 dvd unat (hdr_next_offset (fdata f)) \<and> unat (hdr_next_offset (fdata f)) < 2 ^ 62 \<and>
     512 + 8 * n \<le> unat (hdr_next_offset (fdata f)) \<and>
     (\<forall>i<n. chain bs (file_byte f) (stored (512 + 8 * n) f) (load_le 8 (fdata f) (512 + 8 * i)) (H i))"

text \<open>What \<open>open\<close> of the same file gives later: the file offset is back at the start.\<close>

definition reopened :: "ofile \<Rightarrow> ofile" where
  "reopened f = f\<lparr>fpos := 0\<rparr>"

lemma reopened_simps [simp]:
  "fdata (reopened f) = fdata f" "fsize (reopened f) = fsize f" "fscript (reopened f) = fscript f"
  "file_byte (reopened f) = file_byte f" "stored base (reopened f) = stored base f"
  by (auto simp: reopened_def file_byte_def stored_def fun_eq_iff)

section \<open>Headers and tables\<close>

lemma hdr_cong:
  assumes "\<And>i. i < 24 \<Longrightarrow> h i = h' i"
  shows "hdr_disk_size h = hdr_disk_size h'" "hdr_block_size h = hdr_block_size h'"
    "hdr_next_offset h = hdr_next_offset h'"
  using assms by (auto simp: hdr_disk_size_def hdr_block_size_def hdr_next_offset_def intro: load_le_cong)

lemma header_ok_cong:
  assumes "hdr_disk_size h = hdr_disk_size h'" "hdr_block_size h = hdr_block_size h'"
  shows "header_ok n bs h = header_ok n bs h'"
  using assms by (simp add: header_ok_def index_table_size_def blocks_of_def)

lemma load_table: "load_le 8 (mem_of_table t) (8 * i) = t ! i"
proof -
  have "load_le 8 (mem_of_table t) (8 * i) = (load_le 8 (store_le 8 zeros 0 (t ! i)) 0 :: u64)"
    by (rule load_le_shift) (simp add: mem_of_table_def store_le_def)
  then show ?thesis by simp
qed

lemma length_table_of_mem [simp]: "length (table_of_mem m n) = n"
  by (simp add: table_of_mem_def)

lemma nth_table_of_mem [simp]: "i < n \<Longrightarrow> table_of_mem m n ! i = load_le 8 m (8 * i)"
  by (simp add: table_of_mem_def)

section \<open>Closing\<close>

lemma blocks_of_eq: "blocks_of h = unat (hdr_disk_size h) div unat (hdr_block_size h)"
  by (simp add: blocks_of_def unat_div)

lemma header_of_state:
  assumes "writable_state dz n bs spb H d f" "unat dz div bs \<le> n"
  shows "header_ok n bs (disk_header d)"
  using assms
  by (auto simp: writable_state_def latest_state_def geometry_ok_def header_ok_def blocks_of_eq)

text \<open>The bytes that closing leaves: the header, the index table, and the log.\<close>

lemma closing_writes:
  assumes fl: "faultless f" and ts: "unat tsize = 8 * n" "n \<le> 2 ^ 31"
  shows "\<exists>f'. snd (file_write (lseek_set (snd (file_write (lseek_set f 0) h 512)) 512) m tsize) = f' \<and>
      faultless f' \<and> fsize f \<le> fsize f' \<and> 512 + 8 * n \<le> fsize f' \<and>
      (\<forall>i<512. fdata f' i = h i) \<and> (\<forall>i<8 * n. fdata f' (512 + i) = m i) \<and>
      (\<forall>i. 512 + 8 * n \<le> i \<longrightarrow> i < fsize f \<longrightarrow> file_byte f' i = file_byte f i)"
proof -
  let ?f1 = "lseek_set f 0"
  have p1: "fpos ?f1 = 0" using lseek_fpos [of 0 f] by simp
  obtain f2 where w1: "snd (file_write ?f1 h 512) = f2" and f2: "fdata f2 = memcpy (file_byte f) 0 h 0 512"
    "fsize f2 = max (fsize f) 512" "faultless f2"
    using file_write_ok [of ?f1 h 512] fl p1 by simp
  let ?f3 = "lseek_set f2 512"
  have p3: "fpos ?f3 = 512" using lseek_fpos [of 512 f2] by simp
  obtain f4 where w2: "snd (file_write ?f3 m tsize) = f4"
    and f4: "fdata f4 = memcpy (file_byte f2) 512 m 0 (8 * n)"
    "fsize f4 = max (fsize f2) (512 + 8 * n)" "faultless f4"
  proof (cases "n = 0")
    case True
    then have "tsize = 0" using ts by (simp add: unat_eq_0)
    then show ?thesis using that file_write_ok [of ?f3 m tsize] f2 True by simp
  next
    case False
    then have "tsize \<noteq> 0" using ts by auto
    then show ?thesis using that file_write_ok [of ?f3 m tsize] f2 p3 ts by simp
  qed
  show ?thesis
    using w1 w2 f2 f4 by (intro exI [of _ f4]) (auto simp: memcpy_def file_byte_def)
qed

lemma pd_finalize_ok:
  assumes st: "writable_state dz n bs spb H d f" and blocks: "unat dz div bs \<le> n"
    and room: "unat (next_offset (bio d)) + 528896 < 2 ^ 62"
  shows "\<exists>d' f'. pd_finalize d f = Inr (d', f') \<and> holds_image n bs H (reopened f') \<and>
      unat (hdr_next_offset (fdata f')) \<le> unat (next_offset (bio d)) + 528384 \<and>
      unat (hdr_block_size (fdata f')) = bs \<and> hdr_disk_size (fdata f') = dz"
proof -
  from st have ok: "bio_ok (bio d) f" and w: "\<not> bio_read_only (bio d)" and geo: "geometry_ok d"
    and rep: "represents d f H" and ro: "\<not> disk_read_only d" and len: "length (index_table d) = n"
    and bsd: "unat (block_size d) = bs" and start: "512 + 8 * n \<le> unat (next_offset (bio d))"
    and dz: "disk_size d = dz"
    by (auto simp: writable_state_def latest_state_def data_start_def)
  let ?base = "512 + 8 * n" and ?b = "bio d"
  have bz: "block_size d \<noteq> 0" and ts: "unat (index_table_size (disk_header d)) = 8 * n" and n31: "n \<le> 2 ^ 31"
    using geo len by (auto simp: geometry_ok_def)
  from bio_flush_ok [OF ok w] obtain b' f1 where fl: "bio_flush ?b f = Inr (b', f1)"
    and f1: "faultless f1" "buffer_pos b' = 0"
    and no: "unat (next_offset b') = (log_end ?b + 511) div 512 * 512"
    and bytes: "\<And>i. i < log_end ?b \<Longrightarrow> log_byte b' f1 i = log_byte ?b f i"
    and seg: "\<And>p m. segment ?b f p m \<Longrightarrow> p + m \<le> unat (next_offset b') \<and> p + m \<le> fsize f1"
    by metis
  let ?h = "set_hdr_next_offset (disk_header d) (next_offset b')"
  let ?m = "mem_of_table (index_table d)"
  obtain f' where wr: "snd (file_write (lseek_set (snd (file_write (lseek_set f1 0) ?h 512)) 512) ?m
        (index_table_size (disk_header d))) = f'"
    and f': "faultless f'" "fsize f1 \<le> fsize f'" "?base \<le> fsize f'" "\<And>i. i < 512 \<Longrightarrow> fdata f' i = ?h i"
      "\<And>i. i < 8 * n \<Longrightarrow> fdata f' (512 + i) = ?m i"
      "\<And>i. ?base \<le> i \<Longrightarrow> i < fsize f1 \<Longrightarrow> file_byte f' i = file_byte f1 i"
    using closing_writes [OF f1(1) ts n31, of ?h ?m] by blast
  let ?d' = "d\<lparr>bio := b', disk_header := ?h\<rparr>"
  have ev: "pd_finalize d f = Inr (?d', f')"
    using wr ro bz fl
    by (simp add: pd_finalize_def bio_finalize_def Let_def write_header_def split_def)
  have hd: "hdr_disk_size (fdata f') = disk_size d" "hdr_block_size (fdata f') = block_size d"
    "hdr_next_offset (fdata f') = next_offset b'"
    using hdr_cong [of "fdata f'" ?h] f'(4) by simp_all
  have ch: "chain bs (file_byte f') (stored ?base f') (index_table d ! i) (H i)" if "i < n" for i
  proof (rule chain_transfer)
    show "chain bs (log_byte ?b f) (entry_segment ?base (?b, f)) (index_table d ! i) (H i)"
      using rep that by (simp add: represents_def len bsd data_start_def)
    show "stored ?base f' p m" if "entry_segment ?base (?b, f) p m" for p m
      using that seg [of p m] f'(2) by (auto simp: entry_segment_def stored_def hd segment_def)
    show "file_byte f' k = log_byte ?b f k"
      if e: "entry_segment ?base (?b, f) p m" and k: "p \<le> k" "k < p + m" for p m k
    proof -
      have s: "segment ?b f p m" "?base \<le> p" using e by (simp_all add: entry_segment_def)
      have "k < log_end ?b" using segment_end [OF s(1)] k by simp
      then have "log_byte ?b f k = log_byte b' f1 k" by (simp add: bytes)
      also have "\<dots> = file_byte f1 k" using seg [OF s(1)] k by (simp add: log_byte_def)
      also have "\<dots> = file_byte f' k" using seg [OF s(1)] s(2) k by (simp add: f'(6))
      finally show ?thesis by simp
    qed
  qed
  have tab: "load_le 8 (fdata f') (512 + 8 * i) = index_table d ! i" if "i < n" for i
  proof -
    have "load_le 8 (fdata f') (512 + 8 * i) = (load_le 8 ?m (8 * i) :: u64)"
    proof (rule load_le_shift)
      fix k :: nat assume "k < 8"
      then have "8 * i + k < 8 * n" using that by simp
      then show "fdata f' (512 + 8 * i + k) = ?m (8 * i + k)" using f'(5) [of "8 * i + k"] by (simp add: add.assoc)
    qed
    then show ?thesis by (simp add: load_table)
  qed
  have "header_ok n bs (fdata f')"
    using header_of_state [OF st blocks] header_ok_cong [of "fdata f'" "disk_header d" n bs] hd by simp
  moreover have "unat (next_offset b') < 2 ^ 62"
  proof -
    have "log_end ?b \<le> unat (next_offset ?b) + 528384" using ok by (simp add: log_end_def bio_ok_def)
    then show ?thesis using room no by (simp; linarith)
  qed
  moreover have "?base \<le> unat (next_offset b')"
    using start no round512_ge [of "log_end ?b"] by (simp add: log_end_def)
  ultimately have "holds_image n bs H (reopened f')"
    using f' ch tab no
    by (simp add: holds_image_def hd)
  moreover have "unat (next_offset b') \<le> unat (next_offset ?b) + 528384"
    unfolding no using ok by (intro round512_le) (auto simp: bio_ok_def log_end_def)
  ultimately show ?thesis using ev hd bsd dz by auto
qed

section \<open>Opening\<close>

lemma unat_round_up8:
  assumes "unat n + 7 < 2 ^ 64"
  shows "unat (round_up n 8) = (unat n + 7) div 8 * 8"
proof -
  have "unat (n + 7) = unat n + 7" using assms by (simp add: unat_add64)
  then show ?thesis
    using and_not_mask_unat [of "n + 7" 3] by (simp add: round_up_def mask_eq_decr_exp add_diff_eq [symmetric])
qed

lemma read_metadata:
  assumes img: "holds_image n bs H f" and pos: "fpos f = 0"
  obtains r1 h f1 r2 tm f2 where "read_header f fresh = (r1, h, f1)"
    and "file_read f1 zeros (index_table_size h) = (r2, tm, f2)"
    and "hdr_disk_size h = hdr_disk_size (fdata f)" "hdr_block_size h = hdr_block_size (fdata f)"
    and "hdr_next_offset h = hdr_next_offset (fdata f)"
    and "\<And>i. i < n \<Longrightarrow> load_le 8 tm (8 * i) = (load_le 8 (fdata f) (512 + 8 * i) :: u64)"
    and "fdata f2 = fdata f" "fsize f2 = fsize f" "faultless f2"
proof -
  from img have fl: "faultless f" and sz: "512 + 8 * n \<le> fsize f"
    and ts: "unat (index_table_size (fdata f)) = 8 * n"
    by (auto simp: holds_image_def header_ok_def)
  let ?h = "memcpy fresh 0 (fdata f) 0 512" and ?f1 = "f\<lparr>fpos := 512\<rparr>"
  have r1: "read_header f fresh = (512, ?h, ?f1)"
    using file_read_ok [OF fl, of fresh 512] sz pos by (simp add: read_header_def)
  have hd: "hdr_disk_size ?h = hdr_disk_size (fdata f)" "hdr_block_size ?h = hdr_block_size (fdata f)"
    "hdr_next_offset ?h = hdr_next_offset (fdata f)"
    by (rule hdr_cong; simp add: memcpy_def)+
  have ts': "unat (index_table_size ?h) = 8 * n"
    using ts by (simp add: index_table_size_def hd)
  let ?tm = "memcpy zeros 0 (fdata f) 512 (8 * n)"
  have r2: "file_read ?f1 zeros (index_table_size ?h) =
      (int (8 * n), ?tm, ?f1\<lparr>fpos := 512 + 8 * n\<rparr>)"
    using file_read_ok [of ?f1 zeros "index_table_size ?h"] fl sz ts' by (simp add: Let_def)
  have "load_le 8 ?tm (8 * i) = (load_le 8 (fdata f) (512 + 8 * i) :: u64)" if "i < n" for i
    using that by (intro load_le_shift) (simp add: memcpy_def add.assoc)
  then show ?thesis using fl by (intro that [OF r1 r2 hd]) simp_all
qed

lemma open_disk_ok:
  assumes hd: "read_header f (fresh_header fr) = (r1, h, f1)" and bz: "hdr_block_size h \<noteq> 0"
    and tab: "file_read f1 zeros (index_table_size h) = (r2, tm, f2)"
  shows "open_disk d fr (Some f) ro =
    (let d1 = d\<lparr>disk_header := h, disk_read_only := ro,
             bio := bio_init (bio d) (fresh_read_buffer fr) (fresh_buffer fr) ro (hdr_next_offset h),
             sectors_per_block := hdr_block_size h div DEFAULT_SECTOR_SIZE,
             index_table := table_of_mem tm (unat (index_table_size h) div 8)\<rparr>
     in Inr (0, if ro then d1\<lparr>index_cache_enable := replicate (unat (round_up (hdr_disk_size h div hdr_block_size h) 8)) 0,
                          cached_data_size := replicate (blocks_of h) 0\<rparr> else d1, Some f2))"
  using assms by (simp add: open_disk_def Let_def blocks_of_def)

lemma bio_init_ok:
  assumes "faultless f" "unat off < 2 ^ 62" "512 dvd unat off"
  shows "bio_ok (bio_init b rb wb ro off) f" "window_ok (bio_init b rb wb ro off) f"
    "bio_read_only (bio_init b rb wb ro off) = ro" "next_offset (bio_init b rb wb ro off) = off"
    "buffer_pos (bio_init b rb wb ro off) = 0"
    "i < unat off \<Longrightarrow> log_byte (bio_init b rb wb ro off) f i = file_byte f i"
  using assms by (simp_all add: bio_init_def bio_ok_def window_ok_def log_byte_def Let_def)

text \<open>A chain of the file is a chain of the descriptor opened on it.\<close>

lemma chain_opened:
  assumes "chain bs (file_byte f) (stored base f) off vs"
    and "\<And>i. i < unat (next_offset b) \<Longrightarrow> log_byte b f2 i = file_byte f i"
    and "next_offset b = hdr_next_offset (fdata f)" "fsize f2 = fsize f"
  shows "chain bs (log_byte b f2) (entry_segment base (b, f2)) off vs"
  using assms(1)
proof (rule chain_transfer)
  show "entry_segment base (b, f2) p m" if "stored base f p m" for p m
    using that assms(3,4) by (auto simp: stored_def entry_segment_def segment_def)
  show "log_byte b f2 i = file_byte f i" if "stored base f p m" "p \<le> i" "i < p + m" for p m i
    using that assms(2) [of i] assms(3) by (simp add: stored_def)
qed

lemma pd_initialize_ok:
  assumes img: "holds_image n bs H f" and pos: "fpos f = 0"
  shows "\<exists>d' f'. pd_initialize d fr (Some f) = Inr (0, d', Some f') \<and>
      writable_state (hdr_disk_size (fdata f)) n bs (hdr_block_size (fdata f) div 512) H d' f' \<and>
      next_offset (bio d') = hdr_next_offset (fdata f) \<and> buffer_pos (bio d') = 0"
proof -
  from read_metadata [OF img pos, of "fresh_header fr"] obtain r1 h f1 r2 tm f2 where
    r: "read_header f (fresh_header fr) = (r1, h, f1)" "file_read f1 zeros (index_table_size h) = (r2, tm, f2)"
    and hd: "hdr_disk_size h = hdr_disk_size (fdata f)" "hdr_block_size h = hdr_block_size (fdata f)"
      "hdr_next_offset h = hdr_next_offset (fdata f)"
    and tab: "\<And>i. i < n \<Longrightarrow> load_le 8 tm (8 * i) = (load_le 8 (fdata f) (512 + 8 * i) :: u64)"
    and f2: "fdata f2 = fdata f" "fsize f2 = fsize f" "faultless f2" by metis
  from img have hok: "header_ok n bs h"
    using header_ok_cong [OF hd(1,2), of n bs] by (simp add: holds_image_def)
  then have bz: "hdr_block_size h \<noteq> 0" and ts: "unat (index_table_size h) = 8 * n"
    and bs: "unat (hdr_block_size h) = bs" by (auto simp: header_ok_def)
  let ?b = "bio_init (bio d) (fresh_read_buffer fr) (fresh_buffer fr) False (hdr_next_offset h)"
  let ?d = "d\<lparr>disk_header := h, disk_read_only := False, bio := ?b,
      sectors_per_block := hdr_block_size h div 512, index_table := table_of_mem tm n\<rparr>"
  have ev: "pd_initialize d fr (Some f) = Inr (0, ?d, Some f2)"
    using open_disk_ok [OF r(1) bz r(2), of d False] ts by (simp add: pd_initialize_def Let_def)
  have off: "unat (hdr_next_offset h) < 2 ^ 62" "512 dvd unat (hdr_next_offset h)"
    "512 + 8 * n \<le> unat (hdr_next_offset h)" using img hd by (auto simp: holds_image_def)
  note bi = bio_init_ok [OF f2(3) off(1,2), where b = "bio d" and rb = "fresh_read_buffer fr"
      and wb = "fresh_buffer fr" and ro = False]
  have ch: "chain bs (log_byte ?b f2) (entry_segment (512 + 8 * n) (?b, f2)) (load_le 8 tm (8 * i)) (H i)"
    if "i < n" for i
  proof (rule chain_opened)
    show "chain bs (file_byte f) (stored (512 + 8 * n) f) (load_le 8 tm (8 * i)) (H i)"
      using img that tab by (simp add: holds_image_def)
    show "log_byte ?b f2 i = file_byte f i" if "i < unat (next_offset ?b)" for i
      using that bi by (simp add: file_byte_def f2)
  qed (simp_all add: bi [unfolded hd] hd f2)
  have geo: "geometry_ok ?d" using hok by (simp add: geometry_ok_def header_ok_def)
  have rep: "represents ?d f2 H" using ch bs by (simp add: represents_def data_start_def)
  have "latest_state n bs (hdr_block_size (fdata f) div 512) H ?d f2"
    using geo rep bi bs hd by (simp add: latest_state_def)
  then have "writable_state (hdr_disk_size (fdata f)) n bs (hdr_block_size (fdata f) div 512) H ?d f2"
    using bi off hd by (simp add: writable_state_def data_start_def)
  with ev show ?thesis using bi hd by simp
qed

lemma pd_initialize_read_only_ok:
  assumes img: "holds_image n bs H f" and pos: "fpos f = 0"
  shows "\<exists>d' f'. pd_initialize_read_only d fr (Some f) t = Inr (0, d', Some f') \<and>
      timed_state (blocks_of (fdata f)) bs (hdr_block_size (fdata f) div 512) t H d' f'"
proof -
  from read_metadata [OF img pos, of "fresh_header fr"] obtain r1 h f1 r2 tm f2 where
    r: "read_header f (fresh_header fr) = (r1, h, f1)" "file_read f1 zeros (index_table_size h) = (r2, tm, f2)"
    and hd: "hdr_disk_size h = hdr_disk_size (fdata f)" "hdr_block_size h = hdr_block_size (fdata f)"
      "hdr_next_offset h = hdr_next_offset (fdata f)"
    and tab: "\<And>i. i < n \<Longrightarrow> load_le 8 tm (8 * i) = (load_le 8 (fdata f) (512 + 8 * i) :: u64)"
    and f2: "fdata f2 = fdata f" "fsize f2 = fsize f" "faultless f2" by metis
  from img have hok: "header_ok n bs h"
    using header_ok_cong [OF hd(1,2), of n bs] by (simp add: holds_image_def)
  then have bz: "hdr_block_size h \<noteq> 0" and ts: "unat (index_table_size h) = 8 * n"
    and bs: "unat (hdr_block_size h) = bs" and bl: "blocks_of h \<le> n" and n31: "n \<le> 2 ^ 31"
    by (auto simp: header_ok_def)
  let ?b = "bio_init (bio d) (fresh_read_buffer fr) (fresh_buffer fr) True (hdr_next_offset h)"
  let ?blocks = "hdr_disk_size h div hdr_block_size h"
  let ?d = "d\<lparr>disk_header := h, disk_read_only := True, bio := ?b,
      sectors_per_block := hdr_block_size h div 512, index_table := table_of_mem tm n,
      index_cache_enable := replicate (unat (round_up ?blocks 8)) 0,
      cached_data_size := replicate (blocks_of h) 0, disk_ts := t\<rparr>"
  have ev: "pd_initialize_read_only d fr (Some f) t = Inr (0, ?d, Some f2)"
    using open_disk_ok [OF r(1) bz r(2), of d True] ts by (simp add: pd_initialize_read_only_def Let_def)
  have off: "unat (hdr_next_offset h) < 2 ^ 62" "512 dvd unat (hdr_next_offset h)"
    using img hd by (auto simp: holds_image_def)
  note bi = bio_init_ok [OF f2(3) off(1,2), where b = "bio d" and rb = "fresh_read_buffer fr"
      and wb = "fresh_buffer fr" and ro = True]
  have ch: "chain bs (log_byte ?b f2) (segment ?b f2) (load_le 8 tm (8 * i)) (H i)" if "i < n" for i
  proof (rule chain_transfer [OF chain_opened])
    show "chain bs (file_byte f) (stored (512 + 8 * n) f) (load_le 8 tm (8 * i)) (H i)"
      using img that tab by (simp add: holds_image_def)
    show "log_byte ?b f2 i = file_byte f i" if "i < unat (next_offset ?b)" for i
      using that bi by (simp add: file_byte_def f2)
  qed (simp_all add: bi [unfolded hd] hd f2 entry_segment_def)
  have geo: "geometry_ok ?d" using hok by (simp add: geometry_ok_def header_ok_def)
  have bits: "blocks_of h \<le> 8 * unat (round_up ?blocks 8)"
  proof -
    have "unat ?blocks + 7 < 2 ^ 64" using bl n31 by (simp add: blocks_of_def)
    then have "unat (round_up ?blocks 8) = (unat ?blocks + 7) div 8 * 8" by (rule unat_round_up8)
    then show ?thesis by (simp add: blocks_of_def)
  qed
  have fresh: "\<not> cache_set ?d m" if "m < blocks_of h" for m
    using that bits by (simp add: cache_set_def)
  have rep: "represents_at ?d f2 H" using ch bl fresh bs by (simp add: represents_at_def)
  have arr: "arrays_ok ?d" using bl bits by (simp add: arrays_ok_def)
  have "timed_state (blocks_of (fdata f)) bs (hdr_block_size (fdata f) div 512) t H ?d f2"
    using geo rep arr bi bs hd by (simp add: timed_state_def blocks_of_def)
  with ev show ?thesis by blast
qed

section \<open>A new image\<close>

text \<open>\<open>mkimage.rb\<close> writes the three header fields and nothing else; \<open>pack('QQQ')\<close> takes
  unsigned 64-bit values, and a block size of zero raises.\<close>

definition mkimage :: "nat \<Rightarrow> nat \<Rightarrow> ofile option" where
  "mkimage disk_sz block_sz =
     (if block_sz = 0 then None
      else
        (let off = 512 + (disk_sz div block_sz * 8 + 511) div 512 * 512 in
         if 2 ^ 64 \<le> disk_sz \<or> 2 ^ 64 \<le> block_sz \<or> 2 ^ 64 \<le> off then None
         else Some \<lparr>fdata = store_le 8 (store_le 8 (store_le 8 zeros 0 (of_nat disk_sz :: u64))
                             8 (of_nat block_sz :: u64)) 16 (of_nat off :: u64),
                    fsize = 24, fpos = 0, fscript = []\<rparr>))"

definition table_entries :: "nat \<Rightarrow> nat \<Rightarrow> nat" where
  "table_entries disk_sz block_sz = (disk_sz div block_sz * 8 + 511) div 512 * 64"

text \<open>A new image opens as a disk whose blocks have no versions.\<close>

lemma pd_initialize_fresh:
  assumes bs: "0 < bs" "bs \<le> 4096" "512 dvd bs" and ds: "ds div bs < 2 ^ 31 - 64" "ds < 2 ^ 64"
  shows "\<exists>f d' f'. mkimage ds bs = Some f \<and> pd_initialize d fr (Some f) = Inr (0, d', Some f') \<and>
      writable_state (of_nat ds) (table_entries ds bs) bs (of_nat bs div 512) (\<lambda>_. []) d' f' \<and>
      unat (next_offset (bio d')) = 512 + 8 * table_entries ds bs \<and> buffer_pos (bio d') = 0"
proof -
  let ?n = "table_entries ds bs"
  define off where "off = 512 + (ds div bs * 8 + 511) div 512 * 512"
  have n8: "8 * ?n = (ds div bs * 8 + 511) div 512 * 512" by (simp add: table_entries_def)
  have off8: "off = 512 + 8 * ?n" by (simp only: off_def n8)
  have n31: "?n \<le> 2 ^ 31" using ds(1) by (simp add: table_entries_def)
  then have off: "off < 2 ^ 62" by (simp add: off8)
  let ?f = "\<lparr>fdata = store_le 8 (store_le 8 (store_le 8 zeros 0 (of_nat ds :: u64)) 8 (of_nat bs :: u64))
      16 (of_nat off :: u64), fsize = 24, fpos = 0, fscript = []\<rparr>"
  have mk: "mkimage ds bs = Some ?f" using bs ds off
    by (simp add: mkimage_def Let_def off_def [symmetric])
  define h where "h = memcpy (fresh_header fr) 0 (fdata ?f) 0 24"
  let ?f1 = "?f\<lparr>fpos := 24\<rparr>"
  have r1: "read_header ?f (fresh_header fr) = (24, h, ?f1)"
    using file_read_ok [of ?f "fresh_header fr" 512] by (simp add: read_header_def h_def)
  have hf: "hdr_disk_size h = of_nat ds" "hdr_block_size h = of_nat bs" "hdr_next_offset h = of_nat off"
    by (subst hdr_cong [of h "fdata ?f"]; simp add: h_def memcpy_def hdr_disk_size_def hdr_block_size_def
        hdr_next_offset_def mem_simps)+
  have ubs: "unat (of_nat bs :: u64) = bs" and uds: "unat (of_nat ds :: u64) = ds"
    and uoff: "unat (of_nat off :: u64) = off"
    using bs ds off by (auto intro!: unat_of_nat64)
  have bz: "hdr_block_size h \<noteq> 0" using ubs bs hf by auto
  have ts: "unat (index_table_size h) = 8 * ?n"
  proof -
    have "unat (of_nat ds div of_nat bs :: u64) = ds div bs" by (simp only: unat_div ubs uds)
    moreover have "ds div bs * 8 + 511 < 2 ^ 64" using ds(1) by simp
    ultimately have "unat (of_nat ds div of_nat bs * 8 :: u64) = ds div bs * 8"
      using unat_mult64 [of "of_nat ds div of_nat bs" 8] by simp
    with \<open>ds div bs * 8 + 511 < 2 ^ 64\<close> show ?thesis
      by (simp add: index_table_size_def hf unat_round_up n8)
  qed
  let ?f2 = ?f1
  have r2: "file_read ?f1 zeros (index_table_size h) = (0, zeros, ?f2)"
    using file_read_ok [of ?f1 zeros "index_table_size h"] by (simp add: Let_def)
  let ?b = "bio_init (bio d) (fresh_read_buffer fr) (fresh_buffer fr) False (hdr_next_offset h)"
  let ?d = "d\<lparr>disk_header := h, disk_read_only := False, bio := ?b,
      sectors_per_block := hdr_block_size h div 512, index_table := table_of_mem zeros ?n\<rparr>"
  have ev: "pd_initialize d fr (Some ?f) = Inr (0, ?d, Some ?f2)"
    using open_disk_ok [OF r1 bz r2, of d False] ts by (simp add: pd_initialize_def Let_def)
  have offh: "unat (hdr_next_offset h) < 2 ^ 62" "512 dvd unat (hdr_next_offset h)"
    "unat (hdr_next_offset h) = 512 + 8 * ?n"
    unfolding hf uoff using off by (auto simp: off8 table_entries_def)
  have fl: "faultless ?f2" by simp
  note bi = bio_init_ok [OF fl offh(1,2), where b = "bio d" and rb = "fresh_read_buffer fr"
      and wb = "fresh_buffer fr" and ro = False]
  have z: "load_le 8 zeros a = (0 :: u64)" for a
    by (rule bit_word_eqI) (simp add: bit_load_le)
  have geo: "geometry_ok ?d" unfolding geometry_ok_def
    using bs ts n31 hf ubs by simp
  have rep: "represents ?d ?f2 (\<lambda>_. [])" by (simp add: represents_def z)
  have "latest_state ?n bs (of_nat bs div 512) (\<lambda>_. []) ?d ?f2"
    using geo rep bi ubs by (simp add: latest_state_def hf)
  then have "writable_state (of_nat ds) ?n bs (of_nat bs div 512) (\<lambda>_. []) ?d ?f2"
    using bi offh hf by (simp add: writable_state_def data_start_def)
  then show ?thesis using mk ev bi offh hf by (intro exI conjI) (assumption | simp)+
qed

end
