(* ===== verification/Sessions.thy ===== *)
theory Sessions
  imports Lifecycle
begin

text \<open>
  Whole lives of a preservation file: sessions that open it for writing, write requests and
  close it, and then an opening at a time stamp.  What a read at time \<open>t\<close> returns is the
  disk as it was after the last request written before \<open>t\<close>.
\<close>

type_synonym write_log = "(timespec \<times> td_request) list"

fun run_writes ::
  "junk \<Rightarrow> write_log \<Rightarrow> preservation_disk \<Rightarrow> ofile \<Rightarrow> fault + preservation_disk \<times> ofile" where
  "run_writes j [] d f = Inr (d, f)"
| "run_writes j ((now, q) # ws) d f =
     (case pd_write j now d f q of
        Inl e \<Rightarrow> Inl e
      | Inr (r, d', f') \<Rightarrow> run_writes j ws d' f')"

text \<open>One session on the file; None when it cannot be opened.\<close>

definition run_session ::
  "junk \<Rightarrow> preservation_disk \<Rightarrow> fresh_mem \<Rightarrow> write_log \<Rightarrow> ofile \<Rightarrow> fault + ofile option" where
  "run_session j d fr ws f =
     (case pd_initialize d fr (Some f) of
        Inr (r, d1, Some f1) \<Rightarrow>
          if r = 0 then
            (case run_writes j ws d1 f1 of
               Inl e \<Rightarrow> Inl e
             | Inr (d2, f2) \<Rightarrow>
                 (case pd_finalize d2 f2 of
                    Inl e \<Rightarrow> Inl e
                  | Inr (d3, f3) \<Rightarrow> Inr (Some (reopened f3))))
          else Inr None
      | Inr (r, d1, None) \<Rightarrow> Inr None
      | Inl e \<Rightarrow> Inl e)"

section \<open>The specification\<close>

fun history :: "nat \<Rightarrow> nat \<Rightarrow> write_log \<Rightarrow> (nat \<Rightarrow> version list) \<Rightarrow> nat \<Rightarrow> version list" where
  "history s bs [] H = H"
| "history s bs ((now, q) # ws) H = history s bs ws (write_request s bs now q H)"

text \<open>The bytes of a disk after the requests, in order.\<close>

fun overlays :: "write_log \<Rightarrow> mem \<Rightarrow> mem" where
  "overlays [] D = D"
| "overlays ((now, q) # ws) D = overlays ws (overlay q D)"

definition log_need :: "nat \<Rightarrow> write_log \<Rightarrow> nat" where
  "log_need s ws = (\<Sum>(now, q) \<leftarrow> ws. blocks_under s (unat (sec q)) (unat (sec q) + unat (secs q)) * 4128)"

definition in_range :: "nat \<Rightarrow> td_request \<Rightarrow> bool" where
  "in_range sectors q \<longleftrightarrow> unat (sec q) + unat (secs q) \<le> sectors \<and> unat (secs q) < 2 ^ 22"

text \<open>A session that stays within one filling of the append buffer.\<close>

definition session_fits :: "nat \<Rightarrow> nat \<Rightarrow> write_log \<Rightarrow> bool" where
  "session_fits n s ws \<longleftrightarrow> (\<forall>w\<in>set ws. in_range (n * s) (snd w)) \<and> log_need s ws \<le> 528384"

lemma log_need_simps [simp]:
  "log_need s [] = 0"
  "log_need s ((now, q) # ws) =
     blocks_under s (unat (sec q)) (unat (sec q) + unat (secs q)) * 4128 + log_need s ws"
  by (simp_all add: log_need_def)

lemma history_append: "history s bs (us @ ws) H = history s bs ws (history s bs us H)"
  by (induction s bs us H rule: history.induct) simp_all

lemma history_bytes:
  assumes "0 < s" "bs = s * 512"
  shows "disk_bytes bs (\<lambda>b. latest (history s bs ws H b)) = overlays ws (disk_bytes bs (\<lambda>b. latest (H b)))"
proof (induction ws arbitrary: H)
  case (Cons w ws)
  then show ?case by (cases w) (simp add: write_request_bytes [OF assms])
qed simp

section \<open>A session\<close>

lemma run_writes_ok:
  assumes "writable_state dz n bs spb H d f" and "unat (next_offset (bio d)) + 528384 < 2 ^ 62"
    and "\<forall>w\<in>set ws. in_range (n * unat spb) (snd w)"
    and "unat (buffer_pos (bio d)) + log_need (unat spb) ws \<le> 528384"
  shows "\<exists>d' f'. run_writes j ws d f = Inr (d', f') \<and>
      writable_state dz n bs spb (history (unat spb) bs ws H) d' f' \<and>
      next_offset (bio d') = next_offset (bio d)"
  using assms
proof (induction ws arbitrary: H d f)
  case (Cons w ws)
  obtain now q where w: "w = (now, q)" by (cases w)
  have "unat (sec q) + unat (secs q) \<le> n * unat spb" "unat (secs q) < 2 ^ 22"
    using Cons.prems(3) by (simp_all add: w in_range_def)
  moreover have "unat (buffer_pos (bio d)) +
      blocks_under (unat spb) (unat (sec q)) (unat (sec q) + unat (secs q)) * 4128 \<le> 528384"
    using Cons.prems(4) by (simp add: w)
  ultimately obtain d1 f1 where p: "pd_write j now d f q = Inr (0, d1, f1)"
    and st: "writable_state dz n bs spb (write_request (unat spb) bs now q H) d1 f1"
    and no: "next_offset (bio d1) = next_offset (bio d)"
    and bp: "unat (buffer_pos (bio d1)) \<le> unat (buffer_pos (bio d)) +
        blocks_under (unat spb) (unat (sec q)) (unat (sec q) + unat (secs q)) * 4128"
    using pd_write_ok [OF Cons.prems(1) _ _ Cons.prems(2), of q j now] by blast
  have "unat (buffer_pos (bio d1)) + log_need (unat spb) ws \<le> 528384"
    using bp Cons.prems(4) by (simp add: w)
  with Cons.IH [OF st] no Cons.prems(2,3) p w show ?case by auto
qed simp

lemma disk_blocks:
  assumes "writable_state dz n bs spb H d f"
  shows "sectors_per_block d = spb" "bs = unat spb * 512" "0 < unat spb" "n \<le> 2 ^ 31"
    "unat (block_size d) = bs"
proof -
  have geo: "geometry_ok d" and d: "sectors_per_block d = spb" "unat (block_size d) = bs"
    "length (index_table d) = n"
    using assms by (simp_all add: writable_state_def latest_state_def)
  then show "sectors_per_block d = spb" "bs = unat spb * 512" "0 < unat spb" "n \<le> 2 ^ 31"
    "unat (block_size d) = bs"
    using geometry_sectors [OF geo] by (simp_all add: geometry_ok_def)
qed

text \<open>A session on any file that opens as a writable state.\<close>

lemma session_of_state:
  assumes i: "pd_initialize d fr (Some f) = Inr (0, d1, Some f1)"
    and st: "writable_state dz n bs spb H d1 f1" and bp: "buffer_pos (bio d1) = 0"
    and fits: "session_fits n (bs div 512) ws" and blocks: "unat dz div bs \<le> n"
    and room: "unat (next_offset (bio d1)) + 528896 < 2 ^ 62"
  shows "\<exists>f'. run_session j d fr ws f = Inr (Some f') \<and> fpos f' = 0 \<and>
      holds_image n bs (history (bs div 512) bs ws H) f' \<and>
      unat (hdr_next_offset (fdata f')) \<le> unat (next_offset (bio d1)) + 528384 \<and>
      hdr_disk_size (fdata f') = dz"
proof -
  have s: "unat spb = bs div 512"
    using disk_blocks(2) [OF st] by simp
  have "unat (next_offset (bio d1)) + 528384 < 2 ^ 62" using room by simp
  moreover have "\<forall>w\<in>set ws. in_range (n * unat spb) (snd w)"
    using fits s by (simp add: session_fits_def)
  moreover have "unat (buffer_pos (bio d1)) + log_need (unat spb) ws \<le> 528384"
    using fits s bp by (simp add: session_fits_def)
  ultimately obtain d2 f2 where w: "run_writes j ws d1 f1 = Inr (d2, f2)"
    and st2: "writable_state dz n bs spb (history (bs div 512) bs ws H) d2 f2"
    and no2: "next_offset (bio d2) = next_offset (bio d1)"
    using run_writes_ok [OF st] s by metis
  have "unat (next_offset (bio d2)) + 528896 < 2 ^ 62" using room no2 by simp
  then obtain d3 f3 where "pd_finalize d2 f2 = Inr (d3, f3)"
    and "holds_image n bs (history (bs div 512) bs ws H) (reopened f3)"
    and "unat (hdr_next_offset (fdata f3)) \<le> unat (next_offset (bio d2)) + 528384"
    and "hdr_disk_size (fdata f3) = dz"
    using pd_finalize_ok [OF st2 blocks] by blast
  with i w no2 show ?thesis by (simp add: run_session_def) (simp add: reopened_def)
qed

lemma run_session_ok:
  assumes img: "holds_image n bs H f" "fpos f = 0" and fits: "session_fits n (bs div 512) ws"
    and room: "unat (hdr_next_offset (fdata f)) + 528896 < 2 ^ 62"
  shows "\<exists>f'. run_session j d fr ws f = Inr (Some f') \<and> fpos f' = 0 \<and>
      holds_image n bs (history (bs div 512) bs ws H) f' \<and>
      unat (hdr_next_offset (fdata f')) \<le> unat (hdr_next_offset (fdata f)) + 528384 \<and>
      hdr_disk_size (fdata f') = hdr_disk_size (fdata f)"
proof -
  have b: "unat (hdr_disk_size (fdata f)) div bs \<le> n"
    using img(1) by (auto simp: holds_image_def header_ok_def blocks_of_eq)
  from pd_initialize_ok [OF img, of d fr] obtain d1 f1 where
    i: "pd_initialize d fr (Some f) = Inr (0, d1, Some f1)"
    and st: "writable_state (hdr_disk_size (fdata f)) n bs (hdr_block_size (fdata f) div 512) H d1 f1"
    and no: "next_offset (bio d1) = hdr_next_offset (fdata f)" "buffer_pos (bio d1) = 0" by blast
  from session_of_state [OF i st no(2) fits b] room show ?thesis by (simp add: no)
qed

section \<open>A life of sessions\<close>

fun run_life ::
  "junk \<Rightarrow> preservation_disk \<Rightarrow> fresh_mem \<Rightarrow> write_log list \<Rightarrow> ofile \<Rightarrow> fault + ofile option" where
  "run_life j d fr [] f = Inr (Some f)"
| "run_life j d fr (ws # wss) f =
     (case run_session j d fr ws f of
        Inr (Some f') \<Rightarrow> run_life j d fr wss f'
      | r \<Rightarrow> r)"

lemma run_life_ok:
  assumes "holds_image n bs H f" "fpos f = 0" and "\<forall>ws\<in>set wss. session_fits n (bs div 512) ws"
    and "unat (hdr_next_offset (fdata f)) + length wss * 528384 + 528896 < 2 ^ 62"
  shows "\<exists>f'. run_life j d fr wss f = Inr (Some f') \<and> fpos f' = 0 \<and>
      holds_image n bs (history (bs div 512) bs (concat wss) H) f' \<and>
      hdr_disk_size (fdata f') = hdr_disk_size (fdata f)"
  using assms
proof (induction wss arbitrary: H f)
  case (Cons ws wss)
  have room: "unat (hdr_next_offset (fdata f)) + 528896 < 2 ^ 62"
    and fits: "session_fits n (bs div 512) ws" using Cons.prems by simp_all
  from run_session_ok [OF Cons.prems(1,2) fits room, of j d fr] obtain f1 where
    r: "run_session j d fr ws f = Inr (Some f1)" "fpos f1 = 0"
    and img: "holds_image n bs (history (bs div 512) bs ws H) f1"
    and no: "unat (hdr_next_offset (fdata f1)) \<le> unat (hdr_next_offset (fdata f)) + 528384"
    and dz: "hdr_disk_size (fdata f1) = hdr_disk_size (fdata f)" by blast
  have "unat (hdr_next_offset (fdata f1)) + length wss * 528384 + 528896 < 2 ^ 62"
    using no Cons.prems(4) by simp
  with Cons.IH [OF img r(2)] Cons.prems(3) r dz show ?case by (auto simp: history_append)
qed simp

lemma fresh_life_ok:
  assumes bs: "0 < bs" "bs \<le> 4096" "512 dvd bs" and ds: "ds div bs < 2 ^ 31 - 64" "ds < 2 ^ 64"
    and wss: "wss \<noteq> []" "\<forall>ws\<in>set wss. session_fits (table_entries ds bs) (bs div 512) ws" "length wss < 2 ^ 40"
  shows "\<exists>f0 f. mkimage ds bs = Some f0 \<and> run_life j d fr wss f0 = Inr (Some f) \<and> fpos f = 0 \<and>
      holds_image (table_entries ds bs) bs (history (bs div 512) bs (concat wss) (\<lambda>_. [])) f \<and>
      hdr_disk_size (fdata f) = of_nat ds"
proof -
  let ?n = "table_entries ds bs"
  from pd_initialize_fresh [OF bs ds, of d fr] obtain f0 d1 f1 where
    mk: "mkimage ds bs = Some f0" and i: "pd_initialize d fr (Some f0) = Inr (0, d1, Some f1)"
    and st: "writable_state (of_nat ds) ?n bs (of_nat bs div 512) (\<lambda>_. []) d1 f1"
    and no: "unat (next_offset (bio d1)) = 512 + 8 * ?n" "buffer_pos (bio d1) = 0" by blast
  have n31: "?n \<le> 2 ^ 31" using disk_blocks(4) [OF st] .
  have b: "unat (of_nat ds :: u64) div bs \<le> ?n"
  proof -
    have "unat (of_nat ds :: u64) = ds" using ds(2) by (rule unat_of_nat64)
    moreover have "ds div bs * 8 \<le> (ds div bs * 8 + 511) div 512 * 512" by (rule round512_ge)
    ultimately show ?thesis by (simp add: table_entries_def)
  qed
  obtain ws rest where w: "wss = ws # rest" using wss(1) by (cases wss) auto
  have fits: "session_fits ?n (bs div 512) ws" using wss(2) by (simp add: w)
  have "unat (next_offset (bio d1)) + 528896 < 2 ^ 62" using no n31 by simp
  from session_of_state [OF i st no(2) fits b this, of j] obtain f2 where
    r: "run_session j d fr ws f0 = Inr (Some f2)" "fpos f2 = 0"
    and img: "holds_image ?n bs (history (bs div 512) bs ws (\<lambda>_. [])) f2"
    and no2: "unat (hdr_next_offset (fdata f2)) \<le> unat (next_offset (bio d1)) + 528384"
    and dz: "hdr_disk_size (fdata f2) = of_nat ds" by blast
  have "unat (hdr_next_offset (fdata f2)) + length rest * 528384 + 528896 < 2 ^ 62"
    using no2 no n31 wss(3) by (simp add: w)
  moreover have "\<forall>ws\<in>set rest. session_fits ?n (bs div 512) ws" using wss(2) by (simp add: w)
  ultimately obtain f where "run_life j d fr rest f2 = Inr (Some f)"
    and "fpos f = 0" "hdr_disk_size (fdata f) = of_nat ds"
    and "holds_image ?n bs (history (bs div 512) bs (concat rest) (history (bs div 512) bs ws (\<lambda>_. []))) f"
    using run_life_ok [OF img r(2), of rest j d fr] dz by auto
  with mk r show ?thesis by (auto simp: w history_append)
qed

section \<open>Points in time\<close>

text \<open>The requests come in the order of their time stamps.\<close>

definition in_order :: "write_log \<Rightarrow> bool" where
  "in_order ws \<longleftrightarrow> sorted_wrt (\<lambda>u w. \<not> ts_before (fst w) (fst u)) ws"

abbreviation before :: "timespec \<Rightarrow> write_log \<Rightarrow> write_log" where
  "before t ws \<equiv> filter (\<lambda>w. ts_before (fst w) t) ws"

lemma ts_before_cotrans: "ts_before a c \<Longrightarrow> ts_before a b \<or> ts_before b c"
  by (auto simp: ts_before_def)

lemma in_order_split:
  "in_order ws \<Longrightarrow> \<exists>us. ws = before t ws @ us \<and> (\<forall>w\<in>set us. \<not> ts_before (fst w) t)"
proof (induction ws)
  case (Cons w ws)
  show ?case
  proof (cases "ts_before (fst w) t")
    case True
    then show ?thesis using Cons by (auto simp: in_order_def)
  next
    case False
    then have "\<forall>u\<in>set ws. \<not> ts_before (fst u) t"
      using Cons.prems ts_before_cotrans by (auto simp: in_order_def)
    moreover from this have "before t ws = []" by simp
    ultimately show ?thesis using False by simp
  qed
qed simp

lemma version_at_write:
  "\<not> ts_before now t \<Longrightarrow> version_at t (write_request s bs now q H b) = version_at t (H b)"
  by (simp add: write_request_def add_version_def)

lemma write_stamps:
  "\<forall>v\<in>set (H b). P (fst v) \<Longrightarrow> P now \<Longrightarrow> \<forall>v\<in>set (write_request s bs now q H b). P (fst v)"
  by (simp add: write_request_def add_version_def)

lemma version_at_later:
  "\<forall>w\<in>set ws. \<not> ts_before (fst w) t \<Longrightarrow> version_at t (history s bs ws H b) = version_at t (H b)"
  by (induction s bs ws H rule: history.induct) (simp_all add: version_at_write)

lemma version_at_latest: "\<forall>v\<in>set vs. ts_before (fst v) t \<Longrightarrow> version_at t vs = latest vs"
  by (cases vs) simp_all

lemma history_stamps:
  "\<forall>v\<in>set (H b). P (fst v) \<Longrightarrow> \<forall>w\<in>set ws. P (fst w) \<Longrightarrow> \<forall>v\<in>set (history s bs ws H b). P (fst v)"
proof (induction ws arbitrary: H)
  case (Cons w ws)
  obtain now q where w: "w = (now, q)" by (cases w)
  have "\<forall>v\<in>set (write_request s bs now q H b). P (fst v)"
    using Cons.prems by (intro write_stamps) (simp_all add: w)
  then show ?case unfolding w history.simps using Cons.prems(2) by (intro Cons.IH) simp_all
qed simp

lemma version_at_history:
  assumes "in_order ws"
  shows "version_at t (history s bs ws (\<lambda>_. []) b) = latest (history s bs (before t ws) (\<lambda>_. []) b)"
proof -
  from in_order_split [OF assms, of t] obtain us where ws: "ws = before t ws @ us"
    and us: "\<forall>w\<in>set us. \<not> ts_before (fst w) t" by blast
  have "version_at t (history s bs ws (\<lambda>_. []) b) =
      version_at t (history s bs (before t ws) (\<lambda>_. []) b)"
    by (subst ws) (simp only: history_append version_at_later [OF us])
  also have "\<dots> = latest (history s bs (before t ws) (\<lambda>_. []) b)"
    by (rule version_at_latest) (rule history_stamps [where P = "\<lambda>x. ts_before x t"], simp_all)
  finally show ?thesis .
qed

text \<open>The bytes a disk shows at a time: the requests before it, in order, over zeros.\<close>

lemma bytes_at:
  assumes "in_order ws" "0 < s" "bs = s * 512"
  shows "disk_bytes bs (\<lambda>b. version_at t (history s bs ws (\<lambda>_. []) b)) = overlays (before t ws) zeros"
  using history_bytes [OF assms(2,3), of "before t ws" "\<lambda>_. []"]
  by (simp add: version_at_history [OF assms(1)] disk_bytes_def [abs_def])

lemma pd_read_at:
  assumes img: "holds_image n bs H f" "fpos f = 0"
    and range: "unat (sec q) + unat (secs q) \<le> blocks_of (fdata f) * (bs div 512)"
    and secs: "unat (secs q) < 2 ^ 31" and fits: "fits_stack (bs div 512) bs (unat (sec q)) (unat (secs q))"
  shows "\<exists>d1 f1 d2 f2. pd_initialize_read_only d fr (Some f) t = Inr (0, d1, Some f1) \<and>
     pd_read j d1 f1 q = Inr (0, memcpy (req_buf q) 0 (disk_bytes bs (\<lambda>b. version_at t (H b)))
       (unat (sec q) * 512) (unat (secs q) * 512), d2, f2)"
proof -
  let ?spb = "hdr_block_size (fdata f) div 512"
  from pd_initialize_read_only_ok [OF img, of d fr t] obtain d1 f1 where
    i: "pd_initialize_read_only d fr (Some f) t = Inr (0, d1, Some f1)"
    and st: "timed_state (blocks_of (fdata f)) bs ?spb t H d1 f1" by blast
  have s: "unat ?spb = bs div 512" using timed_source.geometry [OF st] by simp
  show ?thesis
    using i timed_source.pd_read_ok [OF st secs, of j] range fits s by auto
qed

end
