(* ===== verification/Store_Properties.thy ===== *)
theory Store_Properties
  imports Sessions
begin

text \<open>
  The preservation store as its callers see it: image tool, sessions of the writable driver,
  openings at a time stamp.  Each property is stated over the functions of
  \<open>preservation.c\<close> and closed by the facts of the theories below it.
\<close>

lemma blocks_of_image:
  assumes "holds_image n bs H f" "hdr_disk_size (fdata f) = of_nat ds" "ds < 2 ^ 64"
  shows "blocks_of (fdata f) = ds div bs"
proof -
  have "unat (of_nat ds :: u64) = ds" using assms(3) by (rule unat_of_nat64)
  then show ?thesis using assms(1,2) by (simp add: blocks_of_eq holds_image_def header_ok_def)
qed

lemma sectors_of_block: "0 < bs \<Longrightarrow> 512 dvd bs \<Longrightarrow> 0 < bs div 512 \<and> bs = bs div 512 * (512 :: nat)"
  by auto

text \<open>C2.  Point-in-time reads.  Create an image, write requests to it in any number of
  sessions, in the order of their time stamps, and open it at a time \<open>t\<close>: every read that lies
  on the disk and fits the stack buffer returns the bytes of the disk as the requests before
  \<open>t\<close> left it, a disk of zeros at first.\<close>

theorem point_in_time_read:
  assumes "0 < bs" "bs \<le> 4096" "512 dvd bs" and "ds div bs < 2 ^ 31 - 64" "ds < 2 ^ 64"
    and "wss \<noteq> []" "\<forall>ws\<in>set wss. session_fits (table_entries ds bs) (bs div 512) ws"
    and "length wss < 2 ^ 40" and "in_order (concat wss)"
    and "unat (sec q) + unat (secs q) \<le> ds div bs * (bs div 512)" and "unat (secs q) < 2 ^ 31"
    and "fits_stack (bs div 512) bs (unat (sec q)) (unat (secs q))"
  shows "\<exists>f0 f d1 f1 d2 f2. mkimage ds bs = Some f0 \<and> run_life j d fr wss f0 = Inr (Some f) \<and>
     pd_initialize_read_only d fr (Some f) t = Inr (0, d1, Some f1) \<and>
     pd_read j d1 f1 q = Inr (0, memcpy (req_buf q) 0 (overlays (before t (concat wss)) zeros)
       (unat (sec q) * 512) (unat (secs q) * 512), d2, f2)"
proof -
  from fresh_life_ok [OF assms(1-8), of j d fr] obtain f0 f where
    life: "mkimage ds bs = Some f0" "run_life j d fr wss f0 = Inr (Some f)" "fpos f = 0"
    and img: "holds_image (table_entries ds bs) bs (history (bs div 512) bs (concat wss) (\<lambda>_. [])) f"
    and dz: "hdr_disk_size (fdata f) = of_nat ds" by blast
  note s = sectors_of_block [OF assms(1,3)]
  from pd_read_at [OF img life(3), of q d fr t j] life assms blocks_of_image [OF img dz]
  show ?thesis using bytes_at [OF assms(9), of "bs div 512" bs t] s by auto
qed

abbreviation stamp :: "nat \<Rightarrow> timespec" where
  "stamp n \<equiv> \<lparr>tv_sec = of_nat n, tv_nsec = 0\<rparr>"

lemma point_in_time_read_witness:
  "\<forall>j d fr m1 m2. \<exists>f0 f d1 f1 d2 f2. mkimage 4096 4096 = Some f0 \<and>
     run_life j d fr [[(stamp 1, \<lparr>sec = 0, secs = 1, req_buf = m1\<rparr>)], [(stamp 5, \<lparr>sec = 0, secs = 2, req_buf = m2\<rparr>)]] f0 =
       Inr (Some f) \<and>
     pd_initialize_read_only d fr (Some f) (stamp 3) = Inr (0, d1, Some f1) \<and>
     pd_read j d1 f1 \<lparr>sec = 0, secs = 2, req_buf = zeros\<rparr> =
       Inr (0, memcpy zeros 0 (memcpy zeros 0 m1 0 512) 0 1024, d2, f2)"
  using point_in_time_read [of 4096 4096
      "[[(stamp 1, \<lparr>sec = 0, secs = 1, req_buf = m1\<rparr>)], [(stamp 5, \<lparr>sec = 0, secs = 2, req_buf = m2\<rparr>)]]"
      "\<lparr>sec = 0, secs = 2, req_buf = zeros\<rparr>" j d fr "stamp 3" for j d fr m1 m2]
  by (simp add: session_fits_def in_range_def table_entries_def blocks_under_def in_order_def
      ts_before_def fits_stack_def overlay_def)

text \<open>C3.  Read your writes.  In a session on a new image, after requests that fit one filling of
  the append buffer, a read on the disk that fits the stack buffer returns the requests in order
  over zeros, though nothing has reached the file yet.\<close>

theorem read_your_writes:
  assumes "0 < bs" "bs \<le> 4096" "512 dvd bs" and "ds div bs < 2 ^ 31 - 64" "ds < 2 ^ 64"
    and "session_fits (table_entries ds bs) (bs div 512) ws"
    and "unat (sec q) + unat (secs q) \<le> ds div bs * (bs div 512)" and "unat (secs q) < 2 ^ 31"
    and "fits_stack (bs div 512) bs (unat (sec q)) (unat (secs q))"
  shows "\<exists>f0 d1 f1 d2 f2 d3 f3. mkimage ds bs = Some f0 \<and>
     pd_initialize d fr (Some f0) = Inr (0, d1, Some f1) \<and> run_writes j ws d1 f1 = Inr (d2, f2) \<and>
     pd_read j d2 f2 q = Inr (0, memcpy (req_buf q) 0 (overlays ws zeros)
       (unat (sec q) * 512) (unat (secs q) * 512), d3, f3)"
proof -
  let ?n = "table_entries ds bs" and ?H = "history (bs div 512) bs ws (\<lambda>_. [])"
  note s = sectors_of_block [OF assms(1,3)]
  from pd_initialize_fresh [OF assms(1-5), of d fr] obtain f0 d1 f1 where
    mk: "mkimage ds bs = Some f0" "pd_initialize d fr (Some f0) = Inr (0, d1, Some f1)"
    and st: "writable_state (of_nat ds) ?n bs (of_nat bs div 512) (\<lambda>_. []) d1 f1"
    and no: "unat (next_offset (bio d1)) = 512 + 8 * ?n" "buffer_pos (bio d1) = 0" by blast
  note blk = disk_blocks [OF st]
  have spb: "unat (of_nat bs div 512 :: u64) = bs div 512" using blk(2) by simp
  obtain d2 f2 where w: "run_writes j ws d1 f1 = Inr (d2, f2)"
    and st2: "writable_state (of_nat ds) ?n bs (of_nat bs div 512) ?H d2 f2"
    using run_writes_ok [OF st, of ws j] no blk(4) assms(6) spb by (auto simp: session_fits_def)
  then have ls: "latest_state ?n bs (of_nat bs div 512) ?H d2 f2" by (simp add: writable_state_def)
  have "ds div bs * 8 \<le> (ds div bs * 8 + 511) div 512 * 512" by (rule round512_ge)
  then have "ds div bs \<le> ?n" by (simp add: table_entries_def)
  then have "ds div bs * (bs div 512) \<le> ?n * (bs div 512)" by (rule mult_le_mono1)
  then have "unat (sec q) + unat (secs q) \<le> ?n * (bs div 512)" using assms(7) by (rule order_trans [rotated])
  with latest_source.pd_read_ok [OF ls assms(8), of j] assms(9) spb mk w history_bytes [of "bs div 512" bs ws "\<lambda>_. []"] s
  show ?thesis by (auto simp: disk_bytes_def [abs_def])
qed

lemma read_your_writes_witness:
  "\<forall>d fr j m. \<exists>f0 d1 f1 d2 f2 d3 f3. mkimage 8192 4096 = Some f0 \<and>
     pd_initialize d fr (Some f0) = Inr (0, d1, Some f1) \<and>
     run_writes j [(stamp 1, \<lparr>sec = 7, secs = 2, req_buf = m\<rparr>)] d1 f1 = Inr (d2, f2) \<and>
     pd_read j d2 f2 \<lparr>sec = 7, secs = 2, req_buf = zeros\<rparr> =
       Inr (0, memcpy zeros 0 (memcpy zeros 3584 m 0 1024) 3584 1024, d3, f3)"
  using read_your_writes [of 4096 8192 "[(stamp 1, \<lparr>sec = 7, secs = 2, req_buf = m\<rparr>)]"
      "\<lparr>sec = 7, secs = 2, req_buf = zeros\<rparr>" d fr j for d fr j m]
  by (simp add: session_fits_def in_range_def table_entries_def blocks_under_def fits_stack_def overlay_def)

lemma new_state:
  assumes "0 < bs" "bs \<le> 4096" "512 dvd bs" "ds div bs < 2 ^ 31 - 64" "ds < 2 ^ 64"
  obtains d f where "writable_state (of_nat ds) (table_entries ds bs) bs (of_nat bs div 512) (\<lambda>_. []) d f"
    and "unat (next_offset (bio d)) = 512 + 8 * table_entries ds bs" and "buffer_pos (bio d) = 0"
  using pd_initialize_fresh [OF assms] by blast

text \<open>C5.  Closing and opening.  The file that \<open>pd_finalize\<close> leaves opens as a disk with the
  same geometry and the same versions of every block.\<close>

theorem finalize_reopen:
  assumes "writable_state dz n bs spb H d f" and "unat dz div bs \<le> n"
    and "unat (next_offset (bio d)) + 528896 < 2 ^ 62"
  shows "\<exists>d' f' d1 f1. pd_finalize d f = Inr (d', f') \<and>
     pd_initialize d0 fr (Some (reopened f')) = Inr (0, d1, Some f1) \<and>
     writable_state dz n bs spb H d1 f1 \<and> buffer_pos (bio d1) = 0"
proof -
  from pd_finalize_ok [OF assms] obtain d' f' where fin: "pd_finalize d f = Inr (d', f')"
    and img: "holds_image n bs H (reopened f')"
    and hd: "unat (hdr_block_size (fdata f')) = bs" "hdr_disk_size (fdata f') = dz" by blast
  have "fpos (reopened f') = 0" by (simp add: reopened_def)
  from pd_initialize_ok [OF img this, of d0 fr] obtain d1 f1 where
    i: "pd_initialize d0 fr (Some (reopened f')) = Inr (0, d1, Some f1)"
    and st: "writable_state dz n bs (hdr_block_size (fdata f') div 512) H d1 f1"
    and bp: "buffer_pos (bio d1) = 0" using hd by auto
  have "hdr_block_size (fdata f') div 512 = spb"
    using disk_blocks(2) [OF assms(1)] hd(1) by (intro word_unat_eq_iff [THEN iffD2]) (simp add: unat_div)
  with fin i st bp show ?thesis by blast
qed

lemma finalize_reopen_witness:
  "\<forall>d0 fr. \<exists>d f d' f' d1 f1. pd_finalize d f = Inr (d', f') \<and>
     pd_initialize d0 fr (Some (reopened f')) = Inr (0, d1, Some f1) \<and>
     writable_state 4096 64 4096 8 (\<lambda>_. []) d1 f1 \<and> buffer_pos (bio d1) = 0"
proof (intro allI)
  fix d0 fr
  obtain d f where st: "writable_state (of_nat 4096) (table_entries 4096 4096) 4096 (of_nat 4096 div 512) (\<lambda>_. []) d f"
    and no: "unat (next_offset (bio d)) = 512 + 8 * table_entries 4096 4096"
    by (rule new_state [of 4096 4096]) auto
  show "\<exists>d f d' f' d1 f1. pd_finalize d f = Inr (d', f') \<and>
     pd_initialize d0 fr (Some (reopened f')) = Inr (0, d1, Some f1) \<and>
     writable_state 4096 64 4096 8 (\<lambda>_. []) d1 f1 \<and> buffer_pos (bio d1) = 0"
     using finalize_reopen [OF st, of d0 fr] no by (simp add: table_entries_def) blast
qed

text \<open>C4.  A write request of less than \<open>2 ^ 22\<close> sectors on the disk, for which the append buffer has
  room without a flush and whose log lies below \<open>2 ^ 62\<close>, succeeds.  It appends at most one version
  to each block, and the bytes of the disk are the old ones with the request over them.\<close>

theorem write_refines_overlay:
  assumes "writable_state dz n bs spb H d f"
    and "unat (sec q) + unat (secs q) \<le> n * unat spb" and "unat (secs q) < 2 ^ 22"
    and "unat (next_offset (bio d)) + 528384 < 2 ^ 62"
    and "unat (buffer_pos (bio d)) +
      blocks_under (unat spb) (unat (sec q)) (unat (sec q) + unat (secs q)) * 4128 \<le> 528384"
  shows "\<exists>d' f' H'. pd_write j now d f q = Inr (0, d', f') \<and> writable_state dz n bs spb H' d' f' \<and>
     disk_bytes bs (\<lambda>b. latest (H' b)) = overlay q (disk_bytes bs (\<lambda>b. latest (H b))) \<and>
     (\<forall>b. H' b = H b \<or> (\<exists>v. H' b = (now, v) # H b))"
proof -
  from pd_write_ok [OF assms(1-5), of j now] obtain d' f' where
    w: "pd_write j now d f q = Inr (0, d', f')"
    and st: "writable_state dz n bs spb (write_request (unat spb) bs now q H) d' f'" by blast
  have "\<forall>b. write_request (unat spb) bs now q H b = H b \<or> (\<exists>v. write_request (unat spb) bs now q H b = (now, v) # H b)"
    by (auto simp: write_request_def add_version_def)
  then show ?thesis
    using w st write_request_bytes [of "unat spb" bs now q H] disk_blocks(2,3) [OF assms(1)] by blast
qed

lemma write_refines_overlay_witness:
  "\<forall>j now m. \<exists>d f d' f' H'. pd_write j now d f \<lparr>sec = 3, secs = 2, req_buf = m\<rparr> = Inr (0, d', f') \<and>
     writable_state 4096 64 4096 8 H' d' f' \<and>
     disk_bytes 4096 (\<lambda>b. latest (H' b)) = overlay \<lparr>sec = 3, secs = 2, req_buf = m\<rparr> zeros \<and>
     (\<forall>b. H' b = [] \<or> (\<exists>v. H' b = [(now, v)]))"
proof -
  obtain d f where st: "writable_state (of_nat 4096) (table_entries 4096 4096) 4096 (of_nat 4096 div 512) (\<lambda>_. []) d f"
    and no: "unat (next_offset (bio d)) = 512 + 8 * table_entries 4096 4096" "buffer_pos (bio d) = 0"
    by (rule new_state [of 4096 4096]) auto
  then show ?thesis
    using write_refines_overlay [OF st, of "\<lparr>sec = 3, secs = 2, req_buf = m\<rparr>" j now for m j now]
    by (simp add: table_entries_def blocks_under_def disk_bytes_def [abs_def]) blast
qed

text \<open>C6.  Reading off the stack buffer.  A read on the disk is served whole, or overruns the
  stack buffer of two default blocks: the second exactly when the request is not on block
  boundaries and lies under more blocks than the buffer holds.\<close>

theorem read_overflow_exact:
  assumes "latest_state n bs spb H d f" and "unat (secs q) < 2 ^ 31"
    and "unat (sec q) + unat (secs q) \<le> n * unat spb"
  shows "pd_read j d f q = Inl Stack_overflow \<longleftrightarrow>
     (unat (sec q) mod unat spb \<noteq> 0 \<or> unat (secs q) mod unat spb \<noteq> 0) \<and>
     8192 < blocks_under (unat spb) (unat (sec q)) (unat (sec q) + unat (secs q)) * bs"
proof (cases "fits_stack (unat spb) bs (unat (sec q)) (unat (secs q))")
  case True
  then show ?thesis
    using latest_source.pd_read_ok [OF assms, of j] by (auto simp: fits_stack_def)
next
  case False
  note geo = latest_source.geometry [OF assms(1)]
  have "unat (secs q) \<noteq> 0"
  proof
    assume z: "unat (secs q) = 0"
    have "unat (sec q) mod unat spb < unat spb" using geo by (intro mod_less_divisor) auto
    then have "unat (sec q) \<le> (unat (sec q) div unat spb + 1) * unat spb"
      using div_mult_mod_eq [of "unat (sec q)" "unat spb"] unfolding add_mult_distrib by linarith
    then have "(unat (sec q) + unat spb - 1) div unat spb \<le> unat (sec q) div unat spb + 1"
      using geo by (intro ceil_div_le) auto
    then have "blocks_under (unat spb) (unat (sec q)) (unat (sec q)) * bs \<le> 1 * 4096"
      using geo by (intro mult_le_mono) (auto simp: blocks_under_def)
    then show False using False z by (simp add: fits_stack_def)
  qed
  with latest_source.pd_read_overflow [OF assms(1,2) _ assms(3) False, of j] False
  show ?thesis by (auto simp: fits_stack_def)
qed

lemma read_overflow_exact_witness:
  "\<forall>j m. \<exists>d f. pd_read j d f \<lparr>sec = 1, secs = 16, req_buf = m\<rparr> = Inl Stack_overflow \<and>
     latest_state 64 4096 8 (\<lambda>_. []) d f"
proof -
  obtain d f where "writable_state (of_nat 16384) (table_entries 16384 4096) 4096 (of_nat 4096 div 512) (\<lambda>_. []) d f"
    by (rule new_state [of 4096 16384]) auto
  then have st: "latest_state 64 4096 8 (\<lambda>_. []) d f" by (simp add: writable_state_def table_entries_def)
  show ?thesis
    using read_overflow_exact [OF st, of "\<lparr>sec = 1, secs = 16, req_buf = m\<rparr>" j for m j] st
    by (auto simp: blocks_under_def)
qed

text \<open>C10.  Time travel block by block.  At a time \<open>t\<close> a block reads as its newest version
  written strictly before \<open>t\<close>, or as zeros, whether its cache entry is set or not, and a read
  leaves every block's content at \<open>t\<close> as it was.\<close>

theorem timed_block_read:
  assumes "timed_state n bs spb t H d f" and "unat block < n" and "unat block2 < n"
  shows "\<exists>d' f' d2 f2.
     read_block j d f buf a block =
       Inr (0, memcpy buf a (latest (dropWhile (\<lambda>v. \<not> ts_before (fst v) t) (H (unat block)))) 0 bs, d', f') \<and>
     timed_state n bs spb t H d' f' \<and>
     read_block j d' f' buf2 a2 block2 =
       Inr (0, memcpy buf2 a2 (latest (dropWhile (\<lambda>v. \<not> ts_before (fst v) t) (H (unat block2)))) 0 bs, d2, f2)"
proof -
  from timed_source.block_read [OF assms(1,2), of j buf a] obtain d' f' where
    r: "read_block j d f buf a block = Inr (0, memcpy buf a (version_at t (H (unat block))) 0 bs, d', f')"
    and st: "timed_state n bs spb t H d' f'" by blast
  from timed_source.block_read [OF st assms(3), of j buf2 a2] r st show ?thesis
    unfolding version_at_def by blast
qed

lemma timed_block_read_witness:
  "\<exists>d f H. timed_state 1 4096 8 (stamp 3) H d f \<and>
     (\<exists>d' f' d2 f2.
       read_block \<lparr>junk_header = zeros, junk_size = 0\<rparr> d f zeros 0 0 =
         Inr (0, memcpy zeros 0 (latest (dropWhile (\<lambda>v. \<not> ts_before (fst v) (stamp 3)) (H 0))) 0 4096, d', f') \<and>
       timed_state 1 4096 8 (stamp 3) H d' f' \<and>
       read_block \<lparr>junk_header = zeros, junk_size = 0\<rparr> d' f' zeros 0 0 =
         Inr (0, memcpy zeros 0 (latest (dropWhile (\<lambda>v. \<not> ts_before (fst v) (stamp 3)) (H 0))) 0 4096, d2, f2))"
proof -
  let ?m = "\<lambda>_. 1 :: u8" and ?j = "\<lparr>junk_header = zeros, junk_size = 0\<rparr>"
  let ?ws = "[(stamp 1, \<lparr>sec = 0, secs = 1, req_buf = ?m\<rparr>), (stamp 5, \<lparr>sec = 0, secs = 2, req_buf = ?m\<rparr>)]"
  let ?H = "history 8 4096 ?ws (\<lambda>_. [])"
  obtain f where img: "holds_image (table_entries 4096 4096) 4096 ?H f" "fpos f = 0"
    and dz: "hdr_disk_size (fdata f) = of_nat 4096"
    using fresh_life_ok [of 4096 4096 "[?ws]" ?j undefined undefined]
    by (auto simp: session_fits_def in_range_def table_entries_def blocks_under_def)
  have b: "blocks_of (fdata f) = 1" using blocks_of_image [OF img(1) dz] by simp
  have "hdr_block_size (fdata f) = 4096"
    using img(1) by (simp add: holds_image_def header_ok_def word_unat_eq_iff)
  with pd_initialize_read_only_ok [OF img, of undefined undefined "stamp 3"] b obtain d1 f1 where
    st: "timed_state 1 4096 8 (stamp 3) ?H d1 f1" by auto
  have b0: "unat (0 :: u64) < 1" by simp
  have "0 = unat (0 :: u64)" by simp
  from st timed_block_read [OF st b0 b0, of ?j zeros 0 zeros 0] show ?thesis
    unfolding \<open>0 = unat (0 :: u64)\<close> [symmetric] by blast
qed

lemma round16_props: "16 dvd round16 n" "n \<le> round16 n" "round16 n < n + 16"
proof -
  have "n mod 16 < 16" by simp
  then show "n \<le> round16 n" "round16 n < n + 16" by (auto simp: round16_def)
  show "16 dvd round16 n"
    using div_mult_mod_eq [of n 16] \<open>n mod 16 < 16\<close> by (auto simp: round16_def dvd_def mod_eq_0_iff_dvd) presburger+
qed

text \<open>C15.  The data of a new entry.  The size the code stores is a multiple of 16 within the
  block, everything after it is zero, and it is the least such multiple: the block is all
  zeros, or one of the last 16 bytes stored is not.\<close>

theorem actual_data_size_least:
  "(\<forall>i<n - get_actual_data_size m a n. m (a + (get_actual_data_size m a n + i)) = 0) \<and>
   16 dvd get_actual_data_size m a n \<and>
   (get_actual_data_size m a n = 0 \<or>
     (\<exists>i<n. get_actual_data_size m a n \<le> i + 16 \<and> i < get_actual_data_size m a n \<and> m (a + i) \<noteq> 0))"
proof (intro conjI allI impI)
  show "m (a + (get_actual_data_size m a n + i)) = 0" if "i < n - get_actual_data_size m a n" for i
    using that by (intro actual_size_tail [of m a n]) linarith+
  show "16 dvd get_actual_data_size m a n"
    by (induction n) (use round16_props in auto)
  show "get_actual_data_size m a n = 0 \<or>
     (\<exists>i<n. get_actual_data_size m a n \<le> i + 16 \<and> i < get_actual_data_size m a n \<and> m (a + i) \<noteq> 0)"
  proof (induction n)
    case (Suc n)
    show ?case
    proof (cases "m (a + n) = 0")
      case False
      then show ?thesis using round16_props [of "Suc n"] by (intro disjI2 exI [of _ n]) auto
    next
      case True
      then show ?thesis using Suc by (auto intro: less_SucI)
    qed
  qed simp
qed

lemma actual_data_size_least_witness:
  "let m = (\<lambda>i. if i = 15 then 1 else 0); n = get_actual_data_size m 0 17 in
     n = 16 \<and> (\<forall>i<1. m (16 + i) = 0) \<and> (\<exists>i<17. n \<le> i + 16 \<and> i < n \<and> m i \<noteq> 0)"
proof -
  let ?m = "\<lambda>i. if i = 15 then 1 else 0 :: u8"
  have "get_actual_data_size ?m 0 (Suc (Suc 15)) = 16"
    unfolding get_actual_data_size.simps(2) [of ?m 0] by (simp add: round16_def)
  then have "get_actual_data_size ?m 0 17 = 16" by simp
  then show ?thesis using actual_data_size_least [of 17 ?m 0] by (simp add: Let_def)
qed

text \<open>C11.  Append, then read.  What \<open>bio_write\<close> takes in, \<open>bio_read\<close> gives back at the offset
  it returned, for at most 7680 bytes, when this append does not flush or the read window lies
  below the log's end, and when what the window holds agrees with the file.\<close>

theorem append_then_read:
  assumes "bio_ok b f" "\<not> bio_read_only b" "window_ok b f" and "\<not> flushes b sz \<or> window_clear b f"
    and "unat (next_offset b) + 528384 < 2 ^ 62" and "0 < unat sz" "unat sz \<le> 7680"
  shows "\<exists>off b' f' b2 f2. bio_write b f src sz = Inr (off, b', f') \<and> log_end b \<le> unat off \<and>
     bio_read b' f' off dst d sz = Inr (int (unat sz), memcpy dst d src 0 (unat sz), b2, f2)"
proof -
  have "unat sz \<le> 528384" using assms(7) by simp
  obtain off b' f' where
    w: "bio_write b f src sz = Inr (off, b', f')" "bio_ok b' f'" "log_end b \<le> unat off"
      "\<And>i. i < unat sz \<Longrightarrow> log_byte b' f' (unat off + i) = src i"
      "segment b' f' (unat off) (unat sz)"
      "window_ok b f \<Longrightarrow> \<not> flushes b sz \<or> window_clear b f \<Longrightarrow> window_ok b' f'"
    by (rule bio_write_ok [OF assms(1,2,5,6) \<open>unat sz \<le> 528384\<close>, of src]) (rule that; assumption)
  obtain s o' b2 f2 where
    "bio_read b' f' off dst d sz = Inr (int (unat sz), memcpy dst d s o' (unat sz), b2, f2)"
    and "\<And>i. i < unat sz \<Longrightarrow> s (o' + i) = log_byte b' f' (unat off + i)"
    by (rule bio_read_ok [OF w(2) w(6) [OF assms(3,4)] w(5) assms(7), of dst d]) (rule that; assumption)
  moreover from this(2) w(4) have "memcpy dst d s o' (unat sz) = memcpy dst d src 0 (unat sz)"
    by (intro memcpy_cong) simp
  ultimately show ?thesis using w(1,3) by metis
qed

abbreviation sample_bio :: buffered_io where
  "sample_bio \<equiv> \<lparr>bio_read_only = False, read_buffer = zeros, read_buffer_pos = 0, read_buffer_enable = True,
     buffer = Some (\<lambda>_. 7), buffer_pos = 512, next_offset = 512\<rparr>"

abbreviation sample_file :: ofile where
  "sample_file \<equiv> \<lparr>fdata = zeros, fsize = 512, fpos = 0, fscript = []\<rparr>"

lemma append_then_read_witness:
  "\<exists>off b' f' b2 f2. bio_write sample_bio sample_file (\<lambda>i. of_nat i) 48 = Inr (off, b', f') \<and>
     log_end sample_bio \<le> unat off \<and>
     bio_read b' f' off zeros 0 48 = Inr (48, memcpy zeros 0 (\<lambda>i. of_nat i) 0 48, b2, f2)"
  using append_then_read [of sample_bio sample_file 48 "\<lambda>i. of_nat i" zeros 0]
  by (simp add: bio_ok_def window_ok_def flushes_def)

text \<open>C12.  The stale read window.  When the read window reaches past the end of the file, a
  flush moves appended bytes into the file but not into the window: the same read that gave
  the bytes before the flush gives the window's old contents after it, though the file has
  the right ones.\<close>

theorem flush_leaves_window_stale:
  assumes "bio_ok b f" "\<not> bio_read_only b" "buffer b = Some buf" and "window_hit b pos sz"
    and "next_offset b \<le> pos" "unat pos + unat sz \<le> log_end b" "0 < unat sz"
  shows "\<exists>b' f'. bio_read b f pos dst d sz =
       Inr (sint (to_int sz), memcpy dst d buf (unat pos - unat (next_offset b)) (unat sz), b, f) \<and>
     bio_flush b f = Inr (b', f') \<and>
     (\<forall>i<unat sz. file_byte f' (unat pos + i) = buf (unat pos - unat (next_offset b) + i)) \<and>
     bio_read b' f' pos dst d sz =
       Inr (sint (to_int sz), memcpy dst d (read_buffer b) (unat pos - unat (read_buffer_pos b)) (unat sz), b', f')"
proof -
  let ?no = "unat (next_offset b)"
  have no: "?no \<le> unat pos" using assms(5) by (simp add: word_le_unat)
  have bp: "unat (buffer_pos b) \<le> 528384" and no62: "?no < 2 ^ 62" using assms(1) by (simp_all add: bio_ok_def)
  have o1: "unat (pos - next_offset b) = unat pos - ?no" using no by (rule unat_sub64)
  have r1: "bio_read b f pos dst d sz =
      Inr (sint (to_int sz), memcpy dst d buf (unat pos - ?no) (unat sz), b, f)"
    using assms(3,5,6) bp no by (simp add: bio_read_def o1 log_end_def)
  obtain b' f' where fl: "bio_flush b f = Inr (b', f')"
    and no': "unat (next_offset b') = (log_end b + 511) div 512 * 512"
    and same: "\<And>i. i < log_end b \<Longrightarrow> log_byte b' f' i = log_byte b f i"
    and win: "read_buffer b' = read_buffer b" "read_buffer_pos b' = read_buffer_pos b"
      "read_buffer_enable b' = read_buffer_enable b"
    by (rule bio_flush_ok [OF assms(1,2)]) (rule that; assumption)
  have "log_end b \<le> unat (next_offset b')" unfolding no' by (rule round512_ge)
  then have after: "unat pos + unat sz \<le> unat (next_offset b')" using assms(6) by (rule order_trans [rotated])
  have bytes: "file_byte f' (unat pos + i) = buf (unat pos - ?no + i)" if "i < unat sz" for i
  proof -
    have "log_byte b' f' (unat pos + i) = log_byte b f (unat pos + i)"
      using assms(6) that by (intro same) simp
    then show ?thesis using that after no assms(3) by (simp add: log_byte_def)
  qed
  have hit': "window_hit b' pos sz" using assms(4) win by (simp add: window_hit_def)
  have rb: "unat (read_buffer_pos b) \<le> unat pos" using assms(4) by (simp add: window_hit_def word_le_unat)
  have o2: "unat (pos - read_buffer_pos b) = unat pos - unat (read_buffer_pos b)" using rb by (rule unat_sub64)
  have sum: "unat pos - unat (read_buffer_pos b) + unat sz < 2 ^ 64"
    using assms(6) bp no62 by (simp add: log_end_def)
  have "unat (pos - read_buffer_pos b + sz) = unat pos - unat (read_buffer_pos b) + unat sz"
    by (subst unat_add64) (use sum in \<open>simp_all only: o2\<close>)
  then have small: "unat pos - unat (read_buffer_pos b) + unat sz < 8192"
    using assms(4) by (simp add: window_hit_def word_less_unat)
  have "\<not> next_offset b' \<le> pos" using after assms(7) by (simp add: word_le_unat)
  then have "bio_read b' f' pos dst d sz =
      Inr (sint (to_int sz), memcpy dst d (read_buffer b) (unat pos - unat (read_buffer_pos b)) (unat sz), b', f')"
    using hit' small by (simp add: bio_read_def win o2)
  with r1 fl bytes show ?thesis by blast
qed

lemma flush_leaves_window_stale_witness:
  "\<exists>b' f'. bio_read sample_bio sample_file 512 zeros 0 32 = Inr (32, memcpy zeros 0 (\<lambda>_. 7) 0 32, sample_bio, sample_file) \<and>
     bio_flush sample_bio sample_file = Inr (b', f') \<and> (\<forall>i<32. file_byte f' (512 + i) = 7) \<and>
     bio_read b' f' 512 zeros 0 32 = Inr (32, memcpy zeros 0 zeros 512 32, b', f')"
  using flush_leaves_window_stale [of sample_bio sample_file "\<lambda>_. 7" 512 32 zeros 0]
  by (simp add: bio_ok_def window_hit_def log_end_def)

text \<open>The two headers and the index table read back as they were written, and writing the
  end of the log into the data header keeps the geometry.\<close>

theorem layout_roundtrip:
  "get_entry_header (put_entry_header pad h) 0 = h \<and>
   table_of_mem (mem_of_table tab) (length tab) = tab \<and>
   hdr_next_offset (set_hdr_next_offset hdr off) = off \<and>
   hdr_block_size (set_hdr_next_offset hdr off) = hdr_block_size hdr \<and>
   hdr_disk_size (set_hdr_next_offset hdr off) = hdr_disk_size hdr"
  by (simp add: list_eq_iff_nth_eq load_table)

lemma sint_high:
  assumes "2 ^ 31 \<le> unat (w :: c_int)"
  shows "sint w = int (unat w) - 2 ^ 32"
proof -
  have lt: "unat w < 2 ^ 32" using unsigned_less [of w] by simp
  have u: "uint w = int (unat w)" by simp
  have b: "2147483648 \<le> unat w" "unat w < 4294967296" using assms lt by simp_all
  have "int (unat w) div 2147483648 = 1"
    by (rule int_div_pos_eq [of _ _ 1 "int (unat w) - 2147483648"]) (use b in linarith)+
  then have "bit (uint w) 31" by (simp add: bit_iff_odd)
  moreover have "take_bit 32 (uint w) = uint w"
    using unsigned_less [of w, where 'a = int] by (intro take_bit_int_eq_self) simp_all
  ultimately show ?thesis by (simp add: sint_uint signed_take_bit_eq_take_bit_minus)
qed

lemma block_of_cast:
  fixes d sector
  defines "b \<equiv> unat (sector div sectors_per_block d) mod 2 ^ 32"
  shows "unat (block_of d sector) = (if b < 2 ^ 31 then b else b + (2 ^ 64 - 2 ^ 32))"
proof -
  let ?w = "to_int (sector div sectors_per_block d)"
  have q: "unat ?w = b" by (simp add: b_def unsigned_ucast_eq take_bit_eq_mod)
  have lt: "b < 2 ^ 32" by (simp add: b_def)
  show ?thesis
  proof (cases "b < 2 ^ 31")
    case True
    then show ?thesis using unat_sext64 [of ?w] q by (simp add: block_of_def)
  next
    case False
    then have s: "sint ?w = int b - 2 ^ 32" using sint_high [of ?w] q by simp
    have "sext64 ?w = of_nat (b + (2 ^ 64 - 2 ^ 32))" unfolding scast_eq s by simp
    moreover have "unat (of_nat (b + (2 ^ 64 - 2 ^ 32)) :: u64) = b + (2 ^ 64 - 2 ^ 32)"
      using lt by (intro unat_of_nat64) simp
    ultimately show ?thesis using False by (simp only: block_of_def if_False)
  qed
qed

text \<open>C13.  Sectors of high blocks.  Off block boundaries both directions take the block number
  through an \<open>int\<close>.  For a sector of block \<open>b\<close> of the table the block used is \<open>b\<close> up to
  \<open>2 ^ 31\<close>.  From there on, where the low 32 bits of \<open>b\<close> have their top bit set, a request
  that begins with the sector falls outside the table, though the block exists on the disk;
  where they have not, it goes to the block numbered by these 32 bits, which from \<open>2 ^ 32\<close> on
  is another one.\<close>

theorem blocks_beyond_int:
  assumes "unat (sec q div sectors_per_block d) < length (index_table d)" "length (index_table d) \<le> 2 ^ 63"
    and "sec q mod sectors_per_block d \<noteq> 0 \<or> sext64 (secs q) mod sectors_per_block d \<noteq> 0"
    and "unat (sec q) < 2 ^ 63" "0 < unat (secs q)" "unat (secs q) < 2 ^ 31"
    and "sectors_per_block d \<noteq> 0" "unat (block_size d) \<le> 4096"
  shows "if unat (sec q div sectors_per_block d) mod 2 ^ 32 < 2 ^ 31
     then unat (block_of d (sec q)) = unat (sec q div sectors_per_block d) mod 2 ^ 32
     else pd_read j d f q = Inl Out_of_bounds \<and> pd_write j now d f q = Inl Out_of_bounds"
proof (cases "unat (sec q div sectors_per_block d) mod 2 ^ 32 < 2 ^ 31")
  case True
  then show ?thesis by (simp add: block_of_cast)
next
  case False
  then have out: "length (index_table d) \<le> unat (block_of d (sec q))"
    using assms(2) by (simp add: block_of_cast)
  have n: "unat (sext64 (secs q)) = unat (secs q)" using assms(6) by (rule unat_sext64)
  then have "unat (sec q + sext64 (secs q)) = unat (sec q) + unat (secs q)"
    using assms(4,6) by (subst unat_add64) simp_all
  then have lt: "sec q < sec q + sext64 (secs q)" using assms(5) by (simp add: word_less_nat_alt)
  have "read_block j d f zeros 0 (block_of d (sec q)) = Inl Out_of_bounds"
    using out by (simp add: read_block_def read_latest_block_def read_current_block_def)
  then have "pd_read j d f q = Inl Out_of_bounds"
    using lt assms(3,7,8) by (auto simp: pd_read_def read_span.simps [of j "sec q + sext64 (secs q)"])
  moreover have nz: "max_steps \<noteq> 0" by (simp add: max_steps_def)
  have "read_latest_block j d f zeros 32 (block_of d (sec q)) = Inl Out_of_bounds"
    using out by (simp add: read_latest_block_def)
  then have "write_block j now q (sec q) (secs q) zeros d f = Inl Out_of_bounds"
    using assms(8) by (simp add: write_block_def Let_def)
  then have "pd_write j now d f q = Inl Out_of_bounds"
    using lt assms(7) nz by (simp add: pd_write_def write_loop.simps [of max_steps])
  ultimately show ?thesis using False by simp
qed

abbreviation huge_disk :: preservation_disk where
  "huge_disk \<equiv> \<lparr>disk_header = store_le 8 (store_le 8 zeros 0 (2 ^ 43 + 4096 :: u64)) 8 (4096 :: u64), bio = sample_bio,
     disk_read_only = False, disk_ts = stamp 0, sectors_per_block = 8,
     index_table = replicate (2 ^ 31 + 1) 0, index_cache_enable = [], cached_data_size = []\<rparr>"

lemma blocks_beyond_int_witness:
  "\<forall>j f now m. pd_read j huge_disk f \<lparr>sec = 2 ^ 34 + 1, secs = 1, req_buf = m\<rparr> = Inl Out_of_bounds \<and>
     pd_write j now huge_disk f \<lparr>sec = 2 ^ 34 + 1, secs = 1, req_buf = m\<rparr> = Inl Out_of_bounds"
proof (intro allI)
  fix j f now m
  show "pd_read j huge_disk f \<lparr>sec = 2 ^ 34 + 1, secs = 1, req_buf = m\<rparr> = Inl Out_of_bounds \<and>
     pd_write j now huge_disk f \<lparr>sec = 2 ^ 34 + 1, secs = 1, req_buf = m\<rparr> = Inl Out_of_bounds"
    using blocks_beyond_int [of "\<lparr>sec = 2 ^ 34 + 1, secs = 1, req_buf = m\<rparr>" huge_disk j f now]
    by (simp add: hdr_block_size_def mem_simps del: replicate.simps)
qed

end
