(* ===== verification/C_Library.thy ===== *)
theory C_Library
  imports Prelude
begin

text \<open>
  What the code uses of the C library: \<open>errno\<close> values, strings and their scans, and the
  decimal readers.  A C string is a list of characters without the final zero byte.
\<close>

definition EPERM :: int where "EPERM = 1"
definition ENOENT :: int where "ENOENT = 2"
definition EBUSY :: int where "EBUSY = 16"
definition EINVAL :: int where "EINVAL = 22"
definition ENAMETOOLONG :: int where "ENAMETOOLONG = 36"
definition ENOSYS :: int where "ENOSYS = 38"

lemmas errno_defs [simp] = EPERM_def ENOENT_def EBUSY_def EINVAL_def ENAMETOOLONG_def ENOSYS_def

section \<open>Scanning\<close>

text \<open>\<open>strchr s c\<close>: the index of the first \<open>c\<close>; None for NULL.\<close>

fun strchr :: "string \<Rightarrow> char \<Rightarrow> nat option" where
  "strchr [] c = None"
| "strchr (x # xs) c = (if x = c then Some 0 else map_option Suc (strchr xs c))"

definition strncmp_eq :: "string \<Rightarrow> string \<Rightarrow> nat \<Rightarrow> bool" where
  "strncmp_eq a b n \<longleftrightarrow> take n a = take n b"

lemma strchr_Some:
  "strchr s c = Some i \<longleftrightarrow> i < length s \<and> s ! i = c \<and> c \<notin> set (take i s)"
proof (induction s c arbitrary: i rule: strchr.induct)
  case (2 x xs c)
  then show ?case by (cases i) auto
qed simp

lemma strchr_None: "strchr s c = None \<longleftrightarrow> c \<notin> set s"
  by (induction s c rule: strchr.induct) auto

section \<open>Numbers\<close>

definition isspace :: "char \<Rightarrow> bool" where
  "isspace c \<longleftrightarrow> of_char c \<in> {9, 10, 11, 12, 13, 32 :: nat}"

definition isdigit :: "char \<Rightarrow> bool" where
  "isdigit c \<longleftrightarrow> 48 \<le> (of_char c :: nat) \<and> (of_char c :: nat) \<le> 57"

definition digit_value :: "char \<Rightarrow> nat" where
  "digit_value c = of_char c - 48"

text \<open>The value of the digits a string starts with, from the value \<open>acc\<close> read so far, and
  the rest.\<close>

fun read_digits :: "nat \<Rightarrow> string \<Rightarrow> nat \<times> string" where
  "read_digits acc [] = (acc, [])"
| "read_digits acc (c # cs) =
     (if isdigit c then read_digits (10 * acc + digit_value c) cs else (acc, c # cs))"

text \<open>The sign: whether it is a minus, and the rest.\<close>

fun read_sign :: "string \<Rightarrow> bool \<times> string" where
  "read_sign [] = (False, [])"
| "read_sign (c # cs) =
     (if c = CHR ''-'' then (True, cs) else if c = CHR ''+'' then (False, cs) else (False, c # cs))"

text \<open>\<open>strtoull\<close> and \<open>strtol\<close> with base 10 and the rest of the string: without a digit the
  value is zero and the rest is the whole string; a value out of range is clipped.\<close>

definition strtoull10 :: "string \<Rightarrow> u64 \<times> string" where
  "strtoull10 s =
     (let (neg, cs) = read_sign (dropWhile isspace s);
          (n, rest) = read_digits 0 cs in
      if rest = cs then (0, s)
      else if 2 ^ 64 \<le> n then (- 1, rest)
      else (if neg then - of_nat n else of_nat n, rest))"

definition strtol10 :: "string \<Rightarrow> int \<times> string" where
  "strtol10 s =
     (let (neg, cs) = read_sign (dropWhile isspace s);
          (n, rest) = read_digits 0 cs;
          v = (if neg then - int n else int n) in
      if rest = cs then (0, s) else (max (- (2 ^ 63)) (min (2 ^ 63 - 1) v), rest))"

text \<open>Base 0: the prefix chooses the base.\<close>

definition digit_in :: "nat \<Rightarrow> char \<Rightarrow> nat option" where
  "digit_in base c =
     (let n = of_char c;
          v = (if 48 \<le> n \<and> n \<le> 57 then n - 48
               else if 97 \<le> n \<and> n \<le> 122 then n - 87
               else if 65 \<le> n \<and> n \<le> 90 then n - 55 else base) in
      if v < base then Some v else None)"

fun read_base :: "nat \<Rightarrow> nat \<Rightarrow> string \<Rightarrow> nat \<times> string" where
  "read_base base acc [] = (acc, [])"
| "read_base base acc (c # cs) =
     (case digit_in base c of
        None \<Rightarrow> (acc, c # cs)
      | Some v \<Rightarrow> read_base base (base * acc + v) cs)"

definition split_base :: "string \<Rightarrow> nat \<times> string" where
  "split_base s =
     (if 2 < length s \<and> s ! 0 = CHR ''0'' \<and> s ! 1 \<in> {CHR ''x'', CHR ''X''} \<and> digit_in 16 (s ! 2) \<noteq> None
      then (16, drop 2 s)
      else if s \<noteq> [] \<and> s ! 0 = CHR ''0'' then (8, s) else (10, s))"

text \<open>The signed number a string starts with, and the rest; None without a digit.  \<open>%i\<close> of
  \<open>scanf\<close> reads the same numbers.\<close>

definition scan_number :: "string \<Rightarrow> (bool \<times> nat \<times> string) option" where
  "scan_number s =
     (let (neg, cs) = read_sign (dropWhile isspace s);
          (base, ds) = split_base cs;
          (n, rest) = read_base base 0 ds in
      if rest = ds then None else Some (neg, n, rest))"

text \<open>\<open>strtoul\<close> with base 0: the value, the rest, and whether \<open>errno\<close> is set to \<open>ERANGE\<close>.\<close>

definition strtoul0 :: "string \<Rightarrow> nat \<times> string \<times> bool" where
  "strtoul0 s =
     (case scan_number s of
        None \<Rightarrow> (0, s, False)
      | Some (neg, n, rest) \<Rightarrow>
          if 2 ^ 64 \<le> n then (2 ^ 64 - 1, rest, True)
          else (if neg \<and> n \<noteq> 0 then 2 ^ 64 - n else n, rest, False))"

definition atoi :: "string \<Rightarrow> c_int" where
  "atoi s = word_of_int (fst (strtol10 s))"

section \<open>Printing\<close>

definition digit_char :: "nat \<Rightarrow> char" where
  "digit_char n = char_of (48 + n)"

fun decimal :: "nat \<Rightarrow> string" where
  "decimal n = (if n < 10 then [digit_char n] else decimal (n div 10) @ [digit_char (n mod 10)])"

declare decimal.simps [simp del]

definition print_int :: "int \<Rightarrow> string" where
  "print_int i = (if i < 0 then ''-'' @ decimal (nat (- i)) else decimal (nat i))"

lemma digit_char_simps [simp]:
  assumes "n < 10"
  shows "isdigit (digit_char n)" "digit_value (digit_char n) = n"
  using assms by (simp_all add: isdigit_def digit_value_def digit_char_def)

lemma decimal_digits: "c \<in> set (decimal n) \<Longrightarrow> isdigit c"
proof (induction n rule: decimal.induct)
  case (1 n)
  show ?case
  proof (cases "n < 10")
    case True
    with 1 show ?thesis by (subst (asm) decimal.simps) auto
  next
    case False
    with 1 show ?thesis by (subst (asm) (2) decimal.simps) auto
  qed
qed

lemma decimal_not_Nil [simp]: "decimal n \<noteq> []"
  by (subst decimal.simps) simp

lemma read_digits_append:
  "\<forall>c\<in>set ds. isdigit c \<Longrightarrow> read_digits acc (ds @ rest) = read_digits (fst (read_digits acc ds)) rest"
  by (induction ds arbitrary: acc) auto

text \<open>Reading back what was printed.\<close>

lemma read_decimal:
  assumes "rest = [] \<or> \<not> isdigit (hd rest)"
  shows "read_digits 0 (decimal n @ rest) = (n, rest)"
proof -
  have "fst (read_digits 0 (decimal n)) = n"
  proof (induction n rule: decimal.induct)
    case (1 n)
    show ?case
    proof (cases "n < 10")
      case True
      then show ?thesis by (subst decimal.simps) simp
    next
      case False
      then have "fst (read_digits 0 (decimal (n div 10))) = n div 10" by (rule 1)
      then show ?thesis using False
        by (subst decimal.simps) (simp add: read_digits_append decimal_digits)
    qed
  qed
  moreover have "read_digits n rest = (n, rest)" using assms by (cases rest) auto
  ultimately show ?thesis by (simp add: read_digits_append decimal_digits)
qed

lemma read_digits_rest: "read_digits acc cs = (n, rest) \<Longrightarrow> length rest \<le> length cs"
  by (induction acc cs rule: read_digits.induct) (auto split: if_splits)

lemma isdigit_not: "isdigit c \<Longrightarrow> \<not> isspace c \<and> c \<noteq> CHR ''-'' \<and> c \<noteq> CHR ''+'' \<and> c \<noteq> CHR '':''"
  by (auto simp: isdigit_def isspace_def)

lemma scan_decimal:
  "dropWhile isspace (decimal n @ rest) = decimal n @ rest"
  "read_sign (decimal n @ rest) = (False, decimal n @ rest)"
proof -
  obtain c cs where d: "decimal n = c # cs" using decimal_not_Nil by (cases "decimal n") auto
  then have "isdigit c" using decimal_digits [of c n] by simp
  then show "dropWhile isspace (decimal n @ rest) = decimal n @ rest"
    "read_sign (decimal n @ rest) = (False, decimal n @ rest)"
    using d isdigit_not by simp_all
qed

lemma strtoull10_decimal:
  assumes "rest = [] \<or> \<not> isdigit (hd rest)" "n < 2 ^ 64"
  shows "strtoull10 (decimal n @ rest) = (of_nat n, rest)"
  using assms read_decimal [OF assms(1), of n]
  by (simp add: strtoull10_def scan_decimal)

lemma strtol10_decimal:
  assumes "rest = [] \<or> \<not> isdigit (hd rest)" "n < 2 ^ 63"
  shows "strtol10 (decimal n @ rest) = (int n, rest)"
  using assms read_decimal [OF assms(1), of n]
  by (simp add: strtol10_def scan_decimal)

end
