(* ===== verification/Block_Preservation.thy ===== *)
theory Block_Preservation
  imports C_Library Preservation_Request
begin

text \<open>
  \<open>block-preservation.c\<close> and \<open>block-timetravel.c\<close>: the two tapdisk drivers over a
  preservation file.  Both serve a request before they return: the completion they hand to
  \<open>td_complete_request\<close> is part of the result, as the request (its buffer filled by a read)
  and the error number.  The file behind the descriptor is kept beside the driver.
\<close>

record td_driver =
  drv_info :: td_disk_info
  prv_disk :: preservation_disk

text \<open>\<open>memset(prv, 0, sizeof(*prv))\<close>.\<close>

definition zero_disk :: preservation_disk where
  "zero_disk =
     \<lparr>disk_header = zeros,
      bio = \<lparr>bio_read_only = False, read_buffer = zeros, read_buffer_pos = 0, read_buffer_enable = False,
             buffer = None, buffer_pos = 0, next_offset = 0\<rparr>,
      disk_read_only = False, disk_ts = \<lparr>tv_sec = 0, tv_nsec = 0\<rparr>, sectors_per_block = 0,
      index_table = [], index_cache_enable = [], cached_data_size = []\<rparr>"

type_synonym completion = "td_request \<times> int"

section \<open>The preservation driver\<close>

definition tdpreservation_open ::
  "fresh_mem \<Rightarrow> (string \<Rightarrow> ofile option) \<Rightarrow> td_driver \<Rightarrow> string
     \<Rightarrow> fault + int \<times> td_driver \<times> ofile option" where
  "tdpreservation_open fr sys_open drv name =
     (case pd_initialize zero_disk fr (sys_open name) of
        Inl e \<Rightarrow> Inl e
      | Inr (ret, d, f) \<Rightarrow>
          if ret = -1 then Inr (ret, drv\<lparr>prv_disk := d\<rparr>, f)
          else Inr (ret, drv\<lparr>prv_disk := d, drv_info := pd_set_driver_info d\<rparr>, f))"

definition tdpreservation_queue_read ::
  "junk \<Rightarrow> td_driver \<Rightarrow> ofile \<Rightarrow> td_request \<Rightarrow> fault + completion \<times> td_driver \<times> ofile" where
  "tdpreservation_queue_read j drv f treq =
     (case pd_read j (prv_disk drv) f treq of
        Inl e \<Rightarrow> Inl e
      | Inr (r, buf, d, f') \<Rightarrow>
          Inr ((treq\<lparr>req_buf := buf\<rparr>, if r = -1 then - EBUSY else 0), drv\<lparr>prv_disk := d\<rparr>, f'))"

definition tdpreservation_queue_write ::
  "junk \<Rightarrow> timespec \<Rightarrow> td_driver \<Rightarrow> ofile \<Rightarrow> td_request
     \<Rightarrow> fault + completion \<times> td_driver \<times> ofile" where
  "tdpreservation_queue_write j now drv f treq =
     (case pd_write j now (prv_disk drv) f treq of
        Inl e \<Rightarrow> Inl e
      | Inr (r, d, f') \<Rightarrow> Inr ((treq, if r = -1 then - EBUSY else 0), drv\<lparr>prv_disk := d\<rparr>, f'))"

definition tdpreservation_close :: "td_driver \<Rightarrow> ofile \<Rightarrow> fault + int \<times> td_driver \<times> ofile" where
  "tdpreservation_close drv f =
     (case pd_finalize (prv_disk drv) f of
        Inl e \<Rightarrow> Inl e
      | Inr (d, f') \<Rightarrow> Inr (0, drv\<lparr>prv_disk := d\<rparr>, f'))"

text \<open>\<open>no_parent\<close> is tapdisk's \<open>TD_NO_PARENT\<close>.\<close>

definition tdpreservation_get_parent_id :: "int \<Rightarrow> int" where
  "tdpreservation_get_parent_id no_parent = no_parent"

definition tdpreservation_validate_parent :: int where
  "tdpreservation_validate_parent = - EINVAL"

section \<open>The time travel driver\<close>

text \<open>
  The device name is a path and a time, \<open>path:seconds\<close>.  The copy of the name goes into
  \<open>calloc(strlen(name), 1)\<close>, which is None when it fails; \<open>usable n\<close> is the number of bytes
  that the allocator makes usable for \<open>n\<close>, at least \<open>n\<close>, and the copy needs one more.
\<close>

definition split_name_time :: "(nat \<Rightarrow> nat) \<Rightarrow> string \<Rightarrow> fault + string \<times> string" where
  "split_name_time usable name =
     (if usable (length name) < length name + 1 then Inl Out_of_bounds
      else
        (case strchr name (CHR '':'') of
           None \<Rightarrow> Inl Null_pointer
         | Some i \<Rightarrow> Inr (take i name, drop (i + 1) name)))"

definition tdtimetravel_open ::
  "(nat \<Rightarrow> nat) \<Rightarrow> bool \<Rightarrow> fresh_mem \<Rightarrow> (string \<Rightarrow> ofile option) \<Rightarrow> td_driver \<Rightarrow> string
     \<Rightarrow> fault + int \<times> td_driver \<times> ofile option" where
  "tdtimetravel_open usable alloc_ok fr sys_open drv name =
     (if \<not> alloc_ok then Inr (0, drv, None)
      else
        (case split_name_time usable name of
           Inl e \<Rightarrow> Inl e
         | Inr (path, time) \<Rightarrow>
             (case pd_initialize_read_only zero_disk fr (sys_open path)
                     \<lparr>tv_sec = fst (strtoull10 time), tv_nsec = 0\<rparr> of
                Inl e \<Rightarrow> Inl e
              | Inr (ret, d, f) \<Rightarrow>
                  if ret = -1 then Inr (ret, drv\<lparr>prv_disk := d\<rparr>, f)
                  else Inr (ret, drv\<lparr>prv_disk := d, drv_info := pd_set_driver_info d\<rparr>, f))))"

definition tdtimetravel_queue_read ::
  "junk \<Rightarrow> td_driver \<Rightarrow> ofile \<Rightarrow> td_request \<Rightarrow> fault + completion \<times> td_driver \<times> ofile" where
  "tdtimetravel_queue_read j drv f treq =
     (case pd_read j (prv_disk drv) f treq of
        Inl e \<Rightarrow> Inl e
      | Inr (r, buf, d, f') \<Rightarrow>
          Inr ((treq\<lparr>req_buf := buf\<rparr>, if r = -1 then - EBUSY else 0), drv\<lparr>prv_disk := d\<rparr>, f'))"

definition tdtimetravel_queue_write :: "td_request \<Rightarrow> completion" where
  "tdtimetravel_queue_write treq = (treq, - EBUSY)"

definition tdtimetravel_close :: "td_driver \<Rightarrow> ofile \<Rightarrow> fault + int \<times> td_driver \<times> ofile" where
  "tdtimetravel_close drv f =
     (case pd_finalize (prv_disk drv) f of
        Inl e \<Rightarrow> Inl e
      | Inr (d, f') \<Rightarrow> Inr (0, drv\<lparr>prv_disk := d\<rparr>, f'))"

definition tdtimetravel_get_parent_id :: "int \<Rightarrow> int" where
  "tdtimetravel_get_parent_id no_parent = no_parent"

definition tdtimetravel_validate_parent :: int where
  "tdtimetravel_validate_parent = - EINVAL"

section \<open>Names\<close>

lemma split_name_time_ok:
  assumes "CHR '':'' \<notin> set path" "length path + length time + 2 \<le> usable (length path + length time + 1)"
  shows "split_name_time usable (path @ CHR '':'' # time) = Inr (path, time)"
proof -
  have "strchr (path @ CHR '':'' # time) (CHR '':'') = Some (length path)"
    using assms(1) by (simp add: strchr_Some)
  with assms(2) show ?thesis by (simp add: split_name_time_def)
qed

lemma tdtimetravel_open_ok:
  assumes "CHR '':'' \<notin> set path" "n < 2 ^ 64"
    and "length path + length (decimal n) + 2 \<le> usable (length path + length (decimal n) + 1)"
  shows "tdtimetravel_open usable True fr sys_open drv (path @ CHR '':'' # decimal n) =
    (case pd_initialize_read_only zero_disk fr (sys_open path) \<lparr>tv_sec = of_nat n, tv_nsec = 0\<rparr> of
       Inl e \<Rightarrow> Inl e
     | Inr (ret, d, f) \<Rightarrow>
         if ret = -1 then Inr (ret, drv\<lparr>prv_disk := d\<rparr>, f)
         else Inr (ret, drv\<lparr>prv_disk := d, drv_info := pd_set_driver_info d\<rparr>, f))"
  using split_name_time_ok [OF assms(1), of "decimal n" usable] assms(3) strtoull10_decimal [of "[]" n] assms(2)
  by (simp add: tdtimetravel_open_def)

section \<open>Results\<close>

text \<open>Reading a block always reports success, so the drivers never report a read error.\<close>

lemma fill_block_result: "fill_block d f buf a off dsize = Inr (r, buf', d', f') \<Longrightarrow> r = 0"
  by (auto simp: fill_block_def split: if_splits sum.splits prod.splits)

lemma zero_block_result: "zero_block d f buf a = Inr (r, buf', d', f') \<Longrightarrow> r = 0"
  by (simp add: zero_block_def)

lemmas block_results = fill_block_result zero_block_result

lemma read_latest_block_result: "read_latest_block j d f buf a block = Inr (r, buf', d', f') \<Longrightarrow> r = 0"
  by (auto simp: read_latest_block_def Let_def split: if_splits sum.splits prod.splits dest: block_results)

lemma read_current_block_result: "read_current_block j d f buf a block = Inr (r, buf', d', f') \<Longrightarrow> r = 0"
  unfolding read_current_block_def Let_def
  by (auto split: if_splits sum.splits prod.splits dest: block_results)

lemma read_block_result: "read_block j d f buf a block = Inr (r, buf', d', f') \<Longrightarrow> r = 0"
  by (auto simp: read_block_def split: if_splits dest: read_latest_block_result read_current_block_result)

lemma read_blocks_result: "read_blocks j cap first n i d f buf = Inr (r, buf', d', f') \<Longrightarrow> r = 0"
proof (induction j cap first n i d f buf rule: read_blocks.induct)
  case (2 j cap first n i d f buf)
  then show ?case
    by (auto simp: Let_def split: if_splits sum.splits prod.splits dest: read_block_result)
qed simp

lemma read_span_result: "read_span j stop sector k d f buf = Inr (r, buf', d', f') \<Longrightarrow> r = 0"
proof (induction j stop sector k d f buf rule: read_span.induct)
  case (1 j stop sector k d f buf)
  from 1(2) show ?case
    by (subst (asm) read_span.simps)
      (auto simp: Let_def split: if_splits sum.splits prod.splits dest: read_block_result 1(1))
qed

lemma pd_read_result: "pd_read j d f q = Inr (r, buf, d', f') \<Longrightarrow> r = 0"
  by (auto simp: pd_read_def Let_def split: if_splits sum.splits prod.splits
      dest: read_blocks_result read_span_result)

lemma write_block_result: "write_block j now q sector remain buf d f = Inr (r, rem, buf', d', f') \<Longrightarrow> r = 0"
  unfolding write_block_def Let_def
  by (auto split: if_splits sum.splits prod.splits dest: read_latest_block_result)

lemma write_loop_result: "write_loop fuel j now q sector remain buf d f = Inr (r, d', f') \<Longrightarrow> r = 0"
proof (induction fuel arbitrary: sector remain buf d f)
  case 0
  then show ?case by (subst (asm) write_loop.simps) (simp split: if_splits)
next
  case (Suc fuel)
  from Suc.prems show ?case
    by (subst (asm) write_loop.simps)
      (auto split: if_splits sum.splits prod.splits dest: write_block_result Suc.IH)
qed

lemma pd_write_result: "pd_write j now d f q = Inr (r, d', f') \<Longrightarrow> r = 0"
  by (auto simp: pd_write_def split: if_splits dest: write_loop_result)

section \<open>Properties\<close>

text \<open>C14.  No request of the preservation and time travel drivers completes with an error,
  whatever the file does: failures of \<open>read\<close> and \<open>write\<close> below the store are dropped.  Only a
  write to the time travel driver is refused.\<close>

theorem completions_report_success:
  "(case tdpreservation_queue_read j drv f q of Inl e \<Rightarrow> True | Inr ((q', err), drv', f') \<Rightarrow> err = 0) \<and>
   (case tdpreservation_queue_write j now drv f q of Inl e \<Rightarrow> True | Inr ((q', err), drv', f') \<Rightarrow> err = 0 \<and> q' = q) \<and>
   (case tdtimetravel_queue_read j drv f q of Inl e \<Rightarrow> True | Inr ((q', err), drv', f') \<Rightarrow> err = 0) \<and>
   tdtimetravel_queue_write q = (q, - EBUSY)"
  by (auto simp: tdpreservation_queue_read_def tdpreservation_queue_write_def tdtimetravel_queue_read_def
      tdtimetravel_queue_write_def split: sum.splits prod.splits dest: pd_read_result pd_write_result)

text \<open>The name \<open>path:seconds\<close> opens \<open>path\<close> at the start of that second: for a path without
  a colon, digits that fit 64 bits, and an allocator that leaves one byte beyond the length.\<close>

theorem timetravel_name:
  assumes "CHR '':'' \<notin> set path" "n < 2 ^ 64"
    and "length path + length (decimal n) + 2 \<le> usable (length path + length (decimal n) + 1)"
    and "pd_initialize_read_only zero_disk fr (sys_open path) \<lparr>tv_sec = of_nat n, tv_nsec = 0\<rparr> = Inr (0, d, f)"
  shows "tdtimetravel_open usable True fr sys_open drv (path @ CHR '':'' # decimal n) =
    Inr (0, drv\<lparr>prv_disk := d, drv_info := pd_set_driver_info d\<rparr>, f)"
  using tdtimetravel_open_ok [where usable = usable, OF assms(1-3), of fr sys_open drv] assms(4) by simp

abbreviation small_image :: ofile where
  "small_image \<equiv> \<lparr>fdata = store_le 8 (store_le 8 zeros 8 (4096 :: u64)) 16 (512 :: u64), fsize = 24, fpos = 0, fscript = []\<rparr>"

lemma small_image_opens:
  "\<exists>d f. pd_initialize_read_only zero_disk fr (Some small_image) t = Inr (0, d, f)"
proof -
  have "hdr_block_size (memcpy (fresh_header fr) 0 (fdata small_image) 0 24) = 4096"
  proof -
    have "hdr_block_size (memcpy (fresh_header fr) 0 (fdata small_image) 0 24) = hdr_block_size (fdata small_image)"
      by (auto simp: hdr_block_size_def memcpy_def intro: load_le_cong)
    then show ?thesis by (simp add: hdr_block_size_def mem_simps)
  qed
  then show ?thesis
    by (simp add: pd_initialize_read_only_def open_disk_def read_header_def file_read_ok Let_def split: prod.splits)
qed

lemma decimal_42: "decimal 42 = ''42''"
  by (simp add: digit_char_def decimal.simps [of 42] decimal.simps [of 4] char_of_def bit_nat_def)

lemma timetravel_name_witness:
  "\<forall>fr drv. \<exists>d f. tdtimetravel_open (\<lambda>n. n + 8) True fr (\<lambda>_. Some small_image) drv ''/img:42'' =
    Inr (0, drv\<lparr>prv_disk := d, drv_info := pd_set_driver_info d\<rparr>, f)"
proof (intro allI)
  fix fr drv
  obtain d f where "pd_initialize_read_only zero_disk fr (Some small_image) \<lparr>tv_sec = of_nat 42, tv_nsec = 0\<rparr> = Inr (0, d, f)"
    using small_image_opens by blast
  from timetravel_name [of "''/img''" 42 "\<lambda>n. n + 8", OF _ _ _ this]
  show "\<exists>d f. tdtimetravel_open (\<lambda>n. n + 8) True fr (\<lambda>_. Some small_image) drv ''/img:42'' =
    Inr (0, drv\<lparr>prv_disk := d, drv_info := pd_set_driver_info d\<rparr>, f)"
    by (auto simp: decimal_42)
qed

end
