(* ===== verification/Disktype.thy ===== *)
theory Disktype
  imports C_Library
begin

text \<open>
  \<open>tapdisk-disktype.c\<close> and \<open>tapdisk-disktype.h\<close>: the table of disk types, the table of
  drivers beside it, and the parsing of \<open>type:path\<close> parameters.  A NULL pointer in a table
  is None; the drivers themselves are known by the names of their structures.
\<close>

record disk_info =
  info_name :: string
  info_desc :: string
  disk_flags :: nat

definition DISK_TYPE_AIO :: nat where "DISK_TYPE_AIO = 0"
definition DISK_TYPE_SYNC :: nat where "DISK_TYPE_SYNC = 1"
definition DISK_TYPE_VMDK :: nat where "DISK_TYPE_VMDK = 2"
definition DISK_TYPE_VHDSYNC :: nat where "DISK_TYPE_VHDSYNC = 3"
definition DISK_TYPE_VHD :: nat where "DISK_TYPE_VHD = 4"
definition DISK_TYPE_RAM :: nat where "DISK_TYPE_RAM = 5"
definition DISK_TYPE_QCOW :: nat where "DISK_TYPE_QCOW = 6"
definition DISK_TYPE_BLOCK_CACHE :: nat where "DISK_TYPE_BLOCK_CACHE = 7"
definition DISK_TYPE_LOG :: nat where "DISK_TYPE_LOG = 8"
definition DISK_TYPE_REMUS :: nat where "DISK_TYPE_REMUS = 9"
definition DISK_TYPE_PRESERVATION :: nat where "DISK_TYPE_PRESERVATION = 10"
definition DISK_TYPE_TIMETRAVEL :: nat where "DISK_TYPE_TIMETRAVEL = 11"
definition DISK_TYPE_NAME_MAX :: nat where "DISK_TYPE_NAME_MAX = 32"
definition DISK_TYPE_SINGLE_CONTROLLER :: nat where "DISK_TYPE_SINGLE_CONTROLLER = 1"

lemmas disk_type_defs [simp] =
  DISK_TYPE_AIO_def DISK_TYPE_SYNC_def DISK_TYPE_VMDK_def DISK_TYPE_VHDSYNC_def DISK_TYPE_VHD_def
  DISK_TYPE_RAM_def DISK_TYPE_QCOW_def DISK_TYPE_BLOCK_CACHE_def DISK_TYPE_LOG_def
  DISK_TYPE_REMUS_def DISK_TYPE_PRESERVATION_def DISK_TYPE_TIMETRAVEL_def DISK_TYPE_NAME_MAX_def

definition aio_disk :: disk_info where
  "aio_disk = \<lparr>info_name = ''aio'', info_desc = ''raw image (aio)'', disk_flags = 0\<rparr>"
definition sync_disk :: disk_info where
  "sync_disk = \<lparr>info_name = ''sync'', info_desc = ''raw image (sync)'', disk_flags = 0\<rparr>"
definition vmdk_disk :: disk_info where
  "vmdk_disk = \<lparr>info_name = ''vmdk'', info_desc = ''vmware image (vmdk)'', disk_flags = 1\<rparr>"
definition vhdsync_disk :: disk_info where
  "vhdsync_disk = \<lparr>info_name = ''vhdsync'',
     info_desc = ''virtual server image (vhd) - synchronous'', disk_flags = 1\<rparr>"
definition vhd_disk :: disk_info where
  "vhd_disk = \<lparr>info_name = ''vhd'', info_desc = ''virtual server image (vhd)'', disk_flags = 0\<rparr>"
definition ram_disk :: disk_info where
  "ram_disk = \<lparr>info_name = ''ram'', info_desc = ''ramdisk image (ram)'', disk_flags = 1\<rparr>"
definition qcow_disk :: disk_info where
  "qcow_disk = \<lparr>info_name = ''qcow'', info_desc = ''qcow disk (qcow)'', disk_flags = 0\<rparr>"
definition block_cache_disk :: disk_info where
  "block_cache_disk = \<lparr>info_name = ''bc'', info_desc = ''block cache image (bc)'', disk_flags = 1\<rparr>"
definition log_disk :: disk_info where
  "log_disk = \<lparr>info_name = ''log'', info_desc = ''write logger (log)'', disk_flags = 0\<rparr>"
definition remus_disk :: disk_info where
  "remus_disk = \<lparr>info_name = ''remus'', info_desc = ''remus disk replicator (remus)'', disk_flags = 0\<rparr>"
definition preservation_disk_type :: disk_info where
  "preservation_disk_type = \<lparr>info_name = ''preservation'',
     info_desc = ''aio with filesystem preservation (preservation)'', disk_flags = 0\<rparr>"
definition timetravel_disk :: disk_info where
  "timetravel_disk = \<lparr>info_name = ''timetravel'',
     info_desc = ''timetravel disk (timetravel)'', disk_flags = 0\<rparr>"

lemmas disk_infos =
  aio_disk_def sync_disk_def vmdk_disk_def vhdsync_disk_def vhd_disk_def ram_disk_def qcow_disk_def
  block_cache_disk_def log_disk_def remus_disk_def preservation_disk_type_def timetravel_disk_def

definition tapdisk_disk_types :: "disk_info option list" where
  "tapdisk_disk_types =
     [Some aio_disk, Some sync_disk, Some vmdk_disk, Some vhdsync_disk, Some vhd_disk,
      Some ram_disk, Some qcow_disk, Some block_cache_disk, Some log_disk, Some remus_disk,
      Some preservation_disk_type, Some timetravel_disk, None]"

text \<open>The entries of types 1 and 2 are compiled out, and type 3 has none.\<close>

definition tapdisk_disk_drivers :: "string option list" where
  "tapdisk_disk_drivers =
     [Some ''tapdisk_aio'', None, None, None, Some ''tapdisk_vhd'', Some ''tapdisk_ram'',
      Some ''tapdisk_qcow'', Some ''tapdisk_block_cache'', Some ''tapdisk_log'',
      Some ''tapdisk_remus'', Some ''tapdisk_preservation'', Some ''tapdisk_timetravel'', None]"

text \<open>The loop of \<open>tapdisk_disktype_find\<close> from index \<open>i\<close> on; \<open>types\<close> is the rest of the table.\<close>

fun find_type :: "string \<Rightarrow> nat \<Rightarrow> disk_info option list \<Rightarrow> int" where
  "find_type name i (Some info # types) =
     (if name \<noteq> info_name info then find_type name (Suc i) types
      else if tapdisk_disk_drivers ! i = None then - ENOSYS
      else int i)"
| "find_type name i types = - ENOENT"

definition tapdisk_disktype_find :: "string \<Rightarrow> int" where
  "tapdisk_disktype_find name = find_type name 0 tapdisk_disk_types"

text \<open>The result and the value of \<open>*_path\<close>, None when it is not assigned.\<close>

definition tapdisk_disktype_parse_params :: "string \<Rightarrow> int \<times> string option" where
  "tapdisk_disktype_parse_params params =
     (case strchr params (CHR '':'') of
        None \<Rightarrow> (- EINVAL, None)
      | Some len \<Rightarrow>
          if DISK_TYPE_NAME_MAX - 1 < len then (- ENAMETOOLONG, None)
          else
            (let type = tapdisk_disktype_find (take len params) in
             (type, if 0 \<le> type then Some (drop (len + 1) params) else None)))"

text \<open>The result and the values of \<open>*_path\<close> and \<open>*_type\<close>.\<close>

definition tapdisk_parse_disk_type :: "string \<Rightarrow> int \<times> string option \<times> int option" where
  "tapdisk_parse_disk_type params =
     (let (type, path) = tapdisk_disktype_parse_params params in
      if type < 0 then (type, path, None) else (0, path, Some type))"

section \<open>The tables\<close>

text \<open>The names of the types that have a driver, with their numbers.\<close>

definition supported :: "(string \<times> nat) list" where
  "supported =
     [(''aio'', DISK_TYPE_AIO), (''vhd'', DISK_TYPE_VHD), (''ram'', DISK_TYPE_RAM),
      (''qcow'', DISK_TYPE_QCOW), (''bc'', DISK_TYPE_BLOCK_CACHE), (''log'', DISK_TYPE_LOG),
      (''remus'', DISK_TYPE_REMUS), (''preservation'', DISK_TYPE_PRESERVATION),
      (''timetravel'', DISK_TYPE_TIMETRAVEL)]"

definition unsupported :: "string list" where
  "unsupported = [''sync'', ''vmdk'', ''vhdsync'']"

lemma disktype_find_spec:
  "tapdisk_disktype_find name =
     (case map_of supported name of
        Some i \<Rightarrow> int i
      | None \<Rightarrow> if name \<in> set unsupported then - ENOSYS else - ENOENT)"
  by (simp add: tapdisk_disktype_find_def tapdisk_disk_types_def tapdisk_disk_drivers_def disk_infos
      supported_def unsupported_def)

lemma supported_name:
  "map_of supported name = Some i \<Longrightarrow> CHR '':'' \<notin> set name \<and> length name \<le> 31 \<and>
     info_name (the (tapdisk_disk_types ! i)) = name \<and> tapdisk_disk_drivers ! i \<noteq> None"
  by (auto simp: supported_def tapdisk_disk_types_def disk_infos tapdisk_disk_drivers_def
      split: if_splits)

lemma parse_params_name:
  assumes "CHR '':'' \<notin> set name" "length name \<le> 31"
  shows "tapdisk_disktype_parse_params (name @ CHR '':'' # path) =
     (tapdisk_disktype_find name, if 0 \<le> tapdisk_disktype_find name then Some path else None)"
proof -
  have "strchr (name @ CHR '':'' # path) (CHR '':'') = Some (length name)"
    using assms(1) by (simp add: strchr_Some)
  with assms(2) show ?thesis by (simp add: tapdisk_disktype_parse_params_def Let_def)
qed

section \<open>Properties\<close>

text \<open>C19.  Parsing \<open>name:path\<close>: the number found is the index of the table entry of that name
  and its driver exists, the path is the rest of the string; a name without a driver gives
  \<open>-ENOSYS\<close>, any other \<open>-ENOENT\<close>, and no type is assigned then.\<close>

theorem parse_disk_type_roundtrip:
  assumes "CHR '':'' \<notin> set name" "length name \<le> 31"
  shows "tapdisk_parse_disk_type (name @ CHR '':'' # path) =
     (case map_of supported name of
        Some i \<Rightarrow> (0, Some path, Some (int i))
      | None \<Rightarrow> (if name \<in> set unsupported then - ENOSYS else - ENOENT, None, None))"
  by (simp add: tapdisk_parse_disk_type_def parse_params_name [OF assms] disktype_find_spec split: option.split)

lemma parse_disk_type_roundtrip_witness:
  "tapdisk_parse_disk_type ''preservation:/img'' = (0, Some ''/img'', Some 10)"
  using parse_disk_type_roundtrip [of "''preservation''" "''/img''"] by (simp add: supported_def)

text \<open>C20. The tables agree with the numbers: the type found for a name is the number of the entry with
  this name, and the driver of that number is the one the name stands for; every other name gets an error.
  A string without a colon is refused, and so is every one whose first colon is behind the 31st character.\<close>

definition driver_named :: "string \<Rightarrow> string" where
  "driver_named name = ''tapdisk_'' @ (if name = ''bc'' then ''block_cache'' else name)"

theorem disk_type_tables:
  "(case tapdisk_disktype_find name of n \<Rightarrow>
      if 0 \<le> n then map_option info_name (tapdisk_disk_types ! nat n) = Some name \<and>
        tapdisk_disk_drivers ! nat n = Some (driver_named name) \<and> nat n < length tapdisk_disk_drivers
      else n = - ENOSYS \<or> n = - ENOENT) \<and>
   (CHR '':'' \<notin> set params \<longrightarrow> tapdisk_parse_disk_type params = (- EINVAL, None, None)) \<and>
   (CHR '':'' \<in> set params \<and> CHR '':'' \<notin> set (take 32 params) \<longrightarrow>
      tapdisk_parse_disk_type params = (- ENAMETOOLONG, None, None))"
proof -
  have "(case tapdisk_disktype_find name of n \<Rightarrow>
      if 0 \<le> n then map_option info_name (tapdisk_disk_types ! nat n) = Some name \<and>
        tapdisk_disk_drivers ! nat n = Some (driver_named name) \<and> nat n < length tapdisk_disk_drivers
      else n = - ENOSYS \<or> n = - ENOENT)"
  proof (cases "map_of supported name")
    case None
    then show ?thesis by (simp add: disktype_find_spec)
  next
    case (Some i)
    have "i < length tapdisk_disk_drivers" "tapdisk_disk_types ! i \<noteq> None"
      "tapdisk_disk_drivers ! i = Some (driver_named name)"
      using map_of_SomeD [OF Some]
      by (auto simp: supported_def tapdisk_disk_drivers_def tapdisk_disk_types_def driver_named_def)
    then show ?thesis using Some supported_name [OF Some] by (auto simp: disktype_find_spec)
  qed
  moreover have "tapdisk_parse_disk_type params = (- EINVAL, None, None)" if "CHR '':'' \<notin> set params"
    using that strchr_None [of params "CHR '':''"] by (simp add: tapdisk_parse_disk_type_def tapdisk_disktype_parse_params_def)
  moreover have "tapdisk_parse_disk_type params = (- ENAMETOOLONG, None, None)"
    if c: "CHR '':'' \<in> set params" "CHR '':'' \<notin> set (take 32 params)"
  proof -
    obtain us vs where p: "params = us @ CHR '':'' # vs" "CHR '':'' \<notin> set us" using split_list_first [OF c(1)] by blast
    have "32 \<le> length us"
    proof (rule ccontr)
      assume "\<not> 32 \<le> length us"
      then have "take 32 params = us @ CHR '':'' # take (31 - length us) vs"
        by (simp add: p(1) take_Cons' Suc_diff_le)
      with c(2) show False by simp
    qed
    moreover have "strchr params (CHR '':'') = Some (length us)" using p by (simp add: strchr_Some)
    ultimately show ?thesis by (simp add: tapdisk_parse_disk_type_def tapdisk_disktype_parse_params_def)
  qed
  ultimately show ?thesis by blast
qed

lemma disk_type_tables_witness:
  "tapdisk_parse_disk_type ''/dev/sda'' = (- EINVAL, None, None) \<and>
   tapdisk_parse_disk_type (replicate 32 CHR ''x'' @ '':/img'') = (- ENAMETOOLONG, None, None)"
  using disk_type_tables [of "''aio''" "''/dev/sda''"]
    disk_type_tables [of "''aio''" "replicate 32 CHR ''x'' @ '':/img''"] by simp

end
