(* ===== verification/Aio_Pool.thy ===== *)
theory Aio_Pool
  imports C_Library Preservation_Format "HOL-Library.Multiset"
begin

text \<open>
  What \<open>block-aio.c\<close> and \<open>block-log.c\<close> share: a driver with a fixed number of request
  slots, a stack of the free ones, and requests handed to tapdisk's I/O queue until their
  completion callback runs.  The locale \<open>request_pool\<close> is the contract of such a driver;
  what follows from it for every run is proved once here and reaches each driver by
  interpretation.
\<close>

section \<open>Data\<close>

text \<open>\<open>td_prep_read\<close> and \<open>td_prep_write\<close> fill a \<open>tiocb\<close>; \<open>io_arg\<close> is the slot that the
  callback gets back.\<close>

record tiocb =
  io_write :: bool
  io_fd :: int
  io_buf :: mem
  io_size :: c_int
  io_offset :: u64
  io_arg :: nat

text \<open>The slots are named by their index in \<open>aio_requests\<close>; \<open>aio_free_list\<close> holds indices.\<close>

record aio_state =
  aio_fd :: int
  aio_free_count :: nat
  aio_requests :: "td_request list"
  aio_free_list :: "nat list"

datatype effect = Queued tiocb | Completed td_request int

section \<open>Opening\<close>

record open_flags =
  o_direct :: bool
  o_rdonly :: bool

text \<open>What \<open>fstat\<close>, \<open>blk_getimagesize\<close> and \<open>blk_getsectorsize\<close> answer; None for failure.\<close>

record image_stat =
  st_isblk :: bool
  st_size :: u64
  blk_image_size :: "u64 option"
  blk_sector_size :: "u64 option"

section \<open>The contract\<close>

locale request_pool =
  fixes slots :: nat
    and ok :: "'s \<Rightarrow> bool"
    and free :: "'s \<Rightarrow> nat list"
    and slot :: "'s \<Rightarrow> nat \<Rightarrow> td_request"
    and submit :: "'q \<Rightarrow> 's \<Rightarrow> td_request \<Rightarrow> fault + 's \<times> effect"
    and complete :: "'s \<Rightarrow> nat \<Rightarrow> int \<Rightarrow> fault + 's \<times> effect"
  assumes submit_full: "ok s \<Longrightarrow> free s = [] \<Longrightarrow> submit x s q = Inr (s, Completed q (- EBUSY))"
    and submit_free: "ok s \<Longrightarrow> free s \<noteq> [] \<Longrightarrow>
      \<exists>s' io. submit x s q = Inr (s', Queued io) \<and> ok s' \<and> io_arg io = last (free s) \<and>
        free s' = butlast (free s) \<and> slot s' = (slot s)(last (free s) := q)"
    and complete_slot: "ok s \<Longrightarrow> length (free s) < slots \<Longrightarrow> a < slots \<Longrightarrow>
      \<exists>s'. complete s a err = Inr (s', Completed (slot s a) err) \<and> ok s' \<and>
        free s' = free s @ [a] \<and> slot s' = slot s"
    and free_slots: "ok s \<Longrightarrow> set (free s) \<subseteq> {..<slots}"
begin

text \<open>The states a driver and its environment reach: \<open>flight\<close> are the slots whose callback
  is due, \<open>subs\<close> the requests submitted and \<open>comps\<close> the requests completed so far.\<close>

inductive reach :: "'s \<Rightarrow> 's \<Rightarrow> nat list \<Rightarrow> td_request multiset \<Rightarrow> td_request multiset \<Rightarrow> bool"
  for s0 :: 's where
  start: "reach s0 s0 [] {#} {#}"
| queued: "reach s0 s flight subs comps \<Longrightarrow> submit x s q = Inr (s', Queued io) \<Longrightarrow>
    reach s0 s' (io_arg io # flight) (add_mset q subs) comps"
| refused: "reach s0 s flight subs comps \<Longrightarrow> submit x s q = Inr (s', Completed q' e) \<Longrightarrow>
    reach s0 s' flight (add_mset q subs) (add_mset q' comps)"
| called_back: "reach s0 s flight subs comps \<Longrightarrow> a \<in> set flight \<Longrightarrow>
    complete s a err = Inr (s', Completed q' e) \<Longrightarrow>
    reach s0 s' (remove1 a flight) subs (add_mset q' comps)"

definition balanced :: "'s \<Rightarrow> nat list \<Rightarrow> td_request multiset \<Rightarrow> td_request multiset \<Rightarrow> bool" where
  "balanced s flight subs comps \<longleftrightarrow>
     ok s \<and> mset (free s) + mset flight = mset [0..<slots] \<and>
     subs = comps + image_mset (slot s) (mset flight)"

lemma free_flight:
  assumes "balanced s flight subs comps"
  shows "length (free s) + length flight = slots" "distinct (free s @ flight)"
    "set (free s) \<union> set flight = {..<slots}"
proof -
  have m: "mset (free s @ flight) = mset [0..<slots]" using assms by (simp add: balanced_def)
  then show "length (free s) + length flight = slots"
    by (metis diff_zero length_append length_upt size_mset)
  show "distinct (free s @ flight)" using m by (metis distinct_upt mset_eq_imp_distinct_iff)
  have "set (free s @ flight) = set [0..<slots]" using m by (rule mset_eq_setD)
  then show "set (free s) \<union> set flight = {..<slots}" by (simp add: atLeast0LessThan)
qed

lemma submit_queued:
  assumes "ok s" "submit x s q = Inr (s', Queued io)"
  shows "free s \<noteq> []" "ok s'" "io_arg io = last (free s)" "free s' = butlast (free s)"
    "slot s' = (slot s)(last (free s) := q)"
proof -
  show ne: "free s \<noteq> []"
  proof
    assume "free s = []"
    from submit_full [OF assms(1) this, of x q] assms(2) show False by simp
  qed
  from submit_free [OF assms(1) ne, of x q] obtain s1 io1 where
    "submit x s q = Inr (s1, Queued io1)" "ok s1" "io_arg io1 = last (free s)"
    "free s1 = butlast (free s)" "slot s1 = (slot s)(last (free s) := q)" by blast
  with assms(2) show "ok s'" "io_arg io = last (free s)" "free s' = butlast (free s)"
    "slot s' = (slot s)(last (free s) := q)" by simp_all
qed

lemma submit_refused:
  assumes "ok s" "submit x s q = Inr (s', Completed q' e)"
  shows "free s = []" "s' = s" "q' = q" "e = - EBUSY"
proof -
  show empty: "free s = []"
  proof (rule ccontr)
    assume "free s \<noteq> []"
    from submit_free [OF assms(1) this, of x q] assms(2) show False by auto
  qed
  from submit_full [OF assms(1) empty, of x q] assms(2) show "s' = s" "q' = q" "e = - EBUSY"
    by simp_all
qed

lemma balanced_submit:
  assumes b: "balanced s flight subs comps" and ev: "submit x s q = Inr (s', Queued io)"
  shows "balanced s' (io_arg io # flight) (add_mset q subs) comps"
proof -
  have ok: "ok s" using b by (simp add: balanced_def)
  note s' = submit_queued [OF ok ev]
  have "mset (free s) = mset (butlast (free s) @ [last (free s)])" using s'(1) by simp
  then have f: "add_mset (last (free s)) (mset (butlast (free s))) = mset (free s)" by simp
  have "last (free s) \<notin> set flight"
    using free_flight(2) [OF b] last_in_set [OF s'(1)] by auto
  then have "image_mset (slot s') (mset flight) = image_mset (slot s) (mset flight)"
    unfolding s'(5) by (intro image_mset_cong) auto
  moreover have "mset (free s') + mset (io_arg io # flight) = mset (free s) + mset flight"
    using f by (simp add: s'(3,4))
  moreover have "image_mset (slot s') (mset (io_arg io # flight)) =
      add_mset q (image_mset (slot s') (mset flight))" by (simp add: s'(3,5))
  ultimately show ?thesis
    using b s'(2) by (simp only: balanced_def) (simp del: mset.simps mset_upt)
qed

lemma complete_done:
  assumes b: "balanced s flight subs comps" and a: "a \<in> set flight"
  obtains s' where "complete s a err = Inr (s', Completed (slot s a) err)" "ok s'"
    "free s' = free s @ [a]" "slot s' = slot s"
proof -
  have "ok s" using b by (simp add: balanced_def)
  moreover have "length (free s) < slots"
    using free_flight(1) [OF b] length_pos_if_in_set [OF a] by linarith
  moreover have "a < slots" using free_flight(3) [OF b] a by blast
  ultimately show ?thesis using complete_slot [of s a err] that by blast
qed

lemma balanced_callback:
  assumes b: "balanced s flight subs comps" and a: "a \<in> set flight"
    and ev: "complete s a err = Inr (s', Completed q' e)"
  shows "balanced s' (remove1 a flight) subs (add_mset q' comps)"
proof -
  from complete_done [OF b a, of err] obtain s1 where
    "complete s a err = Inr (s1, Completed (slot s a) err)" "ok s1"
    "free s1 = free s @ [a]" "slot s1 = slot s" by blast
  with ev have s': "ok s'" "free s' = free s @ [a]" "slot s' = slot s" "q' = slot s a" by simp_all
  have m: "mset flight = add_mset a (mset (remove1 a flight))" using a by simp
  have "mset (free s') + mset (remove1 a flight) = mset (free s) + mset flight"
    by (simp only: m s'(2)) simp
  moreover have "image_mset (slot s) (mset flight) =
      add_mset q' (image_mset (slot s') (mset (remove1 a flight)))"
    by (simp only: m s'(3,4)) simp
  ultimately show ?thesis
    using b s'(1) by (simp only: balanced_def) (simp del: mset_upt mset_remove1)
qed

lemma reach_balanced:
  assumes "reach s0 s flight subs comps" and "ok s0" "mset (free s0) = mset [0..<slots]"
  shows "balanced s flight subs comps"
  using assms(1)
proof (induction rule: reach.induct)
  case start
  with assms show ?case by (simp add: balanced_def)
next
  case (queued s flight subs comps x q s' io)
  then show ?case by (intro balanced_submit)
next
  case (refused s flight subs comps x q s' q' e)
  then have "ok s" by (simp add: balanced_def)
  from submit_refused [OF this refused.hyps(2)] refused.IH show ?case by (simp add: balanced_def)
next
  case (called_back s flight subs comps a err s' q' e)
  then show ?case by (intro balanced_callback)
qed

text \<open>No submission and no callback of a request in flight goes wrong.\<close>

lemma reach_progress:
  assumes "balanced s flight subs comps"
  shows "\<exists>s' e. submit x s q = Inr (s', e)"
    and "a \<in> set flight \<Longrightarrow> \<exists>s'. complete s a err = Inr (s', Completed (slot s a) err)"
proof -
  have ok: "ok s" using assms by (simp add: balanced_def)
  show "\<exists>s' e. submit x s q = Inr (s', e)"
    using submit_full [OF ok, of x q] submit_free [OF ok, of x q] by (cases "free s = []") blast+
qed (blast elim: complete_done [OF assms])

end

end
