(* ===== verification/Block_Aio.thy ===== *)
theory Block_Aio
  imports Aio_Pool
begin

text \<open>
  \<open>block-aio.c\<close>: the asynchronous driver for raw images, opened without \<open>O_DIRECT\<close>
  (\<open>O_DIRECT_FOR_AIO\<close> is 0).
  \<open>max_reqs\<close> stands for tapdisk's \<open>TAPDISK_DATA_REQUESTS\<close>, the number of request slots.
\<close>

section \<open>Image information\<close>

text \<open>\<open>st\<close> is None when \<open>fstat\<close> fails.\<close>

definition tdaio_get_image_info :: "image_stat option \<Rightarrow> td_disk_info \<Rightarrow> int \<times> td_disk_info" where
  "tdaio_get_image_info st info =
     (case st of
        None \<Rightarrow> (- EINVAL, info)
      | Some s \<Rightarrow>
          (case
             (if st_isblk s then
                (case blk_image_size s of
                   None \<Rightarrow> (- EINVAL, info\<lparr>info_size := 0\<rparr>)
                 | Some n \<Rightarrow>
                     (0, info\<lparr>info_size := n,
                             info_sector_size := (case blk_sector_size s of
                                None \<Rightarrow> DEFAULT_SECTOR_SIZE | Some z \<Rightarrow> z)\<rparr>))
              else
                (0, info\<lparr>info_size := signed_drop_bit 9 (st_size s),
                        info_sector_size := DEFAULT_SECTOR_SIZE\<rparr>)) of
             (ret, info1) \<Rightarrow>
               if ret \<noteq> 0 then (ret, info1)
               else
                 (let info2 =
                    (if info_size info1 = 0
                     then info1\<lparr>info_size := 16836057, info_sector_size := DEFAULT_SECTOR_SIZE\<rparr>
                     else info1)
                  in (0, info2\<lparr>info_flags := 0\<rparr>))))"

section \<open>Opening and closing\<close>

definition tdaio_init :: "nat \<Rightarrow> td_request list \<Rightarrow> aio_state" where
  "tdaio_init max_reqs zeroed =
     \<lparr>aio_fd = 0, aio_free_count = max_reqs, aio_requests = zeroed, aio_free_list = [0..<max_reqs]\<rparr>"

text \<open>
  \<open>sys_open k name flags\<close> is the \<open>k\<close>-th call of \<open>open\<close>: an error number or a descriptor;
  \<open>stat fd\<close> what the calls on the descriptor answer; \<open>zeroed\<close> the cleared slots.  The result
  is the return value, the driver state, the image information and the descriptors open at
  the end.
\<close>

definition tdaio_open ::
  "nat \<Rightarrow> td_request list \<Rightarrow> (nat \<Rightarrow> string \<Rightarrow> open_flags \<Rightarrow> int + int) \<Rightarrow> (int \<Rightarrow> image_stat option)
     \<Rightarrow> td_disk_info \<Rightarrow> string \<Rightarrow> bool \<Rightarrow> int \<times> aio_state \<times> td_disk_info \<times> int list" where
  "tdaio_open max_reqs zeroed sys_open stat info name rdonly =
     (let st = tdaio_init max_reqs zeroed;
          first = sys_open 0 name \<lparr>o_direct = False, o_rdonly = rdonly\<rparr>;
          got = (if first = Inl EINVAL then sys_open 1 name \<lparr>o_direct = False, o_rdonly = rdonly\<rparr>
                 else first) in
      case got of
        Inl e \<Rightarrow> (0 - e, st, info, [])
      | Inr fd \<Rightarrow>
          (let (ret, info1) = tdaio_get_image_info (stat fd) info in
           if ret \<noteq> 0 then (ret, st, info1, []) else (ret, st\<lparr>aio_fd := fd\<rparr>, info1, [fd])))"

text \<open>The descriptor closed, and the result.\<close>

definition tdaio_close :: "aio_state \<Rightarrow> int \<times> int" where
  "tdaio_close st = (aio_fd st, 0)"

definition tdaio_get_parent_id :: "int \<Rightarrow> int" where
  "tdaio_get_parent_id no_parent = no_parent"

definition tdaio_validate_parent :: int where
  "tdaio_validate_parent = - EINVAL"

section \<open>Requests\<close>

definition tdaio_complete :: "aio_state \<Rightarrow> nat \<Rightarrow> int \<Rightarrow> fault + aio_state \<times> effect" where
  "tdaio_complete st aio err =
     (if length (aio_requests st) \<le> aio \<or> length (aio_free_list st) \<le> aio_free_count st
      then Inl Out_of_bounds
      else Inr (st\<lparr>aio_free_list := (aio_free_list st)[aio_free_count st := aio],
                  aio_free_count := aio_free_count st + 1\<rparr>,
                Completed (aio_requests st ! aio) err))"

definition tdaio_queue_read :: "td_disk_info \<Rightarrow> aio_state \<Rightarrow> td_request \<Rightarrow> fault + aio_state \<times> effect" where
  "tdaio_queue_read info st treq =
     (let sz = to_int (sext64 (secs treq) * info_sector_size info);
          offset = sec treq * info_sector_size info in
      if aio_free_count st = 0 then Inr (st, Completed treq (- EBUSY))
      else if length (aio_free_list st) < aio_free_count st then Inl Out_of_bounds
      else
        (let aio = aio_free_list st ! (aio_free_count st - 1) in
         if length (aio_requests st) \<le> aio then Inl Out_of_bounds
         else Inr (st\<lparr>aio_free_count := aio_free_count st - 1,
                     aio_requests := (aio_requests st)[aio := treq]\<rparr>,
                   Queued \<lparr>io_write = False, io_fd = aio_fd st, io_buf = req_buf treq,
                           io_size = sz, io_offset = offset, io_arg = aio\<rparr>)))"

definition tdaio_queue_write :: "td_disk_info \<Rightarrow> aio_state \<Rightarrow> td_request \<Rightarrow> fault + aio_state \<times> effect" where
  "tdaio_queue_write info st treq =
     (let sz = to_int (sext64 (secs treq) * info_sector_size info);
          offset = sec treq * info_sector_size info in
      if aio_free_count st = 0 then Inr (st, Completed treq (- EBUSY))
      else if length (aio_free_list st) < aio_free_count st then Inl Out_of_bounds
      else
        (let aio = aio_free_list st ! (aio_free_count st - 1) in
         if length (aio_requests st) \<le> aio then Inl Out_of_bounds
         else Inr (st\<lparr>aio_free_count := aio_free_count st - 1,
                     aio_requests := (aio_requests st)[aio := treq]\<rparr>,
                   Queued \<lparr>io_write = True, io_fd = aio_fd st, io_buf = req_buf treq,
                           io_size = sz, io_offset = offset, io_arg = aio\<rparr>)))"

section \<open>The driver keeps the contract of a pool\<close>

definition aio_submit :: "bool \<times> td_disk_info \<Rightarrow> aio_state \<Rightarrow> td_request \<Rightarrow> fault + aio_state \<times> effect" where
  "aio_submit x = (if fst x then tdaio_queue_write (snd x) else tdaio_queue_read (snd x))"

definition aio_ok :: "nat \<Rightarrow> aio_state \<Rightarrow> bool" where
  "aio_ok n st \<longleftrightarrow>
     length (aio_free_list st) = n \<and> length (aio_requests st) = n \<and> aio_free_count st \<le> n \<and>
     set (take (aio_free_count st) (aio_free_list st)) \<subseteq> {..<n}"

definition aio_free :: "aio_state \<Rightarrow> nat list" where
  "aio_free st = take (aio_free_count st) (aio_free_list st)"

lemma aio_free_Nil: "aio_ok n st \<Longrightarrow> aio_free st = [] \<longleftrightarrow> aio_free_count st = 0"
  by (auto simp: aio_ok_def aio_free_def)

lemma aio_last_free:
  assumes "aio_ok n st" "aio_free_count st \<noteq> 0"
  shows "last (aio_free st) = aio_free_list st ! (aio_free_count st - 1)"
    "aio_free_list st ! (aio_free_count st - 1) < n"
    "butlast (aio_free st) = take (aio_free_count st - 1) (aio_free_list st)"
proof -
  have len: "aio_free_count st \<le> length (aio_free_list st)" using assms by (simp add: aio_ok_def)
  then have ne: "aio_free st \<noteq> []" using assms by (auto simp: aio_free_def)
  show l: "last (aio_free st) = aio_free_list st ! (aio_free_count st - 1)"
    using ne len assms(2) by (simp add: last_conv_nth aio_free_def min_def)
  have "last (aio_free st) < n" using last_in_set [OF ne] assms(1) by (auto simp: aio_ok_def aio_free_def)
  then show "aio_free_list st ! (aio_free_count st - 1) < n" by (simp add: l)
  show "butlast (aio_free st) = take (aio_free_count st - 1) (aio_free_list st)"
    using len by (simp add: aio_free_def butlast_take)
qed

lemma aio_submit_free:
  assumes ok: "aio_ok n st" and ne: "aio_free st \<noteq> []"
  shows "\<exists>st' io. aio_submit x st q = Inr (st', Queued io) \<and> aio_ok n st' \<and>
    io_arg io = last (aio_free st) \<and> aio_free st' = butlast (aio_free st) \<and>
    (!) (aio_requests st') = ((!) (aio_requests st))(last (aio_free st) := q)"
proof -
  let ?a = "aio_free_list st ! (aio_free_count st - 1)"
  let ?st = "st\<lparr>aio_free_count := aio_free_count st - 1, aio_requests := (aio_requests st)[?a := q]\<rparr>"
  have c: "aio_free_count st \<noteq> 0" using ne aio_free_Nil [OF ok] by simp
  note last = aio_last_free [OF ok c]
  have len: "length (aio_free_list st) = n" "length (aio_requests st) = n" "aio_free_count st \<le> n"
    using ok by (simp_all add: aio_ok_def)
  obtain io where ev: "aio_submit x st q = Inr (?st, Queued io)" and io: "io_arg io = ?a"
    using c len last(2)
    by (cases "fst x") (auto simp: aio_submit_def tdaio_queue_read_def tdaio_queue_write_def Let_def)
  have free: "aio_free ?st = butlast (aio_free st)" using last(3) by (simp add: aio_free_def)
  then have "set (aio_free ?st) \<subseteq> {..<n}"
    using ok by (auto simp: aio_ok_def aio_free_def [symmetric] dest: in_set_butlastD)
  then have "aio_ok n ?st" using len by (auto simp: aio_ok_def aio_free_def)
  moreover have "(!) (aio_requests ?st) = ((!) (aio_requests st))(last (aio_free st) := q)"
    using last len by (auto simp: fun_eq_iff nth_list_update)
  ultimately show ?thesis using ev io free last(1) by auto
qed

lemma aio_complete_slot:
  assumes ok: "aio_ok n st" and room: "length (aio_free st) < n" and a: "a < n"
  shows "\<exists>st'. tdaio_complete st a err = Inr (st', Completed (aio_requests st ! a) err) \<and>
    aio_ok n st' \<and> aio_free st' = aio_free st @ [a] \<and> (!) (aio_requests st') = (!) (aio_requests st)"
proof -
  have len: "length (aio_free_list st) = n" "length (aio_requests st) = n" "aio_free_count st < n"
    using ok room by (auto simp: aio_ok_def aio_free_def)
  let ?st = "st\<lparr>aio_free_list := (aio_free_list st)[aio_free_count st := a],
      aio_free_count := aio_free_count st + 1\<rparr>"
  have "tdaio_complete st a err = Inr (?st, Completed (aio_requests st ! a) err)"
    using len a by (simp add: tdaio_complete_def)
  moreover have free: "aio_free ?st = aio_free st @ [a]"
    using len by (simp add: aio_free_def take_Suc_conv_app_nth)
  moreover have "aio_ok n ?st"
  proof -
    have "set (aio_free ?st) \<subseteq> {..<n}" unfolding free using ok a by (auto simp: aio_ok_def aio_free_def)
    then show ?thesis using len by (simp add: aio_ok_def aio_free_def)
  qed
  ultimately show ?thesis by auto
qed

interpretation aio_pool: request_pool n "aio_ok n" aio_free "\<lambda>st. (!) (aio_requests st)" aio_submit tdaio_complete
  for n :: nat
proof (unfold_locales, goal_cases)
  case (1 s x q)
  then have "aio_free_count s = 0" using aio_free_Nil by blast
  then show ?case
    by (simp add: aio_submit_def tdaio_queue_read_def tdaio_queue_write_def Let_def)
next
  case (2 s x q)
  then show ?case by (rule aio_submit_free)
next
  case (3 s a err)
  then show ?case by (rule aio_complete_slot)
next
  case (4 s)
  then show ?case by (simp add: aio_ok_def aio_free_def)
qed

text \<open>A driver that has just been opened has every slot free.\<close>

lemma aio_init_ok:
  assumes "length zeroed = n"
  shows "aio_ok n (tdaio_init n zeroed)" "mset (aio_free (tdaio_init n zeroed)) = mset [0..<n]"
  using assms by (auto simp: tdaio_init_def aio_ok_def aio_free_def)

lemma aio_open_ok:
  assumes "tdaio_open n zeroed sys_open stat info name rdonly = (0, st, info', fds)"
    and "length zeroed = n" and "\<And>k nm fl e. sys_open k nm fl = Inl e \<Longrightarrow> 0 < e"
  shows "\<exists>fd. fds = [fd] \<and> st = (tdaio_init n zeroed)\<lparr>aio_fd := fd\<rparr> \<and>
    tdaio_get_image_info (stat fd) info = (0, info')"
  using assms(1) assms(3) [of 0] assms(3) [of 1]
  by (fastforce simp: tdaio_open_def Let_def split: sum.splits prod.splits if_splits)

text \<open>An image never has size zero or flags.\<close>

lemma aio_image_info:
  "tdaio_get_image_info st info = (0, info') \<Longrightarrow> info_size info' \<noteq> 0 \<and> info_flags info' = 0"
  by (auto simp: tdaio_get_image_info_def Let_def split: option.splits if_splits prod.splits)

section \<open>Properties\<close>

lemma aio_open_balanced:
  assumes "tdaio_open n zeroed sys_open stat info name rdonly = (0, st, info', fds)" "length zeroed = n"
    and "\<forall>k nm fl e. sys_open k nm fl = Inl e \<longrightarrow> 0 < e" and "aio_pool.reach st s flight subs comps"
  shows "aio_pool.balanced n s flight subs comps"
proof -
  obtain fd where st: "st = (tdaio_init n zeroed)\<lparr>aio_fd := fd\<rparr>"
    using aio_open_ok [OF assms(1,2)] assms(3) by blast
  have "aio_ok n st" "mset (aio_free st) = mset [0..<n]"
    using aio_init_ok [OF assms(2)] by (simp_all add: st aio_ok_def aio_free_def)
  with assms(4) show ?thesis by (rule aio_pool.reach_balanced)
qed

lemma aio_conserved:
  assumes b: "aio_pool.balanced n s flight subs comps"
  shows "distinct flight \<and> length flight + aio_free_count s = n \<and>
    set (take (aio_free_count s) (aio_free_list s)) = {..<n} - set flight \<and>
    subs = comps + image_mset (\<lambda>a. aio_requests s ! a) (mset flight)"
proof -
  have ok: "aio_ok n s" using b by (simp add: aio_pool.balanced_def)
  have "length (aio_free s) = aio_free_count s" using ok by (simp add: aio_ok_def aio_free_def)
  moreover have "set (aio_free s) = {..<n} - set flight"
    using aio_pool.free_flight(2,3) [OF b] by auto
  ultimately show ?thesis
    using aio_pool.free_flight [OF b] b by (auto simp: aio_pool.balanced_def aio_free_def)
qed

lemma aio_progress:
  assumes b: "aio_pool.balanced n s flight subs comps"
  shows "(if length flight = n then tdaio_queue_read i s q = Inr (s, Completed q (- EBUSY)) \<and>
        tdaio_queue_write i s q = Inr (s, Completed q (- EBUSY))
      else (\<exists>s' io. tdaio_queue_read i s q = Inr (s', Queued io) \<and> aio_requests s' ! io_arg io = q) \<and>
        (\<exists>s' io. tdaio_queue_write i s q = Inr (s', Queued io) \<and> aio_requests s' ! io_arg io = q)) \<and>
    (\<forall>a\<in>set flight. \<exists>s'. tdaio_complete s a err = Inr (s', Completed (aio_requests s ! a) err))"
proof -
  have ok: "aio_ok n s" using b by (simp add: aio_pool.balanced_def)
  have full: "length flight = n \<longleftrightarrow> aio_free s = []"
    using aio_pool.free_flight(1) [OF b] by auto
  have sub: "aio_submit (False, i) = tdaio_queue_read i" "aio_submit (True, i) = tdaio_queue_write i"
    by (simp_all add: aio_submit_def)
  have busy: "aio_submit x s q = Inr (s, Completed q (- EBUSY))" if "aio_free s = []" for x
    using aio_pool.submit_full [OF ok that] .
  have queued: "\<exists>s' io. aio_submit x s q = Inr (s', Queued io) \<and> aio_requests s' ! io_arg io = q"
    if "aio_free s \<noteq> []" for x
    using aio_pool.submit_free [OF ok that, of x q] by (auto simp: fun_eq_iff)
  show ?thesis
    using aio_pool.reach_progress(2) [OF b] busy [of "(False, i)"] busy [of "(True, i)"]
      queued [of "(False, i)"] queued [of "(True, i)"]
    unfolding sub full by simp
qed

text \<open>C16.  Conservation in the AIO driver.  From an open driver on, in any order of requests and
  callbacks: no two requests in flight share a slot, the free slots and those in flight are all
  the slots, and the requests submitted are those completed and those in flight.\<close>

theorem aio_requests_conserved:
  assumes "tdaio_open n zeroed sys_open stat info name rdonly = (0, st, info', fds)" "length zeroed = n"
    and "\<forall>k nm fl e. sys_open k nm fl = Inl e \<longrightarrow> 0 < e" and "aio_pool.reach st s flight subs comps"
  shows "distinct flight \<and> length flight + aio_free_count s = n \<and>
    set (take (aio_free_count s) (aio_free_list s)) = {..<n} - set flight \<and>
    subs = comps + image_mset (\<lambda>a. aio_requests s ! a) (mset flight)"
  by (rule aio_conserved [OF aio_open_balanced [OF assms]])

text \<open>C17.  Progress in the AIO driver.  In every state it reaches, a request is queued or, with no
  slot free, completed at once with \<open>-EBUSY\<close>, and the callback of a request in flight completes
  that request and no other with the error it was given.\<close>

theorem aio_requests_progress:
  assumes "tdaio_open n zeroed sys_open stat info name rdonly = (0, st, info', fds)" "length zeroed = n"
    and "\<forall>k nm fl e. sys_open k nm fl = Inl e \<longrightarrow> 0 < e" and "aio_pool.reach st s flight subs comps"
  shows "(if length flight = n then tdaio_queue_read i s q = Inr (s, Completed q (- EBUSY)) \<and>
        tdaio_queue_write i s q = Inr (s, Completed q (- EBUSY))
      else (\<exists>s' io. tdaio_queue_read i s q = Inr (s', Queued io) \<and> aio_requests s' ! io_arg io = q) \<and>
        (\<exists>s' io. tdaio_queue_write i s q = Inr (s', Queued io) \<and> aio_requests s' ! io_arg io = q)) \<and>
    (\<forall>a\<in>set flight. \<exists>s'. tdaio_complete s a err = Inr (s', Completed (aio_requests s ! a) err))"
  by (rule aio_progress [OF aio_open_balanced [OF assms]])

abbreviation aio_sample_request :: td_request where
  "aio_sample_request \<equiv> \<lparr>sec = 3, secs = 1, req_buf = zeros\<rparr>"

abbreviation aio_sample_info :: td_disk_info where
  "aio_sample_info \<equiv> \<lparr>info_size = 64, info_sector_size = 512, info_flags = 0\<rparr>"

abbreviation aio_sample_stat :: image_stat where
  "aio_sample_stat \<equiv> \<lparr>st_isblk = True, st_size = 0, blk_image_size = Some 64, blk_sector_size = Some 512\<rparr>"

definition aio_busy_state :: aio_state where
  "aio_busy_state = \<lparr>aio_fd = 5, aio_free_count = 1,
     aio_requests = [aio_sample_request\<lparr>sec := 0\<rparr>, aio_sample_request], aio_free_list = [0, 1]\<rparr>"

lemma aio_busy_reached:
  "tdaio_open 2 [aio_sample_request\<lparr>sec := 0\<rparr>, aio_sample_request\<lparr>sec := 0\<rparr>] (\<lambda>k nm fl. Inr 5) (\<lambda>fd. Some aio_sample_stat)
     aio_sample_info ''/img'' False =
     (0, (tdaio_init 2 [aio_sample_request\<lparr>sec := 0\<rparr>, aio_sample_request\<lparr>sec := 0\<rparr>])\<lparr>aio_fd := 5\<rparr>, aio_sample_info, [5])"
  "aio_pool.reach ((tdaio_init 2 [aio_sample_request\<lparr>sec := 0\<rparr>, aio_sample_request\<lparr>sec := 0\<rparr>])\<lparr>aio_fd := 5\<rparr>) aio_busy_state [1]
     {#aio_sample_request#} {#}"
proof -
  let ?st = "(tdaio_init 2 [aio_sample_request\<lparr>sec := 0\<rparr>, aio_sample_request\<lparr>sec := 0\<rparr>])\<lparr>aio_fd := 5\<rparr>"
  show "tdaio_open 2 [aio_sample_request\<lparr>sec := 0\<rparr>, aio_sample_request\<lparr>sec := 0\<rparr>] (\<lambda>k nm fl. Inr 5) (\<lambda>fd. Some aio_sample_stat)
     aio_sample_info ''/img'' False = (0, ?st, aio_sample_info, [5])"
    by (simp add: tdaio_open_def tdaio_get_image_info_def)
  have upt: "[0..<2] = [0, 1]" by (simp add: numeral_2_eq_2)
  have "\<exists>io. aio_submit (False, aio_sample_info) ?st aio_sample_request = Inr (aio_busy_state, Queued io) \<and> io_arg io = 1"
    by (simp add: aio_submit_def tdaio_queue_read_def tdaio_init_def aio_busy_state_def upt)
  then show "aio_pool.reach ?st aio_busy_state [1] {#aio_sample_request#} {#}"
    using aio_pool.reach.queued [OF aio_pool.reach.start [of ?st], of "(False, aio_sample_info)" aio_sample_request aio_busy_state]
    by auto
qed

lemma aio_requests_conserved_witness:
  "distinct [1 :: nat] \<and> length [1 :: nat] + aio_free_count aio_busy_state = 2 \<and>
    set (take (aio_free_count aio_busy_state) (aio_free_list aio_busy_state)) = {..<2} - set [1] \<and>
    {#aio_sample_request#} = {#} + image_mset (\<lambda>a. aio_requests aio_busy_state ! a) (mset [1])"
  by (rule aio_requests_conserved [OF aio_busy_reached(1) _ _ aio_busy_reached(2)]) simp_all

lemma aio_requests_progress_witness:
  "\<exists>s'. tdaio_complete aio_busy_state 1 0 = Inr (s', Completed aio_sample_request 0)"
  using aio_requests_progress [OF aio_busy_reached(1) _ _ aio_busy_reached(2), of aio_sample_info aio_sample_request 0]
  by (simp add: aio_busy_state_def)

end
