(* ===== verification/Block_Log.thy ===== *)
theory Block_Log
  imports Block_Aio
begin

text \<open>
  \<open>block-log.c\<close>: the driver that logs requests: \<open>block-aio.c\<close> with a debug line per
  request, opened with \<open>O_DIRECT\<close> first.
  \<open>max_reqs\<close> stands for tapdisk's \<open>TAPDISK_DATA_REQUESTS\<close>, the number of request slots.
\<close>

section \<open>Image information\<close>

text \<open>\<open>st\<close> is None when \<open>fstat\<close> fails.\<close>

definition tdlog_get_image_info :: "image_stat option \<Rightarrow> td_disk_info \<Rightarrow> int \<times> td_disk_info" where
  "tdlog_get_image_info st info =
     (case st of
        None \<Rightarrow> (- EINVAL, info)
      | Some s \<Rightarrow>
          (case
             (if st_isblk s then
                (case blk_image_size s of
                   None \<Rightarrow> (- EINVAL, info\<lparr>info_size := 0\<rparr>)
                 | Some n \<Rightarrow>
                     (0, info\<lparr>info_size := n,
                             info_sector_size := (case blk_sector_size s of
                                None \<Rightarrow> DEFAULT_SECTOR_SIZE | Some z \<Rightarrow> z)\<rparr>))
              else
                (0, info\<lparr>info_size := signed_drop_bit 9 (st_size s),
                        info_sector_size := DEFAULT_SECTOR_SIZE\<rparr>)) of
             (ret, info1) \<Rightarrow>
               if ret \<noteq> 0 then (ret, info1)
               else
                 (let info2 =
                    (if info_size info1 = 0
                     then info1\<lparr>info_size := 16836057, info_sector_size := DEFAULT_SECTOR_SIZE\<rparr>
                     else info1)
                  in (0, info2\<lparr>info_flags := 0\<rparr>))))"

section \<open>Opening and closing\<close>

definition tdlog_init :: "nat \<Rightarrow> td_request list \<Rightarrow> aio_state" where
  "tdlog_init max_reqs zeroed =
     \<lparr>aio_fd = 0, aio_free_count = max_reqs, aio_requests = zeroed, aio_free_list = [0..<max_reqs]\<rparr>"

text \<open>
  \<open>sys_open k name flags\<close> is the \<open>k\<close>-th call of \<open>open\<close>: an error number or a descriptor;
  \<open>stat fd\<close> what the calls on the descriptor answer; \<open>zeroed\<close> the cleared slots.  The result
  is the return value, the driver state, the image information and the descriptors open at
  the end.
\<close>

definition tdlog_open ::
  "nat \<Rightarrow> td_request list \<Rightarrow> (nat \<Rightarrow> string \<Rightarrow> open_flags \<Rightarrow> int + int) \<Rightarrow> (int \<Rightarrow> image_stat option)
     \<Rightarrow> td_disk_info \<Rightarrow> string \<Rightarrow> bool \<Rightarrow> int \<times> aio_state \<times> td_disk_info \<times> int list" where
  "tdlog_open max_reqs zeroed sys_open stat info name rdonly =
     (let st = tdlog_init max_reqs zeroed;
          first = sys_open 0 name \<lparr>o_direct = True, o_rdonly = rdonly\<rparr>;
          got = (if first = Inl EINVAL then sys_open 1 name \<lparr>o_direct = False, o_rdonly = rdonly\<rparr>
                 else first) in
      case got of
        Inl e \<Rightarrow> (0 - e, st, info, [])
      | Inr fd \<Rightarrow>
          (let (ret, info1) = tdlog_get_image_info (stat fd) info in
           if ret \<noteq> 0 then (ret, st, info1, []) else (ret, st\<lparr>aio_fd := fd\<rparr>, info1, [fd])))"

text \<open>The descriptor closed, and the result.\<close>

definition tdlog_close :: "aio_state \<Rightarrow> int \<times> int" where
  "tdlog_close st = (aio_fd st, 0)"

definition tdlog_get_parent_id :: "int \<Rightarrow> int" where
  "tdlog_get_parent_id no_parent = no_parent"

definition tdlog_validate_parent :: int where
  "tdlog_validate_parent = - EINVAL"

section \<open>Requests\<close>

definition tdlog_complete :: "aio_state \<Rightarrow> nat \<Rightarrow> int \<Rightarrow> fault + aio_state \<times> effect" where
  "tdlog_complete st aio err =
     (if length (aio_requests st) \<le> aio \<or> length (aio_free_list st) \<le> aio_free_count st
      then Inl Out_of_bounds
      else Inr (st\<lparr>aio_free_list := (aio_free_list st)[aio_free_count st := aio],
                  aio_free_count := aio_free_count st + 1\<rparr>,
                Completed (aio_requests st ! aio) err))"

definition tdlog_queue_read :: "td_disk_info \<Rightarrow> aio_state \<Rightarrow> td_request \<Rightarrow> fault + aio_state \<times> effect" where
  "tdlog_queue_read info st treq =
     (let sz = to_int (sext64 (secs treq) * info_sector_size info);
          offset = sec treq * info_sector_size info in
      if aio_free_count st = 0 then Inr (st, Completed treq (- EBUSY))
      else if length (aio_free_list st) < aio_free_count st then Inl Out_of_bounds
      else
        (let aio = aio_free_list st ! (aio_free_count st - 1) in
         if length (aio_requests st) \<le> aio then Inl Out_of_bounds
         else Inr (st\<lparr>aio_free_count := aio_free_count st - 1,
                     aio_requests := (aio_requests st)[aio := treq]\<rparr>,
                   Queued \<lparr>io_write = False, io_fd = aio_fd st, io_buf = req_buf treq,
                           io_size = sz, io_offset = offset, io_arg = aio\<rparr>)))"

definition tdlog_queue_write :: "td_disk_info \<Rightarrow> aio_state \<Rightarrow> td_request \<Rightarrow> fault + aio_state \<times> effect" where
  "tdlog_queue_write info st treq =
     (let sz = to_int (sext64 (secs treq) * info_sector_size info);
          offset = sec treq * info_sector_size info in
      if aio_free_count st = 0 then Inr (st, Completed treq (- EBUSY))
      else if length (aio_free_list st) < aio_free_count st then Inl Out_of_bounds
      else
        (let aio = aio_free_list st ! (aio_free_count st - 1) in
         if length (aio_requests st) \<le> aio then Inl Out_of_bounds
         else Inr (st\<lparr>aio_free_count := aio_free_count st - 1,
                     aio_requests := (aio_requests st)[aio := treq]\<rparr>,
                   Queued \<lparr>io_write = True, io_fd = aio_fd st, io_buf = req_buf treq,
                           io_size = sz, io_offset = offset, io_arg = aio\<rparr>)))"

section \<open>The log driver and the AIO driver\<close>

lemma log_requests_as_aio:
  "tdlog_complete = tdaio_complete" "tdlog_queue_read = tdaio_queue_read" "tdlog_queue_write = tdaio_queue_write"
  "tdlog_get_image_info = tdaio_get_image_info" "tdlog_init = tdaio_init"
  unfolding fun_eq_iff tdlog_complete_def tdaio_complete_def tdlog_queue_read_def tdaio_queue_read_def
    tdlog_queue_write_def tdaio_queue_write_def tdlog_get_image_info_def tdaio_get_image_info_def
    tdlog_init_def tdaio_init_def by simp_all

text \<open>A file system that ignores \<open>O_DIRECT\<close> in the first call of \<open>open\<close>.\<close>

definition with_direct :: "(nat \<Rightarrow> string \<Rightarrow> open_flags \<Rightarrow> int + int) \<Rightarrow> nat \<Rightarrow> string \<Rightarrow> open_flags \<Rightarrow> int + int" where
  "with_direct sys_open k name flags = sys_open k name (flags\<lparr>o_direct := (k = 0)\<rparr>)"

lemma log_open_as_aio:
  "tdlog_open n zeroed sys_open stat info name rdonly = tdaio_open n zeroed (with_direct sys_open) stat info name rdonly"
proof -
  have w: "with_direct sys_open 0 name \<lparr>o_direct = False, o_rdonly = rdonly\<rparr> =
      sys_open 0 name \<lparr>o_direct = True, o_rdonly = rdonly\<rparr>"
    "with_direct sys_open 1 name \<lparr>o_direct = False, o_rdonly = rdonly\<rparr> =
      sys_open 1 name \<lparr>o_direct = False, o_rdonly = rdonly\<rparr>"
    by (simp_all add: with_direct_def)
  show ?thesis unfolding tdlog_open_def tdaio_open_def log_requests_as_aio w ..
qed

text \<open>C18.  The log driver is the AIO driver opened with \<open>O_DIRECT\<close>: every operation on requests,
  callbacks, image information and closing gives the same result, state and effect for the same
  arguments, and it opens an image exactly as the AIO driver does when the first call of \<open>open\<close>
  asks for \<open>O_DIRECT\<close>; so on images for which that flag makes no difference to \<open>open\<close> the two
  drivers cannot be told apart.\<close>

theorem log_driver_equivalent:
  "tdlog_queue_read = tdaio_queue_read \<and> tdlog_queue_write = tdaio_queue_write \<and> tdlog_complete = tdaio_complete \<and>
   tdlog_close = tdaio_close \<and> tdlog_get_parent_id = tdaio_get_parent_id \<and> tdlog_validate_parent = tdaio_validate_parent \<and>
   tdlog_open n zeroed sys_open stat info name rdonly =
     tdaio_open n zeroed (\<lambda>k nm flags. sys_open k nm (flags\<lparr>o_direct := (k = 0)\<rparr>)) stat info name rdonly"
proof -
  have w: "with_direct sys_open = (\<lambda>k nm flags. sys_open k nm (flags\<lparr>o_direct := (k = 0)\<rparr>))"
    by (simp add: fun_eq_iff with_direct_def)
  have c: "tdlog_close = tdaio_close" "tdlog_get_parent_id = tdaio_get_parent_id"
    "tdlog_validate_parent = tdaio_validate_parent"
    by (simp_all add: fun_eq_iff tdlog_close_def tdaio_close_def tdlog_get_parent_id_def tdaio_get_parent_id_def
        tdlog_validate_parent_def tdaio_validate_parent_def)
  show ?thesis unfolding log_requests_as_aio log_open_as_aio w c by simp
qed

section \<open>The driver keeps the contract of a pool\<close>

definition log_submit :: "bool \<times> td_disk_info \<Rightarrow> aio_state \<Rightarrow> td_request \<Rightarrow> fault + aio_state \<times> effect" where
  "log_submit x = (if fst x then tdlog_queue_write (snd x) else tdlog_queue_read (snd x))"

lemma log_submit_as_aio: "log_submit = aio_submit"
  by (simp add: fun_eq_iff log_submit_def aio_submit_def log_requests_as_aio)

interpretation log_pool: request_pool n "aio_ok n" aio_free "\<lambda>st. (!) (aio_requests st)" log_submit tdlog_complete
  for n :: nat
  unfolding log_submit_as_aio log_requests_as_aio by (rule aio_pool.request_pool_axioms)

text \<open>So the log driver conserves its requests and makes progress.\<close>

theorem log_requests_conserved:
  assumes "tdlog_open n zeroed sys_open stat info name rdonly = (0, st, info', fds)" "length zeroed = n"
    and "\<forall>k nm fl e. sys_open k nm fl = Inl e \<longrightarrow> 0 < e" and "log_pool.reach st s flight subs comps"
  shows "aio_pool.balanced n s flight subs comps"
    "distinct flight \<and> length flight + aio_free_count s = n \<and>
      set (take (aio_free_count s) (aio_free_list s)) = {..<n} - set flight \<and>
      subs = comps + image_mset (\<lambda>a. aio_requests s ! a) (mset flight)"
proof -
  have "\<forall>k nm fl e. with_direct sys_open k nm fl = Inl e \<longrightarrow> 0 < e" using assms(3) by (simp add: with_direct_def)
  with assms show b: "aio_pool.balanced n s flight subs comps"
    unfolding log_open_as_aio log_submit_as_aio log_requests_as_aio by (intro aio_open_balanced)
  from aio_conserved [OF b] show "distinct flight \<and> length flight + aio_free_count s = n \<and>
      set (take (aio_free_count s) (aio_free_list s)) = {..<n} - set flight \<and>
      subs = comps + image_mset (\<lambda>a. aio_requests s ! a) (mset flight)" .
qed

theorem log_requests_progress:
  assumes "tdlog_open n zeroed sys_open stat info name rdonly = (0, st, info', fds)" "length zeroed = n"
    and "\<forall>k nm fl e. sys_open k nm fl = Inl e \<longrightarrow> 0 < e" and "log_pool.reach st s flight subs comps"
  shows "(if length flight = n then tdlog_queue_read i s q = Inr (s, Completed q (- EBUSY)) \<and>
        tdlog_queue_write i s q = Inr (s, Completed q (- EBUSY))
      else (\<exists>s' io. tdlog_queue_read i s q = Inr (s', Queued io) \<and> aio_requests s' ! io_arg io = q) \<and>
        (\<exists>s' io. tdlog_queue_write i s q = Inr (s', Queued io) \<and> aio_requests s' ! io_arg io = q)) \<and>
    (\<forall>a\<in>set flight. \<exists>s'. tdlog_complete s a err = Inr (s', Completed (aio_requests s ! a) err))"
  using aio_progress [OF log_requests_conserved(1) [OF assms]] by (simp add: log_requests_as_aio)

end
