(* ===== verification/Virtdisk.thy ===== *)
theory Virtdisk
  imports C_Library
begin

text \<open>
  \<open>libxl_device.c\<close>, the names of virtual disks: \<open>device_virtdisk_matches\<close> reads a device
  type, a drive in letters and a partition number, and \<open>libxl__device_disk_dev_number\<close>
  turns a name into a device number.  Beside them the names of disk formats and backends.
\<close>

section \<open>Formats and backends\<close>

datatype libxl_disk_format =
    DISK_FORMAT_UNKNOWN
  | DISK_FORMAT_QCOW
  | DISK_FORMAT_QCOW2
  | DISK_FORMAT_VHD
  | DISK_FORMAT_RAW
  | DISK_FORMAT_PRESERVATION
  | DISK_FORMAT_EMPTY

datatype libxl_disk_backend =
    DISK_BACKEND_UNKNOWN
  | DISK_BACKEND_PHY
  | DISK_BACKEND_TAP
  | DISK_BACKEND_QDISK

fun libxl__device_disk_string_of_format :: "libxl_disk_format \<Rightarrow> string option" where
  "libxl__device_disk_string_of_format DISK_FORMAT_QCOW = Some ''qcow''"
| "libxl__device_disk_string_of_format DISK_FORMAT_QCOW2 = Some ''qcow2''"
| "libxl__device_disk_string_of_format DISK_FORMAT_VHD = Some ''vhd''"
| "libxl__device_disk_string_of_format DISK_FORMAT_RAW = Some ''aio''"
| "libxl__device_disk_string_of_format DISK_FORMAT_EMPTY = Some ''aio''"
| "libxl__device_disk_string_of_format DISK_FORMAT_PRESERVATION = Some ''preservation''"
| "libxl__device_disk_string_of_format DISK_FORMAT_UNKNOWN = None"

fun libxl__device_disk_string_of_backend :: "libxl_disk_backend \<Rightarrow> string option" where
  "libxl__device_disk_string_of_backend DISK_BACKEND_QDISK = Some ''qdisk''"
| "libxl__device_disk_string_of_backend DISK_BACKEND_TAP = Some ''tap''"
| "libxl__device_disk_string_of_backend DISK_BACKEND_PHY = Some ''phy''"
| "libxl__device_disk_string_of_backend DISK_BACKEND_UNKNOWN = None"

section \<open>Matching a name\<close>

definition islower :: "char \<Rightarrow> bool" where
  "islower c \<longleftrightarrow> 97 \<le> (of_char c :: nat) \<and> (of_char c :: nat) \<le> 122"

text \<open>The loop over the drive letters; None when the index grows beyond \<open>max_index\<close>.\<close>

fun drive_index :: "int \<Rightarrow> int \<Rightarrow> string \<Rightarrow> (int \<times> string) option" where
  "drive_index max_index idx [] = Some (idx, [])"
| "drive_index max_index idx (c # p) =
     (if islower c then
        (let idx' = (idx + 1) * 26 + (int (of_char c) - 97) in
         if max_index < idx' then None else drive_index max_index idx' p)
      else Some (idx, c # p))"

text \<open>The index and the partition; None for the result 0.\<close>

definition device_virtdisk_matches :: "string \<Rightarrow> string \<Rightarrow> int \<Rightarrow> int \<Rightarrow> (int \<times> int) option" where
  "device_virtdisk_matches virtpath devtype max_index max_partition =
     (let tl = length devtype in
      if take tl virtpath \<noteq> devtype then None
      else
        (case drive_index max_index (-1) (drop tl virtpath) of
           None \<Rightarrow> None
         | Some (idx, p) \<Rightarrow>
             if p = [] then Some (idx, 0)
             else if hd p = CHR ''0'' then None
             else
               (let (ul, ep) = strtoull10 p; pl = sint ul in
                if max_partition < pl \<or> ep \<noteq> [] then None
                else Some (idx, sint (to_int ul)))))"

section \<open>Device numbers\<close>

text \<open>\<open>sscanf(virtpath, "d%ip%i%n", ...)\<close> when it reads the whole string: the two numbers.\<close>

definition signed_number :: "bool \<Rightarrow> nat \<Rightarrow> int" where
  "signed_number neg n = (if neg then - int n else int n)"

definition scan_dp :: "string \<Rightarrow> (int \<times> int) option" where
  "scan_dp virtpath =
     (case virtpath of
        [] \<Rightarrow> None
      | c # s \<Rightarrow>
          if c \<noteq> CHR ''d'' then None
          else
            (case scan_number s of
               None \<Rightarrow> None
             | Some (neg, n, s1) \<Rightarrow>
                 (case s1 of
                    [] \<Rightarrow> None
                  | c' # s2 \<Rightarrow>
                      if c' \<noteq> CHR ''p'' then None
                      else
                        (case scan_number s2 of
                           None \<Rightarrow> None
                         | Some (neg', n', s3) \<Rightarrow>
                             if s3 \<noteq> [] then None
                             else Some (signed_number neg n, signed_number neg' n')))))"

definition INT_MAX :: int where "INT_MAX = 2 ^ 31 - 1"

definition fits_int :: "int \<Rightarrow> bool" where
  "fits_int i \<longleftrightarrow> - (2 ^ 31) \<le> i \<and> i \<le> INT_MAX"

text \<open>\<open>(disk << k)\<close> is undefined for a negative disk.\<close>

definition shift_left :: "int \<Rightarrow> nat \<Rightarrow> fault + int" where
  "shift_left i k = (if i < 0 \<or> INT_MAX < i * 2 ^ k then Inl Int_overflow else Inr (i * 2 ^ k))"

definition or_parts :: "int \<Rightarrow> fault + int \<Rightarrow> int \<Rightarrow> fault + int" where
  "or_parts major disk part =
     (case disk of Inl e \<Rightarrow> Inl e | Inr d \<Rightarrow> Inr (major OR d OR part))"

definition xvd_number :: "int \<Rightarrow> int \<Rightarrow> fault + int" where
  "xvd_number disk part =
     (if disk \<le> 15 \<and> part \<le> 15
      then or_parts (push_bit 8 202) (shift_left disk 4) part
      else or_parts (push_bit 28 1) (shift_left disk 8) part)"

definition xvd_match :: "string \<Rightarrow> (int \<times> int) option" where
  "xvd_match virtpath =
     (case scan_dp virtpath of
        Some (disk, part) \<Rightarrow>
          if disk < 2 ^ 20 \<and> part < 256 then Some (disk, part)
          else device_virtdisk_matches virtpath ''xvd'' (2 ^ 20 - 1) 255
      | None \<Rightarrow> device_virtdisk_matches virtpath ''xvd'' (2 ^ 20 - 1) 255)"

text \<open>A number of \<open>sscanf\<close> that an \<open>int\<close> cannot hold is undefined behaviour.\<close>

definition scan_fits :: "string \<Rightarrow> bool" where
  "scan_fits virtpath \<longleftrightarrow>
     (case scan_dp virtpath of Some (disk, part) \<Rightarrow> fits_int disk \<and> fits_int part | None \<Rightarrow> True)"

definition libxl__device_disk_dev_number :: "string \<Rightarrow> fault + int" where
  "libxl__device_disk_dev_number virtpath =
     (if \<not> scan_fits virtpath then Inl Int_overflow
      else
        (case xvd_match virtpath of
           Some (disk, part) \<Rightarrow> xvd_number disk part
         | None \<Rightarrow>
             (let (ul, ep, erange) = strtoul0 virtpath in
              if \<not> erange \<and> ep = [] \<and> int ul \<le> INT_MAX then Inr (int ul)
              else
                (case device_virtdisk_matches virtpath ''hd'' 3 63 of
                   Some (disk, part) \<Rightarrow>
                     Inr (push_bit 8 (if disk < 2 then 3 else 22) OR push_bit 6 (disk AND 1) OR part)
                 | None \<Rightarrow>
                     (case device_virtdisk_matches virtpath ''sd'' 15 15 of
                        Some (disk, part) \<Rightarrow> or_parts (push_bit 8 8) (shift_left disk 4) part
                      | None \<Rightarrow> Inr (-1))))))"

section \<open>Letters\<close>

definition drive_letter :: "nat \<Rightarrow> char" where
  "drive_letter n = char_of (97 + n)"

text \<open>The letters of a drive: \<open>a\<close> to \<open>z\<close>, then \<open>aa\<close>, and so on.\<close>

fun drive_letters :: "nat \<Rightarrow> string" where
  "drive_letters n =
     (if n < 26 then [drive_letter n] else drive_letters (n div 26 - 1) @ [drive_letter (n mod 26)])"

declare drive_letters.simps [simp del]

lemma drive_letter_simps [simp]:
  assumes "n < 26"
  shows "islower (drive_letter n)" "int (of_char (drive_letter n)) - 97 = int n"
  using assms by (simp_all add: islower_def drive_letter_def of_char_of)

lemma drive_index_append:
  assumes "drive_index m i us = Some (k, [])"
  shows "drive_index m i (us @ p) = drive_index m k p"
  using assms by (induction m i us rule: drive_index.induct) (auto simp: Let_def split: if_splits)

lemma drive_index_letters:
  "int n \<le> m \<Longrightarrow> drive_index m (-1) (drive_letters n) = Some (int n, [])"
proof (induction n rule: drive_letters.induct)
  case (1 n)
  show ?case
  proof (cases "n < 26")
    case True
    with 1(2) show ?thesis by (subst drive_letters.simps) simp
  next
    case False
    have "n div 26 - 1 \<le> n" by simp
    with 1(2) have "int (n div 26 - 1) \<le> m" by linarith
    from 1(1) [OF False this] have pre: "drive_index m (-1) (drive_letters (n div 26 - 1)) =
        Some (int (n div 26 - 1), [])" .
    have "int (n div 26) * 26 + int (n mod 26) = int (n div 26 * 26 + n mod 26)"
      by (simp only: of_nat_add of_nat_mult of_nat_numeral)
    then have "(int (n div 26 - 1) + 1) * 26 + int (n mod 26) = int n"
      using False by (simp only: div_mult_mod_eq) (simp add: of_nat_diff)
    then show ?thesis
      using False 1(2) drive_letter_simps [of "n mod 26"]
      by (subst drive_letters.simps) (simp add: drive_index_append [OF pre [unfolded One_nat_def]] Let_def)
  qed
qed

text \<open>The name of a partition of a drive, and the pair it is read back as.\<close>

definition disk_name :: "string \<Rightarrow> nat \<Rightarrow> nat \<Rightarrow> string" where
  "disk_name devtype disk part =
     devtype @ drive_letters disk @ (if part = 0 then [] else decimal part)"

lemma decimal_first: "0 < n \<Longrightarrow> hd (decimal n) \<noteq> CHR ''0'' \<and> isdigit (hd (decimal n))"
proof (induction n rule: decimal.induct)
  case (1 n)
  show ?case
  proof (cases "n < 10")
    case True
    have "digit_char n \<noteq> CHR ''0''"
    proof
      assume "digit_char n = CHR ''0''"
      then have "digit_value (digit_char n) = digit_value (CHR ''0'')" by simp
      with True 1(2) show False by (simp add: digit_value_def [of "CHR ''0''"])
    qed
    with True show ?thesis by (subst (1 2) decimal.simps) simp
  next
    case False
    with 1 show ?thesis by (subst (1 2) decimal.simps) simp
  qed
qed

lemma digit_not_lower: "isdigit c \<Longrightarrow> \<not> islower c"
  by (simp add: isdigit_def islower_def)

lemma drive_index_stop: "p = [] \<or> \<not> islower (hd p) \<Longrightarrow> drive_index m k p = Some (k, p)"
  by (cases p) auto

lemma virtdisk_matches_name:
  assumes "int disk \<le> max_index" "int part \<le> max_partition" "part < 2 ^ 31"
  shows "device_virtdisk_matches (disk_name devtype disk part) devtype max_index max_partition =
    Some (int disk, int part)"
proof (cases "part = 0")
  case True
  then show ?thesis
    using drive_index_letters [OF assms(1)]
    by (simp add: device_virtdisk_matches_def disk_name_def Let_def)
next
  case False
  then have d: "hd (decimal part) \<noteq> CHR ''0''" "\<not> islower (hd (decimal part))"
    using decimal_first digit_not_lower by auto
  have "drive_index max_index (-1) (drive_letters disk @ decimal part) = Some (int disk, decimal part)"
    using drive_index_append [OF drive_index_letters [OF assms(1)]] drive_index_stop d(2) by simp
  moreover have "strtoull10 (decimal part) = (of_nat part, [])"
    using strtoull10_decimal [of "[]" part] assms(3) by simp
  moreover have u: "unat (of_nat part :: u64) = part" using assms(3) by (intro unat_of_nat64) simp
  moreover have "sint (of_nat part :: u64) = int part"
    using assms(3) u by (subst sint_small) simp_all
  moreover have "sint (to_int (of_nat part)) = int part"
  proof -
    have "unat (to_int (of_nat part)) = part" using assms(3) u by (subst unat_to_int) simp_all
    then show ?thesis using assms(3) by (subst sint_small) simp_all
  qed
  ultimately show ?thesis
    using False d assms(2) by (simp add: device_virtdisk_matches_def disk_name_def Let_def)
qed

lemma scan_dp_other: "s = [] \<or> hd s \<noteq> CHR ''d'' \<Longrightarrow> scan_dp s = None"
  by (cases s) (simp_all add: scan_dp_def)

lemma scan_fits_other: "s = [] \<or> hd s \<noteq> CHR ''d'' \<Longrightarrow> scan_fits s"
  by (simp add: scan_fits_def scan_dp_other)

text \<open>A letter of a device type is no number.\<close>

lemma strtoul0_letter: "islower c \<Longrightarrow> strtoul0 (c # s) = (0, c # s, False)"
proof -
  assume l: "islower c"
  then have c: "\<not> isspace c" "c \<noteq> CHR ''-''" "c \<noteq> CHR ''+''" "c \<noteq> CHR ''0''"
    by (auto simp: islower_def isspace_def)
  have "digit_in 10 c = None" using l by (simp add: digit_in_def islower_def Let_def; linarith)
  then have "scan_number (c # s) = None"
    using c by (simp add: scan_number_def split_base_def)
  then show ?thesis by (simp add: strtoul0_def)
qed

section \<open>Numbers of well-formed names\<close>

lemma dev_number_xvd:
  assumes "disk < 2 ^ 20" "part < 256"
  shows "libxl__device_disk_dev_number (disk_name ''xvd'' disk part) = xvd_number (int disk) (int part)"
proof -
  let ?s = "disk_name ''xvd'' disk part"
  have hd: "hd ?s \<noteq> CHR ''d''" by (simp add: disk_name_def)
  have "device_virtdisk_matches ?s ''xvd'' (2 ^ 20 - 1) 255 = Some (int disk, int part)"
    using assms by (intro virtdisk_matches_name) auto
  then have "xvd_match ?s = Some (int disk, int part)"
    using scan_dp_other [of ?s] hd by (simp add: xvd_match_def)
  then show ?thesis
    using scan_fits_other [of ?s] hd by (simp add: libxl__device_disk_dev_number_def)
qed

lemma no_prefix: "take (length t) s \<noteq> t \<Longrightarrow> device_virtdisk_matches s t mi mp = None"
  by (simp add: device_virtdisk_matches_def Let_def)

lemma dev_number_hd:
  assumes "disk \<le> 3" "part \<le> 63"
  shows "libxl__device_disk_dev_number (disk_name ''hd'' disk part) =
    Inr (push_bit 8 (if disk < 2 then 3 else 22) OR push_bit 6 (int disk AND 1) OR int part)"
proof -
  let ?s = "disk_name ''hd'' disk part"
  have hd: "hd ?s \<noteq> CHR ''d''" by (simp add: disk_name_def)
  have "take (length ''xvd'') ?s \<noteq> ''xvd''" by (simp add: disk_name_def)
  from no_prefix [OF this] have "xvd_match ?s = None"
    using scan_dp_other [of ?s] hd by (simp add: xvd_match_def)
  moreover have "device_virtdisk_matches ?s ''hd'' 3 63 = Some (int disk, int part)"
    using assms by (intro virtdisk_matches_name) auto
  moreover have "strtoul0 ?s = (0, ?s, False)"
    using strtoul0_letter [of "CHR ''h''"] by (simp add: disk_name_def islower_def)
  moreover have "?s \<noteq> []" by (simp add: disk_name_def)
  ultimately show ?thesis
    using scan_fits_other [of ?s] hd by (simp add: libxl__device_disk_dev_number_def)
qed

lemma dev_number_sd:
  assumes "disk \<le> 15" "part \<le> 15"
  shows "libxl__device_disk_dev_number (disk_name ''sd'' disk part) =
    or_parts (push_bit 8 8) (shift_left (int disk) 4) (int part)"
proof -
  let ?s = "disk_name ''sd'' disk part"
  have hd: "hd ?s \<noteq> CHR ''d''" by (simp add: disk_name_def)
  have x: "take (length ''xvd'') ?s \<noteq> ''xvd''" and h: "take (length ''hd'') ?s \<noteq> ''hd''"
    by (simp_all add: disk_name_def)
  have "xvd_match ?s = None" "device_virtdisk_matches ?s ''hd'' 3 63 = None"
    using scan_dp_other [of ?s] hd no_prefix [OF x] no_prefix [OF h] by (simp_all add: xvd_match_def)
  moreover have "device_virtdisk_matches ?s ''sd'' 15 15 = Some (int disk, int part)"
    using assms by (intro virtdisk_matches_name) auto
  moreover have "strtoul0 ?s = (0, ?s, False)"
    using strtoul0_letter [of "CHR ''s''"] by (simp add: disk_name_def islower_def)
  moreover have "?s \<noteq> []" by (simp add: disk_name_def)
  ultimately show ?thesis
    using scan_fits_other [of ?s] hd by (simp add: libxl__device_disk_dev_number_def)
qed

section \<open>Properties\<close>

lemma or_add:
  assumes "0 \<le> b" "b < 2 ^ k"
  shows "(a * 2 ^ k) OR b = a * 2 ^ k + (b :: int)"
proof -
  have "take_bit k b = b" using assms by (simp add: take_bit_int_eq_self)
  then have "\<not> bit b n" if "k \<le> n" for n using that by (metis bit_take_bit_iff not_le)
  then have "(push_bit k a) AND b = 0"
    by (intro bit_eqI) (auto simp: bit_and_iff bit_push_bit_iff)
  then show ?thesis by (simp add: push_bit_eq_mult disjunctive_add_eq_or)
qed

lemma or_add3:
  assumes "0 \<le> d" "0 \<le> p" "p < 2 ^ j" "d * 2 ^ j + p < 2 ^ k"
  shows "a * 2 ^ k OR (d * 2 ^ j OR p) = a * 2 ^ k + (d * 2 ^ j + (p :: int))"
  using or_add [OF assms(2,3), of d] or_add [of "d * 2 ^ j + p" k a] assms by simp

lemma number_values:
  assumes "0 \<le> i" "0 \<le> p"
  shows "i \<le> 15 \<Longrightarrow> p \<le> 15 \<Longrightarrow> xvd_number i p = Inr (51712 + i * 16 + p)"
    "\<not> (i \<le> 15 \<and> p \<le> 15) \<Longrightarrow> i < 2 ^ 20 \<Longrightarrow> p < 256 \<Longrightarrow> xvd_number i p = Inr (2 ^ 28 + i * 256 + p)"
    "i \<le> 15 \<Longrightarrow> p \<le> 15 \<Longrightarrow> or_parts (push_bit 8 8) (shift_left i 4) p = Inr (2048 + i * 16 + p)"
proof -
  show "xvd_number i p = Inr (51712 + i * 16 + p)" if "i \<le> 15" "p \<le> 15"
    using or_add3 [of i p 4 8 202] that assms
    by (simp add: xvd_number_def or_parts_def shift_left_def INT_MAX_def push_bit_eq_mult algebra_simps)
  show "xvd_number i p = Inr (2 ^ 28 + i * 256 + p)" if "\<not> (i \<le> 15 \<and> p \<le> 15)" "i < 2 ^ 20" "p < 256"
    using or_add3 [of i p 8 28 1] that assms
    by (simp add: xvd_number_def if_not_P [OF that(1)] or_parts_def shift_left_def INT_MAX_def push_bit_eq_mult algebra_simps)
  show "or_parts (push_bit 8 8) (shift_left i 4) p = Inr (2048 + i * 16 + p)" if "i \<le> 15" "p \<le> 15"
    using or_add3 [of i p 4 8 8] that assms
    by (simp add: or_parts_def shift_left_def INT_MAX_def push_bit_eq_mult algebra_simps)
qed

text \<open>C21.  Device numbers of well-formed names: \<open>xvd\<close> disks get the blkif numbers of the Xen
  interface, in the short form (major 202, 16 partitions) when it holds them and in the
  extended form (bit 28) otherwise; \<open>hd\<close> and \<open>sd\<close> disks get the Linux IDE and SCSI numbers.\<close>

theorem device_numbers:
  "(disk < 2 ^ 20 \<and> part < 256 \<longrightarrow> libxl__device_disk_dev_number (disk_name ''xvd'' disk part) =
     Inr (if disk \<le> 15 \<and> part \<le> 15 then 51712 + 16 * int disk + int part else 2 ^ 28 + 256 * int disk + int part)) \<and>
   (disk < 4 \<and> part < 64 \<longrightarrow> libxl__device_disk_dev_number (disk_name ''hd'' disk part) =
     Inr ((if disk < 2 then 768 else 5632) + 64 * (int disk mod 2) + int part)) \<and>
   (disk < 16 \<and> part < 16 \<longrightarrow> libxl__device_disk_dev_number (disk_name ''sd'' disk part) =
     Inr (2048 + 16 * int disk + int part))"
proof (intro conjI impI)
  assume "disk < 2 ^ 20 \<and> part < 256"
  then show "libxl__device_disk_dev_number (disk_name ''xvd'' disk part) =
     Inr (if disk \<le> 15 \<and> part \<le> 15 then 51712 + 16 * int disk + int part else 2 ^ 28 + 256 * int disk + int part)"
    using number_values(1,2) [of "int disk" "int part"] by (simp add: dev_number_xvd)
next
  assume "disk < 4 \<and> part < 64"
  then have d: "disk \<le> 3" "part \<le> 63" by simp_all
  have "push_bit 8 m OR (push_bit 6 (int disk AND 1) OR int part) = m * 2 ^ 8 + (int disk mod 2 * 2 ^ 6 + int part)"
    for m :: int
  proof -
    have "int disk mod 2 < 2" by simp
    then have "int disk mod 2 * 2 ^ 6 + int part < 2 ^ 8" using d(2) by simp
    then show ?thesis using d(2) by (simp only: and_one_eq push_bit_eq_mult) (intro or_add3, simp_all)
  qed
  then show "libxl__device_disk_dev_number (disk_name ''hd'' disk part) =
     Inr ((if disk < 2 then 768 else 5632) + 64 * (int disk mod 2) + int part)"
    by (simp add: dev_number_hd [OF d])
next
  assume "disk < 16 \<and> part < 16"
  then show "libxl__device_disk_dev_number (disk_name ''sd'' disk part) = Inr (2048 + 16 * int disk + int part)"
    using number_values(3) [of "int disk" "int part"] by (simp add: dev_number_sd)
qed

lemma device_numbers_witness:
  "libxl__device_disk_dev_number ''xvdb3'' = Inr 51731 \<and>
   libxl__device_disk_dev_number ''hdc1'' = Inr 5633 \<and> libxl__device_disk_dev_number ''sda'' = Inr 2048"
proof -
  have "disk_name ''xvd'' 1 3 = ''xvdb3''" "disk_name ''hd'' 2 1 = ''hdc1''" "disk_name ''sd'' 0 0 = ''sda''"
    by (simp_all add: disk_name_def drive_letters.simps decimal.simps drive_letter_def digit_char_def char_of_def bit_nat_def)
  then show ?thesis
    using device_numbers [of 1 3] device_numbers [of 2 1] device_numbers [of 0 0] by simp
qed

lemma xvda_number: "libxl__device_disk_dev_number ''xvda'' = Inr 51712"
proof -
  have "disk_name ''xvd'' 0 0 = ''xvda''"
    by (simp add: disk_name_def drive_letters.simps drive_letter_def char_of_def bit_nat_def)
  then show ?thesis using dev_number_xvd [of 0 0] number_values(1) [of 0 0] by simp
qed






text \<open>A bare device type has no drive letter, but it is not refused: \<open>hd\<close> gets the number of
  \<open>hdb\<close>, and \<open>xvd\<close> and \<open>sd\<close> shift the index \<open>-1\<close>, which C leaves undefined.\<close>

theorem bare_type_names:
  "libxl__device_disk_dev_number ''hd'' = libxl__device_disk_dev_number ''hdb'' \<and>
   libxl__device_disk_dev_number ''hdb'' = Inr 832 \<and>
   libxl__device_disk_dev_number ''xvd'' = Inl Int_overflow \<and>
   libxl__device_disk_dev_number ''sd'' = Inl Int_overflow"
  by (simp add: libxl__device_disk_dev_number_def scan_fits_def scan_dp_def xvd_match_def device_virtdisk_matches_def
    strtoul0_letter xvd_number_def or_parts_def shift_left_def Let_def islower_def
      push_bit_eq_mult and_one_eq)

end
