(* ===== verification/Disk_Config.thy ===== *)
theory Disk_Config
  imports Virtdisk
begin

text \<open>
  \<open>parse_disk_config\<close> of \<open>xl_cmdimpl.c\<close>: the state machine that reads a disk of a domain
  configuration, \<open>type:path,device:cdrom,mode\<close>.  The buffer is the string with its final zero
  byte; the machine reads it from left to right, and \<open>tok\<close> holds the characters from the
  start of the current token to the current position.
\<close>

record libxl_device_disk =
  disk_backend_domid :: u32
  disk_domid :: u32
  pdev_path :: "string option"
  vdev :: "string option"
  disk_backend :: libxl_disk_backend
  disk_format :: libxl_disk_format
  unpluggable :: int
  readwrite :: int
  is_cdrom :: int

definition zero_device_disk :: libxl_device_disk where
  "zero_device_disk =
     \<lparr>disk_backend_domid = 0, disk_domid = 0, pdev_path = None, vdev = None,
      disk_backend = DISK_BACKEND_UNKNOWN, disk_format = DISK_FORMAT_UNKNOWN,
      unpluggable = 0, readwrite = 0, is_cdrom = 0\<rparr>"

datatype dstate =
    DSTATE_INITIAL | DSTATE_TAP | DSTATE_PHYSPATH | DSTATE_VIRTPATH
  | DSTATE_VIRTTYPE | DSTATE_RW | DSTATE_TERMINAL

abbreviation NUL :: char where
  "NUL \<equiv> CHR 0x00"

definition strdup_or_null :: "string \<Rightarrow> string option" where
  "strdup_or_null tok = (if tok = [] then None else Some tok)"

text \<open>The formats a \<open>tap\<close> disk names.\<close>

definition tap_format :: "string \<Rightarrow> (libxl_disk_format \<times> libxl_disk_backend) option" where
  "tap_format tok =
     (if tok = ''vhd'' then Some (DISK_FORMAT_VHD, DISK_BACKEND_TAP)
      else if tok = ''qcow'' then Some (DISK_FORMAT_QCOW, DISK_BACKEND_QDISK)
      else if tok = ''qcow2'' then Some (DISK_FORMAT_QCOW2, DISK_BACKEND_QDISK)
      else if tok = ''raw'' then Some (DISK_FORMAT_RAW, DISK_BACKEND_TAP)
      else if tok = ''preservation'' then Some (DISK_FORMAT_PRESERVATION, DISK_BACKEND_TAP)
      else None)"

text \<open>Where a comma after the physical path leads: past \<open>ioemu:\<close>, when more follows it.\<close>

definition skip_ioemu :: "string \<Rightarrow> string" where
  "skip_ioemu cs = (if 6 < length cs \<and> take 6 cs = ''ioemu:'' then drop 6 cs else cs)"

lemma length_skip_ioemu [termination_simp]: "length (skip_ioemu cs) < Suc (length cs)"
  by (auto simp: skip_ioemu_def)

text \<open>
  The loop; None is the result 0.  A device type ends in state \<open>DSTATE_TERMINAL\<close> always: the
  code asks whether the separator is a comma after it has overwritten it with a zero byte.
\<close>

fun disk_loop :: "dstate \<Rightarrow> string \<Rightarrow> libxl_device_disk \<Rightarrow> string \<Rightarrow> libxl_device_disk option" where
  "disk_loop st tok disk [] = (if tok = [] \<and> st = DSTATE_TERMINAL then Some disk else None)"
| "disk_loop DSTATE_INITIAL tok disk (c # cs) =
     (if c = CHR '':'' then
        (if tok = ''phy'' then
           disk_loop DSTATE_PHYSPATH []
             (disk\<lparr>disk_format := DISK_FORMAT_RAW, disk_backend := DISK_BACKEND_PHY\<rparr>) cs
         else if tok = ''file'' then
           disk_loop DSTATE_PHYSPATH []
             (disk\<lparr>disk_format := DISK_FORMAT_RAW, disk_backend := DISK_BACKEND_TAP\<rparr>) cs
         else if tok = ''tap'' \<or> tok = ''tap2'' then disk_loop DSTATE_TAP [] disk cs
         else None)
      else if c = CHR '','' then
        disk_loop DSTATE_VIRTPATH []
          (disk\<lparr>disk_format := DISK_FORMAT_EMPTY, disk_backend := DISK_BACKEND_TAP,
                pdev_path := Some []\<rparr>) cs
      else disk_loop DSTATE_INITIAL (tok @ [c]) disk cs)"
| "disk_loop DSTATE_TAP tok disk (c # cs) =
     (if c = CHR '','' then
        disk_loop DSTATE_VIRTPATH []
          (disk\<lparr>disk_format := DISK_FORMAT_RAW, disk_backend := DISK_BACKEND_TAP,
                pdev_path := strdup_or_null tok\<rparr>) (skip_ioemu cs)
      else if c = CHR '':'' then
        (if tok = ''aio'' then disk_loop DSTATE_TAP [] disk cs
         else
           (case tap_format tok of
              None \<Rightarrow> None
            | Some (fmt, be) \<Rightarrow>
                disk_loop DSTATE_PHYSPATH [] (disk\<lparr>disk_format := fmt, disk_backend := be\<rparr>) cs))
      else disk_loop DSTATE_TAP (tok @ [c]) disk cs)"
| "disk_loop DSTATE_PHYSPATH tok disk (c # cs) =
     (if c = CHR '','' then
        disk_loop DSTATE_VIRTPATH [] (disk\<lparr>pdev_path := strdup_or_null tok\<rparr>) (skip_ioemu cs)
      else disk_loop DSTATE_PHYSPATH (tok @ [c]) disk cs)"
| "disk_loop DSTATE_VIRTPATH tok disk (c # cs) =
     (if c \<in> {CHR '','', CHR '':'', NUL} then
        (let st = (if c = CHR '':'' then DSTATE_VIRTTYPE else if c = CHR '','' then DSTATE_RW
                   else DSTATE_TERMINAL) in
         if tok = [] then (if st = DSTATE_TERMINAL then Some disk else None)
         else disk_loop st [] (disk\<lparr>vdev := strdup_or_null tok\<rparr>) cs)
      else disk_loop DSTATE_VIRTPATH (tok @ [c]) disk cs)"
| "disk_loop DSTATE_VIRTTYPE tok disk (c # cs) =
     (if c \<in> {CHR '','', NUL} then
        (if tok = ''cdrom'' then
           disk_loop DSTATE_TERMINAL [] (disk\<lparr>is_cdrom := 1, unpluggable := 1\<rparr>) cs
         else None)
      else disk_loop DSTATE_VIRTTYPE (tok @ [c]) disk cs)"
| "disk_loop DSTATE_RW tok disk (c # cs) =
     (if c = NUL then
        disk_loop DSTATE_TERMINAL []
          (disk\<lparr>readwrite := (if tok \<noteq> [] \<and> hd tok = CHR ''w'' then 1 else 0)\<rparr>) cs
      else disk_loop DSTATE_RW (tok @ [c]) disk cs)"
| "disk_loop DSTATE_TERMINAL tok disk (c # cs) = (if tok = [] then Some disk else None)"

definition parse_disk_config :: "string \<Rightarrow> libxl_device_disk option" where
  "parse_disk_config buf2 = disk_loop DSTATE_INITIAL [] zero_device_disk (buf2 @ [NUL])"

section \<open>Tokens\<close>

text \<open>Characters that do not end the current token are collected.\<close>

lemma collect_initial:
  "CHR '':'' \<notin> set xs \<Longrightarrow> CHR '','' \<notin> set xs \<Longrightarrow>
     disk_loop DSTATE_INITIAL tok disk (xs @ cs) = disk_loop DSTATE_INITIAL (tok @ xs) disk cs"
  by (induction xs arbitrary: tok) auto

lemma collect_tap:
  "CHR '':'' \<notin> set xs \<Longrightarrow> CHR '','' \<notin> set xs \<Longrightarrow>
     disk_loop DSTATE_TAP tok disk (xs @ cs) = disk_loop DSTATE_TAP (tok @ xs) disk cs"
  by (induction xs arbitrary: tok) auto

lemma collect_physpath:
  "CHR '','' \<notin> set xs \<Longrightarrow>
     disk_loop DSTATE_PHYSPATH tok disk (xs @ cs) = disk_loop DSTATE_PHYSPATH (tok @ xs) disk cs"
  by (induction xs arbitrary: tok) auto

lemma collect_virtpath:
  "CHR '','' \<notin> set xs \<Longrightarrow> CHR '':'' \<notin> set xs \<Longrightarrow> NUL \<notin> set xs \<Longrightarrow>
     disk_loop DSTATE_VIRTPATH tok disk (xs @ cs) = disk_loop DSTATE_VIRTPATH (tok @ xs) disk cs"
  by (induction xs arbitrary: tok) auto

lemma collect_virttype:
  "CHR '','' \<notin> set xs \<Longrightarrow> NUL \<notin> set xs \<Longrightarrow>
     disk_loop DSTATE_VIRTTYPE tok disk (xs @ cs) = disk_loop DSTATE_VIRTTYPE (tok @ xs) disk cs"
  by (induction xs arbitrary: tok) auto

lemma collect_rw:
  "NUL \<notin> set xs \<Longrightarrow>
     disk_loop DSTATE_RW tok disk (xs @ cs) = disk_loop DSTATE_RW (tok @ xs) disk cs"
  by (induction xs arbitrary: tok) auto

lemmas collect = collect_initial collect_tap collect_physpath collect_virtpath collect_virttype collect_rw

section \<open>What the parts of a specification set\<close>

text \<open>The end of a specification, from the device on.\<close>

definition device_ok :: "string \<Rightarrow> bool" where
  "device_ok dev \<longleftrightarrow> dev \<noteq> [] \<and> set dev \<inter> {CHR '','', CHR '':'', NUL} = {}"

lemma virtpath_mode:
  assumes "device_ok dev" "NUL \<notin> set mode"
  shows "disk_loop DSTATE_VIRTPATH [] disk (dev @ CHR '','' # mode @ [NUL]) =
    Some (disk\<lparr>vdev := Some dev,
               readwrite := (if mode \<noteq> [] \<and> hd mode = CHR ''w'' then 1 else 0)\<rparr>)"
  using assms by (simp add: device_ok_def collect_virtpath collect_rw strdup_or_null_def)

lemma virtpath_cdrom:
  assumes "device_ok dev"
  shows "disk_loop DSTATE_VIRTPATH [] disk (dev @ '':cdrom'' @ c # rest) =
    (if c \<in> {CHR '','', NUL} then Some (disk\<lparr>vdev := Some dev, is_cdrom := 1, unpluggable := 1\<rparr>)
     else disk_loop DSTATE_VIRTTYPE (''cdrom'' @ [c]) (disk\<lparr>vdev := Some dev\<rparr>) rest)"
proof -
  have t: "disk_loop DSTATE_TERMINAL [] d rest = Some d" for d by (cases rest) simp_all
  show ?thesis using assms t by (simp add: device_ok_def collect_virtpath strdup_or_null_def)
qed

lemma virtpath_only:
  assumes "device_ok dev"
  shows "disk_loop DSTATE_VIRTPATH [] disk (dev @ [NUL]) = Some (disk\<lparr>vdev := Some dev\<rparr>)"
  using assms by (simp add: device_ok_def collect_virtpath strdup_or_null_def)

text \<open>The start of a specification, up to the comma after the path.\<close>

lemma physpath_end:
  assumes "CHR '','' \<notin> set path"
  shows "disk_loop DSTATE_PHYSPATH [] disk (path @ CHR '','' # cs) =
    disk_loop DSTATE_VIRTPATH [] (disk\<lparr>pdev_path := strdup_or_null path\<rparr>) (skip_ioemu cs)"
  using assms by (simp add: collect_physpath)

definition kind_prefix :: "libxl_disk_format \<Rightarrow> libxl_disk_backend \<Rightarrow> string \<Rightarrow> bool" where
  "kind_prefix fmt be pre \<longleftrightarrow>
     (fmt, be, pre) \<in>
       {(DISK_FORMAT_RAW, DISK_BACKEND_PHY, ''phy:''),
        (DISK_FORMAT_RAW, DISK_BACKEND_TAP, ''file:''),
        (DISK_FORMAT_VHD, DISK_BACKEND_TAP, ''tap:vhd:''),
        (DISK_FORMAT_QCOW, DISK_BACKEND_QDISK, ''tap:qcow:''),
        (DISK_FORMAT_QCOW2, DISK_BACKEND_QDISK, ''tap:qcow2:''),
        (DISK_FORMAT_RAW, DISK_BACKEND_TAP, ''tap:raw:''),
        (DISK_FORMAT_PRESERVATION, DISK_BACKEND_TAP, ''tap:preservation:''),
        (DISK_FORMAT_PRESERVATION, DISK_BACKEND_TAP, ''tap2:preservation:''),
        (DISK_FORMAT_PRESERVATION, DISK_BACKEND_TAP, ''tap:aio:preservation:'')}"

lemma prefix_read:
  assumes "kind_prefix fmt be pre"
  shows "disk_loop DSTATE_INITIAL [] disk (pre @ cs) =
    disk_loop DSTATE_PHYSPATH [] (disk\<lparr>disk_format := fmt, disk_backend := be\<rparr>) cs"
  using assms unfolding kind_prefix_def by (elim insertE; simp add: tap_format_def)

lemma parse_spec:
  assumes "kind_prefix fmt be pre" "CHR '','' \<notin> set path" "take 6 rest \<noteq> ''ioemu:''"
  shows "parse_disk_config (pre @ path @ CHR '','' # rest) =
    disk_loop DSTATE_VIRTPATH []
      (zero_device_disk\<lparr>disk_format := fmt, disk_backend := be, pdev_path := strdup_or_null path\<rparr>)
      (rest @ [NUL])"
proof -
  have "take 6 (rest @ [NUL]) \<noteq> ''ioemu:'' \<or> \<not> 6 < length (rest @ [NUL])"
    using assms(3) by (cases "6 \<le> length rest") auto
  then have "skip_ioemu (rest @ [NUL]) = rest @ [NUL]" by (auto simp: skip_ioemu_def)
  then show ?thesis
    using prefix_read [OF assms(1)] physpath_end [OF assms(2)] by (simp add: parse_disk_config_def)
qed

section \<open>Properties\<close>

text \<open>C23.  Parsing \<open>prefix path,device,mode\<close>: the disk has the format and backend of the prefix,
  the path and device as written (an empty path is none), and is writable exactly when the
  mode starts with \<open>w\<close>.\<close>

theorem parse_disk_roundtrip:
  assumes "kind_prefix fmt be pre" "CHR '','' \<notin> set path" "device_ok dev" "NUL \<notin> set mode"
    and "take 6 (dev @ CHR '','' # mode) \<noteq> ''ioemu:''"
  shows "parse_disk_config (pre @ path @ CHR '','' # dev @ CHR '','' # mode) =
    Some (zero_device_disk\<lparr>disk_format := fmt, disk_backend := be, pdev_path := strdup_or_null path,
      vdev := Some dev, readwrite := (if mode \<noteq> [] \<and> hd mode = CHR ''w'' then 1 else 0)\<rparr>)"
  using parse_spec [OF assms(1,2,5)] virtpath_mode [OF assms(3,4)] by simp

lemma parse_disk_roundtrip_witness:
  "parse_disk_config ''tap:preservation:/img,xvda,w'' =
    Some (zero_device_disk\<lparr>disk_format := DISK_FORMAT_PRESERVATION, disk_backend := DISK_BACKEND_TAP,
      pdev_path := Some ''/img'', vdev := Some ''xvda'', readwrite := 1\<rparr>)"
  using parse_disk_roundtrip [of DISK_FORMAT_PRESERVATION DISK_BACKEND_TAP "''tap:preservation:''" "''/img''" "''xvda''" "''w''"]
  by (simp add: kind_prefix_def device_ok_def strdup_or_null_def)

text \<open>Everything after \<open>:cdrom\<close> and a comma is dropped: the parser tests for the comma after
  it has overwritten it, so a mode is never read and the disk is read-only whatever it says.\<close>

theorem cdrom_mode_ignored:
  assumes "kind_prefix fmt be pre" "CHR '','' \<notin> set path" "device_ok dev"
    and "take 6 (dev @ '':cdrom,'' @ mode) \<noteq> ''ioemu:''"
  shows "parse_disk_config (pre @ path @ CHR '','' # dev @ '':cdrom,'' @ mode) =
    Some (zero_device_disk\<lparr>disk_format := fmt, disk_backend := be, pdev_path := strdup_or_null path,
      vdev := Some dev, is_cdrom := 1, unpluggable := 1, readwrite := 0\<rparr>)"
  using parse_spec [OF assms(1,2,4)] virtpath_cdrom [OF assms(3), of _ "CHR '',''" "mode @ [NUL]"]
  by (simp add: zero_device_disk_def)

lemma cdrom_mode_ignored_witness:
  "parse_disk_config ''phy:/iso,hdc:cdrom,w'' =
    Some (zero_device_disk\<lparr>disk_format := DISK_FORMAT_RAW, disk_backend := DISK_BACKEND_PHY,
      pdev_path := Some ''/iso'', vdev := Some ''hdc'', is_cdrom := 1, unpluggable := 1, readwrite := 0\<rparr>)"
  using cdrom_mode_ignored [of DISK_FORMAT_RAW DISK_BACKEND_PHY "''phy:''" "''/iso''" "''hdc''" "''w''"]
  by (simp add: kind_prefix_def device_ok_def strdup_or_null_def)

text \<open>A specification with an empty device name is accepted when nothing follows, and the disk
  it describes has no device name at all; one with a mode is refused.\<close>

theorem empty_device_accepted:
  assumes "kind_prefix fmt be pre" "CHR '','' \<notin> set path"
  shows "parse_disk_config (pre @ path @ '','') =
      Some (zero_device_disk\<lparr>disk_format := fmt, disk_backend := be, pdev_path := strdup_or_null path\<rparr>) \<and>
    parse_disk_config (pre @ path @ '',,'' @ mode) = None"
  using parse_spec [OF assms, of "[]"] parse_spec [OF assms, of "CHR '','' # mode"]
  by (simp add: zero_device_disk_def)

lemma empty_device_accepted_witness:
  "parse_disk_config ''phy:/x,'' =
      Some (zero_device_disk\<lparr>disk_format := DISK_FORMAT_RAW, disk_backend := DISK_BACKEND_PHY, pdev_path := Some ''/x''\<rparr>) \<and>
    parse_disk_config ''phy:/x,,w'' = None"
  using empty_device_accepted [of DISK_FORMAT_RAW DISK_BACKEND_PHY "''phy:''" "''/x''" "''w''"]
  by (simp add: kind_prefix_def strdup_or_null_def)

end
