(* ===== verification/Xen_Env.thy ===== *)
theory Xen_Env
  imports C_Library "HOL-Library.State_Monad"
begin

text \<open>
  The environment of the tool stack.  The libraries \<open>libxenstore\<close> and \<open>libxenctrl\<close>, the
  hypervisor, the file system and the parts of libxl that are not in this repository answer
  calls; an environment is any function from the calls made so far, with their answers, and
  the call at hand to its answer.  A program is a state transformer on this history, so that
  a theorem about a program holds whatever the environment answers, and speaks of the calls
  the program makes and of their order.
\<close>

text \<open>Entries of a directory: keys and values; an entry whose value is NULL is not written.\<close>

type_synonym entries = "(string \<times> string option) list"

datatype xcall =
    Xs_read int string
  | Xs_write int string string
  | Xs_writev int string entries
  | Xs_rm int string
  | Xs_mkdir int string
  | Xs_set_permissions int string "(u32 \<times> string) list"
  | Xs_directory int string
  | Xs_transaction_start
  | Xs_transaction_end int bool
  | Xs_watch string string
  | Xs_unwatch string string
  | Xs_select
  | Xs_read_watch
  | Xs_get_domain_path u32
  | Xs_open
  | Xs_close
  | Usleep nat
  | Callback u32 string
  | Stat string
  | Xc string "int list"
  | Other string "int list" "string list"

text \<open>What the hypervisor says of a domain.\<close>

record xc_domaininfo =
  xc_domain :: u32
  xc_flags :: u32
  xc_tot_pages :: u64
  xc_max_pages :: u64
  xc_cpu_time :: u64
  xc_max_vcpu_id :: u32
  xc_nr_online_vcpus :: u32
  xc_handle :: string

text \<open>An answer: an integer result, \<open>errno\<close>, a string or NULL, a list of strings or NULL, the
  integers written through pointers, and the domains listed.\<close>

record answer =
  a_int :: int
  a_errno :: int
  a_str :: "string option"
  a_list :: "string list option"
  a_out :: "int list"
  a_doms :: "xc_domaininfo list"

type_synonym history = "(xcall \<times> answer) list"
type_synonym env = "history \<Rightarrow> xcall \<Rightarrow> answer"
type_synonym 'a prog = "(history, 'a) state"

abbreviation return :: "'a \<Rightarrow> 'a prog" where
  "return \<equiv> State_Monad.return"

definition ask :: "env \<Rightarrow> xcall \<Rightarrow> answer prog" where
  "ask env c = State (\<lambda>tr. (env tr c, tr @ [(c, env tr c)]))"

text \<open>The history with one more call.\<close>

definition after :: "env \<Rightarrow> history \<Rightarrow> xcall \<Rightarrow> history" where
  "after env tr c = tr @ [(c, env tr c)]"

lemma run_ask [simp]: "run_state (ask env c) tr = (env tr c, after env tr c)"
  by (simp add: ask_def after_def)

definition EAGAIN :: int where "EAGAIN = 11"
definition XBT_NULL :: int where "XBT_NULL = 0"

definition ERROR_NONSPECIFIC :: int where "ERROR_NONSPECIFIC = -1"
definition ERROR_VERSION :: int where "ERROR_VERSION = -2"
definition ERROR_FAIL :: int where "ERROR_FAIL = -3"
definition ERROR_NI :: int where "ERROR_NI = -4"
definition ERROR_NOMEM :: int where "ERROR_NOMEM = -5"
definition ERROR_INVAL :: int where "ERROR_INVAL = -6"
definition ERROR_BADFAIL :: int where "ERROR_BADFAIL = -7"
definition ERROR_GUEST_TIMEDOUT :: int where "ERROR_GUEST_TIMEDOUT = -8"

lemmas libxl_errors [simp] = EAGAIN_def XBT_NULL_def ERROR_NONSPECIFIC_def ERROR_VERSION_def
  ERROR_FAIL_def ERROR_NI_def ERROR_NOMEM_def ERROR_INVAL_def ERROR_BADFAIL_def ERROR_GUEST_TIMEDOUT_def

section \<open>Calls and their results\<close>

definition xs_read :: "env \<Rightarrow> int \<Rightarrow> string \<Rightarrow> string option prog" where
  "xs_read env t path = do {a \<leftarrow> ask env (Xs_read t path); return (a_str a)}"

text \<open>The calls that report success: a result other than zero.\<close>

definition xs_do :: "env \<Rightarrow> xcall \<Rightarrow> bool prog" where
  "xs_do env c = do {a \<leftarrow> ask env c; return (a_int a \<noteq> 0)}"

definition int_of :: "env \<Rightarrow> xcall \<Rightarrow> int prog" where
  "int_of env c = do {a \<leftarrow> ask env c; return (a_int a)}"

definition str_of :: "env \<Rightarrow> xcall \<Rightarrow> string option prog" where
  "str_of env c = do {a \<leftarrow> ask env c; return (a_str a)}"

text \<open>What \<open>printf\<close> makes of a string that may be NULL.\<close>

definition null_str :: "string option \<Rightarrow> string" where
  "null_str s = (case s of None \<Rightarrow> ''(null)'' | Some x \<Rightarrow> x)"

definition print_d :: "u32 \<Rightarrow> string" where "print_d n = print_int (sint n)"
definition print_u :: "u32 \<Rightarrow> string" where "print_u n = decimal (unat n)"

text \<open>
  A transaction: the body runs in it and it is committed; \<open>EAGAIN\<close> runs it again.  The value
  says whether the commit went through; a transaction that is retried more than \<open>fuel\<close>
  times counts as divergence.
\<close>

fun retry_transaction :: "env \<Rightarrow> nat \<Rightarrow> (int \<Rightarrow> unit prog) \<Rightarrow> (fault + bool) prog" where
  "retry_transaction env 0 body = return (Inl Diverges)"
| "retry_transaction env (Suc fuel) body =
     do {
       t \<leftarrow> int_of env Xs_transaction_start;
       _ \<leftarrow> body t;
       a \<leftarrow> ask env (Xs_transaction_end t False);
       if a_int a \<noteq> 0 then return (Inr True)
       else if a_errno a = EAGAIN then retry_transaction env fuel body
       else return (Inr False)
     }"

text \<open>Going on after a part that may be undefined.\<close>

definition try_then :: "(fault + 'a) prog \<Rightarrow> ('a \<Rightarrow> (fault + 'b) prog) \<Rightarrow> (fault + 'b) prog" where
  "try_then m f = do {r \<leftarrow> m; (case r of Inl e \<Rightarrow> return (Inl e) | Inr x \<Rightarrow> f x)}"

definition lift_fault :: "fault + 'a \<Rightarrow> (fault + 'a) prog" where
  "lift_fault r = return r"

section \<open>Running\<close>

lemma run_xs_read [simp]:
  "run_state (xs_read env t p) tr =
     (a_str (env tr (Xs_read t p)), after env tr (Xs_read t p))"
  by (simp add: xs_read_def)

lemma run_xs_do [simp]: "run_state (xs_do env c) tr = (a_int (env tr c) \<noteq> 0, after env tr c)"
  by (simp add: xs_do_def)

lemma run_int_of [simp]: "run_state (int_of env c) tr = (a_int (env tr c), after env tr c)"
  by (simp add: int_of_def)

lemma run_str_of [simp]: "run_state (str_of env c) tr = (a_str (env tr c), after env tr c)"
  by (simp add: str_of_def)

lemma run_try_then [simp]:
  "run_state (try_then m f) tr =
     (case run_state m tr of
        (Inl e, tr') \<Rightarrow> (Inl e, tr')
      | (Inr x, tr') \<Rightarrow> run_state (f x) tr')"
  by (simp add: try_then_def split: prod.split sum.split)

lemma run_lift_fault [simp]: "run_state (lift_fault r) tr = (r, tr)"
  by (simp add: lift_fault_def)

text \<open>A program only extends the history.\<close>

definition extends :: "'a prog \<Rightarrow> bool" where
  "extends m \<longleftrightarrow> (\<forall>tr. \<exists>new. snd (run_state m tr) = tr @ new)"

named_theorems extends_intros

lemma extends_return [extends_intros]: "extends (return x)"
  by (simp add: extends_def)

lemma extends_bind [extends_intros]:
  assumes "extends m" "\<And>x. extends (f x)"
  shows "extends (State_Monad.bind m f)"
  unfolding extends_def
proof
  fix tr
  obtain x tr1 where 1: "run_state m tr = (x, tr1)" by fastforce
  then obtain n1 where "tr1 = tr @ n1" using assms(1) unfolding extends_def by (metis snd_conv)
  moreover obtain n2 where "snd (run_state (f x) tr1) = tr1 @ n2" using assms(2) unfolding extends_def by blast
  ultimately show "\<exists>new. snd (run_state (State_Monad.bind m f) tr) = tr @ new" by (simp add: 1)
qed

lemma extends_ask [extends_intros]:
  "extends (ask env c)" "extends (xs_read env t p)" "extends (xs_do env c)" "extends (int_of env c)"
  "extends (str_of env c)"
  by (auto simp: extends_def after_def)

lemma extends_if [extends_intros]: "extends m \<Longrightarrow> extends n \<Longrightarrow> extends (if b then m else n)"
  by simp

lemma extends_option [extends_intros]:
  "extends m \<Longrightarrow> (\<And>x. extends (f x)) \<Longrightarrow> extends (case z of None \<Rightarrow> m | Some x \<Rightarrow> f x)"
  by (cases z) simp_all

lemma extends_sum [extends_intros]:
  "(\<And>x. extends (f x)) \<Longrightarrow> (\<And>x. extends (g x)) \<Longrightarrow> extends (case z of Inl x \<Rightarrow> f x | Inr x \<Rightarrow> g x)"
  by (cases z) simp_all

lemma extends_lift_fault [extends_intros]: "extends (lift_fault r)"
  by (simp add: lift_fault_def extends_return)

lemma extends_try_then [extends_intros]:
  "extends m \<Longrightarrow> (\<And>x. extends (f x)) \<Longrightarrow> extends (try_then m f)"
  unfolding try_then_def by (intro extends_intros)

lemma extends_retry [extends_intros]:
  "(\<And>t. extends (body t)) \<Longrightarrow> extends (retry_transaction env fuel body)"
  by (induction fuel) (auto intro!: extends_intros)

lemma extendsD: "extends m \<Longrightarrow> \<exists>new. snd (run_state m tr) = tr @ new"
  by (simp add: extends_def)

end
