(* ===== verification/Libxl_Device.thy ===== *)
theory Libxl_Device
  imports Virtdisk Xen_Env
begin

text \<open>
  \<open>libxl_device.c\<close>: the xenstore paths of a device, adding and removing it, and the loops
  that wait for a backend, for the device model and for the end of a device.
\<close>

datatype libxl_device_kind =
    DEVICE_VIF | DEVICE_VIF2 | DEVICE_VBD | DEVICE_TAP | DEVICE_QDISK
  | DEVICE_PCI | DEVICE_VFB | DEVICE_VKBD | DEVICE_CONSOLE

fun string_of_kinds :: "libxl_device_kind \<Rightarrow> string" where
  "string_of_kinds DEVICE_VIF = ''vif''"
| "string_of_kinds DEVICE_VIF2 = ''vif2''"
| "string_of_kinds DEVICE_VBD = ''vbd''"
| "string_of_kinds DEVICE_TAP = ''tap''"
| "string_of_kinds DEVICE_QDISK = ''qdisk''"
| "string_of_kinds DEVICE_PCI = ''pci''"
| "string_of_kinds DEVICE_VFB = ''vfb''"
| "string_of_kinds DEVICE_VKBD = ''vkbd''"
| "string_of_kinds DEVICE_CONSOLE = ''console''"

record libxl__device =
  backend_devid :: int
  backend_domid :: u32
  backend_kind :: libxl_device_kind
  devid :: int
  domid :: u32
  kind :: libxl_device_kind

section \<open>Paths\<close>

definition frontend_path_in :: "string \<Rightarrow> libxl__device \<Rightarrow> string" where
  "frontend_path_in dom_path dev =
     (if kind dev = DEVICE_CONSOLE \<and> devid dev = 0 then dom_path @ ''/console''
      else dom_path @ ''/device/'' @ string_of_kinds (kind dev) @ ''/'' @ print_int (devid dev))"

definition backend_path_in :: "string \<Rightarrow> libxl__device \<Rightarrow> string" where
  "backend_path_in dom_path dev =
     dom_path @ ''/backend/'' @ string_of_kinds (backend_kind dev) @ ''/'' @
     print_u (domid dev) @ ''/'' @ print_int (devid dev)"

definition libxl__device_frontend_path :: "env \<Rightarrow> libxl__device \<Rightarrow> string prog" where
  "libxl__device_frontend_path env dev =
     do {p \<leftarrow> str_of env (Xs_get_domain_path (domid dev)); return (frontend_path_in (null_str p) dev)}"

definition libxl__device_backend_path :: "env \<Rightarrow> libxl__device \<Rightarrow> string prog" where
  "libxl__device_backend_path env dev =
     do {p \<leftarrow> str_of env (Xs_get_domain_path (backend_domid dev)); return (backend_path_in (null_str p) dev)}"

section \<open>Adding\<close>

text \<open>One side of a device in a transaction: its directory is made afresh, with the other
  side's path and the entries given; NULL entries leave the side alone.\<close>

definition add_side ::
  "env \<Rightarrow> int \<Rightarrow> string \<Rightarrow> (u32 \<times> string) list \<Rightarrow> string \<Rightarrow> string
     \<Rightarrow> entries option \<Rightarrow> unit prog" where
  "add_side env t path perms name other ents =
     (case ents of
        None \<Rightarrow> return ()
      | Some kvs \<Rightarrow>
          do {
            _ \<leftarrow> xs_do env (Xs_rm t path);
            _ \<leftarrow> xs_do env (Xs_mkdir t path);
            _ \<leftarrow> xs_do env (Xs_set_permissions t path perms);
            _ \<leftarrow> xs_do env (Xs_write t (path @ name) other);
            _ \<leftarrow> xs_do env (Xs_writev t path kvs);
            return ()
          })"

text \<open>\<open>valid\<close> is the macro \<open>is_valid_device_kind\<close>.\<close>

definition libxl__device_generic_add ::
  "env \<Rightarrow> nat \<Rightarrow> (libxl_device_kind \<Rightarrow> bool) \<Rightarrow> libxl__device
     \<Rightarrow> entries option \<Rightarrow> entries option \<Rightarrow> (fault + int) prog" where
  "libxl__device_generic_add env fuel valid dev bents fents =
     (if \<not> valid (backend_kind dev) \<or> \<not> valid (kind dev) then return (Inr ERROR_INVAL)
      else
        do {
          frontend \<leftarrow> libxl__device_frontend_path env dev;
          backend \<leftarrow> libxl__device_backend_path env dev;
          r \<leftarrow> retry_transaction env fuel (\<lambda>t.
            do {
              _ \<leftarrow> add_side env t frontend [(domid dev, ''none''), (backend_domid dev, ''read'')]
                     ''/backend'' backend fents;
              add_side env t backend [(backend_domid dev, ''none''), (domid dev, ''read'')]
                     ''/frontend'' frontend bents
            });
          return (case r of Inl e \<Rightarrow> Inl e | Inr committed \<Rightarrow> Inr 0)
        })"

section \<open>The device number of a block device file\<close>

text \<open>\<open>stat\<close> answers 0 and the two halves of \<open>st_rdev\<close>; None when it fails, and the two
  integers are then left alone.\<close>

definition libxl__device_physdisk_major_minor :: "env \<Rightarrow> string \<Rightarrow> (int \<times> (int \<times> int) option) prog" where
  "libxl__device_physdisk_major_minor env physpath =
     do {
       a \<leftarrow> ask env (Stat physpath);
       return (if a_int a < 0 then (-1, None) else (0, Some (a_out a ! 0, a_out a ! 1)))
     }"

section \<open>Removing\<close>

definition atoi_int :: "string \<Rightarrow> int" where
  "atoi_int s = sint (atoi s)"

definition libxl__device_destroy :: "env \<Rightarrow> nat \<Rightarrow> string \<Rightarrow> bool \<Rightarrow> (fault + int) prog" where
  "libxl__device_destroy env fuel be_path force =
     do {
       st \<leftarrow> xs_read env XBT_NULL (be_path @ ''/state'');
       (case st of
          None \<Rightarrow> return (Inr 0)
        | Some s \<Rightarrow>
            if atoi_int s \<noteq> 4 then
              do {_ \<leftarrow> xs_do env (Xs_rm XBT_NULL be_path); return (Inr 0)}
            else
              do {
                r \<leftarrow> retry_transaction env fuel (\<lambda>t.
                  do {
                    _ \<leftarrow> xs_do env (Xs_write t (be_path @ ''/online'') ''0'');
                    _ \<leftarrow> xs_do env (Xs_write t (be_path @ ''/state'') ''5'');
                    return ()
                  });
                (case r of
                   Inl e \<Rightarrow> return (Inl e)
                 | Inr committed \<Rightarrow>
                     if \<not> committed then return (Inr (-1))
                     else if \<not> force then
                       do {_ \<leftarrow> xs_do env (Xs_watch (be_path @ ''/state'') be_path); return (Inr 1)}
                     else
                       do {_ \<leftarrow> xs_do env (Xs_rm XBT_NULL be_path); return (Inr 0)})
              })
     }"

text \<open>A watch event is a path and a token; \<open>select\<close> answers a positive number when one is due.\<close>

definition wait_for_dev_destroy :: "env \<Rightarrow> int prog" where
  "wait_for_dev_destroy env =
     do {
       n \<leftarrow> int_of env Xs_select;
       if n \<le> 0 then return 1
       else
         do {
           ev \<leftarrow> ask env Xs_read_watch;
           (case a_list ev of
              None \<Rightarrow> return 1
            | Some l \<Rightarrow>
                do {
                  st \<leftarrow> xs_read env XBT_NULL (l ! 0);
                  if (case st of None \<Rightarrow> True | Some s \<Rightarrow> atoi_int s = 6) then
                    do {
                      _ \<leftarrow> xs_do env (Xs_unwatch (l ! 0) (l ! 1));
                      _ \<leftarrow> xs_do env (Xs_rm XBT_NULL (l ! 1));
                      return 0
                    }
                  else return 1
                })
         }
     }"

text \<open>The wait for \<open>n\<close> watches, until one wait fails.\<close>

fun wait_watches :: "env \<Rightarrow> nat \<Rightarrow> unit prog" where
  "wait_watches env 0 = return ()"
| "wait_watches env (Suc n) =
     do {
       r \<leftarrow> wait_for_dev_destroy env;
       if r \<noteq> 0 then return () else wait_watches env n
     }"

definition device_dir :: "u32 \<Rightarrow> string" where
  "device_dir did = ''/local/domain/'' @ print_d did @ ''/device''"

text \<open>The loop over the devices of one kind: the number of watches set, from \<open>n\<close> on.\<close>

fun destroy_kind ::
  "env \<Rightarrow> nat \<Rightarrow> bool \<Rightarrow> string \<Rightarrow> string list \<Rightarrow> nat \<Rightarrow> (fault + nat) prog" where
  "destroy_kind env fuel force path [] n = return (Inr n)"
| "destroy_kind env fuel force path (dev # devs) n =
     do {
       be \<leftarrow> xs_read env XBT_NULL (path @ ''/'' @ dev @ ''/backend'');
       (case be of
          None \<Rightarrow>
            do {
              _ \<leftarrow> xs_do env (Xs_rm XBT_NULL path);
              destroy_kind env fuel force path devs n
            }
        | Some be_path \<Rightarrow>
            do {
              r \<leftarrow> libxl__device_destroy env fuel be_path force;
              (case r of
                 Inl e \<Rightarrow> return (Inl e)
               | Inr rc \<Rightarrow> destroy_kind env fuel force path devs (if 0 < rc then n + 1 else n))
            })
     }"

fun destroy_kinds ::
  "env \<Rightarrow> nat \<Rightarrow> bool \<Rightarrow> u32 \<Rightarrow> string list \<Rightarrow> nat \<Rightarrow> (fault + nat) prog" where
  "destroy_kinds env fuel force did [] n = return (Inr n)"
| "destroy_kinds env fuel force did (k # ks) n =
     (if k = ''vfs'' then destroy_kinds env fuel force did ks n
      else
        do {
          a \<leftarrow> ask env (Xs_directory XBT_NULL (device_dir did @ ''/'' @ k));
          (case a_list a of
             None \<Rightarrow> destroy_kinds env fuel force did ks n
           | Some devs \<Rightarrow>
               do {
                 r \<leftarrow> destroy_kind env fuel force (device_dir did @ ''/'' @ k) devs n;
                 (case r of
                    Inl e \<Rightarrow> return (Inl e)
                  | Inr n' \<Rightarrow> destroy_kinds env fuel force did ks n')
               })
        })"

definition libxl__devices_destroy :: "env \<Rightarrow> nat \<Rightarrow> u32 \<Rightarrow> bool \<Rightarrow> (fault + int) prog" where
  "libxl__devices_destroy env fuel did force =
     do {
       a \<leftarrow> ask env (Xs_directory XBT_NULL (device_dir did));
       if a_list a = None \<and> a_errno a \<noteq> ENOENT then return (Inr 0)
       else
         do {
           r \<leftarrow> destroy_kinds env fuel force did (case a_list a of None \<Rightarrow> [] | Some l \<Rightarrow> l) 0;
           (case r of
              Inl e \<Rightarrow> return (Inl e)
            | Inr n \<Rightarrow>
                do {
                  be \<leftarrow> xs_read env XBT_NULL
                          (''/local/domain/'' @ print_d did @ ''/console'' @ ''/backend'');
                  r2 \<leftarrow> (case be of
                            None \<Rightarrow> return (Inr n)
                          | Some p \<Rightarrow>
                              if p = '''' then return (Inr n)
                              else
                                do {
                                  rc \<leftarrow> libxl__device_destroy env fuel p force;
                                  return (case rc of Inl e \<Rightarrow> Inl e
                                          | Inr i \<Rightarrow> Inr (if 0 < i then n + 1 else n))
                                });
                  (case r2 of
                     Inl e \<Rightarrow> return (Inl e)
                   | Inr watches \<Rightarrow>
                       do {
                         _ \<leftarrow> (if \<not> force then wait_watches env watches else return ());
                         return (Inr 0)
                       })
                })
         }
     }"

definition libxl__device_del :: "env \<Rightarrow> nat \<Rightarrow> libxl__device \<Rightarrow> bool \<Rightarrow> (fault + int) prog" where
  "libxl__device_del env fuel dev wait =
     do {
       backend \<leftarrow> libxl__device_backend_path env dev;
       r \<leftarrow> libxl__device_destroy env fuel backend (\<not> wait);
       (case r of
          Inl e \<Rightarrow> return (Inl e)
        | Inr rc \<Rightarrow>
            if rc = -1 then return (Inr ERROR_FAIL)
            else
              do {
                _ \<leftarrow> (if wait then wait_for_dev_destroy env else return 0);
                frontend \<leftarrow> libxl__device_frontend_path env dev;
                _ \<leftarrow> xs_do env (Xs_rm XBT_NULL frontend);
                return (Inr 0)
              })
     }"

section \<open>Waiting\<close>

text \<open>
  The wait for the device model.  \<open>select\<close> answers its result and the seconds that remain.
  \<open>wait_again\<close> is the part from the label \<open>again\<close> on: an event that is not there sends the
  code back to the label, which frees the value read a second time unless it was NULL.
\<close>

fun wait_again :: "env \<Rightarrow> nat \<Rightarrow> string option \<Rightarrow> (fault + int \<times> int) prog" where
  "wait_again env 0 p = return (Inl Diverges)"
| "wait_again env (Suc fuel) p =
     do {
       a \<leftarrow> ask env Xs_select;
       if a_int a \<le> 0 then return (Inr (a_int a, a_out a ! 0))
       else
         do {
           ev \<leftarrow> ask env Xs_read_watch;
           if a_list ev \<noteq> None then return (Inr (a_int a, a_out a ! 0))
           else if p \<noteq> None then return (Inl Double_free)
           else wait_again env fuel p
         }
     }"

fun device_model_loop ::
  "env \<Rightarrow> nat \<Rightarrow> u32 \<Rightarrow> string \<Rightarrow> string option \<Rightarrow> bool \<Rightarrow> int \<Rightarrow> int \<Rightarrow> (fault + int) prog" where
  "device_model_loop env 0 did path state callback rc tv = return (Inl Diverges)"
| "device_model_loop env (Suc fuel) did path state callback rc tv =
     (if 0 < rc \<or> rc = 0 \<and> 0 < tv then
        do {
          p \<leftarrow> xs_read env XBT_NULL path;
          r \<leftarrow> (if p = None \<or> state \<noteq> None \<and> p \<noteq> state then return None
                else if callback then
                  do {
                    i \<leftarrow> int_of env (Callback did (null_str p));
                    return (if 0 < i then None else Some i)
                  }
                else return (Some rc));
          (case r of
             Some i \<Rightarrow>
               do {
                 _ \<leftarrow> xs_do env (Xs_unwatch path path);
                 _ \<leftarrow> xs_do env Xs_close;
                 return (Inr i)
               }
           | None \<Rightarrow>
               do {
                 w \<leftarrow> wait_again env fuel p;
                 (case w of
                    Inl e \<Rightarrow> return (Inl e)
                  | Inr (rc', tv') \<Rightarrow>
                      device_model_loop env fuel did path state callback rc' tv')
               })
        }
      else
        do {
          _ \<leftarrow> xs_do env (Xs_unwatch path path);
          _ \<leftarrow> xs_do env Xs_close;
          return (Inr (-1))
        })"

text \<open>\<open>timeout\<close> is \<open>LIBXL_DEVICE_MODEL_START_TIMEOUT\<close>.\<close>

definition libxl__wait_for_device_model ::
  "env \<Rightarrow> nat \<Rightarrow> int \<Rightarrow> u32 \<Rightarrow> string option \<Rightarrow> bool \<Rightarrow> (fault + int) prog" where
  "libxl__wait_for_device_model env fuel timeout did state callback =
     do {
       ok \<leftarrow> xs_do env Xs_open;
       if \<not> ok then return (Inr (-1))
       else
         (let path = ''/local/domain/0/device-model/'' @ print_d did @ ''/state'' in
          do {
            _ \<leftarrow> xs_do env (Xs_watch path path);
            device_model_loop env fuel did path state callback 0 timeout
          })
     }"

text \<open>The wait for a backend: one read every tenth of a second, at most \<open>watchdog\<close> times.\<close>

fun backend_loop :: "env \<Rightarrow> nat \<Rightarrow> string \<Rightarrow> string \<Rightarrow> int prog" where
  "backend_loop env 0 path state = return (-1)"
| "backend_loop env (Suc watchdog) path state =
     do {
       p \<leftarrow> xs_read env XBT_NULL path;
       (case p of
          None \<Rightarrow> return (-1)
        | Some s \<Rightarrow>
            if s = state then return 0
            else
              do {
                _ \<leftarrow> ask env (Usleep 100000);
                backend_loop env watchdog path state
              })
     }"

definition libxl__wait_for_backend :: "env \<Rightarrow> string \<Rightarrow> string \<Rightarrow> int prog" where
  "libxl__wait_for_backend env be_path state = backend_loop env 100 (be_path @ ''/state'') state"

end
