(* ===== verification/Libxl_Disk.thy ===== *)
theory Libxl_Disk
  imports Libxl_Device Disk_Config
begin

text \<open>
  The disk operations of \<open>libxl.c\<close>: checking a disk, attaching and detaching it, listing the
  disks of a domain and changing the medium of a CD drive.
\<close>

section \<open>Checking\<close>

text \<open>\<open>stat\<close> answers \<open>[major, minor, is a block device, is a regular file, size]\<close>.  The disk
  comes back because its format may change.\<close>

definition validate_virtual_disk :: "env \<Rightarrow> libxl_device_disk \<Rightarrow> (fault + int \<times> libxl_device_disk) prog" where
  "validate_virtual_disk env disk =
     (if disk_format disk = DISK_FORMAT_EMPTY then return (Inr (0, disk))
      else if disk_format disk = DISK_FORMAT_PRESERVATION then return (Inr (0, disk))
      else
        (case pdev_path disk of
           None \<Rightarrow> return (if disk_format disk = DISK_FORMAT_RAW then Inl Null_pointer else Inr (ERROR_INVAL, disk))
         | Some name \<Rightarrow>
             (let (file, disk1) =
                (case (if disk_format disk = DISK_FORMAT_RAW then strchr name (CHR '':'') else None) of
                   None \<Rightarrow> (name, disk)
                 | Some i \<Rightarrow>
                     if strncmp_eq name ''vhd:'' 4
                     then (drop (i + 1) name, disk\<lparr>disk_format := DISK_FORMAT_VHD\<rparr>)
                     else (name, disk)) in
              do {
                a \<leftarrow> ask env (Stat file);
                return (Inr
                  (if a_int a \<noteq> 0 then (ERROR_INVAL, disk1)
                   else if disk_backend disk1 = DISK_BACKEND_PHY then
                     (if a_out a ! 2 = 0 then (ERROR_INVAL, disk1) else (0, disk1))
                   else if a_out a ! 3 \<noteq> 0 \<and> a_out a ! 4 = 0 then (ERROR_INVAL, disk1)
                   else (0, disk1)))
              })))"

section \<open>Attaching\<close>

fun hexdigit :: "nat \<Rightarrow> char" where
  "hexdigit n = (if n < 10 then char_of (48 + n) else char_of (87 + n))"

fun hexadecimal :: "nat \<Rightarrow> string" where
  "hexadecimal n = (if n < 16 then [hexdigit n] else hexadecimal (n div 16) @ [hexdigit (n mod 16)])"

declare hexadecimal.simps [simp del]

definition print_x :: "int \<Rightarrow> string" where
  "print_x i = hexadecimal (nat (i mod 2 ^ 32))"

fun format_id :: "libxl_disk_format \<Rightarrow> int" where
  "format_id DISK_FORMAT_UNKNOWN = 0"
| "format_id DISK_FORMAT_QCOW = 1"
| "format_id DISK_FORMAT_QCOW2 = 2"
| "format_id DISK_FORMAT_VHD = 3"
| "format_id DISK_FORMAT_RAW = 4"
| "format_id DISK_FORMAT_PRESERVATION = 5"
| "format_id DISK_FORMAT_EMPTY = 6"

definition blktap_enabled :: "env \<Rightarrow> bool prog" where
  "blktap_enabled env = xs_do env (Other ''libxl__blktap_enabled'' [] [])"

definition blktap_devpath :: "env \<Rightarrow> libxl_device_disk \<Rightarrow> string option prog" where
  "blktap_devpath env disk =
     str_of env (Other ''libxl__blktap_devpath'' [format_id (disk_format disk)] [null_str (pdev_path disk)])"

text \<open>\<open>major:minor\<close> of a device file; \<open>junk\<close> is what the two variables held before.\<close>

definition physical_device :: "env \<Rightarrow> int \<times> int \<Rightarrow> string \<Rightarrow> string prog" where
  "physical_device env junk path =
     do {
       r \<leftarrow> libxl__device_physdisk_major_minor env path;
       (let (major, minor) = (case snd r of None \<Rightarrow> junk | Some mm \<Rightarrow> mm) in
        return (print_x major @ '':'' @ print_x minor))
     }"

definition format_params :: "libxl_device_disk \<Rightarrow> string" where
  "format_params disk =
     null_str (libxl__device_disk_string_of_format (disk_format disk)) @ '':'' @ null_str (pdev_path disk)"

text \<open>The backend's own entries: its kind, the \<open>type\<close> entry and the list; None for an error
  with its code.\<close>

definition qdisk_entries ::
  "env \<Rightarrow> libxl_device_disk \<Rightarrow> string option \<Rightarrow> (int + libxl_device_kind \<times> string option \<times> entries) prog" where
  "qdisk_entries env disk backend_type =
     do {
       tap \<leftarrow> blktap_enabled env;
       return (Inr (if tap \<and> disk_backend disk \<noteq> DISK_BACKEND_QDISK then DEVICE_TAP else DEVICE_QDISK,
                    backend_type, [(''params'', Some (format_params disk))]))
     }"

definition backend_entries ::
  "env \<Rightarrow> int \<times> int \<Rightarrow> libxl_device_disk
     \<Rightarrow> (int + libxl_device_kind \<times> string option \<times> entries) prog" where
  "backend_entries env junk disk =
     (let backend_type = libxl__device_disk_string_of_backend (disk_backend disk) in
      case disk_backend disk of
        DISK_BACKEND_PHY \<Rightarrow>
          do {
            pd \<leftarrow> physical_device env junk (null_str (pdev_path disk));
            return (Inr (DEVICE_VBD, backend_type,
              [(''physical-device'', Some pd), (''params'', pdev_path disk)]))
          }
      | DISK_BACKEND_TAP \<Rightarrow>
          do {
            tap \<leftarrow> blktap_enabled env;
            if tap \<and> disk_format disk \<noteq> DISK_FORMAT_EMPTY then
              do {
                dev \<leftarrow> blktap_devpath env disk;
                (case dev of
                   None \<Rightarrow> return (Inl ERROR_FAIL)
                 | Some d \<Rightarrow>
                     do {
                       pd \<leftarrow> physical_device env junk d;
                       return (Inr (DEVICE_VBD, Some ''phy'',
                         [(''tapdisk-params'', Some (format_params disk)), (''params'', Some d), (''physical-device'', Some pd)]))
                     })
              }
            else qdisk_entries env disk backend_type
          }
      | DISK_BACKEND_QDISK \<Rightarrow> qdisk_entries env disk backend_type
      | DISK_BACKEND_UNKNOWN \<Rightarrow> return (Inl ERROR_INVAL))"

definition common_entries :: "libxl_device_disk \<Rightarrow> string option \<Rightarrow> entries" where
  "common_entries disk backend_type =
     [(''frontend-id'', Some (print_d (disk_domid disk))), (''online'', Some ''1''),
      (''removable'', Some (if unpluggable disk \<noteq> 0 then ''1'' else ''0'')), (''bootable'', Some ''1''),
      (''state'', Some ''1''), (''dev'', vdev disk), (''type'', backend_type),
      (''mode'', Some (if readwrite disk \<noteq> 0 then ''w'' else ''r''))]"

definition frontend_entries :: "libxl_device_disk \<Rightarrow> int \<Rightarrow> entries" where
  "frontend_entries disk dev =
     [(''backend-id'', Some (print_d (disk_backend_domid disk))), (''state'', Some ''1''),
      (''virtual-device'', Some (print_int dev)),
      (''device-type'', Some (if is_cdrom disk \<noteq> 0 then ''cdrom'' else ''disk''))]"

definition disk_device :: "libxl_device_disk \<Rightarrow> int \<Rightarrow> libxl_device_kind \<Rightarrow> libxl__device" where
  "disk_device disk dev be_kind =
     \<lparr>backend_devid = dev, backend_domid = disk_backend_domid disk, backend_kind = be_kind,
      devid = dev, domid = disk_domid disk, kind = DEVICE_VBD\<rparr>"

text \<open>A flexarray that cannot be made is NULL.\<close>

definition flexarray_make :: "env \<Rightarrow> bool prog" where
  "flexarray_make env = xs_do env (Other ''flexarray_make'' [16, 1] [])"

definition dev_number_of :: "string option \<Rightarrow> fault + int" where
  "dev_number_of v = (case v of None \<Rightarrow> Inl Null_pointer | Some s \<Rightarrow> libxl__device_disk_dev_number s)"

definition libxl_device_disk_add ::
  "env \<Rightarrow> nat \<Rightarrow> (libxl_device_kind \<Rightarrow> bool) \<Rightarrow> int \<times> int \<Rightarrow> u32 \<Rightarrow> libxl_device_disk
     \<Rightarrow> (fault + int \<times> libxl_device_disk) prog" where
  "libxl_device_disk_add env fuel valid junk did disk0 =
     try_then (validate_virtual_disk env disk0) (\<lambda>(rc, disk).
       if rc \<noteq> 0 then return (Inr (rc, disk))
       else
         do {
           front \<leftarrow> flexarray_make env;
           if \<not> front then return (Inr (ERROR_NOMEM, disk))
           else
             do {
               back \<leftarrow> flexarray_make env;
               if \<not> back then return (Inl Null_pointer)
               else
                 try_then (lift_fault (dev_number_of (vdev disk))) (\<lambda>dev.
                   if dev = -1 then return (Inr (ERROR_INVAL, disk))
                   else
                     do {
                       r \<leftarrow> backend_entries env junk disk;
                       (case r of
                          Inl e \<Rightarrow> return (Inr (e, disk))
                        | Inr (be_kind, backend_type, ents) \<Rightarrow>
                            try_then
                              (libxl__device_generic_add env fuel valid (disk_device disk dev be_kind)
                                 (Some (ents @ common_entries disk backend_type))
                                 (Some (frontend_entries disk dev)))
                              (\<lambda>added. return (Inr (0, disk))))
                     })
             }
         })"

section \<open>Detaching\<close>

definition del_backend_kind :: "libxl_device_disk \<Rightarrow> libxl_device_kind" where
  "del_backend_kind disk = (if disk_backend disk = DISK_BACKEND_PHY then DEVICE_VBD else DEVICE_TAP)"

definition libxl_device_disk_del ::
  "env \<Rightarrow> nat \<Rightarrow> libxl_device_disk \<Rightarrow> bool \<Rightarrow> (fault + int) prog" where
  "libxl_device_disk_del env fuel disk wait =
     try_then (lift_fault (dev_number_of (vdev disk))) (\<lambda>dev.
       (let device = disk_device disk dev (del_backend_kind disk) in
        try_then (libxl__device_del env fuel device wait) (\<lambda>rc.
          do {
            backend \<leftarrow> libxl__device_backend_path env device;
            _ \<leftarrow> xs_do env (Xs_rm XBT_NULL backend);
            frontend \<leftarrow> libxl__device_frontend_path env device;
            _ \<leftarrow> xs_do env (Xs_rm XBT_NULL frontend);
            return (Inr rc)
          })))"

section \<open>Attaching to the control domain\<close>

definition libxl_device_disk_local_attach :: "env \<Rightarrow> libxl_device_disk \<Rightarrow> string option prog" where
  "libxl_device_disk_local_attach env disk =
     (case disk_backend disk of
        DISK_BACKEND_PHY \<Rightarrow>
          return (if disk_format disk \<noteq> DISK_FORMAT_RAW then None else pdev_path disk)
      | DISK_BACKEND_TAP \<Rightarrow>
          if disk_format disk = DISK_FORMAT_VHD \<or> disk_format disk = DISK_FORMAT_RAW then
            do {
              tap \<leftarrow> blktap_enabled env;
              if tap then blktap_devpath env disk
              else return (if disk_format disk \<noteq> DISK_FORMAT_RAW then None else pdev_path disk)
            }
          else return None
      | DISK_BACKEND_QDISK \<Rightarrow>
          return (if disk_format disk \<noteq> DISK_FORMAT_RAW then None else pdev_path disk)
      | DISK_BACKEND_UNKNOWN \<Rightarrow> return None)"

definition libxl_device_disk_local_detach :: "libxl_device_disk \<Rightarrow> int" where
  "libxl_device_disk_local_detach disk = 0"

section \<open>Listing\<close>

text \<open>The backend that \<open>libxl_string_to_backend\<close> finds for a \<open>type\<close> entry.\<close>

definition backend_of_id :: "int \<Rightarrow> libxl_disk_backend" where
  "backend_of_id i =
     (if i = 1 then DISK_BACKEND_PHY else if i = 2 then DISK_BACKEND_TAP
      else if i = 3 then DISK_BACKEND_QDISK else DISK_BACKEND_UNKNOWN)"

text \<open>\<open>fmt\<close> is what \<open>realloc\<close> left in the format of the new entries: nothing sets it.\<close>

definition disk_of_entry :: "env \<Rightarrow> libxl_disk_format \<Rightarrow> u32 \<Rightarrow> string \<Rightarrow> string \<Rightarrow> (fault + libxl_device_disk) prog" where
  "disk_of_entry env fmt did be_path d =
     do {
       phys \<leftarrow> xs_read env XBT_NULL (be_path @ ''/'' @ d @ ''/params'');
       ty \<leftarrow> xs_read env XBT_NULL (be_path @ ''/'' @ d @ ''/type'');
       b \<leftarrow> int_of env (Other ''libxl_string_to_backend'' [] [null_str ty]);
       dev \<leftarrow> xs_read env XBT_NULL (be_path @ ''/'' @ d @ ''/dev'');
       removable \<leftarrow> xs_read env XBT_NULL (be_path @ ''/'' @ d @ ''/removable'');
       mode \<leftarrow> xs_read env XBT_NULL (be_path @ ''/'' @ d @ ''/mode'');
       (case mode of
          None \<Rightarrow> return (Inl Null_pointer)
        | Some m \<Rightarrow>
            do {
              fe \<leftarrow> xs_read env XBT_NULL (be_path @ ''/'' @ d @ ''/frontend'');
              dt \<leftarrow> xs_read env XBT_NULL (null_str fe @ ''/device-type'');
              (case dt of
                 None \<Rightarrow> return (Inl Null_pointer)
               | Some devtype \<Rightarrow>
                   return (Inr
                     \<lparr>disk_backend_domid = 0, disk_domid = did,
                      pdev_path = (case phys of None \<Rightarrow> None
                                   | Some p \<Rightarrow> (case strchr p (CHR '':'') of None \<Rightarrow> Some p
                                               | Some i \<Rightarrow> Some (drop (i + 1) p))),
                      vdev = dev, disk_backend = backend_of_id b, disk_format = fmt,
                      unpluggable = (case removable of None \<Rightarrow> 0 | Some r \<Rightarrow> atoi_int r),
                      readwrite = (if m = ''w'' then 1 else 0),
                      is_cdrom = (if devtype = ''cdrom'' then 1 else 0)\<rparr>))
            })
     }"

fun disks_of_entries :: "env \<Rightarrow> libxl_disk_format \<Rightarrow> u32 \<Rightarrow> string \<Rightarrow> string list \<Rightarrow> (fault + libxl_device_disk list) prog" where
  "disks_of_entries env fmt did be_path [] = return (Inr [])"
| "disks_of_entries env fmt did be_path (d # ds) =
     try_then (disk_of_entry env fmt did be_path d) (\<lambda>disk.
       try_then (disks_of_entries env fmt did be_path ds) (\<lambda>disks. return (Inr (disk # disks))))"

text \<open>The disks found are appended; the number of them is the result.\<close>

definition libxl_append_disk_list_of_type ::
  "env \<Rightarrow> libxl_disk_format \<Rightarrow> u32 \<Rightarrow> string \<Rightarrow> libxl_device_disk list \<Rightarrow> (fault + nat \<times> libxl_device_disk list) prog" where
  "libxl_append_disk_list_of_type env fmt did type disks =
     do {
       p \<leftarrow> str_of env (Xs_get_domain_path 0);
       (let be_path = null_str p @ ''/backend/'' @ type @ ''/'' @ print_d did in
        do {
          a \<leftarrow> ask env (Xs_directory XBT_NULL be_path);
          (case a_list a of
             None \<Rightarrow> return (Inr (0, disks))
           | Some dir \<Rightarrow>
               try_then (disks_of_entries env fmt did be_path dir) (\<lambda>new.
                 return (Inr (length dir, disks @ new))))
        })
     }"

definition libxl_device_disk_list :: "env \<Rightarrow> libxl_disk_format \<Rightarrow> u32 \<Rightarrow> (fault + nat \<times> libxl_device_disk list) prog" where
  "libxl_device_disk_list env fmt did =
     try_then (libxl_append_disk_list_of_type env fmt did ''vbd'' []) (\<lambda>(n1, d1).
     try_then (libxl_append_disk_list_of_type env fmt did ''tap'' d1) (\<lambda>(n2, d2).
     try_then (libxl_append_disk_list_of_type env fmt did ''qdisk'' d2) (\<lambda>(n3, d3).
       return (Inr (n1 + n2 + n3, d3)))))"

section \<open>Information\<close>

record libxl_diskinfo =
  di_backend :: "string option"
  di_backend_id :: c_int
  di_frontend :: "string option"
  di_frontend_id :: c_int
  di_devid :: int
  di_state :: c_int
  di_evtch :: c_int
  di_rref :: c_int

definition number_or_minus1 :: "string option \<Rightarrow> c_int" where
  "number_or_minus1 val = (case val of None \<Rightarrow> -1 | Some s \<Rightarrow> to_int (fst (strtoull10 s)))"

definition libxl_device_disk_getinfo ::
  "env \<Rightarrow> u32 \<Rightarrow> libxl_device_disk \<Rightarrow> (fault + int \<times> libxl_diskinfo option) prog" where
  "libxl_device_disk_getinfo env did disk =
     do {
       p \<leftarrow> str_of env (Xs_get_domain_path did);
       try_then (lift_fault (dev_number_of (vdev disk))) (\<lambda>dev.
         (let diskpath = null_str p @ ''/device/vbd/'' @ print_int dev in
          do {
            be \<leftarrow> xs_read env XBT_NULL (diskpath @ ''/backend'');
            (case be of
               None \<Rightarrow> return (Inr (ERROR_FAIL, None))
             | Some backend \<Rightarrow>
                 do {
                   bid \<leftarrow> xs_read env XBT_NULL (diskpath @ ''/backend-id'');
                   st \<leftarrow> xs_read env XBT_NULL (diskpath @ ''/state'');
                   ev \<leftarrow> xs_read env XBT_NULL (diskpath @ ''/event-channel'');
                   rr \<leftarrow> xs_read env XBT_NULL (diskpath @ ''/ring-ref'');
                   fe \<leftarrow> xs_read env XBT_NULL (backend @ ''/frontend'');
                   fid \<leftarrow> xs_read env XBT_NULL (backend @ ''/frontend-id'');
                   return (Inr (0, Some
                     \<lparr>di_backend = Some backend, di_backend_id = number_or_minus1 bid,
                      di_frontend = fe, di_frontend_id = number_or_minus1 fid, di_devid = dev,
                      di_state = number_or_minus1 st, di_evtch = number_or_minus1 ev,
                      di_rref = number_or_minus1 rr\<rparr>))
                 })
          }))
     }"

section \<open>Changing a medium\<close>

text \<open>The search for the drive: None when a name to compare is NULL, Some of the index, which
  is the length of the list when the drive is not there.\<close>

fun find_cdrom :: "string option \<Rightarrow> libxl_device_disk list \<Rightarrow> nat option" where
  "find_cdrom v [] = Some 0"
| "find_cdrom v (d # ds) =
     (if is_cdrom d = 0 then map_option Suc (find_cdrom v ds)
      else if v = None \<or> vdev d = None then None
      else if v = vdev d then Some 0
      else map_option Suc (find_cdrom v ds))"

definition libxl_cdrom_insert ::
  "env \<Rightarrow> nat \<Rightarrow> (libxl_device_kind \<Rightarrow> bool) \<Rightarrow> int \<times> int \<Rightarrow> libxl_disk_format \<Rightarrow> u32
     \<Rightarrow> libxl_device_disk \<Rightarrow> (fault + int) prog" where
  "libxl_cdrom_insert env fuel valid junk fmt did disk0 =
     (let disk = (if pdev_path disk0 = None
                  then disk0\<lparr>pdev_path := Some [], disk_format := DISK_FORMAT_EMPTY\<rparr> else disk0) in
      try_then (libxl_device_disk_list env fmt did) (\<lambda>(num, disks).
        (case find_cdrom (vdev disk) disks of
           None \<Rightarrow> return (Inl Null_pointer)
         | Some i \<Rightarrow>
             if i = num then return (Inr ERROR_FAIL)
             else
               try_then (libxl_device_disk_del env fuel (disks ! i) True) (\<lambda>r1.
               try_then (libxl_device_disk_add env fuel valid junk did disk) (\<lambda>(r2, disk2).
                 do {
                   stub \<leftarrow> int_of env (Other ''libxl_get_stubdom_id'' [uint did] []);
                   if stub = 0 then return (Inr 0)
                   else
                     try_then (libxl_device_disk_del env fuel
                       ((disks ! i)\<lparr>disk_domid := word_of_int stub\<rparr>) True) (\<lambda>r3.
                     try_then (libxl_device_disk_add env fuel valid junk (word_of_int stub)
                       (disk2\<lparr>disk_domid := word_of_int stub\<rparr>)) (\<lambda>r4. return (Inr 0)))
                 })))))"

end
