(* ===== verification/Xenstore.thy ===== *)
theory Xenstore
  imports Xen_Env
begin

text \<open>
  What the xenstore daemon promises its clients, as far as the tool stack relies on it: a tree
  of nodes, transactions that work on a copy of it, and commits that either install the copy
  or fail with \<open>EAGAIN\<close>.  The laws are the assumptions of a locale; the properties of the
  operations follow from them once, and an executable store whose state is recomputed from
  the history satisfies them.
\<close>

section \<open>Trees\<close>

text \<open>The nodes in the order they were made.  A node is a path and its value; the ancestors of
  a node are nodes.\<close>

type_synonym xs_tree = "(string \<times> string) list"

abbreviation tree_read :: "xs_tree \<Rightarrow> string \<Rightarrow> string option" where
  "tree_read \<equiv> map_of"

definition under :: "string \<Rightarrow> string \<Rightarrow> bool" where
  "under p q \<longleftrightarrow> q = p \<or> take (length p + 1) q = p @ ''/''"

definition ancestors :: "string \<Rightarrow> string list" where
  "ancestors p = map (\<lambda>i. take i p) (filter (\<lambda>i. p ! i = CHR ''/'') [1..<length p])"

definition make_node :: "string \<Rightarrow> xs_tree \<Rightarrow> xs_tree" where
  "make_node p s = (if tree_read s p = None then s @ [(p, [])] else s)"

definition set_node :: "string \<Rightarrow> string \<Rightarrow> xs_tree \<Rightarrow> xs_tree" where
  "set_node p v s = map (\<lambda>e. if fst e = p then (p, v) else e) s"

definition tree_mkdir :: "string \<Rightarrow> xs_tree \<Rightarrow> xs_tree" where
  "tree_mkdir p s = make_node p (fold make_node (ancestors p) s)"

definition tree_write :: "string \<Rightarrow> string \<Rightarrow> xs_tree \<Rightarrow> xs_tree" where
  "tree_write p v s = set_node p v (tree_mkdir p s)"

definition tree_rm :: "string \<Rightarrow> xs_tree \<Rightarrow> xs_tree" where
  "tree_rm p s = filter (\<lambda>e. \<not> under p (fst e)) s"

definition tree_writev :: "string \<Rightarrow> entries \<Rightarrow> xs_tree \<Rightarrow> xs_tree" where
  "tree_writev p kvs s =
     fold (\<lambda>(k, v). case v of None \<Rightarrow> id | Some x \<Rightarrow> tree_write (p @ ''/'' @ k) x) kvs s"

definition child_of :: "string \<Rightarrow> string \<Rightarrow> bool" where
  "child_of p q \<longleftrightarrow>
     take (length p + 1) q = p @ ''/'' \<and> length p + 1 < length q \<and>
     CHR ''/'' \<notin> set (drop (length p + 1) q)"

definition tree_dir :: "xs_tree \<Rightarrow> string \<Rightarrow> string list option" where
  "tree_dir s p =
     (if tree_read s p = None then None
      else Some (map (\<lambda>e. drop (length p + 1) (fst e)) (filter (\<lambda>e. child_of p (fst e)) s)))"

subsection \<open>Reading after a change\<close>

lemma read_make_node:
  "tree_read (make_node p s) q = (if q = p \<and> tree_read s q = None then Some [] else tree_read s q)"
  by (auto simp: make_node_def map_add_def split: option.splits)

lemma read_make_nodes:
  "tree_read (fold make_node ps s) q = (if q \<in> set ps \<and> tree_read s q = None then Some [] else tree_read s q)"
  by (induction ps arbitrary: s) (auto simp: read_make_node)

lemma read_mkdir:
  "tree_read (tree_mkdir p s) q =
     (if (q = p \<or> q \<in> set (ancestors p)) \<and> tree_read s q = None then Some [] else tree_read s q)"
  by (cases "q = p"; cases "tree_read s q") (simp_all add: tree_mkdir_def read_make_node read_make_nodes)

lemma read_set_node:
  "tree_read (set_node p v s) q = (if q = p \<and> tree_read s q \<noteq> None then Some v else tree_read s q)"
  by (induction s) (auto simp: set_node_def)

lemma read_write:
  "tree_read (tree_write p v s) q =
     (if q = p then Some v
      else if q \<in> set (ancestors p) \<and> tree_read s q = None then Some [] else tree_read s q)"
  by (auto simp: tree_write_def read_set_node read_mkdir)

lemma read_rm: "tree_read (tree_rm p s) q = (if under p q then None else tree_read s q)"
  by (induction s) (auto simp: tree_rm_def)

lemma rm_idem [simp]: "tree_rm p (tree_rm p s) = tree_rm p s"
  by (simp add: tree_rm_def)

lemma under_refl [simp]: "under p p"
  by (simp add: under_def)

lemma under_append [simp]: "under p (p @ ''/'' @ q)" "under p (p @ CHR ''/'' # q)"
  by (simp_all add: under_def)

lemma under_iff: "under p q \<longleftrightarrow> q = p \<or> (\<exists>r. q = p @ CHR ''/'' # r)"
proof
  assume "under p q"
  then consider "q = p" | "take (length p + 1) q = p @ ''/''" unfolding under_def by blast
  then show "q = p \<or> (\<exists>r. q = p @ CHR ''/'' # r)"
  proof cases
    case 2
    then have "q = (p @ ''/'') @ drop (length p + 1) q" by (metis append_take_drop_id)
    then show ?thesis by auto
  qed simp
qed auto

lemma under_trans: "under p q \<Longrightarrow> under q r \<Longrightarrow> under p r"
  by (auto simp: under_iff)

lemma ancestor_iff: "q \<in> set (ancestors p) \<longleftrightarrow> q \<noteq> [] \<and> (\<exists>r. p = q @ CHR ''/'' # r)"
proof
  assume "q \<in> set (ancestors p)"
  then obtain i where i: "1 \<le> i" "i < length p" "p ! i = CHR ''/''" "q = take i p"
    by (auto simp: ancestors_def)
  then have "p = q @ CHR ''/'' # drop (Suc i) p" by (metis id_take_nth_drop)
  with i show "q \<noteq> [] \<and> (\<exists>r. p = q @ CHR ''/'' # r)" by auto
next
  assume "q \<noteq> [] \<and> (\<exists>r. p = q @ CHR ''/'' # r)"
  then obtain r where r: "q \<noteq> []" "p = q @ CHR ''/'' # r" by blast
  then have "q = take (length q) p" "1 \<le> length q" "length q < length p" "p ! length q = CHR ''/''"
    by (simp_all add: Suc_le_eq)
  then show "q \<in> set (ancestors p)" unfolding ancestors_def by (auto simp: image_iff)
qed

lemma ancestor_under: "q \<in> set (ancestors p) \<Longrightarrow> under q p"
  by (auto simp: ancestor_iff)

lemma under_ancestor: "under p q \<Longrightarrow> q \<noteq> p \<Longrightarrow> p \<noteq> [] \<Longrightarrow> p \<in> set (ancestors q)"
  by (auto simp: ancestor_iff under_iff)

subsection \<open>Directories made afresh\<close>

definition new_dir :: "string \<Rightarrow> entries \<Rightarrow> xs_tree \<Rightarrow> xs_tree" where
  "new_dir p es s = tree_writev p es (tree_mkdir p (tree_rm p s))"

definition is_node :: "string \<Rightarrow> xs_tree \<Rightarrow> bool" where
  "is_node p s \<longleftrightarrow> (\<forall>q. q = p \<or> q \<in> set (ancestors p) \<longrightarrow> tree_read s q \<noteq> None)"

definition flat_keys :: "entries \<Rightarrow> bool" where
  "flat_keys es \<longleftrightarrow> distinct (map fst es) \<and> (\<forall>e\<in>set es. CHR ''/'' \<notin> set (fst e))"

lemma ancestors_child:
  assumes "p \<noteq> []" "CHR ''/'' \<notin> set k"
  shows "set (ancestors (p @ CHR ''/'' # k)) = insert p (set (ancestors p))"
proof (rule set_eqI)
  fix a
  have "a \<in> set (ancestors (p @ CHR ''/'' # k)) \<longleftrightarrow> a \<noteq> [] \<and> (\<exists>r. p @ CHR ''/'' # k = a @ CHR ''/'' # r)"
    by (simp add: ancestor_iff)
  also have "\<dots> \<longleftrightarrow> a = p \<or> a \<noteq> [] \<and> (\<exists>r. p = a @ CHR ''/'' # r)"
    using assms by (auto simp: append_eq_append_conv2 append_eq_Cons_conv Cons_eq_append_conv)
  finally show "a \<in> set (ancestors (p @ CHR ''/'' # k)) \<longleftrightarrow> a \<in> insert p (set (ancestors p))"
    by (auto simp: ancestor_iff)
qed

lemma is_node_mkdir: "is_node p (tree_mkdir p s)"
  by (auto simp: is_node_def read_mkdir)

lemma read_write_child:
  assumes "is_node p s" "p \<noteq> []" "CHR ''/'' \<notin> set k"
  shows "tree_read (tree_write (p @ CHR ''/'' # k) v s) q =
    (if q = p @ CHR ''/'' # k then Some v else tree_read s q)"
  using assms by (auto simp: read_write ancestors_child is_node_def)

lemma read_writev:
  assumes "is_node p s" "p \<noteq> []" "flat_keys es"
  shows "tree_read (tree_writev p es s) (p @ CHR ''/'' # k) =
      (case map_of es k of Some (Some v) \<Rightarrow> Some v | _ \<Rightarrow> tree_read s (p @ CHR ''/'' # k)) \<and>
    ((\<forall>k\<in>set (map fst es). q \<noteq> p @ CHR ''/'' # k) \<longrightarrow> tree_read (tree_writev p es s) q = tree_read s q)"
  using assms
proof (induction es arbitrary: s)
  case Nil
  then show ?case by (simp add: tree_writev_def)
next
  case (Cons e es)
  obtain k0 v0 where e: "e = (k0, v0)" by fastforce
  have k0: "CHR ''/'' \<notin> set k0" and nk: "k0 \<notin> fst ` set es" and fl: "flat_keys es"
    using Cons.prems(3) by (auto simp: flat_keys_def e)
  define s1 where "s1 = (case v0 of None \<Rightarrow> s | Some x \<Rightarrow> tree_write (p @ CHR ''/'' # k0) x s)"
  have r1: "tree_read s1 q = (if q = p @ CHR ''/'' # k0 \<and> v0 \<noteq> None then v0 else tree_read s q)" for q
    using read_write_child [OF Cons.prems(1,2) k0] by (auto simp: s1_def split: option.split)
  have w: "tree_writev p (e # es) s = tree_writev p es s1"
    by (cases v0) (simp_all add: tree_writev_def s1_def e)
  have n1: "is_node p s1" using Cons.prems(1) r1 by (auto simp: is_node_def)
  have m: "map_of es k0 = None" using nk by (force simp: map_of_eq_None_iff)
  show ?case using Cons.IH [OF n1 Cons.prems(2) fl] m unfolding w
    by (auto simp: e r1 split: option.splits)
qed

lemma read_new_dir_entry:
  assumes "p \<noteq> []" "flat_keys es"
  shows "tree_read (new_dir p es s) (p @ CHR ''/'' # k) = (case map_of es k of Some (Some v) \<Rightarrow> Some v | _ \<Rightarrow> None)"
proof -
  have "tree_read (tree_mkdir p (tree_rm p s)) (p @ CHR ''/'' # k) = None"
    by (auto simp: read_mkdir read_rm ancestor_iff)
  with read_writev [OF is_node_mkdir assms] show ?thesis
    by (auto simp: new_dir_def split: option.splits)
qed

lemma read_new_dir_other:
  assumes "p \<noteq> []" "flat_keys es" "\<not> under p q"
  shows "tree_read (new_dir p es s) q =
    (if q \<in> set (ancestors p) \<and> tree_read s q = None then Some [] else tree_read s q)"
proof -
  have "\<forall>k\<in>set (map fst es). q \<noteq> p @ CHR ''/'' # k" using assms(3) by (auto simp: under_iff)
  with read_writev [OF is_node_mkdir assms(1,2)]
  have "tree_read (new_dir p es s) q = tree_read (tree_mkdir p (tree_rm p s)) q"
    unfolding new_dir_def by blast
  also have "\<dots> = (if q \<in> set (ancestors p) \<and> tree_read s q = None then Some [] else tree_read s q)"
    using assms(3) by (auto simp: read_mkdir read_rm)
  finally show ?thesis .
qed

text \<open>Entries that are there outlive what is done elsewhere.\<close>

lemma read_new_dir_kept:
  assumes "p \<noteq> []" "flat_keys es" "\<not> under p q" "tree_read s q = Some v"
  shows "tree_read (new_dir p es s) q = Some v"
  using read_new_dir_other [OF assms(1-3)] assms(4) by simp

subsection \<open>Listing\<close>

lemma tree_dir_paths:
  "tree_dir s p =
     (if tree_read s p = None then None
      else Some (map (drop (length p + 1)) (filter (child_of p) (map fst s))))"
  by (simp add: tree_dir_def filter_map comp_def)

lemma child_under: "child_of p q \<Longrightarrow> under p q"
  by (simp add: child_of_def under_def)

lemma child_of_iff: "child_of p q \<longleftrightarrow> (\<exists>k. k \<noteq> [] \<and> CHR ''/'' \<notin> set k \<and> q = p @ CHR ''/'' # k)"
proof
  assume c: "child_of p q"
  then obtain r where "q = p @ CHR ''/'' # r" using child_under [OF c] by (auto simp: under_iff child_of_def)
  with c show "\<exists>k. k \<noteq> [] \<and> CHR ''/'' \<notin> set k \<and> q = p @ CHR ''/'' # k" by (auto simp: child_of_def)
qed (auto simp: child_of_def)

lemma under_comparable: "under p x \<Longrightarrow> under q x \<Longrightarrow> under p q \<or> under q p"
  by (fastforce simp: under_iff append_eq_append_conv2 append_eq_Cons_conv Cons_eq_append_conv)

definition absent :: "string \<Rightarrow> xs_tree \<Rightarrow> bool" where
  "absent p s \<longleftrightarrow> (\<forall>x. under p x \<longrightarrow> tree_read s x = None)"

lemma absent_paths: "absent p s \<Longrightarrow> x \<in> set (map fst s) \<Longrightarrow> \<not> under p x"
  by (force simp: absent_def map_of_eq_None_iff)

lemma absent_rm: "absent p s \<Longrightarrow> absent p (tree_rm q s)"
  by (simp add: absent_def read_rm)

lemma absent_new_dir:
  assumes "absent p s" "\<not> under p q" "\<not> under q p" "q \<noteq> []" "flat_keys es"
  shows "absent p (new_dir q es s)"
  unfolding absent_def
proof (intro allI impI)
  fix x assume x: "under p x"
  then have "\<not> under q x" using under_comparable assms(2,3) by blast
  moreover have "x \<notin> set (ancestors q)" using x assms(2) under_trans ancestor_under by blast
  ultimately show "tree_read (new_dir q es s) x = None"
    using assms(1,4,5) x by (simp add: read_new_dir_other absent_def)
qed

lemma paths_make_nodes:
  "filter P (map fst (fold make_node ps s)) = filter P (map fst s)" if "\<And>x. x \<in> set ps \<Longrightarrow> \<not> P x"
  using that by (induction ps arbitrary: s) (auto simp: make_node_def)

lemma make_nodes_there: "(\<And>x. x \<in> set ps \<Longrightarrow> tree_read s x \<noteq> None) \<Longrightarrow> fold make_node ps s = s"
proof (induction ps)
  case (Cons a ps)
  then have "make_node a s = s" by (simp add: make_node_def)
  with Cons show ?case by simp
qed simp

lemma paths_set_node: "map fst (set_node p v s) = map fst s"
  by (simp add: set_node_def comp_def if_distrib cong: if_cong map_cong)

lemma paths_write_child:
  assumes "is_node p s" "p \<noteq> []" "CHR ''/'' \<notin> set k" "\<not> P (p @ CHR ''/'' # k)"
  shows "filter P (map fst (tree_write (p @ CHR ''/'' # k) v s)) = filter P (map fst s)"
proof -
  have "fold make_node (ancestors (p @ CHR ''/'' # k)) s = s"
    using assms by (intro make_nodes_there) (auto simp: ancestors_child is_node_def)
  then show ?thesis using assms(4)
    by (simp add: tree_write_def tree_mkdir_def paths_set_node make_node_def)
qed

lemma paths_writev:
  assumes "is_node p s" "p \<noteq> []" "flat_keys es" "\<And>k. CHR ''/'' \<notin> set k \<Longrightarrow> \<not> P (p @ CHR ''/'' # k)"
  shows "filter P (map fst (tree_writev p es s)) = filter P (map fst s)"
  using assms
proof (induction es arbitrary: s)
  case (Cons e es)
  obtain k v where e: "e = (k, v)" by fastforce
  have k: "CHR ''/'' \<notin> set k" "flat_keys es" using Cons.prems(3) by (auto simp: flat_keys_def e)
  show ?case
  proof (cases v)
    case None
    then have "tree_writev p (e # es) s = tree_writev p es s" by (simp add: tree_writev_def e)
    with Cons.IH [OF Cons.prems(1,2) k(2) Cons.prems(4)] show ?thesis by simp
  next
    case (Some x)
    let ?s = "tree_write (p @ CHR ''/'' # k) x s"
    have "tree_writev p (e # es) s = tree_writev p es ?s" by (simp add: tree_writev_def e Some)
    moreover have "is_node p ?s"
      using Cons.prems(1) read_write_child [OF Cons.prems(1,2) k(1)] by (auto simp: is_node_def)
    ultimately show ?thesis
      using Cons.IH [OF _ Cons.prems(2) k(2) Cons.prems(4)]
        paths_write_child [OF Cons.prems(1,2) k(1)] Cons.prems(4) [OF k(1)] by simp
  qed
qed (simp add: tree_writev_def)

text \<open>A directory made where there was nothing is the only child.\<close>

lemma only_child:
  assumes "absent p s" "p \<noteq> []" "n \<noteq> []" "CHR ''/'' \<notin> set n" "flat_keys es"
  shows "tree_dir (new_dir (p @ CHR ''/'' # n) es s) p = Some [n]"
proof -
  let ?b = "p @ CHR ''/'' # n"
  have anc: "set (ancestors ?b) = insert p (set (ancestors p))" by (rule ancestors_child [OF assms(2,4)])
  have nc: "\<not> child_of p x" if "x \<in> set (ancestors ?b)" for x
  proof
    assume "child_of p x"
    then have "length p < length x" by (auto simp: child_of_iff)
    moreover have "length x \<le> length p" using that unfolding anc by (auto simp: ancestor_iff)
    ultimately show False by simp
  qed
  have no: "filter (child_of p) (map fst (tree_rm ?b s)) = []"
    using absent_paths [OF absent_rm [OF assms(1)]] child_under by (auto simp: filter_empty_conv)
  have new: "tree_read (fold make_node (ancestors ?b) (tree_rm ?b s)) ?b = None"
    using assms(1) by (auto simp: read_make_nodes read_rm ancestor_iff)
  have c: "child_of p ?b" using assms(3,4) by (auto simp: child_of_iff)
  have "filter (child_of p) (map fst (tree_mkdir ?b (tree_rm ?b s))) = [?b]"
    using paths_make_nodes [of "ancestors ?b" "child_of p" "tree_rm ?b s"] nc no new c
    by (simp add: tree_mkdir_def make_node_def)
  moreover have "\<not> child_of p (?b @ CHR ''/'' # k)" for k
    by (auto simp: child_of_iff)
  ultimately have "filter (child_of p) (map fst (new_dir ?b es s)) = [?b]"
    using paths_writev [OF is_node_mkdir _ assms(5), of ?b "child_of p" "tree_rm ?b s"]
    by (simp add: new_dir_def)
  moreover have "tree_read (new_dir ?b es s) p \<noteq> None"
    using assms anc by (subst read_new_dir_other) (auto simp: under_iff)
  ultimately show ?thesis by (simp add: tree_dir_paths)
qed

section \<open>The laws\<close>

fun call_effect :: "xcall \<Rightarrow> (int \<times> (xs_tree \<Rightarrow> xs_tree)) option" where
  "call_effect (Xs_write t p v) = Some (t, tree_write p v)"
| "call_effect (Xs_writev t p kvs) = Some (t, tree_writev p kvs)"
| "call_effect (Xs_rm t p) = Some (t, tree_rm p)"
| "call_effect (Xs_mkdir t p) = Some (t, tree_mkdir p)"
| "call_effect (Xs_set_permissions t p perms) = Some (t, id)"
| "call_effect c = None"

fun is_txn :: "xcall \<Rightarrow> bool" where
  "is_txn Xs_transaction_start = True"
| "is_txn (Xs_transaction_end t abort) = True"
| "is_txn c = False"

definition domain_path :: "u32 \<Rightarrow> string" where
  "domain_path d = ''/local/domain/'' @ print_u d"

text \<open>\<open>view tr t\<close> is the tree seen in transaction \<open>t\<close> after the calls \<open>tr\<close>, the committed one
  for 0, and \<open>opened tr t\<close> tells whether there is such a transaction.\<close>

locale xenstore =
  fixes env :: env
    and view :: "history \<Rightarrow> int \<Rightarrow> xs_tree"
    and base :: "history \<Rightarrow> int \<Rightarrow> xs_tree"
    and opened :: "history \<Rightarrow> int \<Rightarrow> bool"
  assumes opened_null: "opened tr 0"
    and read_law: "opened tr t \<Longrightarrow> a_str (env tr (Xs_read t p)) = tree_read (view tr t) p"
    and directory_law: "opened tr t \<Longrightarrow> a_list (env tr (Xs_directory t p)) = tree_dir (view tr t) p"
    and path_law: "a_str (env tr (Xs_get_domain_path d)) = Some (domain_path d)"
    and write_law: "call_effect c = Some (t, f) \<Longrightarrow> opened tr t \<Longrightarrow>
      a_int (env tr c) \<noteq> 0 \<and> view (after env tr c) = (view tr)(t := f (view tr t)) \<and>
      base (after env tr c) = base tr \<and> opened (after env tr c) = opened tr"
    and other_law: "call_effect c = None \<Longrightarrow> \<not> is_txn c \<Longrightarrow>
      view (after env tr c) = view tr \<and> base (after env tr c) = base tr \<and>
      opened (after env tr c) = opened tr"
    and start_law: "t = a_int (env tr Xs_transaction_start) \<Longrightarrow> t \<noteq> 0 \<and> \<not> opened tr t \<and>
      view (after env tr Xs_transaction_start) = (view tr)(t := view tr 0) \<and>
      base (after env tr Xs_transaction_start) = (base tr)(t := view tr 0) \<and>
      opened (after env tr Xs_transaction_start) = (opened tr)(t := True)"
    and end_law: "opened tr t \<Longrightarrow> t \<noteq> 0 \<Longrightarrow> tr' = after env tr (Xs_transaction_end t abort) \<Longrightarrow>
      opened tr' = (opened tr)(t := False) \<and>
      (\<forall>u. u \<noteq> t \<longrightarrow> base tr' u = base tr u \<and> (u \<noteq> 0 \<longrightarrow> view tr' u = view tr u))"
    and abort_law: "opened tr t \<Longrightarrow> t \<noteq> 0 \<Longrightarrow>
      view (after env tr (Xs_transaction_end t True)) 0 = view tr 0"
    and commit_law: "opened tr t \<Longrightarrow> t \<noteq> 0 \<Longrightarrow> base tr t = view tr 0 \<Longrightarrow>
      a_int (env tr (Xs_transaction_end t False)) \<noteq> 0 \<and>
      view (after env tr (Xs_transaction_end t False)) 0 = view tr t"
    and conflict_law: "opened tr t \<Longrightarrow> t \<noteq> 0 \<Longrightarrow> base tr t \<noteq> view tr 0 \<Longrightarrow>
      a_int (env tr (Xs_transaction_end t False)) = 0 \<and>
      a_errno (env tr (Xs_transaction_end t False)) = EAGAIN \<and>
      view (after env tr (Xs_transaction_end t False)) 0 = view tr 0"

text \<open>What a program leaves alone: the open transactions are the same, and the trees they
  began with; \<open>affects t f\<close> says that the tree of one of them changes by \<open>f\<close> and no other.\<close>

definition affects ::
  "(history \<Rightarrow> int \<Rightarrow> xs_tree) \<Rightarrow> (history \<Rightarrow> int \<Rightarrow> xs_tree) \<Rightarrow> (history \<Rightarrow> int \<Rightarrow> bool)
     \<Rightarrow> int \<Rightarrow> (xs_tree \<Rightarrow> xs_tree) \<Rightarrow> 'a prog \<Rightarrow> bool" where
  "affects view base opened t f m \<longleftrightarrow>
     (\<forall>tr. opened tr t \<longrightarrow>
        view (snd (run_state m tr)) = (view tr)(t := f (view tr t)) \<and>
        base (snd (run_state m tr)) = base tr \<and>
        opened (snd (run_state m tr)) = opened tr)"

lemma affectsD:
  "affects view base opened t f m \<Longrightarrow> run_state m tr = (x, tr') \<Longrightarrow> opened tr t \<Longrightarrow>
     view tr' = (view tr)(t := f (view tr t)) \<and> base tr' = base tr \<and> opened tr' = opened tr"
  unfolding affects_def by (metis snd_conv)

text \<open>The calls a program adds to the history, and programs all of whose calls change the tree of one
  transaction.\<close>

definition adds_calls :: "history \<Rightarrow> xcall list \<Rightarrow> history \<Rightarrow> bool" where
  "adds_calls tr cs tr' \<longleftrightarrow> map fst tr' = map fst tr @ cs"

definition works_in :: "int \<Rightarrow> 'a prog \<Rightarrow> bool" where
  "works_in t m \<longleftrightarrow>
     (\<forall>tr. \<exists>cs. adds_calls tr cs (snd (run_state m tr)) \<and> (\<forall>c\<in>set cs. \<exists>f. call_effect c = Some (t, f)))"

lemma adds_call [simp]: "adds_calls tr cs (after env tr' c) \<longleftrightarrow> map fst tr' @ [c] = map fst tr @ cs"
  by (simp add: adds_calls_def after_def)

lemma works_return: "works_in t (return x)"
  by (auto simp: works_in_def adds_calls_def intro: exI [of _ "[]"])

lemma works_do: "call_effect c = Some (t, f) \<Longrightarrow> works_in t (xs_do env c)"
  by (auto simp: works_in_def intro: exI [of _ "[c]"])

lemma works_bind:
  assumes "works_in t m" "\<And>x. works_in t (k x)"
  shows "works_in t (State_Monad.bind m k)"
  unfolding works_in_def
proof
  fix tr
  obtain x tr1 where 1: "run_state m tr = (x, tr1)" by (meson surj_pair)
  obtain cs where cs: "adds_calls tr cs tr1" "\<forall>c\<in>set cs. \<exists>f. call_effect c = Some (t, f)"
    using assms(1) 1 unfolding works_in_def by (metis snd_conv)
  obtain ds where ds: "adds_calls tr1 ds (snd (run_state (k x) tr1))" "\<forall>c\<in>set ds. \<exists>f. call_effect c = Some (t, f)"
    using assms(2) unfolding works_in_def by blast
  have "adds_calls tr (cs @ ds) (snd (run_state (k x) tr1))" using cs(1) ds(1) by (simp add: adds_calls_def)
  then show "\<exists>cs. adds_calls tr cs (snd (run_state (State_Monad.bind m k) tr)) \<and>
      (\<forall>c\<in>set cs. \<exists>f. call_effect c = Some (t, f))"
    using 1 cs(2) ds(2) by (intro exI [of _ "cs @ ds"]) auto
qed

text \<open>The same up to the transactions that have been closed since.\<close>

definition leaves ::
  "(history \<Rightarrow> int \<Rightarrow> xs_tree) \<Rightarrow> (history \<Rightarrow> int \<Rightarrow> xs_tree) \<Rightarrow> (history \<Rightarrow> int \<Rightarrow> bool)
     \<Rightarrow> history \<Rightarrow> history \<Rightarrow> bool" where
  "leaves view base opened tr tr' \<longleftrightarrow>
     opened tr' = opened tr \<and>
     (\<forall>u. u \<noteq> 0 \<longrightarrow> opened tr u \<longrightarrow> view tr' u = view tr u \<and> base tr' u = base tr u)"

context xenstore
begin

lemmas laws [simp] = opened_null read_law directory_law path_law

lemma write_laws [simp]:
  assumes "call_effect c = Some (t, f)" "opened tr t"
  shows "(a_int (env tr c) = 0) = False" "view (after env tr c) = (view tr)(t := f (view tr t))"
    "base (after env tr c) = base tr" "opened (after env tr c) = opened tr"
  using write_law [OF assms] by simp_all

lemma other_laws [simp]:
  assumes "call_effect c = None" "\<not> is_txn c"
  shows "view (after env tr c) = view tr" "base (after env tr c) = base tr"
    "opened (after env tr c) = opened tr"
  using other_law [OF assms] by simp_all

lemma affects_return: "affects view base opened t id (return x)"
  by (simp add: affects_def)

lemma affects_bind:
  assumes "affects view base opened t f m" "\<And>x. affects view base opened t g (k x)"
  shows "affects view base opened t (g \<circ> f) (State_Monad.bind m k)"
  unfolding affects_def
proof (intro allI impI)
  fix tr assume o: "opened tr t"
  obtain x tr1 where 1: "run_state m tr = (x, tr1)" by (meson surj_pair)
  obtain y tr2 where 2: "run_state (k x) tr1 = (y, tr2)" by (meson surj_pair)
  show "view (snd (run_state (State_Monad.bind m k) tr)) = (view tr)(t := (g \<circ> f) (view tr t)) \<and>
      base (snd (run_state (State_Monad.bind m k) tr)) = base tr \<and>
      opened (snd (run_state (State_Monad.bind m k) tr)) = opened tr"
    using affectsD [OF assms(1) 1 o] affectsD [OF assms(2) 2] o 1 2 by simp
qed

lemma affects_do: "call_effect c = Some (t, f) \<Longrightarrow> affects view base opened t f (xs_do env c)"
  by (simp add: affects_def)

text \<open>A transaction whose body works on its own tree commits at once.\<close>

lemma retry_view:
  assumes body: "\<And>t. affects view base opened t f (body t)"
  shows "\<exists>tr'. run_state (retry_transaction env (Suc fuel) body) tr = (Inr True, tr') \<and>
    view tr' 0 = f (view tr 0) \<and> leaves view base opened tr tr'"
proof -
  define t where "t = a_int (env tr Xs_transaction_start)"
  define tr1 where "tr1 = after env tr Xs_transaction_start"
  note s = start_law [OF t_def, folded tr1_def]
  obtain x tr2 where 2: "run_state (body t) tr1 = (x, tr2)" by (meson surj_pair)
  have 3: "view tr2 = (view tr1)(t := f (view tr1 t)) \<and> base tr2 = base tr1 \<and> opened tr2 = opened tr1"
    using affectsD [OF body 2] s by simp
  have o: "opened tr2 t" and t: "t \<noteq> 0" "\<not> opened tr t" and "base tr2 t = view tr2 0"
    using s 3 by simp_all
  then have c: "a_int (env tr2 (Xs_transaction_end t False)) \<noteq> 0"
      "view (after env tr2 (Xs_transaction_end t False)) 0 = f (view tr 0)"
    using commit_law [OF o] s 3 by auto
  have "run_state (retry_transaction env (Suc fuel) body) tr =
      (Inr True, after env tr2 (Xs_transaction_end t False))"
    using 2 c by (simp add: t_def [symmetric] tr1_def [symmetric])
  moreover have "leaves view base opened tr (after env tr2 (Xs_transaction_end t False))"
  proof -
    have "opened (after env tr2 (Xs_transaction_end t False)) = opened tr"
      using end_law [OF o t(1) refl, of False] s 3 by (auto simp: fun_eq_iff)
    moreover have "view (after env tr2 (Xs_transaction_end t False)) u = view tr u \<and>
        base (after env tr2 (Xs_transaction_end t False)) u = base tr u"
      if "u \<noteq> 0" "opened tr u" for u
    proof -
      have "u \<noteq> t" using that t(2) by auto
      with that end_law [OF o t(1) refl, of False] s 3 show ?thesis by simp
    qed
    ultimately show ?thesis by (simp add: leaves_def)
  qed
  ultimately show ?thesis using c by blast
qed

text \<open>It is one transaction: it is started, all changes name it, and it is committed.\<close>

lemma retry_calls:
  assumes body: "\<And>t. affects view base opened t f (body t)" and works: "\<And>t. works_in t (body t)"
  shows "\<exists>t cs. t \<noteq> 0 \<and> (\<forall>c\<in>set cs. \<exists>g. call_effect c = Some (t, g)) \<and>
    adds_calls tr (Xs_transaction_start # cs @ [Xs_transaction_end t False])
      (snd (run_state (retry_transaction env (Suc fuel) body) tr))"
proof -
  define t where "t = a_int (env tr Xs_transaction_start)"
  define tr1 where "tr1 = after env tr Xs_transaction_start"
  note s = start_law [OF t_def, folded tr1_def]
  obtain x tr2 where 2: "run_state (body t) tr1 = (x, tr2)" by (meson surj_pair)
  have "opened tr2 t" "base tr2 t = view tr2 0"
    using affectsD [OF body 2] s by simp_all
  then have c: "a_int (env tr2 (Xs_transaction_end t False)) \<noteq> 0"
    using commit_law s by auto
  obtain cs where cs: "adds_calls tr1 cs tr2" "\<forall>c\<in>set cs. \<exists>g. call_effect c = Some (t, g)"
    using works [of t] 2 unfolding works_in_def by (metis snd_conv)
  have "run_state (retry_transaction env (Suc fuel) body) tr = (Inr True, after env tr2 (Xs_transaction_end t False))"
    using 2 c by (simp add: t_def [symmetric] tr1_def [symmetric])
  moreover have "map fst tr2 = map fst tr @ Xs_transaction_start # cs"
    using cs(1) by (simp add: adds_calls_def tr1_def after_def)
  ultimately show ?thesis using s cs(2) by (intro exI [of _ t] exI [of _ cs]) simp
qed

end

section \<open>A store\<close>

text \<open>An executable store with one client: its state is recomputed from the calls.  A
  transaction keeps the tree it began with and the tree it works on; its commit fails when
  the committed tree is no longer the one it began with.  Calls to anything but the store are
  answered by \<open>others\<close>.\<close>

record xs_state =
  xs_committed :: xs_tree
  xs_open :: "(int \<times> xs_tree \<times> xs_tree) list"
  xs_next :: int

definition work_on :: "int \<Rightarrow> (xs_tree \<Rightarrow> xs_tree) \<Rightarrow> (int \<times> xs_tree \<times> xs_tree) list \<Rightarrow> (int \<times> xs_tree \<times> xs_tree) list" where
  "work_on t f = map (\<lambda>(u, b, w). (u, b, if u = t then f w else w))"

definition can_commit :: "xs_state \<Rightarrow> int \<Rightarrow> bool" where
  "can_commit s t = (case map_of (xs_open s) t of None \<Rightarrow> False | Some (b, w) \<Rightarrow> b = xs_committed s)"

definition xs_view :: "xs_state \<Rightarrow> int \<Rightarrow> xs_tree" where
  "xs_view s t =
     (if t = 0 then xs_committed s
      else (case map_of (xs_open s) t of None \<Rightarrow> [] | Some (b, w) \<Rightarrow> w))"

definition xs_opened :: "xs_state \<Rightarrow> int \<Rightarrow> bool" where
  "xs_opened s t \<longleftrightarrow> t = 0 \<or> map_of (xs_open s) t \<noteq> None"

definition xs_step :: "xcall \<Rightarrow> xs_state \<Rightarrow> xs_state" where
  "xs_step c s =
     (case c of
        Xs_transaction_start \<Rightarrow>
          s\<lparr>xs_open := (xs_next s, xs_committed s, xs_committed s) # xs_open s, xs_next := xs_next s + 1\<rparr>
      | Xs_transaction_end t abort \<Rightarrow>
          s\<lparr>xs_committed := (if \<not> abort \<and> can_commit s t then xs_view s t else xs_committed s),
            xs_open := filter (\<lambda>e. fst e \<noteq> t) (xs_open s)\<rparr>
      | _ \<Rightarrow>
          (case call_effect c of
             None \<Rightarrow> s
           | Some (t, f) \<Rightarrow>
               if t = 0 then s\<lparr>xs_committed := f (xs_committed s)\<rparr>
               else s\<lparr>xs_open := work_on t f (xs_open s)\<rparr>))"

definition xs_replay :: "xs_tree \<Rightarrow> history \<Rightarrow> xs_state" where
  "xs_replay s0 tr =
     fold (\<lambda>e. xs_step (fst e)) tr \<lparr>xs_committed = s0, xs_open = [], xs_next = 1\<rparr>"

definition ans :: "int \<Rightarrow> answer" where
  "ans i = \<lparr>a_int = i, a_errno = 0, a_str = None, a_list = None, a_out = [], a_doms = []\<rparr>"

definition store_env :: "env \<Rightarrow> xs_tree \<Rightarrow> env" where
  "store_env others s0 tr c =
     (let s = xs_replay s0 tr in
      case c of
        Xs_read t p \<Rightarrow> (ans 1)\<lparr>a_str := tree_read (xs_view s t) p\<rparr>
      | Xs_directory t p \<Rightarrow> (ans 1)\<lparr>a_list := tree_dir (xs_view s t) p, a_errno := ENOENT\<rparr>
      | Xs_get_domain_path d \<Rightarrow> (ans 1)\<lparr>a_str := Some (domain_path d)\<rparr>
      | Xs_transaction_start \<Rightarrow> ans (xs_next s)
      | Xs_transaction_end t abort \<Rightarrow>
          if abort \<or> can_commit s t then ans 1 else (ans 0)\<lparr>a_errno := EAGAIN\<rparr>
      | _ \<Rightarrow> if call_effect c \<noteq> None then ans 1 else others tr c)"

lemma replay_after [simp]: "xs_replay s0 (after env tr c) = xs_step c (xs_replay s0 tr)"
  by (simp add: xs_replay_def after_def)

lemma replay_Nil [simp]: "xs_replay s0 [] = \<lparr>xs_committed = s0, xs_open = [], xs_next = 1\<rparr>"
  by (simp add: xs_replay_def)

text \<open>The numbers of the open transactions are positive and have been given out.\<close>

lemma open_numbers:
  "0 < xs_next (xs_replay s0 tr) \<and> (\<forall>e\<in>set (xs_open (xs_replay s0 tr)). 0 < fst e \<and> fst e < xs_next (xs_replay s0 tr))"
proof (induction tr rule: rev_induct)
  case (snoc e tr)
  have "xs_replay s0 (tr @ [e]) = xs_step (fst e) (xs_replay s0 tr)" by (simp add: xs_replay_def)
  with snoc show ?case
    by (cases "fst e") (auto simp: xs_step_def work_on_def)
qed simp

lemma map_of_work_on:
  "map_of (work_on t f l) u = map_option (\<lambda>(b, w). (b, if u = t then f w else w)) (map_of l u)"
  by (induction l) (auto simp: work_on_def)

lemma map_of_without: "map_of (filter (\<lambda>e. fst e \<noteq> t) l) u = (if u = t then None else map_of l u)"
  by (induction l) auto

lemma fresh_number: "map_of (xs_open (xs_replay s0 tr)) (xs_next (xs_replay s0 tr)) = None"
  using open_numbers [of s0 tr] by (force simp: map_of_eq_None_iff)

lemma store_step_effect:
  assumes "call_effect c = Some (t, f)"
  shows "xs_step c s = (if t = 0 then s\<lparr>xs_committed := f (xs_committed s)\<rparr>
      else s\<lparr>xs_open := work_on t f (xs_open s)\<rparr>)"
    "store_env others s0 tr c = ans 1"
  using assms by (cases c; simp add: xs_step_def store_env_def)+

lemma store_step_other:
  assumes "call_effect c = None" "\<not> is_txn c"
  shows "xs_step c s = s"
  using assms by (cases c; simp add: xs_step_def)

definition xs_base :: "xs_state \<Rightarrow> int \<Rightarrow> xs_tree" where
  "xs_base s t = (case map_of (xs_open s) t of None \<Rightarrow> [] | Some (b, w) \<Rightarrow> b)"

lemmas xs_state_defs = xs_opened_def xs_view_def xs_base_def xs_step_def can_commit_def

interpretation store: xenstore "store_env others s0" "\<lambda>tr. xs_view (xs_replay s0 tr)"
  "\<lambda>tr. xs_base (xs_replay s0 tr)" "\<lambda>tr. xs_opened (xs_replay s0 tr)" for others s0
proof
  fix tr tr' t p d c f abort
  let ?s = "xs_replay s0 tr" and ?e = "store_env others s0"
  let ?s' = "\<lambda>c. xs_replay s0 (after ?e tr c)"
  show "xs_opened ?s 0" by (simp add: xs_opened_def)
  show "a_str (?e tr (Xs_read t p)) = tree_read (xs_view ?s t) p" by (simp add: store_env_def)
  show "a_list (?e tr (Xs_directory t p)) = tree_dir (xs_view ?s t) p" by (simp add: store_env_def)
  show "a_str (?e tr (Xs_get_domain_path d)) = Some (domain_path d)" by (simp add: store_env_def)
  show "a_int (?e tr c) \<noteq> 0 \<and> xs_view (?s' c) = (xs_view ?s)(t := f (xs_view ?s t)) \<and>
      xs_base (?s' c) = xs_base ?s \<and> xs_opened (?s' c) = xs_opened ?s"
    if "call_effect c = Some (t, f)" "xs_opened ?s t"
    using that(2) by (auto simp: store_step_effect [OF that(1)] ans_def xs_view_def xs_opened_def
        xs_base_def map_of_work_on fun_eq_iff split: option.splits)
  show "xs_view (?s' c) = xs_view ?s \<and> xs_base (?s' c) = xs_base ?s \<and> xs_opened (?s' c) = xs_opened ?s"
    if "call_effect c = None" "\<not> is_txn c"
    by (simp add: store_step_other [OF that])
  show "t \<noteq> 0 \<and> \<not> xs_opened ?s t \<and>
      xs_view (?s' Xs_transaction_start) = (xs_view ?s)(t := xs_view ?s 0) \<and>
      xs_base (?s' Xs_transaction_start) = (xs_base ?s)(t := xs_view ?s 0) \<and>
      xs_opened (?s' Xs_transaction_start) = (xs_opened ?s)(t := True)"
    if "t = a_int (?e tr Xs_transaction_start)"
  proof -
    have "t = xs_next ?s" using that by (simp add: store_env_def ans_def)
    then show ?thesis using open_numbers [of s0 tr] fresh_number [of s0 tr]
      by (auto simp: xs_state_defs fun_eq_iff)
  qed
  assume o: "xs_opened ?s t" "t \<noteq> 0"
  show "xs_opened (xs_replay s0 tr') = (xs_opened ?s)(t := False) \<and>
      (\<forall>u. u \<noteq> t \<longrightarrow> xs_base (xs_replay s0 tr') u = xs_base ?s u \<and>
         (u \<noteq> 0 \<longrightarrow> xs_view (xs_replay s0 tr') u = xs_view ?s u))"
    if "tr' = after ?e tr (Xs_transaction_end t abort)"
    using o by (auto simp: that xs_state_defs map_of_without fun_eq_iff)
  show "xs_view (?s' (Xs_transaction_end t True)) 0 = xs_view ?s 0"
    by (simp add: xs_view_def xs_step_def)
  show "a_int (?e tr (Xs_transaction_end t False)) \<noteq> 0 \<and>
      xs_view (?s' (Xs_transaction_end t False)) 0 = xs_view ?s t"
    if "xs_base ?s t = xs_view ?s 0"
    using o that by (auto simp: store_env_def ans_def xs_state_defs split: option.splits)
  show "a_int (?e tr (Xs_transaction_end t False)) = 0 \<and>
      a_errno (?e tr (Xs_transaction_end t False)) = EAGAIN \<and>
      xs_view (?s' (Xs_transaction_end t False)) 0 = xs_view ?s 0"
    if "xs_base ?s t \<noteq> xs_view ?s 0"
    using o that by (auto simp: store_env_def ans_def xs_state_defs split: option.splits)
qed

end
