(* ===== verification/Device_Store.thy ===== *)
theory Device_Store
  imports Libxl_Disk Disktype Xenstore
begin

text \<open>
  What the operations on devices do to the store: adding a device makes the directories of its
  two sides afresh in one transaction, removing one takes them away, and what is read back of
  an attached disk is what was attached.
\<close>

section \<open>Paths\<close>

lemma print_u_slash [simp]: "CHR ''/'' \<notin> set (print_u d)"
proof
  assume "CHR ''/'' \<in> set (print_u d)"
  then have "isdigit (CHR ''/'')" unfolding print_u_def by (rule decimal_digits)
  then show False by (simp add: isdigit_def)
qed

lemma print_u_inject [simp]: "print_u a = print_u b \<longleftrightarrow> a = b"
proof
  assume "print_u a = print_u b"
  then have "read_digits 0 (decimal (unat a) @ []) = read_digits 0 (decimal (unat b) @ [])"
    by (simp add: print_u_def)
  then show "a = b" unfolding read_decimal [OF disjI1 [OF refl]] by (simp add: word_unat_eq_iff)
qed simp

lemma split_at_slash:
  assumes "CHR ''/'' \<notin> set xs" "CHR ''/'' \<notin> set ys"
  shows "xs @ CHR ''/'' # u = ys @ CHR ''/'' # v \<longleftrightarrow> xs = ys \<and> u = v"
  using assms by (auto simp: append_eq_append_conv2 append_eq_Cons_conv Cons_eq_append_conv)

lemma under_domain_path:
  "under (domain_path a @ CHR ''/'' # x) (domain_path b @ CHR ''/'' # y) \<longleftrightarrow> a = b \<and> under x y"
proof -
  have 1: "domain_path b @ CHR ''/'' # y = domain_path a @ CHR ''/'' # z \<longleftrightarrow> a = b \<and> y = z" for z
    by (auto simp: domain_path_def split_at_slash)
  show ?thesis unfolding under_iff using 1 [of x] 1 [of "x @ CHR ''/'' # r" for r] by auto
qed

lemma domain_path_not_Nil [simp]: "domain_path d \<noteq> []"
  by (simp add: domain_path_def)

definition dev_frontend :: "libxl__device \<Rightarrow> string" where
  "dev_frontend dev = frontend_path_in (domain_path (domid dev)) dev"

definition dev_backend :: "libxl__device \<Rightarrow> string" where
  "dev_backend dev = backend_path_in (domain_path (backend_domid dev)) dev"

lemma dev_frontend_form:
  "\<exists>x. dev_frontend dev = domain_path (domid dev) @ CHR ''/'' # x \<and> (hd x = CHR ''c'' \<or> hd x = CHR ''d'') \<and> x \<noteq> []"
  by (auto simp: dev_frontend_def frontend_path_in_def)

lemma dev_backend_form:
  "\<exists>x. dev_backend dev = domain_path (backend_domid dev) @ CHR ''/'' # CHR ''b'' # x"
  by (auto simp: dev_backend_def backend_path_in_def)

lemma device_paths [simp]: "dev_frontend dev \<noteq> []" "dev_backend dev \<noteq> []"
  using dev_frontend_form [of dev] dev_backend_form [of dev] by auto

lemma under_hd: "under x y \<Longrightarrow> x \<noteq> [] \<Longrightarrow> hd y = hd x"
  by (cases x) (auto simp: under_iff)

text \<open>The two sides of devices never lie under one another.\<close>

lemma sides_apart [simp]:
  "\<not> under (dev_backend dev) (dev_frontend dev' @ r)" "\<not> under (dev_frontend dev') (dev_backend dev @ r)"
proof -
  obtain x where x: "dev_frontend dev' = domain_path (domid dev') @ CHR ''/'' # x"
    "hd x = CHR ''c'' \<or> hd x = CHR ''d''" "x \<noteq> []" using dev_frontend_form by blast
  obtain y where y: "dev_backend dev = domain_path (backend_domid dev) @ CHR ''/'' # CHR ''b'' # y"
    using dev_backend_form by blast
  have h: "hd (x @ r) = hd x" using x(3) by simp
  show "\<not> under (dev_backend dev) (dev_frontend dev' @ r)"
    using under_hd [of "CHR ''b'' # y" "x @ r"] x h by (auto simp: x(1) y under_domain_path)
  show "\<not> under (dev_frontend dev') (dev_backend dev @ r)"
    using under_hd [of x "CHR ''b'' # y @ r"] x by (auto simp: x(1) y under_domain_path)
qed

lemma sides_apart_self [simp]:
  "\<not> under (dev_backend dev) (dev_frontend dev')" "\<not> under (dev_frontend dev') (dev_backend dev)"
  using sides_apart(1) [of dev dev' "[]"] sides_apart(2) [of dev' dev "[]"] by simp_all

section \<open>Adding\<close>

context xenstore
begin

lemma add_side_affects:
  "affects view base opened t (new_dir path ((key, Some other) # kvs))
     (add_side env t path perms (CHR ''/'' # key) other (Some kvs))"
proof -
  have "affects view base opened t
      (((((id \<circ> tree_writev path kvs) \<circ> tree_write (path @ CHR ''/'' # key) other) \<circ> id) \<circ> tree_mkdir path) \<circ> tree_rm path)
      (add_side env t path perms (CHR ''/'' # key) other (Some kvs))"
    unfolding add_side_def option.case by (intro affects_bind affects_do affects_return; simp)
  moreover have "(((((id \<circ> tree_writev path kvs) \<circ> tree_write (path @ CHR ''/'' # key) other) \<circ> id) \<circ> tree_mkdir path) \<circ> tree_rm path)
      = new_dir path ((key, Some other) # kvs)"
    by (simp add: fun_eq_iff new_dir_def tree_writev_def)
  ultimately show ?thesis by simp
qed

lemma run_frontend_path:
  "run_state (libxl__device_frontend_path env dev) tr =
     (dev_frontend dev, after env tr (Xs_get_domain_path (domid dev)))"
  by (simp add: libxl__device_frontend_path_def dev_frontend_def null_str_def)

lemma run_backend_path:
  "run_state (libxl__device_backend_path env dev) tr =
     (dev_backend dev, after env tr (Xs_get_domain_path (backend_domid dev)))"
  by (simp add: libxl__device_backend_path_def dev_backend_def null_str_def)

lemma leaves_other [simp]:
  assumes "call_effect c = None" "\<not> is_txn c"
  shows "leaves view base opened (after env tr c) tr' = leaves view base opened tr tr'"
  using assms by (simp add: leaves_def)

lemma generic_add_view:
  assumes "valid (backend_kind dev)" "valid (kind dev)"
  shows "\<exists>tr'. run_state (libxl__device_generic_add env (Suc fuel) valid dev (Some be) (Some fe)) tr = (Inr 0, tr') \<and>
    view tr' 0 = new_dir (dev_backend dev) ((''frontend'', Some (dev_frontend dev)) # be)
      (new_dir (dev_frontend dev) ((''backend'', Some (dev_backend dev)) # fe) (view tr 0)) \<and>
    leaves view base opened tr tr'"
proof -
  define tr1 where "tr1 = after env (after env tr (Xs_get_domain_path (domid dev))) (Xs_get_domain_path (backend_domid dev))"
  define body where "body t =
    do {
      _ \<leftarrow> add_side env t (dev_frontend dev) [(domid dev, ''none''), (backend_domid dev, ''read'')]
             ''/backend'' (dev_backend dev) (Some fe);
      add_side env t (dev_backend dev) [(backend_domid dev, ''none''), (domid dev, ''read'')]
             ''/frontend'' (dev_frontend dev) (Some be)
    }" for t
  have "affects view base opened t
      (new_dir (dev_backend dev) ((''frontend'', Some (dev_frontend dev)) # be) \<circ>
       new_dir (dev_frontend dev) ((''backend'', Some (dev_backend dev)) # fe)) (body t)" for t
    unfolding body_def by (intro affects_bind add_side_affects)
  from retry_view [OF this, of fuel tr1] obtain tr' where
    r: "run_state (retry_transaction env (Suc fuel) body) tr1 = (Inr True, tr')"
      "view tr' 0 = new_dir (dev_backend dev) ((''frontend'', Some (dev_frontend dev)) # be)
        (new_dir (dev_frontend dev) ((''backend'', Some (dev_backend dev)) # fe) (view tr1 0))"
      "leaves view base opened tr1 tr'" by auto
  have "run_state (libxl__device_generic_add env (Suc fuel) valid dev (Some be) (Some fe)) tr = (Inr 0, tr')"
    using assms r(1) by (simp add: libxl__device_generic_add_def run_frontend_path run_backend_path
        tr1_def [symmetric] body_def [symmetric] del: retry_transaction.simps)
  moreover have "view tr1 = view tr" "leaves view base opened tr tr'" using r(3) by (simp_all add: tr1_def)
  ultimately show ?thesis using r(2) by auto
qed

lemma works_side: "works_in t (add_side env t path perms name other (Some kvs))"
  unfolding add_side_def option.case by (intro works_bind works_do works_return) simp_all

lemma generic_add_calls:
  assumes "valid (backend_kind dev)" "valid (kind dev)"
  shows "\<exists>t cs. t \<noteq> 0 \<and> (\<forall>c\<in>set cs. \<exists>g. call_effect c = Some (t, g)) \<and>
    adds_calls tr ([Xs_get_domain_path (domid dev), Xs_get_domain_path (backend_domid dev), Xs_transaction_start] @
        cs @ [Xs_transaction_end t False])
      (snd (run_state (libxl__device_generic_add env (Suc fuel) valid dev (Some be) (Some fe)) tr))"
proof -
  define tr1 where "tr1 = after env (after env tr (Xs_get_domain_path (domid dev))) (Xs_get_domain_path (backend_domid dev))"
  define body where "body t =
    do {
      _ \<leftarrow> add_side env t (dev_frontend dev) [(domid dev, ''none''), (backend_domid dev, ''read'')]
             ''/backend'' (dev_backend dev) (Some fe);
      add_side env t (dev_backend dev) [(backend_domid dev, ''none''), (domid dev, ''read'')]
             ''/frontend'' (dev_frontend dev) (Some be)
    }" for t
  have a: "affects view base opened t
      (new_dir (dev_backend dev) ((''frontend'', Some (dev_frontend dev)) # be) \<circ>
       new_dir (dev_frontend dev) ((''backend'', Some (dev_backend dev)) # fe)) (body t)" for t
    unfolding body_def by (intro affects_bind add_side_affects)
  have w: "works_in t (body t)" for t unfolding body_def by (intro works_bind works_side)
  have "snd (run_state (libxl__device_generic_add env (Suc fuel) valid dev (Some be) (Some fe)) tr) =
      snd (run_state (retry_transaction env (Suc fuel) body) tr1)"
    using assms by (simp add: libxl__device_generic_add_def run_frontend_path run_backend_path
        tr1_def [symmetric] body_def [symmetric] split_beta del: retry_transaction.simps)
  with retry_calls [OF a w, of tr1 fuel] show ?thesis
    by (auto simp: adds_calls_def tr1_def after_def)
qed

end

section \<open>Removing\<close>

definition destroyed :: "string \<Rightarrow> xs_tree \<Rightarrow> xs_tree" where
  "destroyed p s =
     (case tree_read s (p @ ''/state'') of
        None \<Rightarrow> s
      | Some v \<Rightarrow>
          tree_rm p (if atoi_int v \<noteq> 4 then s
                     else tree_write (p @ ''/state'') ''5'' (tree_write (p @ ''/online'') ''0'' s)))"

lemma destroyed_under: "tree_read s (p @ ''/state'') \<noteq> None \<Longrightarrow> under p q \<Longrightarrow> tree_read (destroyed p s) q = None"
  by (auto simp: destroyed_def read_rm)

lemma destroyed_kept: "\<not> under p q \<Longrightarrow> tree_read s q = Some v \<Longrightarrow> tree_read (destroyed p s) q = Some v"
  by (auto simp: destroyed_def read_rm read_write split: option.split)

context xenstore
begin

lemma leaves_refl: "leaves view base opened tr tr"
  by (simp add: leaves_def)

lemma leaves_trans:
  "leaves view base opened tr1 tr2 \<Longrightarrow> leaves view base opened tr2 tr3 \<Longrightarrow> leaves view base opened tr1 tr3"
  by (simp add: leaves_def)

lemma leaves_after:
  assumes "leaves view base opened tr tr'"
  shows "call_effect c = None \<Longrightarrow> \<not> is_txn c \<Longrightarrow> leaves view base opened tr (after env tr' c)"
    "call_effect c = Some (0, f) \<Longrightarrow> leaves view base opened tr (after env tr' c)"
  using assms by (simp_all add: leaves_def)

lemma device_destroy_view:
  "\<exists>tr'. run_state (libxl__device_destroy env (Suc fuel) p True) tr = (Inr 0, tr') \<and>
    view tr' 0 = destroyed p (view tr 0) \<and> leaves view base opened tr tr'"
proof -
  define tr1 where "tr1 = after env tr (Xs_read 0 (p @ ''/state''))"
  have v1: "view tr1 = view tr" "leaves view base opened tr tr1"
    by (simp_all add: tr1_def leaves_after(1) [OF leaves_refl])
  define body where "body t =
    do {
      _ \<leftarrow> xs_do env (Xs_write t (p @ ''/online'') ''0'');
      _ \<leftarrow> xs_do env (Xs_write t (p @ ''/state'') ''5'');
      return ()
    }" for t
  have "affects view base opened t ((id \<circ> tree_write (p @ ''/state'') ''5'') \<circ> tree_write (p @ ''/online'') ''0'') (body t)" for t
    unfolding body_def by (intro affects_bind affects_do affects_return; simp)
  from retry_view [OF this, of fuel tr1] obtain tr2 where
    2: "run_state (retry_transaction env (Suc fuel) body) tr1 = (Inr True, tr2)"
      "view tr2 0 = tree_write (p @ ''/state'') ''5'' (tree_write (p @ ''/online'') ''0'' (view tr 0))"
      "leaves view base opened tr1 tr2" by (auto simp: v1)
  note r = libxl__device_destroy_def tr1_def [symmetric] body_def [symmetric]
  show ?thesis
  proof (cases "tree_read (view tr 0) (p @ ''/state'')")
    case None
    then show ?thesis using v1 by (simp add: r destroyed_def del: retry_transaction.simps)
  next
    case (Some v)
    show ?thesis
    proof (cases "atoi_int v = 4")
      case True
      with Some 2 v1 show ?thesis
        by (simp add: r destroyed_def leaves_after(2) [OF leaves_trans [OF v1(2)]] del: retry_transaction.simps)
    next
      case False
      with Some v1 show ?thesis
        by (simp add: r destroyed_def leaves_after(2) del: retry_transaction.simps)
    qed
  qed
qed

lemma device_del_view:
  "\<exists>tr'. run_state (libxl__device_del env (Suc fuel) dev False) tr = (Inr 0, tr') \<and>
    view tr' 0 = tree_rm (dev_frontend dev) (destroyed (dev_backend dev) (view tr 0)) \<and>
    leaves view base opened tr tr'"
proof -
  define tr1 where "tr1 = after env tr (Xs_get_domain_path (backend_domid dev))"
  have v1: "view tr1 = view tr" "leaves view base opened tr tr1"
    by (simp_all add: tr1_def leaves_after(1) [OF leaves_refl])
  obtain tr2 where 2: "run_state (libxl__device_destroy env (Suc fuel) (dev_backend dev) True) tr1 = (Inr 0, tr2)"
    "view tr2 0 = destroyed (dev_backend dev) (view tr 0)" "leaves view base opened tr1 tr2"
    using device_destroy_view [of fuel "dev_backend dev" tr1] v1 by auto
  note l = leaves_trans [OF v1(2) 2(3)]
  show ?thesis using 2(1,2) l
    by (simp add: libxl__device_del_def run_frontend_path run_backend_path tr1_def [symmetric] leaves_after)
qed

lemma disk_del_view:
  assumes "dev_number_of (vdev disk) = Inr n" "dev = disk_device disk n (del_backend_kind disk)"
  shows "\<exists>tr'. run_state (libxl_device_disk_del env (Suc fuel) disk False) tr = (Inr 0, tr') \<and>
    view tr' 0 = tree_rm (dev_frontend dev) (tree_rm (dev_backend dev)
      (tree_rm (dev_frontend dev) (destroyed (dev_backend dev) (view tr 0)))) \<and>
    leaves view base opened tr tr'"
proof -
  obtain tr1 where 1: "run_state (libxl__device_del env (Suc fuel) dev False) tr = (Inr 0, tr1)"
    "view tr1 0 = tree_rm (dev_frontend dev) (destroyed (dev_backend dev) (view tr 0))"
    "leaves view base opened tr tr1" using device_del_view by blast
  then show ?thesis using assms(1)
    by (simp add: libxl_device_disk_del_def assms(2) [symmetric] run_frontend_path run_backend_path Let_def leaves_after)
qed

end

section \<open>Preservation disks\<close>

text \<open>The entries of a preservation disk served by blktap through the device file \<open>devnode\<close>,
  whose numbers are printed as \<open>pd\<close>.\<close>

definition blktap_entries :: "libxl_device_disk \<Rightarrow> string \<Rightarrow> string \<Rightarrow> entries" where
  "blktap_entries disk devnode pd =
     [(''tapdisk-params'', Some (format_params disk)), (''params'', Some devnode), (''physical-device'', Some pd)] @
     common_entries disk (Some ''phy'')"

definition attached :: "libxl_device_disk \<Rightarrow> int \<Rightarrow> string \<Rightarrow> string \<Rightarrow> xs_tree \<Rightarrow> xs_tree" where
  "attached disk n devnode pd s =
     (let dev = disk_device disk n DEVICE_VBD in
      new_dir (dev_backend dev) ((''frontend'', Some (dev_frontend dev)) # blktap_entries disk devnode pd)
        (new_dir (dev_frontend dev) ((''backend'', Some (dev_backend dev)) # frontend_entries disk n) s))"

lemma flat_sides [simp]:
  "flat_keys ((''frontend'', x) # blktap_entries disk devnode pd)"
  "flat_keys ((''backend'', x) # frontend_entries disk n)"
  by (simp_all add: flat_keys_def blktap_entries_def common_entries_def frontend_entries_def)

lemma run_physical_device: "\<exists>pd. run_state (physical_device env junk path) tr = (pd, after env tr (Stat path))"
  by (cases junk) (simp add: physical_device_def libxl__device_physdisk_major_minor_def Let_def)

text \<open>What the rest of the system answers when blktap serves the disk.\<close>

definition blktap_serves :: "env \<Rightarrow> libxl_device_disk \<Rightarrow> string \<Rightarrow> bool" where
  "blktap_serves env disk devnode \<longleftrightarrow>
     (\<forall>tr. a_int (env tr (Other ''flexarray_make'' [16, 1] [])) \<noteq> 0 \<and>
           a_int (env tr (Other ''libxl__blktap_enabled'' [] [])) \<noteq> 0 \<and>
           a_str (env tr (Other ''libxl__blktap_devpath'' [format_id (disk_format disk)] [null_str (pdev_path disk)])) = Some devnode)"

lemma attached_entry:
  assumes "dev = disk_device disk n DEVICE_VBD"
  shows "tree_read (attached disk n devnode pd s) (dev_backend dev @ CHR ''/'' # k) =
      (case map_of ((''frontend'', Some (dev_frontend dev)) # blktap_entries disk devnode pd) k of
         Some (Some v) \<Rightarrow> Some v | _ \<Rightarrow> None)"
    "tree_read (attached disk n devnode pd s) (dev_frontend dev @ CHR ''/'' # k) =
      (case map_of ((''backend'', Some (dev_backend dev)) # frontend_entries disk n) k of
         Some (Some v) \<Rightarrow> Some v | _ \<Rightarrow> None)"
proof -
  show "tree_read (attached disk n devnode pd s) (dev_backend dev @ CHR ''/'' # k) =
      (case map_of ((''frontend'', Some (dev_frontend dev)) # blktap_entries disk devnode pd) k of
         Some (Some v) \<Rightarrow> Some v | _ \<Rightarrow> None)"
    by (simp add: attached_def assms [symmetric] Let_def read_new_dir_entry)
  have "dev_frontend dev @ CHR ''/'' # k \<notin> set (ancestors (dev_backend dev))"
    by (metis sides_apart_self(2) under_append(2) under_trans ancestor_under)
  then show "tree_read (attached disk n devnode pd s) (dev_frontend dev @ CHR ''/'' # k) =
      (case map_of ((''backend'', Some (dev_backend dev)) # frontend_entries disk n) k of
         Some (Some v) \<Rightarrow> Some v | _ \<Rightarrow> None)"
    by (simp add: attached_def assms [symmetric] Let_def read_new_dir_other read_new_dir_entry)
qed

context xenstore
begin

lemma preservation_disk_add_view:
  assumes "disk_format disk = DISK_FORMAT_PRESERVATION" "disk_backend disk = DISK_BACKEND_TAP"
    and "blktap_serves env disk devnode" "dev_number_of (vdev disk) = Inr n" "n \<noteq> -1"
    and "valid DEVICE_VBD"
  shows "\<exists>tr' pd. run_state (libxl_device_disk_add env (Suc fuel) valid junk did disk) tr = (Inr (0, disk), tr') \<and>
    view tr' 0 = attached disk n devnode pd (view tr 0) \<and> leaves view base opened tr tr'"
proof -
  define tr1 where "tr1 = after env (after env tr (Other ''flexarray_make'' [16, 1] [])) (Other ''flexarray_make'' [16, 1] [])"
  define tr2 where "tr2 = after env (after env tr1 (Other ''libxl__blktap_enabled'' [] []))
    (Other ''libxl__blktap_devpath'' [format_id (disk_format disk)] [null_str (pdev_path disk)])"
  define tr3 where "tr3 = after env tr2 (Stat devnode)"
  obtain pd where pd: "run_state (physical_device env junk devnode) tr2 = (pd, tr3)"
    using run_physical_device unfolding tr3_def by blast
  have v: "view tr3 = view tr" "leaves view base opened tr tr3"
    by (simp_all add: tr3_def tr2_def tr1_def leaves_after leaves_refl)
  define dev where "dev = disk_device disk n DEVICE_VBD"
  have e: "run_state (backend_entries env junk disk) tr1 =
      (Inr (DEVICE_VBD, Some ''phy'',
        [(''tapdisk-params'', Some (format_params disk)), (''params'', Some devnode), (''physical-device'', Some pd)]), tr3)"
    using assms(1-3) pd by (simp add: backend_entries_def Let_def blktap_enabled_def blktap_devpath_def
        blktap_serves_def tr2_def)
  obtain tr4 where g: "run_state (libxl__device_generic_add env (Suc fuel) valid dev
        (Some (blktap_entries disk devnode pd)) (Some (frontend_entries disk n))) tr3 = (Inr 0, tr4)"
      "view tr4 0 = attached disk n devnode pd (view tr 0)" "leaves view base opened tr3 tr4"
    using generic_add_view [of valid dev fuel "blktap_entries disk devnode pd" "frontend_entries disk n" tr3] assms(6)
    by (auto simp: v dev_def disk_device_def attached_def Let_def)
  have "run_state (libxl_device_disk_add env (Suc fuel) valid junk did disk) tr = (Inr (0, disk), tr4)"
    using assms g(1) e by (simp add: libxl_device_disk_add_def validate_virtual_disk_def flexarray_make_def
        blktap_serves_def tr1_def [symmetric] dev_def [symmetric] blktap_entries_def)
  then show ?thesis using g(2) leaves_trans [OF v(2) g(3)] by blast
qed

end

section \<open>Reading back\<close>

lemma print_d_small: "unat d < 2 ^ 31 \<Longrightarrow> print_d d = print_u d"
  by (simp add: print_d_def print_u_def print_int_def sint_small)

lemma number_print_u: "number_or_minus1 (Some (print_u w)) = w"
proof -
  have "unat w < 2 ^ LENGTH(32)" by (rule unsigned_less)
  then have "unat w < 2 ^ 64" by simp
  from strtoull10_decimal [of "[]", OF disjI1 [OF refl] this]
  have "strtoull10 (print_u w) = (of_nat (unat w), [])" by (simp add: print_u_def)
  moreover have "to_int (ucast w) = w" by (rule bit_word_eqI) (auto simp: bit_simps)
  ultimately show ?thesis by (simp add: number_or_minus1_def)
qed

lemma disk_device_sides:
  "dev_frontend (disk_device disk n k) = domain_path (disk_domid disk) @ ''/device/vbd/'' @ print_int n"
  "dev_backend (disk_device disk n DEVICE_VBD) =
     domain_path (disk_backend_domid disk) @ ''/backend/vbd/'' @ print_u (disk_domid disk) @ ''/'' @ print_int n"
  "domid (disk_device disk n k) = disk_domid disk" "backend_domid (disk_device disk n k) = disk_backend_domid disk"
  by (simp_all add: dev_frontend_def dev_backend_def frontend_path_in_def backend_path_in_def disk_device_def)

text \<open>What the entries of an attached disk say.\<close>

definition attached_info :: "libxl_device_disk \<Rightarrow> int \<Rightarrow> libxl_diskinfo" where
  "attached_info disk n =
     \<lparr>di_backend = Some (dev_backend (disk_device disk n DEVICE_VBD)), di_backend_id = disk_backend_domid disk,
      di_frontend = Some (dev_frontend (disk_device disk n DEVICE_VBD)), di_frontend_id = disk_domid disk,
      di_devid = n, di_state = 1, di_evtch = -1, di_rref = -1\<rparr>"

lemma number_one: "number_or_minus1 (Some ''1'') = 1" "number_or_minus1 None = -1"
  using number_print_u [of 1]
  by (simp_all add: print_u_def decimal.simps [of "Suc 0"] digit_char_def char_of_def bit_nat_def number_or_minus1_def)

lemma attached_at_frontend:
  "tree_read (attached disk n devnode pd s) (domain_path (disk_domid disk) @ ''/device/vbd/'' @ print_int n @ CHR ''/'' # k) =
     (case map_of ((''backend'', Some (dev_backend (disk_device disk n DEVICE_VBD))) # frontend_entries disk n) k of
        Some (Some v) \<Rightarrow> Some v | _ \<Rightarrow> None)"
  using attached_entry(2) [OF refl, of disk n devnode pd s k] by (simp add: disk_device_sides(1))

context xenstore
begin

lemma attached_getinfo:
  assumes "view tr 0 = attached disk n devnode pd s" "dev_number_of (vdev disk) = Inr n"
    and "unat (disk_domid disk) < 2 ^ 31" "unat (disk_backend_domid disk) < 2 ^ 31"
  shows "fst (run_state (libxl_device_disk_getinfo env (disk_domid disk) disk) tr) = Inr (0, Some (attached_info disk n))"
proof -
  note e = attached_entry(1) [OF refl, of disk n devnode pd s]
  show ?thesis
    using assms(1,2) attached_at_frontend [of disk n devnode pd s]
    by (simp add: libxl_device_disk_getinfo_def null_str_def e frontend_entries_def
        blktap_entries_def common_entries_def print_d_small [OF assms(3)] print_d_small [OF assms(4)]
        number_print_u number_one attached_info_def)
qed

end

section \<open>Listing\<close>

lemma print_int_flat [simp]: "CHR ''/'' \<notin> set (print_int i)" "print_int i \<noteq> []"
proof -
  have d: "CHR ''/'' \<notin> set (decimal m)" for m
  proof
    assume "CHR ''/'' \<in> set (decimal m)"
    then have "isdigit (CHR ''/'')" by (rule decimal_digits)
    then show False by (simp add: isdigit_def)
  qed
  show "CHR ''/'' \<notin> set (print_int i)" "print_int i \<noteq> []" by (simp_all add: print_int_def d)
qed

text \<open>The directory of the backends of one type that the control domain keeps for a domain.\<close>

definition backends_of :: "string \<Rightarrow> u32 \<Rightarrow> string" where
  "backends_of type d = domain_path 0 @ ''/backend/'' @ type @ ''/'' @ print_u d"

text \<open>What the list makes of a preservation disk: its format is not filled in.\<close>

definition listed :: "libxl_device_disk \<Rightarrow> string \<Rightarrow> libxl_disk_format \<Rightarrow> libxl_device_disk" where
  "listed disk devnode fmt =
     \<lparr>disk_backend_domid = 0, disk_domid = disk_domid disk,
      pdev_path = (case strchr devnode (CHR '':'') of None \<Rightarrow> Some devnode | Some i \<Rightarrow> Some (drop (i + 1) devnode)),
      vdev = vdev disk, disk_backend = DISK_BACKEND_PHY, disk_format = fmt,
      unpluggable = (if unpluggable disk \<noteq> 0 then 1 else 0), readwrite = (if readwrite disk \<noteq> 0 then 1 else 0),
      is_cdrom = (if is_cdrom disk \<noteq> 0 then 1 else 0)\<rparr>"

lemma backends_apart:
  assumes "dev = disk_device disk n DEVICE_VBD" "type \<in> {''tap'', ''qdisk''}"
  shows "\<not> under (backends_of ty d) (dev_frontend dev)" "\<not> under (dev_frontend dev) (backends_of ty d)"
    "\<not> under (backends_of type d) (dev_backend dev)" "\<not> under (dev_backend dev) (backends_of type d)"
  using assms(2) by (auto simp: backends_of_def assms(1) disk_device_sides under_domain_path under_iff [of "x # xs" for x xs])

lemma attached_dirs:
  assumes "disk_backend_domid disk = 0" "d = disk_domid disk"
    and a: "absent (backends_of ''vbd'' d) s" "absent (backends_of ''tap'' d) s" "absent (backends_of ''qdisk'' d) s"
  shows "tree_dir (attached disk n devnode pd s) (backends_of ''vbd'' d) = Some [print_int n]"
    and "type \<in> {''tap'', ''qdisk''} \<Longrightarrow> tree_dir (attached disk n devnode pd s) (backends_of type d) = None"
proof -
  let ?dev = "disk_device disk n DEVICE_VBD"
  have b: "dev_backend ?dev = backends_of ''vbd'' d @ CHR ''/'' # print_int n"
    using assms(1,2) by (simp add: disk_device_sides backends_of_def)
  have nn: "backends_of ''vbd'' d \<noteq> []" by (simp add: backends_of_def)
  let ?s1 = "new_dir (dev_frontend ?dev) ((''backend'', Some (dev_backend ?dev)) # frontend_entries disk n) s"
  have a1: "absent (backends_of ty d) ?s1" if "absent (backends_of ty d) s" for ty
    using that backends_apart(1,2) [OF refl, of "''tap''"] by (intro absent_new_dir) auto
  show "tree_dir (attached disk n devnode pd s) (backends_of ''vbd'' d) = Some [print_int n]"
    using only_child [OF a1 [OF a(1)] nn _ _ flat_sides(1)]
    by (simp add: attached_def Let_def b)
  show "tree_dir (attached disk n devnode pd s) (backends_of type d) = None" if "type \<in> {''tap'', ''qdisk''}"
  proof -
    have "absent (backends_of type d) (attached disk n devnode pd s)"
      unfolding attached_def Let_def
    proof (rule absent_new_dir)
      show "absent (backends_of type d) ?s1" using that a(2,3) by (intro a1) auto
      show "\<not> under (backends_of type d) (dev_backend ?dev)" "\<not> under (dev_backend ?dev) (backends_of type d)"
        using backends_apart(3,4) [OF refl that] by blast+
    qed simp_all
    then show ?thesis by (simp add: tree_dir_def absent_def)
  qed
qed

lemma attached_at_backend:
  "disk_backend_domid disk = 0 \<Longrightarrow>
   tree_read (attached disk n devnode pd s)
     (backends_of ''vbd'' (disk_domid disk) @ CHR ''/'' # print_int n @ CHR ''/'' # k) =
     (case map_of ((''frontend'', Some (dev_frontend (disk_device disk n DEVICE_VBD))) # blktap_entries disk devnode pd) k of
        Some (Some v) \<Rightarrow> Some v | _ \<Rightarrow> None)"
  using attached_entry(1) [OF refl, of disk n devnode pd s k]
  by (simp add: disk_device_sides backends_of_def)

lemma atoi_one: "atoi_int ''1'' = 1" "atoi_int ''0'' = 0"
proof -
  have "''1'' = decimal 1 @ []" "''0'' = decimal 0 @ []"
    by (simp_all add: decimal.simps [of "Suc 0"] decimal.simps [of 0] digit_char_def char_of_def bit_nat_def)
  then have "strtol10 ''1'' = (1, [])" "strtol10 ''0'' = (0, [])"
    using strtol10_decimal [of "[]" 1] strtol10_decimal [of "[]" 0] by simp_all
  then show "atoi_int ''1'' = 1" "atoi_int ''0'' = 0" by (simp_all add: atoi_int_def atoi_def)
qed

context xenstore
begin

lemma run_disk_of_entry:
  assumes "view tr 0 = attached disk n devnode pd s" "disk_backend_domid disk = 0" "vdev disk \<noteq> None"
    and "\<And>tr. a_int (env tr (Other ''libxl_string_to_backend'' [] [''phy''])) = 1"
  shows "\<exists>tr'. run_state (disk_of_entry env fmt (disk_domid disk) (backends_of ''vbd'' (disk_domid disk)) (print_int n)) tr =
      (Inr (listed disk devnode fmt), tr') \<and> view tr' = view tr"
proof -
  note b = attached_at_backend [OF assms(2), of n devnode pd s]
  note f = attached_entry(2) [OF refl, of disk n devnode pd s]
  obtain v where v: "vdev disk = Some v" using assms(3) by blast
  show ?thesis
    by (simp add: disk_of_entry_def assms(1,4) b f blktap_entries_def common_entries_def null_str_def
        frontend_entries_def listed_def v backend_of_id_def atoi_one split: option.split)
qed

lemma attached_list:
  assumes "view tr 0 = attached disk n devnode pd s" "disk_backend_domid disk = 0" "vdev disk \<noteq> None"
    and "unat (disk_domid disk) < 2 ^ 31"
    and "absent (backends_of ''vbd'' (disk_domid disk)) s" "absent (backends_of ''tap'' (disk_domid disk)) s"
      "absent (backends_of ''qdisk'' (disk_domid disk)) s"
    and "\<And>tr. a_int (env tr (Other ''libxl_string_to_backend'' [] [''phy''])) = 1"
  shows "fst (run_state (libxl_device_disk_list env fmt (disk_domid disk)) tr) = Inr (1, [listed disk devnode fmt])"
proof -
  let ?d = "disk_domid disk"
  note dirs = attached_dirs [OF assms(2) refl assms(5-7), where n = n and devnode = devnode and pd = pd]
  have p: "null_str (Some (domain_path 0)) @ ''/backend/'' @ type @ ''/'' @ print_d ?d = backends_of type ?d" for type
    by (simp add: null_str_def backends_of_def print_d_small [OF assms(4)])
  define tr1 where "tr1 = after env (after env tr (Xs_get_domain_path 0)) (Xs_directory 0 (backends_of ''vbd'' ?d))"
  have v1: "view tr1 = view tr" by (simp add: tr1_def)
  obtain tr2 where 2: "run_state (disk_of_entry env fmt ?d (backends_of ''vbd'' ?d) (print_int n)) tr1 =
      (Inr (listed disk devnode fmt), tr2)" "view tr2 = view tr"
    using run_disk_of_entry [of tr1 disk n devnode pd s fmt] assms v1 by auto
  have vbd: "run_state (libxl_append_disk_list_of_type env fmt ?d ''vbd'' []) tr = (Inr (1, [listed disk devnode fmt]), tr2)"
    using 2(1) dirs(1) assms(1)
    by (simp add: libxl_append_disk_list_of_type_def p Let_def tr1_def [symmetric] del: append_assoc append_Cons)
  have other: "run_state (libxl_append_disk_list_of_type env fmt ?d type ds) tr' =
      (Inr (0, ds), after env (after env tr' (Xs_get_domain_path 0)) (Xs_directory 0 (backends_of type ?d)))"
    if "view tr' = view tr" "type \<in> {''tap'', ''qdisk''}" for tr' type ds
    using that assms(1) dirs(2) [OF that(2)]
    by (simp add: libxl_append_disk_list_of_type_def p Let_def del: append_assoc append_Cons)
  show ?thesis
    using vbd other [of tr2 "''tap''"] other [OF _ insertI2 [OF insertI1], of _] 2(2)
    by (simp add: libxl_device_disk_list_def)
qed

end

section \<open>The store after each operation\<close>

text \<open>The committed tree after the calls \<open>tr\<close> of a store that began as \<open>s0\<close>.\<close>

definition committed :: "xs_tree \<Rightarrow> history \<Rightarrow> xs_tree" where
  "committed s0 tr = xs_committed (xs_replay s0 tr)"

lemma committed_view: "xs_view (xs_replay s0 tr) 0 = committed s0 tr"
  by (simp add: xs_view_def committed_def)

lemma read_sides:
  assumes "b \<noteq> []" "f \<noteq> []" "flat_keys be" "flat_keys fe" "\<not> under b f" "\<not> under f b"
    and s: "s' = new_dir b be (new_dir f fe s)"
  shows "tree_read s' (b @ CHR ''/'' # k) = (case map_of be k of Some (Some v) \<Rightarrow> Some v | _ \<Rightarrow> None)"
    and "tree_read s' (f @ CHR ''/'' # k) = (case map_of fe k of Some (Some v) \<Rightarrow> Some v | _ \<Rightarrow> None)"
    and "\<not> under b q \<Longrightarrow> \<not> under f q \<Longrightarrow> tree_read s q = Some v \<Longrightarrow> tree_read s' q = Some v"
proof -
  show "tree_read s' (b @ CHR ''/'' # k) = (case map_of be k of Some (Some v) \<Rightarrow> Some v | _ \<Rightarrow> None)"
    unfolding s by (rule read_new_dir_entry [OF assms(1,3)])
  have "\<not> under b (f @ CHR ''/'' # k)"
    using under_comparable [of b "f @ CHR ''/'' # k" f] assms(5,6) by auto
  moreover have "f @ CHR ''/'' # k \<notin> set (ancestors b)"
    by (metis assms(6) under_append(2) under_trans ancestor_under)
  ultimately show "tree_read s' (f @ CHR ''/'' # k) = (case map_of fe k of Some (Some v) \<Rightarrow> Some v | _ \<Rightarrow> None)"
    unfolding s by (simp add: read_new_dir_other [OF assms(1,3)] read_new_dir_entry [OF assms(2,4)])
  show "tree_read s' q = Some v" if "\<not> under b q" "\<not> under f q" "tree_read s q = Some v"
    unfolding s using that by (intro read_new_dir_kept assms)
qed

text \<open>C25. Adding a device to the store: \<open>libxl__device_generic_add\<close> succeeds with one
  transaction, which every call that changes the store names and which is committed at the end; afterwards
  each side's directory holds the path of the other side and the entries given and nothing else that was
  there before, and every other node keeps its value.\<close>

theorem device_added:
  assumes "valid (backend_kind dev)" "valid (kind dev)"
    and "flat_keys ((''frontend'', Some (dev_frontend dev)) # be)" "flat_keys ((''backend'', Some (dev_backend dev)) # fe)"
    and "run_state (libxl__device_generic_add (store_env others s0) (Suc fuel) valid dev (Some be) (Some fe)) tr = (r, tr')"
  shows "r = Inr 0 \<and>
    (\<exists>t cs. t \<noteq> 0 \<and> (\<forall>c\<in>set cs. \<exists>f. call_effect c = Some (t, f)) \<and>
       map fst tr' = map fst tr @ [Xs_get_domain_path (domid dev), Xs_get_domain_path (backend_domid dev),
         Xs_transaction_start] @ cs @ [Xs_transaction_end t False]) \<and>
    (\<forall>k. tree_read (committed s0 tr') (dev_backend dev @ ''/'' @ k) =
       (case map_of ((''frontend'', Some (dev_frontend dev)) # be) k of Some (Some v) \<Rightarrow> Some v | _ \<Rightarrow> None)) \<and>
    (\<forall>k. tree_read (committed s0 tr') (dev_frontend dev @ ''/'' @ k) =
       (case map_of ((''backend'', Some (dev_backend dev)) # fe) k of Some (Some v) \<Rightarrow> Some v | _ \<Rightarrow> None)) \<and>
    (\<forall>q v. \<not> under (dev_backend dev) q \<longrightarrow> \<not> under (dev_frontend dev) q \<longrightarrow>
       tree_read (committed s0 tr) q = Some v \<longrightarrow> tree_read (committed s0 tr') q = Some v)"
proof -
  from store.generic_add_view [OF assms(1,2), of others s0 fuel be fe tr] assms(5)
  have r: "r = Inr 0" and s: "committed s0 tr' =
      new_dir (dev_backend dev) ((''frontend'', Some (dev_frontend dev)) # be)
        (new_dir (dev_frontend dev) ((''backend'', Some (dev_backend dev)) # fe) (committed s0 tr))"
    by (auto simp: committed_view)
  from store.generic_add_calls [OF assms(1,2), of tr others s0 fuel be fe] assms(5)
  have calls: "\<exists>t cs. t \<noteq> 0 \<and> (\<forall>c\<in>set cs. \<exists>f. call_effect c = Some (t, f)) \<and>
       map fst tr' = map fst tr @ [Xs_get_domain_path (domid dev), Xs_get_domain_path (backend_domid dev),
         Xs_transaction_start] @ cs @ [Xs_transaction_end t False]"
    by (simp add: adds_calls_def)
  note rs = read_sides [OF device_paths(2,1) assms(3,4) sides_apart_self s]
  have app: "p @ ''/'' @ k = p @ CHR ''/'' # k" for p k :: string by simp
  show ?thesis unfolding app by (intro conjI calls allI impI r rs)
qed

theorem device_added_witness:
  "\<forall>dev. tree_read
     (committed [] (snd (run_state (libxl__device_generic_add (store_env (\<lambda>_ _. ans 1) []) 1 (\<lambda>_. True) dev
        (Some [(''state'', Some ''1'')]) (Some [])) [])))
     (dev_backend dev @ ''/state'') = Some ''1''"
proof
  fix dev
  show "tree_read
     (committed [] (snd (run_state (libxl__device_generic_add (store_env (\<lambda>_ _. ans 1) []) 1 (\<lambda>_. True) dev
        (Some [(''state'', Some ''1'')]) (Some [])) [])))
     (dev_backend dev @ ''/state'') = Some ''1''"
    using device_added [of "\<lambda>_. True" dev "[(''state'', Some ''1'')]" "[]" "\<lambda>_ _. ans 1" "[]" 0 "[]",
        OF _ _ _ _ prod.collapse [symmetric]]
    by (auto simp: flat_keys_def dest!: spec [of _ "''state''"])
qed

lemma store_serves: "blktap_serves others disk devnode \<Longrightarrow> blktap_serves (store_env others s0) disk devnode"
  by (simp add: blktap_serves_def store_env_def)

lemma preservation_params:
  assumes "disk_format disk = DISK_FORMAT_PRESERVATION" "pdev_path disk = Some path"
  shows "tapdisk_parse_disk_type (format_params disk) = (0, Some path, Some (int DISK_TYPE_PRESERVATION))"
proof -
  have "format_params disk = ''preservation'' @ CHR '':'' # path"
    using assms by (simp add: format_params_def null_str_def)
  then show ?thesis using parse_params_name [of "''preservation''" path]
    by (simp add: tapdisk_parse_disk_type_def disktype_find_spec supported_def)
qed

lemma disk_added:
  assumes "disk_format disk = DISK_FORMAT_PRESERVATION" "disk_backend disk = DISK_BACKEND_TAP"
    and "blktap_serves others disk devnode" "dev_number_of (vdev disk) = Inr n" "n \<noteq> -1" "valid DEVICE_VBD"
    and "run_state (libxl_device_disk_add (store_env others s0) (Suc fuel) valid junk did disk) tr = (r, tr')"
  shows "r = Inr (0, disk)" "\<exists>pd. committed s0 tr' = attached disk n devnode pd (committed s0 tr)"
  using store.preservation_disk_add_view [where valid = valid, OF assms(1,2) store_serves [OF assms(3), of s0] assms(4-6), where fuel = fuel and junk = junk and did = did and tr = tr] assms(7)
  by (auto simp: committed_view)

text \<open>C24. Attaching a preservation disk served by blktap and asking for it: the addition
  succeeds, \<open>libxl_device_disk_getinfo\<close> then finds both sides with their domains, the device
  number, the state 1 and no ring yet, and the parameters left for tapdisk name the
  preservation driver and the path of the log file.\<close>

theorem preservation_disk_attached:
  assumes "disk_format disk = DISK_FORMAT_PRESERVATION" "disk_backend disk = DISK_BACKEND_TAP"
    and "pdev_path disk = Some path" "dev_number_of (vdev disk) = Inr n" "n \<noteq> -1"
    and "unat (disk_domid disk) < 2 ^ 31" "unat (disk_backend_domid disk) < 2 ^ 31"
    and "blktap_serves others disk devnode" "valid DEVICE_VBD"
    and "run_state (libxl_device_disk_add (store_env others s0) (Suc fuel) valid junk did disk) tr = (r, tr')"
  shows "r = Inr (0, disk) \<and>
    fst (run_state (libxl_device_disk_getinfo (store_env others s0) (disk_domid disk) disk) tr') =
      Inr (0, Some (attached_info disk n)) \<and>
    map_option tapdisk_parse_disk_type
      (tree_read (committed s0 tr') (dev_backend (disk_device disk n DEVICE_VBD) @ ''/tapdisk-params'')) =
      Some (0, Some path, Some (int DISK_TYPE_PRESERVATION))"
proof -
  note added = disk_added [where valid = valid, OF assms(1,2,8,4,5,9,10)]
  then obtain pd where s: "committed s0 tr' = attached disk n devnode pd (committed s0 tr)" by blast
  have i: "fst (run_state (libxl_device_disk_getinfo (store_env others s0) (disk_domid disk) disk) tr') =
      Inr (0, Some (attached_info disk n))"
    by (rule store.attached_getinfo [OF _ assms(4,6,7)]) (simp add: committed_view s)
  have "tree_read (committed s0 tr') (dev_backend (disk_device disk n DEVICE_VBD) @ ''/tapdisk-params'') =
      Some (format_params disk)"
    using attached_entry(1) [OF refl, of disk n devnode pd "committed s0 tr"] by (simp add: s blktap_entries_def)
  with added(1) i preservation_params [OF assms(1,3)] show ?thesis by simp
qed

text \<open>A disk of domain 5 and the system that serves it.\<close>

definition log_disk :: libxl_device_disk where
  "log_disk = zero_device_disk\<lparr>disk_domid := 5, pdev_path := Some ''/log'', vdev := Some ''xvda'',
     disk_backend := DISK_BACKEND_TAP, disk_format := DISK_FORMAT_PRESERVATION, readwrite := 1\<rparr>"

definition blktap_system :: env where
  "blktap_system tr c = (ans 1)\<lparr>a_str := Some ''/dev/tapdev0''\<rparr>"

lemma log_disk_fields [simp]:
  "disk_domid log_disk = 5" "disk_backend_domid log_disk = 0" "pdev_path log_disk = Some ''/log''"
  "vdev log_disk = Some ''xvda''" "disk_backend log_disk = DISK_BACKEND_TAP"
  "disk_format log_disk = DISK_FORMAT_PRESERVATION" "readwrite log_disk = 1"
  "unpluggable log_disk = 0" "is_cdrom log_disk = 0"
  by (simp_all add: log_disk_def zero_device_disk_def)

lemma log_disk_served: "blktap_serves blktap_system log_disk ''/dev/tapdev0''"
  by (simp add: blktap_serves_def blktap_system_def ans_def)

lemma log_disk_number: "dev_number_of (vdev log_disk) = Inr 51712"
  by (simp add: dev_number_of_def xvda_number)

lemma preservation_disk_attached_witness:
  "fst (run_state (libxl_device_disk_getinfo (store_env blktap_system []) 5 log_disk)
     (snd (run_state (libxl_device_disk_add (store_env blktap_system []) 1 (\<lambda>_. True) (0, 0) 5 log_disk) []))) =
   Inr (0, Some (attached_info log_disk 51712))"
  using preservation_disk_attached [OF _ _ _ _ _ _ _ _ _ prod.collapse [symmetric], where disk = log_disk
      and others = blktap_system and path = "''/log''" and valid = "\<lambda>_. True" and fuel = 0 and n = 51712]
    log_disk_served log_disk_number by simp

text \<open>C26. The list of the disks of a domain that had none holds exactly the preservation disk
  attached to it from the control domain: its name, mode and kind, as a \<open>phy\<close> disk on the
  device file of blktap, with a format nobody set.\<close>

theorem preservation_disk_listed:
  assumes "disk_format disk = DISK_FORMAT_PRESERVATION" "disk_backend disk = DISK_BACKEND_TAP"
    and "vdev disk = Some v" "libxl__device_disk_dev_number v = Inr n" "n \<noteq> -1"
    and "unat (disk_domid disk) < 2 ^ 31" "disk_backend_domid disk = 0"
    and "blktap_serves others disk devnode" "valid DEVICE_VBD"
    and "\<forall>tr. a_int (others tr (Other ''libxl_string_to_backend'' [] [''phy''])) = 1"
    and "\<forall>type\<in>{''vbd'', ''tap'', ''qdisk''}. absent (backends_of type (disk_domid disk)) (committed s0 tr)"
    and "run_state (libxl_device_disk_add (store_env others s0) (Suc fuel) valid junk did disk) tr = (r, tr')"
  shows "fst (run_state (libxl_device_disk_list (store_env others s0) fmt (disk_domid disk)) tr') =
    Inr (1, [listed disk devnode fmt])"
proof -
  have n: "dev_number_of (vdev disk) = Inr n" using assms(3,4) by (simp add: dev_number_of_def)
  from disk_added(2) [where valid = valid, OF assms(1,2,8) n assms(5,9,12)] obtain pd
    where s: "committed s0 tr' = attached disk n devnode pd (committed s0 tr)" by blast
  show ?thesis
    using assms(3,6,7,10,11) s
    by (intro store.attached_list [where n = n and pd = pd and s = "committed s0 tr"])
      (auto simp: committed_view store_env_def)
qed

lemma absent_Nil [simp]: "absent p []"
  by (simp add: absent_def)

lemma committed_Nil [simp]: "committed s0 [] = s0"
  by (simp add: committed_def)

lemma preservation_disk_listed_witness:
  "fst (run_state (libxl_device_disk_list (store_env blktap_system []) DISK_FORMAT_UNKNOWN 5)
     (snd (run_state (libxl_device_disk_add (store_env blktap_system []) 1 (\<lambda>_. True) (0, 0) 5 log_disk) []))) =
   Inr (1, [listed log_disk ''/dev/tapdev0'' DISK_FORMAT_UNKNOWN])"
  using preservation_disk_listed [OF _ _ _ _ _ _ _ _ _ _ _ prod.collapse [symmetric], where disk = log_disk
      and others = blktap_system and v = "''xvda''" and valid = "\<lambda>_. True" and fuel = 0 and n = 51712
      and tr = "[]"] log_disk_served
  by (simp add: xvda_number blktap_system_def [of _ "Other _ _ _"] ans_def)

text \<open>C27. Detaching the preservation disk without waiting: the front end is gone whatever the
  disk says of its backend; the backend is gone when the disk names the \<open>phy\<close> backend, as the
  list does, and stays, with its state, when it names any other, for example the \<open>tap\<close>
  backend it was attached with.\<close>

theorem preservation_disk_detached:
  assumes "disk_format disk = DISK_FORMAT_PRESERVATION" "disk_backend disk = DISK_BACKEND_TAP"
    and "blktap_serves others disk devnode" "dev_number_of (vdev disk) = Inr n" "n \<noteq> -1" "valid DEVICE_VBD"
    and "dev = disk_device disk n DEVICE_VBD"
    and "run_state (libxl_device_disk_add (store_env others s0) (Suc fuel) valid junk did disk) tr = (r, tr1)"
    and "run_state (libxl_device_disk_del (store_env others s0) (Suc fuel) (disk\<lparr>disk_backend := b\<rparr>) False) tr1 = (r', tr2)"
  shows "r' = Inr 0 \<and> (\<forall>q. under (dev_frontend dev) q \<longrightarrow> tree_read (committed s0 tr2) q = None) \<and>
    (if b = DISK_BACKEND_PHY then \<forall>q. under (dev_backend dev) q \<longrightarrow> tree_read (committed s0 tr2) q = None
     else tree_read (committed s0 tr2) (dev_backend dev @ ''/state'') = Some ''1'')"
proof -
  from disk_added(2) [where valid = valid, OF assms(1-6,8)] obtain pd
    where s1: "committed s0 tr1 = attached disk n devnode pd (committed s0 tr)" by blast
  define dev' where "dev' = disk_device (disk\<lparr>disk_backend := b\<rparr>) n (del_backend_kind (disk\<lparr>disk_backend := b\<rparr>))"
  have "\<exists>tr'. run_state (libxl_device_disk_del (store_env others s0) (Suc fuel) (disk\<lparr>disk_backend := b\<rparr>) False) tr1 = (Inr 0, tr') \<and>
    committed s0 tr' = tree_rm (dev_frontend dev') (tree_rm (dev_backend dev')
      (tree_rm (dev_frontend dev') (destroyed (dev_backend dev') (committed s0 tr1))))"
    using store.disk_del_view [OF _ dev'_def, where fuel = fuel and tr = tr1 and others = others] assms(4)
    by (auto simp: committed_view)
  with assms(9) have r: "r' = Inr 0" and s2: "committed s0 tr2 = tree_rm (dev_frontend dev') (tree_rm (dev_backend dev')
      (tree_rm (dev_frontend dev') (destroyed (dev_backend dev') (committed s0 tr1))))" by auto
  have f: "dev_frontend dev' = dev_frontend dev"
    by (simp add: dev'_def assms(7) dev_frontend_def frontend_path_in_def disk_device_def)
  have st: "tree_read (committed s0 tr1) (dev_backend dev @ CHR ''/'' # ''state'') = Some ''1''"
    using attached_entry(1) [OF assms(7), of devnode pd "committed s0 tr" "''state''"]
    by (simp add: s1 blktap_entries_def common_entries_def)
  show ?thesis
  proof (cases "b = DISK_BACKEND_PHY")
    case True
    then have "dev_backend dev' = dev_backend dev"
      by (simp add: dev'_def assms(7) disk_device_def dev_backend_def backend_path_in_def del_backend_kind_def)
    with True show ?thesis by (simp add: r s2 f read_rm)
  next
    case False
    have "dev_backend dev' = domain_path (disk_backend_domid disk) @ ''/backend/tap/'' @ print_u (disk_domid disk) @ ''/'' @ print_int n"
      using False by (simp add: dev'_def disk_device_def dev_backend_def backend_path_in_def del_backend_kind_def)
    then have a: "\<not> under (dev_backend dev') (dev_backend dev @ CHR ''/'' # ''state'')"
      by (simp add: assms(7) disk_device_sides under_domain_path under_iff [of "x # xs" for x xs])
    with False destroyed_kept [OF a st] sides_apart(2) [of dev dev "''/state''"]
    show ?thesis by (simp add: r s2 f read_rm)
  qed
qed

lemma log_disk_tap: "log_disk\<lparr>disk_backend := DISK_BACKEND_TAP\<rparr> = log_disk"
  by (simp add: log_disk_def)

lemma preservation_disk_detached_witness:
  "tree_read
     (committed [] (snd (run_state (libxl_device_disk_del (store_env blktap_system []) 1 log_disk False)
        (snd (run_state (libxl_device_disk_add (store_env blktap_system []) 1 (\<lambda>_. True) (0, 0) 5 log_disk) [])))))
     (dev_backend (disk_device log_disk 51712 DEVICE_VBD) @ ''/state'') = Some ''1''"
  using preservation_disk_detached [OF _ _ _ _ _ _ refl prod.collapse [symmetric] prod.collapse [symmetric],
      where disk = log_disk and others = blktap_system and valid = "\<lambda>_. True"
      and fuel = 0 and n = 51712 and b = DISK_BACKEND_TAP] log_disk_served log_disk_number
  by (simp add: log_disk_tap)

end
