(* ===== verification/Libxl_Domain.thy ===== *)
theory Libxl_Domain
  imports Libxl_Disk
begin

text \<open>
  The domain operations of \<open>libxl.c\<close>: opening a context, renaming and preserving a domain,
  what the hypervisor says of domains, pausing, resuming, shutting down and destroying, and
  the events a caller waits for.
\<close>

section \<open>Context\<close>

definition LIBXL_VERSION :: int where "LIBXL_VERSION = 0"

text \<open>\<open>pid_file\<close> is \<open>XENSTORE_PID_FILE\<close>; a handle that cannot be opened is 0.\<close>

definition libxl_ctx_init :: "env \<Rightarrow> string \<Rightarrow> int \<Rightarrow> int prog" where
  "libxl_ctx_init env pid_file version =
     (if version \<noteq> LIBXL_VERSION then return ERROR_VERSION
      else
        do {
          s \<leftarrow> ask env (Stat pid_file);
          if a_int s \<noteq> 0 then return ERROR_FAIL
          else
            do {
              xch \<leftarrow> xs_do env (Xc ''xc_interface_open'' []);
              if \<not> xch then return ERROR_FAIL
              else
                do {
                  xsh \<leftarrow> xs_do env Xs_open;
                  xsh2 \<leftarrow> (if xsh then return True else xs_do env (Other ''xs_domain_open'' [] []));
                  if \<not> xsh2 then do {_ \<leftarrow> ask env (Xc ''xc_interface_close'' []); return ERROR_FAIL}
                  else return 0
                }
            }
        })"

definition libxl_ctx_free :: "env \<Rightarrow> bool \<Rightarrow> bool \<Rightarrow> int prog" where
  "libxl_ctx_free env xch xsh =
     do {
       _ \<leftarrow> (if xch then xs_do env (Xc ''xc_interface_close'' []) else return False);
       _ \<leftarrow> (if xsh then xs_do env Xs_close else return False);
       return 0
     }"

definition is_hvm :: "env \<Rightarrow> u32 \<Rightarrow> bool prog" where
  "is_hvm env did = xs_do env (Other ''libxl__domain_is_hvm'' [uint did] [])"

section \<open>Renaming\<close>

text \<open>The part inside a transaction: the result, 0 when the new name has been written.
  \<open>libxl_name_to_domid\<close> answers its result and the domain.\<close>

definition rename_in :: "env \<Rightarrow> int \<Rightarrow> u32 \<Rightarrow> string \<Rightarrow> string option \<Rightarrow> string \<Rightarrow> int prog" where
  "rename_in env t did name_path old_name new_name =
     do {
       clash \<leftarrow>
         (if new_name \<noteq> [] then
            do {
              a \<leftarrow> ask env (Other ''libxl_name_to_domid'' [] [new_name]);
              return (if a_int a = ERROR_INVAL then 0
                      else if a_int a \<noteq> 0 then a_int a
                      else if a_out a ! 0 = uint did then 0
                      else ERROR_INVAL)
            }
          else return 0);
       if clash \<noteq> 0 then return clash
       else
         do {
           same \<leftarrow>
             (case old_name of
                None \<Rightarrow> return True
              | Some old \<Rightarrow>
                  do {
                    got \<leftarrow> xs_read env t name_path;
                    return (got = Some old)
                  });
           if \<not> same then return ERROR_FAIL
           else
             do {
               ok \<leftarrow> xs_do env (Xs_write t name_path new_name);
               return (if ok then 0 else ERROR_FAIL)
             }
         }
     }"

text \<open>Without a transaction of the caller (0) the code makes its own and commits it.\<close>

fun rename_loop ::
  "env \<Rightarrow> nat \<Rightarrow> u32 \<Rightarrow> string \<Rightarrow> string option \<Rightarrow> string \<Rightarrow> int \<Rightarrow> (fault + int) prog" where
  "rename_loop env 0 did name_path old_name new_name txn = return (Inl Diverges)"
| "rename_loop env (Suc fuel) did name_path old_name new_name txn =
     (if txn \<noteq> 0 then
        do {rc \<leftarrow> rename_in env txn did name_path old_name new_name; return (Inr rc)}
      else
        do {
          t \<leftarrow> int_of env Xs_transaction_start;
          if t = 0 then return (Inr ERROR_FAIL)
          else
            do {
              rc \<leftarrow> rename_in env t did name_path old_name new_name;
              if rc \<noteq> 0 then
                do {_ \<leftarrow> ask env (Xs_transaction_end t True); return (Inr rc)}
              else
                do {
                  a \<leftarrow> ask env (Xs_transaction_end t False);
                  if a_int a \<noteq> 0 then return (Inr 0)
                  else if a_errno a \<noteq> EAGAIN then return (Inr ERROR_FAIL)
                  else rename_loop env fuel did name_path old_name new_name txn
                }
            }
        })"

definition libxl_domain_rename ::
  "env \<Rightarrow> nat \<Rightarrow> u32 \<Rightarrow> string option \<Rightarrow> string \<Rightarrow> int \<Rightarrow> (fault + int) prog" where
  "libxl_domain_rename env fuel did old_name new_name txn =
     do {
       p \<leftarrow> str_of env (Xs_get_domain_path did);
       (case p of
          None \<Rightarrow> return (Inr ERROR_NOMEM)
        | Some dom_path \<Rightarrow> rename_loop env fuel did (dom_path @ ''/name'') old_name new_name txn)
     }"

section \<open>Resuming\<close>

text \<open>The code collects an error in \<open>rc\<close> and returns 0.\<close>

definition libxl_domain_resume :: "env \<Rightarrow> u32 \<Rightarrow> int prog" where
  "libxl_domain_resume env did =
     do {
       hvm \<leftarrow> is_hvm env did;
       rc \<leftarrow> (if hvm then return ERROR_NI
             else
               do {
                 r \<leftarrow> int_of env (Xc ''xc_domain_resume'' [uint did, 0]);
                 if r \<noteq> 0 then return ERROR_FAIL
                 else
                   do {
                     ok \<leftarrow> xs_do env (Other ''xs_resume_domain'' [uint did] []);
                     return (if \<not> ok then ERROR_FAIL else 0)
                   }
               });
       return 0
     }"

section \<open>Preserving\<close>

text \<open>One round of the transaction: an error of the rename ends the function in the middle of
  it, so the value is the error, or the answer to the commit.\<close>

definition preserve_round ::
  "env \<Rightarrow> nat \<Rightarrow> u32 \<Rightarrow> string \<Rightarrow> string \<Rightarrow> string \<Rightarrow> string \<Rightarrow> string \<Rightarrow> (fault + int + answer) prog" where
  "preserve_round env fuel did dom_path vm_path uuid name preserved =
     do {
       t \<leftarrow> int_of env Xs_transaction_start;
       _ \<leftarrow> xs_do env (Xs_rm t vm_path);
       _ \<leftarrow> xs_do env (Xs_mkdir t vm_path);
       _ \<leftarrow> xs_do env (Xs_set_permissions t vm_path [(0, ''none''), (did, ''read'')]);
       _ \<leftarrow> xs_do env (Xs_write t (dom_path @ ''/vm'') vm_path);
       try_then (libxl_domain_rename env fuel did (Some name) preserved t) (\<lambda>rc.
         if rc \<noteq> 0 then return (Inr (Inl rc))
         else
           do {
             _ \<leftarrow> xs_do env (Xs_write t (vm_path @ ''/uuid'') uuid);
             a \<leftarrow> ask env (Xs_transaction_end t False);
             return (Inr (Inr a))
           })
     }"

fun preserve_loop ::
  "env \<Rightarrow> nat \<Rightarrow> u32 \<Rightarrow> string \<Rightarrow> string \<Rightarrow> string \<Rightarrow> string \<Rightarrow> string \<Rightarrow> (fault + int) prog" where
  "preserve_loop env 0 did dom_path vm_path uuid name preserved = return (Inl Diverges)"
| "preserve_loop env (Suc fuel) did dom_path vm_path uuid name preserved =
     try_then (preserve_round env (Suc fuel) did dom_path vm_path uuid name preserved) (\<lambda>r.
       (case r of
          Inl rc \<Rightarrow> return (Inr rc)
        | Inr a \<Rightarrow>
            if a_int a = 0 \<and> a_errno a = EAGAIN
            then preserve_loop env fuel did dom_path vm_path uuid name preserved
            else return (Inr 0)))"

definition libxl_domain_preserve ::
  "env \<Rightarrow> nat \<Rightarrow> u32 \<Rightarrow> string \<Rightarrow> string \<Rightarrow> string \<Rightarrow> (fault + int) prog" where
  "libxl_domain_preserve env fuel did name name_suffix new_uuid =
     do {
       p \<leftarrow> str_of env (Xs_get_domain_path did);
       (case p of
          None \<Rightarrow> return (Inr ERROR_FAIL)
        | Some dom_path \<Rightarrow>
            preserve_loop env fuel did dom_path (''/vm/'' @ new_uuid) new_uuid name (name @ name_suffix))
     }"

section \<open>What the hypervisor says of a domain\<close>

text \<open>The flags and fields of the hypervisor's interface.\<close>

record dominf =
  XEN_DOMINF_dying :: u32
  XEN_DOMINF_shutdown :: u32
  XEN_DOMINF_paused :: u32
  XEN_DOMINF_blocked :: u32
  XEN_DOMINF_running :: u32
  XEN_DOMINF_shutdownshift :: nat
  XEN_DOMINF_shutdownmask :: u32

definition PAGE_TO_MEMKB :: "u64 \<Rightarrow> u64" where
  "PAGE_TO_MEMKB pages = pages * 4"

record libxl_dominfo =
  dom_uuid :: string
  dom_id :: u32
  running :: bool
  blocked :: bool
  paused :: bool
  shut_down :: bool
  dying :: bool
  shutdown_reason :: u32
  current_memkb :: u64
  max_memkb :: u64
  cpu_time :: u64
  vcpu_max_id :: u32
  vcpu_online :: u32

definition xcinfo2xlinfo :: "dominf \<Rightarrow> xc_domaininfo \<Rightarrow> libxl_dominfo" where
  "xcinfo2xlinfo k x =
     (let flag = (\<lambda>f. xc_flags x AND f \<noteq> 0);
          shut = flag (XEN_DOMINF_shutdown k); dies = flag (XEN_DOMINF_dying k) in
      \<lparr>dom_uuid = xc_handle x, dom_id = xc_domain x,
       running = flag (XEN_DOMINF_running k), blocked = flag (XEN_DOMINF_blocked k),
       paused = flag (XEN_DOMINF_paused k), shut_down = shut, dying = dies,
       shutdown_reason =
         (if shut \<or> dies
          then drop_bit (XEN_DOMINF_shutdownshift k) (xc_flags x) AND XEN_DOMINF_shutdownmask k
          else NOT 0),
       current_memkb = PAGE_TO_MEMKB (xc_tot_pages x), max_memkb = PAGE_TO_MEMKB (xc_max_pages x),
       cpu_time = xc_cpu_time x, vcpu_max_id = xc_max_vcpu_id x, vcpu_online = xc_nr_online_vcpus x\<rparr>)"

definition getinfolist :: "env \<Rightarrow> u32 \<Rightarrow> int \<Rightarrow> answer prog" where
  "getinfolist env first n = ask env (Xc ''xc_domain_getinfolist'' [uint first, n])"

text \<open>The first \<open>ret\<close> entries of the array the hypervisor filled.\<close>

definition doms_of :: "answer \<Rightarrow> xc_domaininfo list" where
  "doms_of a = take (nat (a_int a)) (a_doms a)"

definition libxl_list_domain :: "env \<Rightarrow> dominf \<Rightarrow> libxl_dominfo list option prog" where
  "libxl_list_domain env k =
     do {
       a \<leftarrow> getinfolist env 0 1024;
       return (if a_int a < 0 then None else Some (map (xcinfo2xlinfo k) (doms_of a)))
     }"

text \<open>The result, and the information when it is 0.\<close>

definition libxl_domain_info :: "env \<Rightarrow> dominf \<Rightarrow> u32 \<Rightarrow> (int \<times> libxl_dominfo option) prog" where
  "libxl_domain_info env k did =
     do {
       a \<leftarrow> getinfolist env did 1;
       return
         (if a_int a < 0 then (ERROR_FAIL, None)
          else
            (case doms_of a of
               [] \<Rightarrow> (ERROR_INVAL, None)
             | x # xs \<Rightarrow>
                 if xc_domain x \<noteq> did then (ERROR_INVAL, None) else (0, Some (xcinfo2xlinfo k x))))
     }"

text \<open>The loop of \<open>libxl_list_vm\<close> leaves out the stub domains.\<close>

fun keep_vms :: "env \<Rightarrow> xc_domaininfo list \<Rightarrow> (string \<times> u32) list prog" where
  "keep_vms env [] = return []"
| "keep_vms env (x # xs) =
     do {
       stub \<leftarrow> xs_do env (Other ''libxl_is_stubdom'' [uint (xc_domain x)] []);
       vms \<leftarrow> keep_vms env xs;
       return (if stub then vms else (xc_handle x, xc_domain x) # vms)
     }"

definition libxl_list_vm :: "env \<Rightarrow> (string \<times> u32) list option prog" where
  "libxl_list_vm env =
     do {
       a \<leftarrow> getinfolist env 1 1024;
       if a_int a < 0 then return None
       else do {vms \<leftarrow> keep_vms env (doms_of a); return (Some vms)}
     }"

section \<open>Suspending, pausing, dumping\<close>

definition XL_SUSPEND_DEBUG :: int where "XL_SUSPEND_DEBUG = 1"
definition XL_SUSPEND_LIVE :: int where "XL_SUSPEND_LIVE = 2"

definition libxl_domain_suspend :: "env \<Rightarrow> int option \<Rightarrow> u32 \<Rightarrow> int \<Rightarrow> int prog" where
  "libxl_domain_suspend env flags did fd =
     do {
       hvm \<leftarrow> is_hvm env did;
       (let has = (\<lambda>f. case flags of None \<Rightarrow> 0 | Some x \<Rightarrow> if x AND f \<noteq> 0 then 1 else (0 :: int)) in
        do {
          rc \<leftarrow> int_of env (Other ''libxl__domain_suspend_common''
                  [uint did, fd, if hvm then 1 else 0, has XL_SUSPEND_LIVE, has XL_SUSPEND_DEBUG] []);
          if rc = 0 \<and> hvm then int_of env (Other ''libxl__domain_save_device_model'' [uint did, fd] [])
          else return rc
        })
     }"

definition fail_if_negative :: "env \<Rightarrow> xcall \<Rightarrow> int prog" where
  "fail_if_negative env c = do {r \<leftarrow> int_of env c; return (if r < 0 then ERROR_FAIL else 0)}"

definition libxl_domain_pause :: "env \<Rightarrow> u32 \<Rightarrow> int prog" where
  "libxl_domain_pause env did = fail_if_negative env (Xc ''xc_domain_pause'' [uint did])"

definition libxl_domain_core_dump :: "env \<Rightarrow> u32 \<Rightarrow> string \<Rightarrow> int prog" where
  "libxl_domain_core_dump env did filename =
     fail_if_negative env (Other ''xc_domain_dumpcore'' [uint did] [filename])"

definition dm_path :: "u32 \<Rightarrow> string \<Rightarrow> string" where
  "dm_path did name = ''/local/domain/0/device-model/'' @ print_d did @ ''/'' @ name"

definition libxl_domain_unpause :: "env \<Rightarrow> nat \<Rightarrow> int \<Rightarrow> u32 \<Rightarrow> (fault + int) prog" where
  "libxl_domain_unpause env fuel timeout did =
     do {
       hvm \<leftarrow> is_hvm env did;
       r \<leftarrow>
         (if hvm then
            do {
              st \<leftarrow> xs_read env XBT_NULL (dm_path did ''state'');
              if st = Some ''paused'' then
                do {
                  _ \<leftarrow> xs_do env (Xs_write XBT_NULL (dm_path did ''command'') ''continue'');
                  libxl__wait_for_device_model env fuel timeout did (Some ''running'') False
                }
              else return (Inr 0)
            }
          else return (Inr 0));
       (case r of
          Inl e \<Rightarrow> return (Inl e)
        | Inr ignored \<Rightarrow>
            do {
              rc \<leftarrow> fail_if_negative env (Xc ''xc_domain_unpause'' [uint did]);
              return (Inr rc)
            })
     }"

section \<open>Shutting down\<close>

definition req_table :: "string list" where
  "req_table = [''poweroff'', ''reboot'', ''suspend'', ''crash'', ''halt'']"

text \<open>\<open>req\<close> is an \<open>int\<close>, compared as an unsigned number with the size of the table; \<open>irq_param\<close>
  is \<open>HVM_PARAM_CALLBACK_IRQ\<close>.\<close>

definition libxl_domain_shutdown :: "env \<Rightarrow> int \<Rightarrow> u32 \<Rightarrow> c_int \<Rightarrow> (fault + int) prog" where
  "libxl_domain_shutdown env irq_param did req =
     (if length req_table < unat (sext64 req) then return (Inr ERROR_INVAL)
      else
        do {
          p \<leftarrow> str_of env (Xs_get_domain_path did);
          (case p of
             None \<Rightarrow> return (Inr ERROR_FAIL)
           | Some dom_path \<Rightarrow>
               do {
                 hvm \<leftarrow> is_hvm env did;
                 graceful \<leftarrow>
                   (if hvm then
                      do {
                        a \<leftarrow> ask env (Xc ''xc_get_hvm_param'' [uint did, irq_param]);
                        return (\<not> a_int a < 0 \<and> a_out a ! 0 \<noteq> 0)
                      }
                    else return True);
                 if \<not> graceful then return (Inr ERROR_FAIL)
                 else if length req_table \<le> unat (sext64 req) then return (Inl Out_of_bounds)
                 else
                   do {
                     _ \<leftarrow> xs_do env (Xs_write XBT_NULL (dom_path @ ''/control/shutdown'')
                                     (req_table ! unat (sext64 req)));
                     return (Inr 0)
                   }
               })
        })"

section \<open>Events\<close>

definition LIBXL_EVENT_DOMAIN_DEATH :: int where "LIBXL_EVENT_DOMAIN_DEATH = 0"
definition LIBXL_EVENT_DISK_EJECT :: int where "LIBXL_EVENT_DISK_EJECT = 1"

text \<open>A waiter is the path and the token of a watch.\<close>

definition libxl_wait_for_domain_death :: "env \<Rightarrow> (int \<times> (string \<times> string)) prog" where
  "libxl_wait_for_domain_death env =
     (let w = (''@releaseDomain'', print_int LIBXL_EVENT_DOMAIN_DEATH) in
      do {
        ok \<leftarrow> xs_do env (Xs_watch (fst w) (snd w));
        return (if \<not> ok then -1 else 0, w)
      })"

fun watch_ejects :: "env \<Rightarrow> u32 \<Rightarrow> libxl_device_disk list \<Rightarrow> (fault + (string \<times> string) list) prog" where
  "watch_ejects env did [] = return (Inr [])"
| "watch_ejects env did (d # ds) =
     do {
       p \<leftarrow> str_of env (Xs_get_domain_path did);
       try_then (lift_fault (dev_number_of (vdev d))) (\<lambda>dev.
         (let w = (null_str p @ ''/device/vbd/'' @ print_int dev @ ''/eject'', print_int LIBXL_EVENT_DISK_EJECT) in
          do {
            _ \<leftarrow> xs_do env (Xs_watch (fst w) (snd w));
            try_then (watch_ejects env did ds) (\<lambda>ws. return (Inr (w # ws)))
          }))
     }"

definition libxl_wait_for_disk_ejects ::
  "env \<Rightarrow> u32 \<Rightarrow> libxl_device_disk list \<Rightarrow> (fault + int \<times> (string \<times> string) list) prog" where
  "libxl_wait_for_disk_ejects env guest disks =
     do {
       stub \<leftarrow> int_of env (Other ''libxl_get_stubdom_id'' [uint guest] []);
       (let did = (if stub = 0 then guest else word_of_int stub) in
        try_then (watch_ejects env did disks) (\<lambda>ws. return (Inr (0, ws))))
     }"

record libxl_event =
  event_type :: int
  event_path :: string
  event_token :: string

text \<open>\<open>xs_read_watch\<close> answers the strings of the event; their number must be two.\<close>

definition libxl_get_event :: "env \<Rightarrow> (int \<times> libxl_event option) prog" where
  "libxl_get_event env =
     do {
       a \<leftarrow> ask env Xs_read_watch;
       return
         (case a_list a of
            None \<Rightarrow> (ERROR_FAIL, None)
          | Some l \<Rightarrow>
              if length l \<noteq> 2 then (ERROR_FAIL, None)
              else (0, Some \<lparr>event_type = atoi_int (l ! 1), event_path = l ! 0, event_token = l ! 1\<rparr>))
     }"

definition libxl_stop_waiting :: "env \<Rightarrow> string \<times> string \<Rightarrow> int prog" where
  "libxl_stop_waiting env w =
     do {ok \<leftarrow> xs_do env (Xs_unwatch (fst w) (snd w)); return (if \<not> ok then ERROR_FAIL else 0)}"

definition libxl_event_get_domain_death_info ::
  "env \<Rightarrow> dominf \<Rightarrow> u32 \<Rightarrow> (int \<times> libxl_dominfo option) prog" where
  "libxl_event_get_domain_death_info env k did =
     do {
       r \<leftarrow> libxl_domain_info env k did;
       return
         (case r of
            (rc, info) \<Rightarrow>
              if rc < 0 then (0, None)
              else
                (case info of
                   None \<Rightarrow> (0, None)
                 | Some i \<Rightarrow>
                     if running i \<or> \<not> shut_down i \<and> \<not> dying i then (ERROR_INVAL, Some i)
                     else (1, Some i)))
     }"

section \<open>Destroying\<close>

text \<open>The end of the function returns 0, whatever \<open>rc\<close> is.\<close>

definition libxl_domain_destroy :: "env \<Rightarrow> dominf \<Rightarrow> nat \<Rightarrow> u32 \<Rightarrow> bool \<Rightarrow> (fault + int) prog" where
  "libxl_domain_destroy env k fuel did force =
     do {
       r \<leftarrow> libxl_domain_info env k did;
       if fst r \<noteq> 0 then return (Inr (fst r))
       else
         do {
           hvm \<leftarrow> is_hvm env did;
           dm_present \<leftarrow>
             (if hvm then return True
              else
                do {
                  pid \<leftarrow> xs_read env XBT_NULL (''/local/domain/'' @ print_d did @ ''/image/device-model-pid'');
                  return (pid \<noteq> None)
                });
           p \<leftarrow> str_of env (Xs_get_domain_path did);
           (case p of
              None \<Rightarrow> return (Inr 0)
            | Some dom_path \<Rightarrow>
                do {
                  _ \<leftarrow> ask env (Other ''libxl_device_pci_shutdown'' [uint did] []);
                  _ \<leftarrow> ask env (Xc ''xc_domain_pause'' [uint did]);
                  _ \<leftarrow> (if dm_present then xs_do env (Other ''libxl__destroy_device_model'' [uint did] [])
                       else return False);
                  try_then (libxl__devices_destroy env fuel did force) (\<lambda>ignored.
                    do {
                      vm \<leftarrow> xs_read env XBT_NULL (dom_path @ ''/vm'');
                      _ \<leftarrow> (case vm of None \<Rightarrow> return False | Some v \<Rightarrow> xs_do env (Xs_rm XBT_NULL v));
                      _ \<leftarrow> xs_do env (Xs_rm XBT_NULL dom_path);
                      _ \<leftarrow> ask env (Other ''libxl__userdata_destroyall'' [uint did] []);
                      _ \<leftarrow> ask env (Xc ''xc_domain_destroy'' [uint did]);
                      return (Inr 0)
                    })
                })
         }
     }"

end
