(* ===== verification/Libxl_Memory.thy ===== *)
theory Libxl_Memory
  imports Libxl_Domain
begin

text \<open>
  The memory operations of \<open>libxl.c\<close>: what the host has, the target of a domain, the memory
  that is kept free, and the loops that wait for memory.  A 32-bit number of kilobytes that
  the code leaves uninitialised on a path is an argument, as what it held before.
\<close>

section \<open>Constants of the library\<close>

text \<open>The constants of \<open>libxl_internal.h\<close>, which is not part of the sources.\<close>

record mem_constants =
  LIBXL_MIN_DOM0_MEM :: u32
  LIBXL_MAXMEM_CONSTANT :: u32
  LIBXL_HVM_EXTRA_MEMORY :: u32
  LIBXL_PV_EXTRA_MEMORY :: u32

text \<open>A 64-bit number read and kept in 32 bits.\<close>

definition strtoul_kb :: "string \<Rightarrow> u32 \<times> string" where
  "strtoul_kb s = (ucast (fst (strtoull10 s)), snd (strtoull10 s))"

section \<open>The host\<close>

record libxl_physinfo =
  threads_per_core :: u32
  cores_per_socket :: u32
  max_cpu_id :: u32
  nr_cpus :: u32
  cpu_khz :: u32
  total_pages :: u64
  free_pages :: u64
  scrub_pages :: u64
  nr_nodes :: u32
  hw_cap :: "u32 list"
  phys_cap :: u32

text \<open>The hypervisor writes the fields in their order: the capability words come last.\<close>

definition libxl_get_physinfo :: "env \<Rightarrow> (int \<times> libxl_physinfo option) prog" where
  "libxl_get_physinfo env =
     do {
       a \<leftarrow> ask env (Xc ''xc_physinfo'' []);
       return
         (if a_int a \<noteq> 0 then (ERROR_FAIL, None)
          else
            (let w = (\<lambda>i. word_of_int (a_out a ! i)); v = (\<lambda>i. word_of_int (a_out a ! i)) in
             (0, Some \<lparr>threads_per_core = w 0, cores_per_socket = w 1, max_cpu_id = w 2, nr_cpus = w 3,
                       cpu_khz = w 4, total_pages = v 5, free_pages = v 6, scrub_pages = v 7,
                       nr_nodes = w 8, hw_cap = map word_of_int (drop 10 (a_out a)), phys_cap = w 9\<rparr>)))
     }"

section \<open>The largest target\<close>

text \<open>The function compares the limit with the target and sets nothing.\<close>

definition libxl_domain_setmaxmem :: "env \<Rightarrow> u32 \<Rightarrow> u32 \<Rightarrow> int prog" where
  "libxl_domain_setmaxmem env did max_kb =
     do {
       p \<leftarrow> str_of env (Xs_get_domain_path did);
       mem \<leftarrow> xs_read env XBT_NULL (null_str p @ ''/memory/target'');
       return
         (case mem of
            None \<Rightarrow> 1
          | Some m \<Rightarrow>
              (let (kb, rest) = strtoul_kb m in
               if rest \<noteq> [] then 1 else if max_kb < kb then 1 else 0))
     }"

section \<open>The control domain\<close>

definition target_path :: string where
  "target_path = ''/local/domain/0/memory/target''"

definition static_max_path :: string where
  "static_max_path = ''/local/domain/0/memory/static-max''"

definition free_mem_slack_path :: string where
  "free_mem_slack_path = ''/local/domain/0/memory/freemem-slack''"

text \<open>The memory to keep free when nothing says so: what the control domain does not have, at
  most 15 percent of the host.  The code computes the limit as a \<open>double\<close>, which is exact
  enough below \<open>2 ^ 49\<close> to truncate to this quotient.\<close>

definition slack_kb :: "libxl_physinfo \<Rightarrow> libxl_dominfo \<Rightarrow> u32" where
  "slack_kb phys info =
     (let total = PAGE_TO_MEMKB (total_pages phys); kb = ucast (total - current_memkb info) in
      if 15 * unat total < 100 * unat kb then of_nat (15 * unat total div 100) else kb)"

text \<open>The part inside the transaction; \<open>out\<close> is \<open>*target_memkb\<close>.\<close>

definition fill_dom0_in :: "env \<Rightarrow> dominf \<Rightarrow> int \<Rightarrow> u32 \<Rightarrow> (int \<times> u32) prog" where
  "fill_dom0_in env k t out =
     do {
       target \<leftarrow> xs_read env t target_path;
       staticmax \<leftarrow> xs_read env t static_max_path;
       slack \<leftarrow> xs_read env t free_mem_slack_path;
       if target \<noteq> None \<and> staticmax \<noteq> None \<and> slack \<noteq> None then return (0, out)
       else
         (let (bad, out1) =
            (case target of
               None \<Rightarrow> (False, out)
             | Some s \<Rightarrow> (snd (strtoul_kb s) \<noteq> [], fst (strtoul_kb s))) in
          if bad then return (ERROR_FAIL, out1)
          else
            do {
              (rc, info) \<leftarrow> libxl_domain_info env k 0;
              if rc < 0 then return (rc, out1)
              else
                do {
                  (rc2, phys) \<leftarrow> libxl_get_physinfo env;
                  if rc2 < 0 then return (rc2, out1)
                  else
                    do {
                      out2 \<leftarrow>
                        (if target = None then
                           do {
                             _ \<leftarrow> xs_do env (Xs_write t target_path (print_u (ucast (current_memkb (the info)))));
                             return (ucast (current_memkb (the info)))
                           }
                         else return out1);
                      _ \<leftarrow>
                        (if staticmax = None then
                           xs_do env (Xs_write t static_max_path (print_u (ucast (max_memkb (the info)))))
                         else return False);
                      _ \<leftarrow>
                        (if slack = None then
                           xs_do env (Xs_write t free_mem_slack_path (print_u (slack_kb (the phys) (the info))))
                         else return False);
                      return (0, out2)
                    }
                }
            })
     }"

fun libxl__fill_dom0_memory_info :: "env \<Rightarrow> nat \<Rightarrow> dominf \<Rightarrow> u32 \<Rightarrow> (fault + int \<times> u32) prog" where
  "libxl__fill_dom0_memory_info env 0 k out = return (Inl Diverges)"
| "libxl__fill_dom0_memory_info env (Suc fuel) k out =
     do {
       t \<leftarrow> int_of env Xs_transaction_start;
       (rc, out') \<leftarrow> fill_dom0_in env k t out;
       a \<leftarrow> ask env (Xs_transaction_end t False);
       if a_int a \<noteq> 0 then return (Inr (rc, out'))
       else if a_errno a = EAGAIN then libxl__fill_dom0_memory_info env fuel k out'
       else return (Inr (ERROR_FAIL, out'))
     }"

text \<open>The result and \<open>*free_mem_slack\<close>, which is \<open>out\<close> when it is not assigned; \<open>junk\<close> is the
  uninitialised target.\<close>

fun libxl__get_free_memory_slack :: "env \<Rightarrow> nat \<Rightarrow> dominf \<Rightarrow> u32 \<Rightarrow> u32 \<Rightarrow> (fault + int \<times> u32) prog" where
  "libxl__get_free_memory_slack env 0 k junk out = return (Inl Diverges)"
| "libxl__get_free_memory_slack env (Suc fuel) k junk out =
     do {
       s \<leftarrow> xs_read env XBT_NULL free_mem_slack_path;
       (case s of
          Some v \<Rightarrow>
            return (Inr (if snd (strtoul_kb v) \<noteq> [] then ERROR_FAIL else 0, fst (strtoul_kb v)))
        | None \<Rightarrow>
            do {
              r \<leftarrow> libxl__fill_dom0_memory_info env fuel k junk;
              (case r of
                 Inl e \<Rightarrow> return (Inl e)
               | Inr (rc, junk') \<Rightarrow>
                   if rc < 0 then return (Inr (rc, out))
                   else libxl__get_free_memory_slack env fuel k junk' out)
            })
     }"

section \<open>Setting the target of a domain\<close>

text \<open>The new target; the absolute value of the least \<open>int\<close> is undefined.\<close>

definition new_target :: "bool \<Rightarrow> c_int \<Rightarrow> u32 \<Rightarrow> fault + u32" where
  "new_target relative target_kb current =
     (if \<not> relative then Inr target_kb
      else if sint target_kb < 0 \<and> target_kb = push_bit 31 1 then Inl Int_overflow
      else if sint target_kb < 0 \<and> current < - target_kb then Inr 0
      else Inr (current + target_kb))"

text \<open>The part of the transaction after the target has been read as \<open>target\<close>: the result and
  whether to abort.\<close>

definition set_target_in ::
  "env \<Rightarrow> mem_constants \<Rightarrow> dominf \<Rightarrow> int \<Rightarrow> u32 \<Rightarrow> string \<Rightarrow> c_int \<Rightarrow> bool \<Rightarrow> bool \<Rightarrow> int \<Rightarrow> string
     \<Rightarrow> (fault + int \<times> bool) prog" where
  "set_target_in env c k t did dompath target_kb relative enforce rc target =
     (let (current, rest) = strtoul_kb target in
      if rest \<noteq> [] then return (Inr (rc, True))
      else
        do {
          memmax \<leftarrow> xs_read env t (dompath @ ''/memory/static-max'');
          (case memmax of
             None \<Rightarrow> return (Inr (rc, True))
           | Some mx \<Rightarrow>
               (let (memorykb, rest) = strtoul_kb mx in
                if rest \<noteq> [] then return (Inr (rc, True))
                else
                  try_then (lift_fault (new_target relative target_kb current)) (\<lambda>new.
                    if memorykb < new then return (Inr (rc, True))
                    else if did = 0 \<and> new < LIBXL_MIN_DOM0_MEM c then return (Inr (rc, True))
                    else
                      do {
                        vs \<leftarrow> xs_read env t (dompath @ ''/memory/videoram'');
                        (let videoram = (case vs of None \<Rightarrow> 0 | Some v \<Rightarrow> atoi v) in
                         do {
                           rc1 \<leftarrow>
                             (if enforce then
                                int_of env (Xc ''xc_domain_setmaxmem'' [uint did, uint (new + LIBXL_MAXMEM_CONSTANT c)])
                              else return 0);
                           if enforce \<and> rc1 \<noteq> 0 then return (Inr (rc1, True))
                           else
                             do {
                               rc2 \<leftarrow> int_of env (Xc ''xc_domain_set_pod_target'' [uint did, uint ((new - videoram) div 4)]);
                               if rc2 \<noteq> 0 then return (Inr (rc2, True))
                               else
                                 do {
                                   _ \<leftarrow> xs_do env (Xs_write t (dompath @ ''/memory/target'') (print_u (new - videoram)));
                                   a \<leftarrow> getinfolist env did 1;
                                   (if a_int a \<noteq> 1 \<or> xc_domain (hd (a_doms a)) \<noteq> did then return (Inr (a_int a, True))
                                    else
                                      do {
                                        _ \<leftarrow> xs_do env (Xs_write t (''/vm/'' @ xc_handle (hd (a_doms a)) @ ''/memory'')
                                               (print_u ((new - videoram) div 1024)));
                                        return (Inr (a_int a, False))
                                      })
                                 }
                             }
                         })
                      }))) })"

fun set_target_loop ::
  "env \<Rightarrow> nat \<Rightarrow> mem_constants \<Rightarrow> dominf \<Rightarrow> u32 \<Rightarrow> string \<Rightarrow> c_int \<Rightarrow> bool \<Rightarrow> bool \<Rightarrow> u32 \<Rightarrow> int \<Rightarrow> (fault + int) prog" where
  "set_target_loop env 0 c k did dompath target_kb relative enforce current rc = return (Inl Diverges)"
| "set_target_loop env (Suc fuel) c k did dompath target_kb relative enforce current rc =
     do {
       t \<leftarrow> int_of env Xs_transaction_start;
       target \<leftarrow> xs_read env t (dompath @ ''/memory/target'');
       (case target of
          Some s \<Rightarrow>
            try_then (set_target_in env c k t did dompath target_kb relative enforce rc s) (\<lambda>(rc', abort).
              do {
                a \<leftarrow> ask env (Xs_transaction_end t abort);
                if a_int a = 0 \<and> \<not> abort \<and> a_errno a = EAGAIN
                then set_target_loop env fuel c k did dompath target_kb relative enforce (fst (strtoul_kb s)) rc'
                else return (Inr rc')
              })
        | None \<Rightarrow>
            if did = 0 then
              do {
                _ \<leftarrow> ask env (Xs_transaction_end t True);
                try_then (libxl__fill_dom0_memory_info env fuel k current) (\<lambda>(rc', current').
                  if rc' < 0 then do {_ \<leftarrow> ask env (Xs_transaction_end t True); return (Inr rc')}
                  else set_target_loop env fuel c k did dompath target_kb relative enforce current' rc')
              }
            else do {_ \<leftarrow> ask env (Xs_transaction_end t True); return (Inr rc)})
     }"

definition libxl_set_memory_target ::
  "env \<Rightarrow> nat \<Rightarrow> mem_constants \<Rightarrow> dominf \<Rightarrow> u32 \<Rightarrow> c_int \<Rightarrow> bool \<Rightarrow> bool \<Rightarrow> (fault + int) prog" where
  "libxl_set_memory_target env fuel c k did target_kb relative enforce =
     do {
       p \<leftarrow> str_of env (Xs_get_domain_path did);
       set_target_loop env fuel c k did (null_str p) target_kb relative enforce 0 1
     }"

text \<open>The result and \<open>*out_target\<close>, \<open>out\<close> when it is not assigned; \<open>junk\<close> is the uninitialised
  local that is returned when the control domain's entries have appeared meanwhile.\<close>

definition libxl_get_memory_target :: "env \<Rightarrow> nat \<Rightarrow> dominf \<Rightarrow> u32 \<Rightarrow> u32 \<Rightarrow> u32 \<Rightarrow> (fault + int \<times> u32) prog" where
  "libxl_get_memory_target env fuel k did junk out =
     do {
       p \<leftarrow> str_of env (Xs_get_domain_path did);
       target \<leftarrow> xs_read env XBT_NULL (null_str p @ ''/memory/target'');
       (case target of
          Some s \<Rightarrow>
            return (Inr (if snd (strtoul_kb s) \<noteq> [] then (1, out) else (0, fst (strtoul_kb s))))
        | None \<Rightarrow>
            if did = 0 then
              try_then (libxl__fill_dom0_memory_info env fuel k junk) (\<lambda>(rc, kb).
                return (Inr (if rc < 0 then (rc, out) else (0, kb))))
            else return (Inr (1, out)))
     }"

section \<open>What a domain needs\<close>

fun strstr :: "string \<Rightarrow> string \<Rightarrow> bool" where
  "strstr [] t = (t = [])"
| "strstr (c # cs) t = (take (length t) (c # cs) = t \<or> strstr cs t)"

record build_info =
  bi_hvm :: bool
  bi_target_memkb :: u32
  bi_shadow_memkb :: u32

definition libxl_domain_need_memory :: "mem_constants \<Rightarrow> build_info \<Rightarrow> string \<Rightarrow> u32" where
  "libxl_domain_need_memory c b device_model =
     (let kb = (if bi_hvm b then
                  bi_target_memkb b + (bi_shadow_memkb b + LIBXL_HVM_EXTRA_MEMORY c) +
                    (if strstr device_model ''stubdom-dm'' then 32 * 1024 else 0)
                else bi_target_memkb b + (bi_shadow_memkb b + LIBXL_PV_EXTRA_MEMORY c)) in
      if kb mod (2 * 1024) \<noteq> 0 then kb + (2 * 1024 - kb mod (2 * 1024)) else kb)"

section \<open>Free memory\<close>

definition libxl_get_free_memory :: "env \<Rightarrow> nat \<Rightarrow> dominf \<Rightarrow> u32 \<Rightarrow> u32 \<Rightarrow> (fault + int \<times> u32) prog" where
  "libxl_get_free_memory env fuel k junk out =
     do {
       (rc, info) \<leftarrow> libxl_get_physinfo env;
       if rc < 0 then return (Inr (rc, out))
       else
         try_then (libxl__get_free_memory_slack env fuel k junk junk) (\<lambda>(rc2, slack).
           if rc2 < 0 then return (Inr (rc2, out))
           else
             (let kb = (free_pages (the info) + scrub_pages (the info)) * 4 in
              return (Inr (rc2, if ucast slack < kb then ucast (kb - ucast slack) else 0))))
     }"

text \<open>Whether the free memory beyond the slack is enough, as the code tests it: the difference
  is unsigned.\<close>

definition enough_free :: "libxl_physinfo \<Rightarrow> u32 \<Rightarrow> u32 \<Rightarrow> bool" where
  "enough_free info slack memory_kb \<longleftrightarrow> ucast memory_kb \<le> free_pages info * 4 - ucast slack"

fun free_memory_loop :: "env \<Rightarrow> u32 \<Rightarrow> u32 \<Rightarrow> nat \<Rightarrow> int prog" where
  "free_memory_loop env slack memory_kb 0 = return ERROR_NOMEM"
| "free_memory_loop env slack memory_kb (Suc secs) =
     do {
       (rc, info) \<leftarrow> libxl_get_physinfo env;
       if rc < 0 then return rc
       else if enough_free (the info) slack memory_kb then return 0
       else do {_ \<leftarrow> ask env (Usleep 1000000); free_memory_loop env slack memory_kb secs}
     }"

definition libxl_wait_for_free_memory ::
  "env \<Rightarrow> nat \<Rightarrow> dominf \<Rightarrow> u32 \<Rightarrow> u32 \<Rightarrow> int \<Rightarrow> (fault + int) prog" where
  "libxl_wait_for_free_memory env fuel k junk memory_kb wait_secs =
     try_then (libxl__get_free_memory_slack env fuel k junk junk) (\<lambda>(rc, slack).
       if rc < 0 then return (Inr rc)
       else do {r \<leftarrow> free_memory_loop env slack memory_kb (nat wait_secs); return (Inr r)})"

text \<open>The wait for a domain to reach its target, \<open>secs\<close> seconds after the first; the result is 0
  unless the domain has gone.\<close>

fun memory_target_loop ::
  "env \<Rightarrow> nat \<Rightarrow> dominf \<Rightarrow> u32 \<Rightarrow> u32 \<Rightarrow> u32 \<Rightarrow> nat \<Rightarrow> (fault + int) prog" where
  "memory_target_loop env fuel k did junk target secs =
     do {
       _ \<leftarrow> ask env (Usleep 1000000);
       try_then (libxl_get_memory_target env fuel k did junk target) (\<lambda>(rc, target').
         if rc < 0 then return (Inr 0)
         else
           do {
             (rc2, info) \<leftarrow> libxl_domain_info env k did;
             if rc2 < 0 then return (Inr rc2)
             else if secs \<noteq> 0 \<and> ucast target' < current_memkb (the info)
             then memory_target_loop env fuel k did junk target' (secs - 1)
             else return (Inr 0)
           })
     }"

declare memory_target_loop.simps [simp del]

definition libxl_wait_for_memory_target ::
  "env \<Rightarrow> nat \<Rightarrow> dominf \<Rightarrow> u32 \<Rightarrow> u32 \<Rightarrow> int \<Rightarrow> (fault + int) prog" where
  "libxl_wait_for_memory_target env fuel k did junk wait_secs =
     memory_target_loop env fuel k did junk 0 (nat (wait_secs - 1))"

end
