(* ===== verification/Domain_Store.thy ===== *)
theory Domain_Store
  imports Libxl_Memory Device_Store
begin

text \<open>
  What the operations on domains do to the store: renaming is all or nothing, preserving a
  domain leaves its transaction open when the rename in it fails, and a memory target is set
  in one transaction or not at all.
\<close>

section \<open>Transactions with a decision\<close>

context xenstore
begin

lemma start_laws:
  assumes "t = a_int (env tr Xs_transaction_start)" "tr1 = after env tr Xs_transaction_start"
  shows "t \<noteq> 0" "opened tr1 = (opened tr)(t := True)" "\<not> opened tr t"
    "view tr1 = (view tr)(t := view tr 0)" "base tr1 = (base tr)(t := view tr 0)"
  using start_law [OF assms(1)] assms(2) by simp_all

text \<open>The end of a transaction that began at \<open>tr\<close>, its body done at \<open>tr2\<close>.\<close>

lemma end_laws:
  assumes t: "t = a_int (env tr Xs_transaction_start)" "tr1 = after env tr Xs_transaction_start"
    and 2: "opened tr2 = opened tr1" "base tr2 = base tr1" "view tr2 = (view tr1)(t := s)"
    and 3: "tr3 = after env tr2 (Xs_transaction_end t abort)"
  shows "leaves view base opened tr tr3"
    "abort \<Longrightarrow> view tr3 0 = view tr 0"
    "\<not> abort \<Longrightarrow> view tr3 0 = s"
    "\<not> abort \<Longrightarrow> a_int (env tr2 (Xs_transaction_end t abort)) \<noteq> 0"
proof -
  note s = start_laws [OF t]
  have o: "opened tr2 t" using 2 s by simp
  note e = end_law [OF o s(1) 3]
  have "opened tr3 = opened tr" using e 2 s by (auto simp: fun_eq_iff)
  moreover have "view tr3 u = view tr u \<and> base tr3 u = base tr u" if "u \<noteq> 0" "opened tr u" for u
  proof -
    have "u \<noteq> t" using that s(3) by auto
    with that e 2 s show ?thesis by simp
  qed
  ultimately show "leaves view base opened tr tr3" by (simp add: leaves_def)
  show "view tr3 0 = view tr 0" if abort using abort_law [OF o s(1)] that 2 s 3 by simp
  have b: "base tr2 t = view tr2 0" using 2 s by simp
  show "view tr3 0 = s" "a_int (env tr2 (Xs_transaction_end t abort)) \<noteq> 0" if "\<not> abort"
    using commit_law [OF o s(1) b] that 2 s 3 by simp_all
qed

section \<open>Renaming\<close>

lemma rename_in_view:
  assumes "opened tr t" "run_state (rename_in env t did np old new) tr = (rc, tr')"
  shows "opened tr' = opened tr \<and> base tr' = base tr \<and>
    view tr' = (view tr)(t := if rc = 0 then tree_write np new (view tr t) else view tr t) \<and>
    (rc = 0 \<longrightarrow> old = None \<or> tree_read (view tr t) np = old)"
proof -
  define clash where "clash =
     (if new \<noteq> [] then
        do {
          a \<leftarrow> ask env (Other ''libxl_name_to_domid'' [] [new]);
          return (if a_int a = ERROR_INVAL then 0
                  else if a_int a \<noteq> 0 then a_int a
                  else if a_out a ! 0 = uint did then 0
                  else ERROR_INVAL)
        }
      else return 0)"
  obtain c tr1 where c: "run_state clash tr = (c, tr1)" by (meson surj_pair)
  then have 1: "view tr1 = view tr" "base tr1 = base tr" "opened tr1 = opened tr"
    by (auto simp: clash_def split: if_splits)
  show ?thesis
    using assms(2) c 1 assms(1) unfolding rename_in_def clash_def [symmetric]
    by (auto split: if_splits option.splits)
qed

lemma rename_view:
  assumes "np = domain_path did @ ''/name''"
    and "run_state (libxl_domain_rename env (Suc fuel) did old new 0) tr = (r, tr')"
  shows "\<exists>rc. r = Inr rc \<and> leaves view base opened tr tr' \<and>
    view tr' 0 = (if rc = 0 then tree_write np new (view tr 0) else view tr 0) \<and>
    (rc = 0 \<longrightarrow> old = None \<or> tree_read (view tr 0) np = old)"
proof -
  define tr0 where "tr0 = after env tr (Xs_get_domain_path did)"
  define t where "t = a_int (env tr0 Xs_transaction_start)"
  define tr1 where "tr1 = after env tr0 Xs_transaction_start"
  obtain rc tr2 where 2: "run_state (rename_in env t did np old new) tr1 = (rc, tr2)" by (meson surj_pair)
  define tr3 where "tr3 = after env tr2 (Xs_transaction_end t (rc \<noteq> 0))"
  note s = start_laws [OF t_def tr1_def]
  have v0: "view tr0 = view tr" "base tr0 = base tr" "opened tr0 = opened tr" by (simp_all add: tr0_def)
  have o1: "opened tr1 t" by (simp add: s)
  note b = rename_in_view [OF o1 2]
  from b have b': "opened tr2 = opened tr1" "base tr2 = base tr1"
    "view tr2 = (view tr1)(t := if rc = 0 then tree_write np new (view tr1 t) else view tr1 t)" by auto
  note e = end_laws [OF t_def tr1_def b' tr3_def]
  have "run_state (libxl_domain_rename env (Suc fuel) did old new 0) tr = (Inr rc, tr3)"
    using 2 e(4) s(1) by (simp add: libxl_domain_rename_def assms(1) tr0_def [symmetric] t_def [symmetric]
        tr1_def [symmetric] tr3_def split: if_splits)
  moreover have "leaves view base opened tr tr3"
    using e(1) v0 by (simp add: leaves_def)
  ultimately show ?thesis using e(2,3) b s v0 assms(2) by (cases "rc = 0") auto
qed

end

section \<open>Preserving\<close>

definition preserved_tree :: "u32 \<Rightarrow> string \<Rightarrow> string \<Rightarrow> string \<Rightarrow> xs_tree \<Rightarrow> xs_tree" where
  "preserved_tree did name name_suffix new_uuid s =
     tree_write (''/vm/'' @ new_uuid @ ''/uuid'') new_uuid
       (tree_write (domain_path did @ ''/name'') (name @ name_suffix)
         (tree_write (domain_path did @ ''/vm'') (''/vm/'' @ new_uuid)
           (tree_mkdir (''/vm/'' @ new_uuid) (tree_rm (''/vm/'' @ new_uuid) s))))"

context xenstore
begin

lemma rename_in_transaction:
  assumes "t \<noteq> 0"
  shows "run_state (libxl_domain_rename env (Suc fuel) did old new t) tr =
    (let (rc, tr') = run_state (rename_in env t did (domain_path did @ ''/name'') old new)
       (after env tr (Xs_get_domain_path did)) in (Inr rc, tr'))"
  using assms by (simp add: libxl_domain_rename_def split: prod.split)

lemma preserve_view:
  assumes "run_state (libxl_domain_preserve env (Suc fuel) did name name_suffix new_uuid) tr = (r, tr')"
  shows "\<exists>rc. r = Inr rc \<and>
    (if rc = 0
     then leaves view base opened tr tr' \<and> view tr' 0 = preserved_tree did name name_suffix new_uuid (view tr 0)
     else view tr' 0 = view tr 0 \<and> (\<exists>t. t \<noteq> 0 \<and> \<not> opened tr t \<and> opened tr' = (opened tr)(t := True)))"
proof -
  define vm where "vm = ''/vm/'' @ new_uuid"
  define np where "np = domain_path did @ ''/name''"
  define tr0 where "tr0 = after env tr (Xs_get_domain_path did)"
  define t where "t = a_int (env tr0 Xs_transaction_start)"
  define tr1 where "tr1 = after env tr0 Xs_transaction_start"
  define tr2 where "tr2 = after env (after env (after env (after env (after env tr1 (Xs_rm t vm)) (Xs_mkdir t vm))
    (Xs_set_permissions t vm [(0, ''none''), (did, ''read'')])) (Xs_write t (domain_path did @ ''/vm'') vm))
    (Xs_get_domain_path did)"
  note s = start_laws [OF t_def tr1_def]
  have v0: "view tr0 = view tr" "base tr0 = base tr" "opened tr0 = opened tr" by (simp_all add: tr0_def)
  define s2 where "s2 = tree_write (domain_path did @ ''/vm'') vm (tree_mkdir vm (tree_rm vm (view tr 0)))"
  have v2: "view tr2 = (view tr1)(t := s2)" "base tr2 = base tr1" "opened tr2 = opened tr1"
    using s v0 by (simp_all add: tr2_def s2_def)
  obtain rc tr3 where 3: "run_state (rename_in env t did np (Some name) (name @ name_suffix)) tr2 = (rc, tr3)"
    by (meson surj_pair)
  have "opened tr2 t" using v2 s by simp
  note b = rename_in_view [OF this 3]
  have run: "run_state (preserve_round env (Suc fuel) did (domain_path did) vm new_uuid name (name @ name_suffix)) tr0 =
      (if rc \<noteq> 0 then (Inr (Inl rc), tr3)
       else (let tr4 = after env tr3 (Xs_write t (vm @ ''/uuid'') new_uuid);
                 c = Xs_transaction_end t False in (Inr (Inr (env tr4 c)), after env tr4 c)))"
    using 3 s(1) by (simp add: preserve_round_def t_def [symmetric] tr1_def [symmetric] tr2_def [symmetric]
        rename_in_transaction np_def [symmetric] Let_def)
  have top: "run_state (libxl_domain_preserve env (Suc fuel) did name name_suffix new_uuid) tr =
      run_state (preserve_loop env (Suc fuel) did (domain_path did) vm new_uuid name (name @ name_suffix)) tr0"
    by (simp add: libxl_domain_preserve_def tr0_def [symmetric] vm_def)
  show ?thesis
  proof (cases "rc = 0")
    case False
    then have "r = Inr rc" "tr' = tr3" using assms run by (simp_all add: top)
    with b v2 s v0 False show ?thesis by (auto intro!: exI [of _ t])
  next
    case True
    define tr4 where "tr4 = after env tr3 (Xs_write t (vm @ ''/uuid'') new_uuid)"
    define tr5 where "tr5 = after env tr4 (Xs_transaction_end t False)"
    have o3: "opened tr3 t" using b v2 s by simp
    have v4: "opened tr4 = opened tr1" "base tr4 = base tr1"
      "view tr4 = (view tr1)(t := tree_write (vm @ ''/uuid'') new_uuid (tree_write np (name @ name_suffix) s2))"
      using b v2 o3 True by (simp_all add: tr4_def)
    note e = end_laws [OF t_def tr1_def v4 tr5_def]
    have "r = Inr 0" "tr' = tr5"
      using assms run True e(4) by (simp_all add: top tr4_def [symmetric] tr5_def [symmetric])
    moreover have "leaves view base opened tr tr5" using e(1) v0 by (simp add: leaves_def)
    ultimately show ?thesis using e(3) by (simp add: preserved_tree_def vm_def s2_def np_def)
  qed
qed

end

section \<open>Memory targets\<close>

text \<open>A new target of \<open>new\<close> kilobytes, of which \<open>videoram\<close> are the display's: the numbers in the
  domain's directory and in the directory of its machine.\<close>

definition with_target :: "u32 \<Rightarrow> string \<Rightarrow> u32 \<Rightarrow> xs_tree \<Rightarrow> xs_tree" where
  "with_target did uuid kb s =
     tree_write (''/vm/'' @ uuid @ ''/memory'') (print_u (kb div 1024))
       (tree_write (domain_path did @ ''/memory/target'') (print_u kb) s)"

text \<open>The target is allowed: the present target and the limit are numbers, and the new target,
  which may be relative to the present one, is within the limit.\<close>

definition allowed_target :: "u32 \<Rightarrow> c_int \<Rightarrow> bool \<Rightarrow> xs_tree \<Rightarrow> u32 \<Rightarrow> bool" where
  "allowed_target did target_kb relative s new \<longleftrightarrow>
     (\<exists>current_s current limit_s limit.
        tree_read s (domain_path did @ ''/memory/target'') = Some current_s \<and> strtoul_kb current_s = (current, []) \<and>
        tree_read s (domain_path did @ ''/memory/static-max'') = Some limit_s \<and> strtoul_kb limit_s = (limit, []) \<and>
        new_target relative target_kb current = Inr new \<and> new \<le> limit)"

definition videoram_kb :: "u32 \<Rightarrow> xs_tree \<Rightarrow> u32" where
  "videoram_kb did s =
     (case tree_read s (domain_path did @ ''/memory/videoram'') of None \<Rightarrow> 0 | Some v \<Rightarrow> atoi v)"

context xenstore
begin

lemma set_target_in_view:
  assumes "opened tr t" "tree_read (view tr t) (domain_path did @ ''/memory/target'') = Some target" "did \<noteq> 0"
    and "run_state (set_target_in env c k t did (domain_path did) target_kb relative enforce rc target) tr = (r, tr')"
  shows "opened tr' = opened tr \<and> base tr' = base tr \<and> (\<exists>s. view tr' = (view tr)(t := s) \<and>
    (\<forall>x. r = Inr (x, False) \<longrightarrow> x = 1 \<and>
       (\<exists>new uuid. allowed_target did target_kb relative (view tr t) new \<and>
          s = with_target did uuid (new - videoram_kb did (view tr t)) (view tr t))))"
proof -
  have idem: "\<exists>s. view tr = (view tr)(t := s)" by (metis fun_upd_triv)
  show ?thesis
    using assms idem unfolding set_target_in_def
    by (auto simp: Let_def allowed_target_def with_target_def videoram_kb_def getinfolist_def not_less
        split: prod.splits option.splits if_splits sum.splits)
qed

lemma set_target_view:
  assumes "did \<noteq> 0"
    and "run_state (libxl_set_memory_target env (Suc fuel) c k did target_kb relative enforce) tr = (r, tr')"
  shows "view tr' 0 = view tr 0 \<or>
    r = Inr 1 \<and> (\<exists>new uuid. allowed_target did target_kb relative (view tr 0) new \<and>
      view tr' 0 = with_target did uuid (new - videoram_kb did (view tr 0)) (view tr 0))"
proof -
  define tr0 where "tr0 = after env tr (Xs_get_domain_path did)"
  define t where "t = a_int (env tr0 Xs_transaction_start)"
  define tr1 where "tr1 = after env tr0 Xs_transaction_start"
  define tr2 where "tr2 = after env tr1 (Xs_read t (domain_path did @ ''/memory/target''))"
  note s = start_laws [OF t_def tr1_def]
  have v0: "view tr0 = view tr" by (simp add: tr0_def)
  have v2: "view tr2 = view tr1" "base tr2 = base tr1" "opened tr2 = opened tr1" by (simp_all add: tr2_def)
  have o2: "opened tr2 t" and vt: "view tr2 t = view tr 0" using v2 s v0 by simp_all
  note run = libxl_set_memory_target_def null_str_def tr0_def [symmetric] t_def [symmetric]
    tr1_def [symmetric] tr2_def [symmetric]
  show ?thesis
  proof (cases "tree_read (view tr 0) (domain_path did @ ''/memory/target'')")
    case None
    have "view (after env tr2 (Xs_transaction_end t True)) 0 = view tr 0"
      using end_laws(2) [OF t_def tr1_def v2(3,2) _ refl, of "view tr1 t" True] v2 v0 by simp
    moreover have "tr' = after env tr2 (Xs_transaction_end t True)"
      using assms None s v0 by (simp add: run)
    ultimately show ?thesis by simp
  next
    case (Some target)
    obtain q tr3 where 3: "run_state (set_target_in env c k t did (domain_path did) target_kb relative enforce 1 target) tr2 = (q, tr3)"
      by (meson surj_pair)
    from set_target_in_view [OF o2 _ assms(1) 3] Some vt obtain s3 where v3: "opened tr3 = opened tr1"
        "base tr3 = base tr1" "view tr3 = (view tr1)(t := s3)"
      and ok: "\<forall>x. q = Inr (x, False) \<longrightarrow> x = 1 \<and>
        (\<exists>new uuid. allowed_target did target_kb relative (view tr 0) new \<and>
          s3 = with_target did uuid (new - videoram_kb did (view tr 0)) (view tr 0))"
      using v2 by auto
    show ?thesis
    proof (cases q)
      case (Inl e)
      then have "tr' = tr3" using assms(2) Some s v0 3 by (simp add: run)
      then show ?thesis using v3 s v0 by simp
    next
      case (Inr p)
      obtain x abort where p: "p = (x, abort)" by fastforce
      define tr4 where "tr4 = after env tr3 (Xs_transaction_end t abort)"
      note e = end_laws [OF t_def tr1_def v3 tr4_def]
      have "r = Inr x \<and> tr' = tr4"
        using assms(2) Some s v0 3 Inr p e(4)
        by (cases abort) (simp_all add: run tr4_def)
      then show ?thesis using e(2,3) ok Inr p v0 by (cases abort) auto
    qed
  qed
qed

end

section \<open>The store after each operation\<close>

text \<open>C29. Renaming a domain is all or nothing: \<open>libxl_domain_rename\<close> returns; when it returns 0,
  the domain had the old name that was asked for and has the new one, and nothing else has
  changed but the ancestors of the entry; otherwise the store is as it was.  No transaction
  stays open.\<close>

theorem domain_rename_atomic:
  assumes "run_state (libxl_domain_rename (store_env others s0) (Suc fuel) did old new 0) tr = (r, tr')"
  shows "\<exists>rc. r = Inr rc \<and> xs_opened (xs_replay s0 tr') = xs_opened (xs_replay s0 tr) \<and>
    (if rc = 0
     then (old = None \<or> tree_read (committed s0 tr) (domain_path did @ ''/name'') = old) \<and>
       committed s0 tr' = tree_write (domain_path did @ ''/name'') new (committed s0 tr)
     else committed s0 tr' = committed s0 tr)"
  using store.rename_view [OF refl assms] by (auto simp: committed_view leaves_def)

lemma domain_rename_atomic_witness:
  "tree_read (committed [(''/local/domain/5/name'', ''a'')]
     (snd (run_state (libxl_domain_rename (store_env (\<lambda>_ _. ans ERROR_INVAL) [(''/local/domain/5/name'', ''a'')])
        1 5 (Some ''a'') ''b'' 0) []))) (domain_path 5 @ ''/name'') = Some ''b'' \<and>
   fst (run_state (libxl_domain_rename (store_env (\<lambda>_ _. ans ERROR_INVAL) [(''/local/domain/5/name'', ''a'')])
        1 5 (Some ''a'') ''b'' 0) []) = Inr 0"
proof -
  let ?s = "[(''/local/domain/5/name'', ''a'')]" and ?e = "store_env (\<lambda>_ _. ans ERROR_INVAL)"
  have p: "domain_path 5 @ ''/name'' = ''/local/domain/5/name''"
    by (simp add: domain_path_def print_u_def decimal.simps [of 5] digit_char_def char_of_def bit_nat_def)
  have 0: "fst (run_state (libxl_domain_rename (?e ?s) 1 5 (Some ''a'') ''b'' 0) []) = Inr 0"
    using p by (simp add: libxl_domain_rename_def rename_in_def store_env_def xs_step_def ans_def
        xs_view_def can_commit_def work_on_def)
  with domain_rename_atomic [OF prod.collapse [symmetric], of "\<lambda>_ _. ans ERROR_INVAL" ?s 0 5 "Some ''a''" "''b''" "[]"]
  show ?thesis by (auto simp: read_write)
qed

text \<open>C32. Preserving a domain: \<open>libxl_domain_preserve\<close> returns; when it returns 0, the domain
  has the new machine directory and the name with the suffix, all in one transaction that is
  closed; when the rename in it fails, nothing is committed but the transaction it began is
  never ended.\<close>

theorem domain_preserve_transaction:
  assumes "run_state (libxl_domain_preserve (store_env others s0) (Suc fuel) did name name_suffix new_uuid) tr = (r, tr')"
  shows "\<exists>rc. r = Inr rc \<and>
    (if rc = 0
     then xs_opened (xs_replay s0 tr') = xs_opened (xs_replay s0 tr) \<and>
       committed s0 tr' = preserved_tree did name name_suffix new_uuid (committed s0 tr)
     else committed s0 tr' = committed s0 tr \<and>
       (\<exists>t. t \<noteq> 0 \<and> \<not> xs_opened (xs_replay s0 tr) t \<and>
          xs_opened (xs_replay s0 tr') = (xs_opened (xs_replay s0 tr))(t := True)))"
proof -
  from store.preserve_view [OF assms, unfolded committed_view] obtain rc where "r = Inr rc" and
    "if rc = 0
     then leaves (\<lambda>tr. xs_view (xs_replay s0 tr)) (\<lambda>tr. xs_base (xs_replay s0 tr)) (\<lambda>tr. xs_opened (xs_replay s0 tr)) tr tr' \<and>
       committed s0 tr' = preserved_tree did name name_suffix new_uuid (committed s0 tr)
     else committed s0 tr' = committed s0 tr \<and>
       (\<exists>t. t \<noteq> 0 \<and> \<not> xs_opened (xs_replay s0 tr) t \<and>
          xs_opened (xs_replay s0 tr') = (xs_opened (xs_replay s0 tr))(t := True))"
    by blast
  then show ?thesis by (intro exI [of _ rc]) (auto simp: leaves_def split: if_splits)
qed

lemma domain_preserve_transaction_witness:
  "\<exists>t. t \<noteq> 0 \<and> xs_opened (xs_replay [] (snd (run_state
     (libxl_domain_preserve (store_env (\<lambda>_ _. ans 1) []) 1 5 ''a'' ''-old'' ''u'') []))) t"
proof -
  have "fst (run_state (libxl_domain_preserve (store_env (\<lambda>_ _. ans 1) []) 1 5 ''a'' ''-old'' ''u'') []) = Inr 1"
    by (simp add: libxl_domain_preserve_def preserve_round_def libxl_domain_rename_def rename_in_def
        store_env_def xs_step_def ans_def work_on_def)
  with domain_preserve_transaction [OF prod.collapse [symmetric], of "\<lambda>_ _. ans 1" "[]" 0 5 "''a''" "''-old''" "''u''" "[]"]
  show ?thesis by auto
qed

text \<open>A hypervisor that carries out the calls of \<open>libxl_set_memory_target\<close> and knows the domain.\<close>

definition hypervisor_obliges :: "env \<Rightarrow> u32 \<Rightarrow> string \<Rightarrow> bool" where
  "hypervisor_obliges env did uuid \<longleftrightarrow>
     (\<forall>tr args. a_int (env tr (Xc ''xc_domain_setmaxmem'' args)) = 0 \<and>
        a_int (env tr (Xc ''xc_domain_set_pod_target'' args)) = 0 \<and>
        a_int (env tr (Xc ''xc_domain_getinfolist'' [uint did, 1])) = 1 \<and>
        xc_domain (hd (a_doms (env tr (Xc ''xc_domain_getinfolist'' [uint did, 1])))) = did \<and>
        xc_handle (hd (a_doms (env tr (Xc ''xc_domain_getinfolist'' [uint did, 1])))) = uuid)"

context xenstore
begin

lemma set_target_in_obliged:
  assumes "opened tr t" "tree_read (view tr t) (domain_path did @ ''/memory/target'') = Some target" "did \<noteq> 0"
    and "hypervisor_obliges env did uuid" "allowed_target did target_kb relative (view tr t) new"
  shows "\<exists>tr'. run_state (set_target_in env c k t did (domain_path did) target_kb relative enforce rc target) tr =
      (Inr (1, False), tr') \<and> opened tr' = opened tr \<and> base tr' = base tr \<and>
    view tr' = (view tr)(t := with_target did uuid (new - videoram_kb did (view tr t)) (view tr t))"
  using assms unfolding set_target_in_def
  by (auto simp: Let_def allowed_target_def with_target_def videoram_kb_def getinfolist_def not_less
      hypervisor_obliges_def split: prod.splits option.splits)

lemma set_target_obliged:
  assumes "did \<noteq> 0" "hypervisor_obliges env did uuid" "allowed_target did target_kb relative (view tr 0) new"
  shows "\<exists>tr'. run_state (libxl_set_memory_target env (Suc fuel) c k did target_kb relative enforce) tr = (Inr 1, tr') \<and>
    view tr' 0 = with_target did uuid (new - videoram_kb did (view tr 0)) (view tr 0)"
proof -
  define tr0 where "tr0 = after env tr (Xs_get_domain_path did)"
  define t where "t = a_int (env tr0 Xs_transaction_start)"
  define tr1 where "tr1 = after env tr0 Xs_transaction_start"
  define tr2 where "tr2 = after env tr1 (Xs_read t (domain_path did @ ''/memory/target''))"
  note s = start_laws [OF t_def tr1_def]
  have v0: "view tr0 = view tr" by (simp add: tr0_def)
  have v2: "view tr2 = view tr1" "base tr2 = base tr1" "opened tr2 = opened tr1" by (simp_all add: tr2_def)
  have o2: "opened tr2 t" and vt: "view tr2 t = view tr 0" using v2 s v0 by simp_all
  obtain target where target: "tree_read (view tr 0) (domain_path did @ ''/memory/target'') = Some target"
    using assms(3) by (auto simp: allowed_target_def)
  obtain tr3 where 3: "run_state (set_target_in env c k t did (domain_path did) target_kb relative enforce 1 target) tr2 =
      (Inr (1, False), tr3)"
    and v3: "opened tr3 = opened tr1" "base tr3 = base tr1"
      "view tr3 = (view tr1)(t := with_target did uuid (new - videoram_kb did (view tr 0)) (view tr 0))"
    using set_target_in_obliged [OF o2 _ assms(1,2), where c = c and k = k and enforce = enforce and rc = 1
        and target = target and target_kb = target_kb and relative = relative and new = new] assms(3) target v2 vt by auto
  note e = end_laws [OF t_def tr1_def v3 refl, of False]
  have "run_state (libxl_set_memory_target env (Suc fuel) c k did target_kb relative enforce) tr =
      (Inr 1, after env tr3 (Xs_transaction_end t False))"
    using assms(1) target s v0 3 e(4)
    by (simp add: libxl_set_memory_target_def null_str_def tr0_def [symmetric] t_def [symmetric]
        tr1_def [symmetric] tr2_def [symmetric])
  with e(3) show ?thesis by blast
qed

end

lemma store_obliges: "hypervisor_obliges others did uuid \<Longrightarrow> hypervisor_obliges (store_env others s0) did uuid"
  by (simp add: hypervisor_obliges_def store_env_def)

text \<open>C33. Setting the memory target of a guest: the store changes only when
  \<open>libxl_set_memory_target\<close> returns 1, and then by one new target in the domain's and the
  machine's directory; that target is the one asked for, less the video memory, and before
  that is at most the static maximum of the domain.  When the target is allowed and the
  hypervisor does its part, this is what happens.\<close>

theorem memory_target_atomic:
  assumes "did \<noteq> 0"
    and "run_state (libxl_set_memory_target (store_env others s0) (Suc fuel) c k did target_kb relative enforce) tr = (r, tr')"
  shows "(committed s0 tr' = committed s0 tr \<or>
      r = Inr 1 \<and> (\<exists>new uuid. allowed_target did target_kb relative (committed s0 tr) new \<and>
        committed s0 tr' = with_target did uuid (new - videoram_kb did (committed s0 tr)) (committed s0 tr))) \<and>
    (\<forall>uuid new. hypervisor_obliges others did uuid \<longrightarrow> allowed_target did target_kb relative (committed s0 tr) new \<longrightarrow>
      r = Inr 1 \<and> committed s0 tr' = with_target did uuid (new - videoram_kb did (committed s0 tr)) (committed s0 tr))"
proof (intro conjI allI impI)
  show "committed s0 tr' = committed s0 tr \<or>
      r = Inr 1 \<and> (\<exists>new uuid. allowed_target did target_kb relative (committed s0 tr) new \<and>
        committed s0 tr' = with_target did uuid (new - videoram_kb did (committed s0 tr)) (committed s0 tr))"
    using store.set_target_view [OF assms] by (simp only: committed_view)
  fix uuid new
  assume "hypervisor_obliges others did uuid" "allowed_target did target_kb relative (committed s0 tr) new"
  from store.set_target_obliged [OF assms(1) store_obliges [OF this(1), of s0] this(2) [folded committed_view],
      where fuel = fuel and c = c and k = k and enforce = enforce] assms(2)
  show "r = Inr 1" "committed s0 tr' = with_target did uuid (new - videoram_kb did (committed s0 tr)) (committed s0 tr)"
    by (auto simp: committed_view)
qed

lemma memory_target_atomic_witness:
  "\<forall>c k. fst (run_state (libxl_set_memory_target
      (store_env (\<lambda>_ call. if call = Xc ''xc_domain_getinfolist'' [5, 1]
                   then (ans 1)\<lparr>a_doms := [\<lparr>xc_domain = 5, xc_flags = 0, xc_tot_pages = 0, xc_max_pages = 0,
                     xc_cpu_time = 0, xc_max_vcpu_id = 0, xc_nr_online_vcpus = 0, xc_handle = ''u''\<rparr>]\<rparr> else ans 0)
        [(domain_path 5 @ ''/memory/target'', decimal 2048), (domain_path 5 @ ''/memory/static-max'', decimal 4096)])
      1 c k 5 1024 True True) []) = Inr 1"
proof (intro allI)
  fix c k
  let ?o = "\<lambda>_ call. if call = Xc ''xc_domain_getinfolist'' [5, 1]
    then (ans 1)\<lparr>a_doms := [\<lparr>xc_domain = 5, xc_flags = 0, xc_tot_pages = 0, xc_max_pages = 0,
      xc_cpu_time = 0, xc_max_vcpu_id = 0, xc_nr_online_vcpus = 0, xc_handle = ''u''\<rparr>]\<rparr> else ans 0"
  let ?s = "[(domain_path 5 @ ''/memory/target'', decimal 2048), (domain_path 5 @ ''/memory/static-max'', decimal 4096)]"
  have "hypervisor_obliges ?o 5 ''u''" by (simp add: hypervisor_obliges_def ans_def)
  moreover have "allowed_target 5 1024 True ?s 3072"
    using strtoull10_decimal [of "[]" 2048] strtoull10_decimal [of "[]" 4096]
    by (simp add: allowed_target_def strtoul_kb_def new_target_def)
  ultimately show "fst (run_state (libxl_set_memory_target (store_env ?o ?s) 1 c k 5 1024 True True) []) = Inr 1"
    using memory_target_atomic [OF _ prod.collapse [symmetric], of 5 ?s ?o 0 c k 1024 True True "[]"] by auto
qed

end
