(* ===== verification/Libxl_Hypervisor.thy ===== *)
theory Libxl_Hypervisor
  imports Libxl_Memory
begin

text \<open>
  The operations of \<open>libxl.c\<close> on virtual processors, the scheduler, triggers, the console
  ring of the hypervisor and transcendent memory.  Most pass a request on; the checks before
  it and what becomes of its result are the code's own.
\<close>

section \<open>Processor maps\<close>

record libxl_cpumap =
  cpumap_size :: u32
  cpumap_map :: "u8 list"

text \<open>\<open>libxl_cpumap_test\<close>, \<open>libxl_for_each_cpu\<close> and \<open>libxl_cpumap_alloc\<close> belong to
  \<open>libxl_utils\<close>, which is not part of the sources: the test of a processor, the list of
  processors a map ranges over, and the map made, None for a failure.\<close>

record cpumap_ops =
  cpumap_test :: "libxl_cpumap \<Rightarrow> nat \<Rightarrow> bool"
  cpumap_range :: "libxl_cpumap \<Rightarrow> nat list"

section \<open>Virtual processors\<close>

record libxl_vcpuinfo =
  vcpuid :: nat
  vcpu_cpu :: int
  vcpu_online_now :: bool
  vcpu_blocked :: bool
  vcpu_running :: bool
  vcpu_time :: int
  vcpu_map :: "int list"

text \<open>The loop of \<open>libxl_list_vcpu\<close> (the hypervisor numbers virtual processors far below \<open>2 ^ 31\<close>): \<open>n\<close> processors from \<open>i\<close> on.  The first three answers are the
  allocation of the map, the state and the affinity; any failure gives up the whole list.\<close>

fun vcpu_loop :: "env \<Rightarrow> u32 \<Rightarrow> nat \<Rightarrow> nat \<Rightarrow> libxl_vcpuinfo list option prog" where
  "vcpu_loop env did 0 i = return (Some [])"
| "vcpu_loop env did (Suc n) i =
     do {
       failed \<leftarrow> xs_do env (Other ''libxl_cpumap_alloc'' [] []);
       if failed then return None
       else
         do {
           a \<leftarrow> ask env (Xc ''xc_vcpu_getinfo'' [uint did, int i]);
           if a_int a = -1 then return None
           else
             do {
               m \<leftarrow> ask env (Xc ''xc_vcpu_getaffinity'' [uint did, int i]);
               if a_int m = -1 then return None
               else
                 do {
                   rest \<leftarrow> vcpu_loop env did n (Suc i);
                   return
                     (case rest of
                        None \<Rightarrow> None
                      | Some vs \<Rightarrow>
                          Some (\<lparr>vcpuid = i, vcpu_cpu = a_out a ! 0, vcpu_online_now = a_out a ! 1 \<noteq> 0,
                                 vcpu_blocked = a_out a ! 2 \<noteq> 0, vcpu_running = a_out a ! 3 \<noteq> 0,
                                 vcpu_time = a_out a ! 4, vcpu_map = a_out m\<rparr> # vs))
                 }
             }
         }
     }"

text \<open>The list and the number of physical processors.\<close>

definition libxl_list_vcpu :: "env \<Rightarrow> u32 \<Rightarrow> (libxl_vcpuinfo list \<times> int) option prog" where
  "libxl_list_vcpu env did =
     do {
       a \<leftarrow> getinfolist env did 1;
       if a_int a \<noteq> 1 then return None
       else
         do {
           nrcpus \<leftarrow> int_of env (Other ''libxl_get_max_cpus'' [] []);
           ok \<leftarrow> xs_do env (Other ''calloc'' [uint (xc_max_vcpu_id (hd (a_doms a)) + 1)] []);
           if \<not> ok then return None
           else
             do {
               vs \<leftarrow> vcpu_loop env did (unat (xc_max_vcpu_id (hd (a_doms a))) + 1) 0;
               return (case vs of None \<Rightarrow> None | Some l \<Rightarrow> Some (l, nrcpus))
             }
         }
     }"

definition libxl_set_vcpuaffinity :: "env \<Rightarrow> u32 \<Rightarrow> u32 \<Rightarrow> libxl_cpumap \<Rightarrow> int prog" where
  "libxl_set_vcpuaffinity env did vcpu cpumap =
     do {
       r \<leftarrow> int_of env (Xc ''xc_vcpu_setaffinity'' (uint did # uint vcpu # map uint (cpumap_map cpumap)));
       return (if r \<noteq> 0 then ERROR_FAIL else 0)
     }"

text \<open>One entry per virtual processor of the domain.\<close>

fun write_online :: "env \<Rightarrow> int \<Rightarrow> string \<Rightarrow> (nat \<Rightarrow> bool) \<Rightarrow> nat list \<Rightarrow> unit prog" where
  "write_online env t dompath test [] = return ()"
| "write_online env t dompath test (i # is) =
     do {
       _ \<leftarrow> xs_do env (Xs_write t (dompath @ ''/cpu/'' @ decimal i @ ''/availability'')
              (if test i then ''online'' else ''offline''));
       write_online env t dompath test is
     }"

definition libxl_set_vcpuonline :: "env \<Rightarrow> nat \<Rightarrow> dominf \<Rightarrow> cpumap_ops \<Rightarrow> u32 \<Rightarrow> libxl_cpumap \<Rightarrow> (fault + int) prog" where
  "libxl_set_vcpuonline env fuel k ops did cpumap =
     do {
       (rc, info) \<leftarrow> libxl_domain_info env k did;
       if rc < 0 then return (Inr ERROR_FAIL)
       else
         do {
           p \<leftarrow> str_of env (Xs_get_domain_path did);
           (case p of
              None \<Rightarrow> return (Inr ERROR_FAIL)
            | Some dompath \<Rightarrow>
                do {
                  r \<leftarrow> retry_transaction env fuel (\<lambda>t.
                    write_online env t dompath (cpumap_test ops cpumap) [0..<unat (vcpu_max_id (the info)) + 1]);
                  return (case r of Inl e \<Rightarrow> Inl e | Inr ok \<Rightarrow> Inr (if ok then 0 else ERROR_FAIL))
                })
         }
     }"

section \<open>Scheduling\<close>

definition libxl_get_sched_id :: "env \<Rightarrow> int prog" where
  "libxl_get_sched_id env =
     do {a \<leftarrow> ask env (Xc ''xc_sched_id'' []); return (if a_int a \<noteq> 0 then ERROR_FAIL else a_out a ! 0)}"

record libxl_sched_credit =
  weight :: int
  cap :: int

definition libxl_sched_credit_domain_get :: "env \<Rightarrow> u32 \<Rightarrow> libxl_sched_credit \<Rightarrow> (int \<times> libxl_sched_credit) prog" where
  "libxl_sched_credit_domain_get env did scinfo =
     do {
       a \<leftarrow> ask env (Xc ''xc_sched_credit_domain_get'' [uint did]);
       return
         (if a_int a \<noteq> 0 then (ERROR_FAIL, scinfo)
          else (0, scinfo\<lparr>weight := a_out a ! 0, cap := a_out a ! 1\<rparr>))
     }"

text \<open>The largest cap is computed in 32 unsigned bits, and the cap is compared as one.\<close>

definition libxl_sched_credit_domain_set :: "env \<Rightarrow> u32 \<Rightarrow> libxl_sched_credit \<Rightarrow> int prog" where
  "libxl_sched_credit_domain_set env did scinfo =
     do {
       a \<leftarrow> getinfolist env did 1;
       if a_int a < 0 then return ERROR_FAIL
       else if a_int a \<noteq> 1 \<or> xc_domain (hd (a_doms a)) \<noteq> did then return ERROR_INVAL
       else if weight scinfo < 1 \<or> 65535 < weight scinfo then return ERROR_INVAL
       else if cap scinfo < 0 \<or> (xc_max_vcpu_id (hd (a_doms a)) + 1) * 100 < (word_of_int (cap scinfo) :: u32)
       then return ERROR_INVAL
       else
         do {
           r \<leftarrow> int_of env (Xc ''xc_sched_credit_domain_set'' [uint did, weight scinfo, cap scinfo]);
           return (if r < 0 then ERROR_FAIL else 0)
         }
     }"

section \<open>Triggers\<close>

text \<open>The constants of the hypervisor's interface.\<close>

record trigger_constants =
  SENDTRIGGER_NMI :: int
  SENDTRIGGER_RESET :: int
  SENDTRIGGER_INIT :: int
  SENDTRIGGER_POWER :: int
  SENDTRIGGER_SLEEP :: int
  HVM_PARAM_ACPI_S_STATE :: int

datatype libxl_button = POWER_BUTTON | SLEEP_BUTTON | OTHER_BUTTON int

definition libxl_button_press :: "env \<Rightarrow> trigger_constants \<Rightarrow> u32 \<Rightarrow> libxl_button \<Rightarrow> int prog" where
  "libxl_button_press env c did button =
     (case button of
        POWER_BUTTON \<Rightarrow> int_of env (Xc ''xc_domain_send_trigger'' [uint did, SENDTRIGGER_POWER c, 0])
      | SLEEP_BUTTON \<Rightarrow> int_of env (Xc ''xc_domain_send_trigger'' [uint did, SENDTRIGGER_SLEEP c, 0])
      | OTHER_BUTTON b \<Rightarrow> return (-1))"

definition trigger_type_from_string :: "trigger_constants \<Rightarrow> string \<Rightarrow> int" where
  "trigger_type_from_string c name =
     (if name = ''nmi'' then SENDTRIGGER_NMI c
      else if name = ''reset'' then SENDTRIGGER_RESET c
      else if name = ''init'' then SENDTRIGGER_INIT c
      else if name = ''power'' then SENDTRIGGER_POWER c
      else if name = ''sleep'' then SENDTRIGGER_SLEEP c
      else -1)"

definition libxl_send_trigger :: "env \<Rightarrow> trigger_constants \<Rightarrow> u32 \<Rightarrow> string \<Rightarrow> u32 \<Rightarrow> int prog" where
  "libxl_send_trigger env c did name vcpu =
     (if name = ''s3resume'' then
        do {_ \<leftarrow> ask env (Xc ''xc_set_hvm_param'' [uint did, HVM_PARAM_ACPI_S_STATE c, 0]); return 0}
      else if trigger_type_from_string c name = -1 then return ERROR_INVAL
      else
        do {
          r \<leftarrow> int_of env (Xc ''xc_domain_send_trigger'' [uint did, trigger_type_from_string c name, uint vcpu]);
          return (if r \<noteq> 0 then ERROR_FAIL else 0)
        })"

definition libxl_send_sysrq :: "env \<Rightarrow> u32 \<Rightarrow> char \<Rightarrow> int prog" where
  "libxl_send_sysrq env did sysrq =
     do {
       p \<leftarrow> str_of env (Xs_get_domain_path did);
       _ \<leftarrow> xs_do env (Xs_write XBT_NULL (null_str p @ ''/control/sysrq'') [sysrq]);
       return 0
     }"

definition libxl_send_debug_keys :: "env \<Rightarrow> string \<Rightarrow> int prog" where
  "libxl_send_debug_keys env keys = fail_if_negative env (Other ''xc_send_debug_keys'' [] [keys])"

section \<open>The console ring\<close>

record libxl_xen_console_reader =
  cr_size :: u32
  cr_count :: u32
  cr_clear :: int
  cr_incremental :: int
  cr_index :: u32

text \<open>Each of the two allocations may fail.\<close>

definition libxl_xen_console_read_start :: "env \<Rightarrow> int \<Rightarrow> libxl_xen_console_reader option prog" where
  "libxl_xen_console_read_start env clear =
     do {
       buf \<leftarrow> xs_do env (Other ''malloc'' [16384] []);
       if \<not> buf then return None
       else
         do {
           cr \<leftarrow> xs_do env (Other ''malloc'' [] []);
           return
             (if \<not> cr then None
              else Some \<lparr>cr_size = 16384, cr_count = 16384, cr_clear = clear, cr_incremental = 1, cr_index = 0\<rparr>)
         }
     }"

text \<open>The call answers a result, the text in the buffer, the count and the index; the value is
  the result, the line (\<open>line\<close> when it is not assigned) and the reader.\<close>

definition libxl_xen_console_read_line ::
  "env \<Rightarrow> libxl_xen_console_reader \<Rightarrow> string option \<Rightarrow> (int \<times> string option \<times> libxl_xen_console_reader) prog" where
  "libxl_xen_console_read_line env cr line =
     do {
       a \<leftarrow> ask env (Xc ''xc_readconsolering'' [uint (cr_count cr), cr_clear cr, cr_incremental cr, uint (cr_index cr)]);
       (let cr' = cr\<lparr>cr_count := word_of_int (a_out a ! 0), cr_index := word_of_int (a_out a ! 1)\<rparr> in
        return
          (if a_int a < 0 then (ERROR_FAIL, line, cr')
           else if a_int a = 0 then
             (if cr_count cr' \<noteq> 0 then (1, Some (null_str (a_str a)), cr') else (0, None, cr'))
           else (a_int a, line, cr')))
     }"

section \<open>The start time\<close>

definition libxl_vm_get_start_time :: "env \<Rightarrow> u32 \<Rightarrow> u32 prog" where
  "libxl_vm_get_start_time env did =
     do {
       p \<leftarrow> str_of env (Xs_get_domain_path did);
       vm \<leftarrow> xs_read env XBT_NULL (null_str p @ ''/vm'');
       st \<leftarrow> xs_read env XBT_NULL (null_str vm @ ''/start_time'');
       return (case st of None \<Rightarrow> -1 | Some s \<Rightarrow> fst (strtoul_kb s))
     }"

section \<open>Transcendent memory\<close>

record tmem_constants =
  TMEMC_LIST :: int
  TMEMC_FREEZE :: int
  TMEMC_DESTROY :: int
  TMEMC_THAW :: int
  TMEMC_SET_WEIGHT :: int
  TMEMC_SET_CAP :: int
  TMEMC_SET_COMPRESS :: int
  TMEMC_QUERY_FREEABLE_MB :: int

text \<open>A control call that passes its result on unless it is negative.\<close>

definition tmem_control :: "env \<Rightarrow> int list \<Rightarrow> int prog" where
  "tmem_control env args =
     do {r \<leftarrow> int_of env (Xc ''xc_tmem_control'' args); return (if r < 0 then ERROR_FAIL else r)}"

definition libxl_tmem_list :: "env \<Rightarrow> tmem_constants \<Rightarrow> u32 \<Rightarrow> int \<Rightarrow> string option prog" where
  "libxl_tmem_list env c did use_long =
     do {
       a \<leftarrow> ask env (Xc ''xc_tmem_control'' [-1, TMEMC_LIST c, uint did, 32768, use_long, 0]);
       return (if a_int a < 0 then None else Some (null_str (a_str a)))
     }"

definition libxl_tmem_freeze :: "env \<Rightarrow> tmem_constants \<Rightarrow> u32 \<Rightarrow> int prog" where
  "libxl_tmem_freeze env c did = tmem_control env [-1, TMEMC_FREEZE c, uint did, 0, 0, 0]"

definition libxl_tmem_destroy :: "env \<Rightarrow> tmem_constants \<Rightarrow> u32 \<Rightarrow> int prog" where
  "libxl_tmem_destroy env c did = tmem_control env [-1, TMEMC_DESTROY c, uint did, 0, 0, 0]"

definition libxl_tmem_thaw :: "env \<Rightarrow> tmem_constants \<Rightarrow> u32 \<Rightarrow> int prog" where
  "libxl_tmem_thaw env c did = tmem_control env [-1, TMEMC_THAW c, uint did, 0, 0, 0]"

definition tmem_setop_from_string :: "tmem_constants \<Rightarrow> string \<Rightarrow> int" where
  "tmem_setop_from_string c name =
     (if name = ''weight'' then TMEMC_SET_WEIGHT c
      else if name = ''cap'' then TMEMC_SET_CAP c
      else if name = ''compress'' then TMEMC_SET_COMPRESS c
      else -1)"

definition libxl_tmem_set :: "env \<Rightarrow> tmem_constants \<Rightarrow> u32 \<Rightarrow> string \<Rightarrow> u32 \<Rightarrow> int prog" where
  "libxl_tmem_set env c did name v =
     (if tmem_setop_from_string c name = -1 then return ERROR_INVAL
      else tmem_control env [-1, tmem_setop_from_string c name, uint did, uint v, 0, 0])"

definition libxl_tmem_shared_auth :: "env \<Rightarrow> u32 \<Rightarrow> string \<Rightarrow> int \<Rightarrow> int prog" where
  "libxl_tmem_shared_auth env did uuid auth =
     do {
       r \<leftarrow> int_of env (Other ''xc_tmem_auth'' [uint did, auth] [uuid]);
       return (if r < 0 then ERROR_FAIL else r)
     }"

definition libxl_tmem_freeable :: "env \<Rightarrow> tmem_constants \<Rightarrow> int prog" where
  "libxl_tmem_freeable env c = tmem_control env [-1, TMEMC_QUERY_FREEABLE_MB c, -1, 0, 0, 0]"

end
