(* ===== verification/Libxl_Cpupool.thy ===== *)
theory Libxl_Cpupool
  imports Libxl_Hypervisor
begin

text \<open>
  The processor pools of \<open>libxl.c\<close>: the topology of the host, listing, making, removing and
  renaming pools, and moving processors and domains between them.
\<close>

section \<open>Topology\<close>

record libxl_topologyinfo =
  coremap :: "u32 list"
  socketmap :: "u32 list"
  nodemap :: "u32 list"

definition LIBXL_CPUARRAY_INVALID_ENTRY :: u32 where
  "LIBXL_CPUARRAY_INVALID_ENTRY = NOT 0"

text \<open>An array of the library filled from the hypervisor's, up to index \<open>top_index\<close>; \<open>invalid\<close> is
  \<open>INVALID_TOPOLOGY_ID\<close>.\<close>

definition fill_map :: "u32 \<Rightarrow> nat \<Rightarrow> u32 list \<Rightarrow> u32 list \<Rightarrow> u32 list" where
  "fill_map invalid top_index hv arr =
     map (\<lambda>i. if i \<le> top_index then (if hv ! i = invalid then LIBXL_CPUARRAY_INVALID_ENTRY else hv ! i) else arr ! i)
       [0..<length arr]"

text \<open>\<open>libxl_cpuarray_alloc\<close> answers its result and the array; the hypercall its result, the
  largest index and the three maps, each as long as the core array.  The largest index is one
  of a processor, far below \<open>2 ^ 31\<close>, so the counter of the loop does not overflow.\<close>

definition cpuarray_alloc :: "env \<Rightarrow> (int \<times> u32 list) prog" where
  "cpuarray_alloc env =
     do {a \<leftarrow> ask env (Other ''libxl_cpuarray_alloc'' [] []); return (a_int a, map word_of_int (a_out a))}"

definition libxl_get_topologyinfo :: "env \<Rightarrow> u32 \<Rightarrow> (int \<times> libxl_topologyinfo option) prog" where
  "libxl_get_topologyinfo env invalid =
     do {
       (r1, core) \<leftarrow> cpuarray_alloc env;
       (r2, socket) \<leftarrow> cpuarray_alloc env;
       (r3, node) \<leftarrow> cpuarray_alloc env;
       if r1 + r2 + r3 \<noteq> 0 then return (ERROR_FAIL, None)
       else
         do {
           b1 \<leftarrow> xs_do env (Other ''xc_hypercall_buffer_alloc'' [int (length core)] []);
           b2 \<leftarrow> xs_do env (Other ''xc_hypercall_buffer_alloc'' [int (length socket)] []);
           b3 \<leftarrow> xs_do env (Other ''xc_hypercall_buffer_alloc'' [int (length node)] []);
           if \<not> b1 \<or> \<not> b2 \<or> \<not> b3 then return (ERROR_FAIL, None)
           else
             do {
               a \<leftarrow> ask env (Xc ''xc_topologyinfo'' [uint (of_nat (length core) - 1 :: u32)]);
               return
                 (if a_int a \<noteq> 0 then (ERROR_FAIL, None)
                  else
                    (let top_index = unat (word_of_int (a_out a ! 0) :: u32); n = length core; w = map word_of_int (drop 1 (a_out a)) in
                     (0, Some \<lparr>coremap = fill_map invalid top_index (take n w) core,
                               socketmap = fill_map invalid top_index (take n (drop n w)) socket,
                               nodemap = fill_map invalid top_index (drop (2 * n) w) node\<rparr>)))
             }
         }
     }"

section \<open>Listing\<close>

record libxl_cpupoolinfo =
  poolid :: u32
  sched_id :: int
  n_dom :: u32
  pool_cpumap :: libxl_cpumap

text \<open>\<open>xc_cpupool_getinfo\<close> answers 0 for NULL, or the number, the scheduler and the domains of
  the first pool from the number on, and then its map.\<close>

definition cpupool_getinfo :: "env \<Rightarrow> u32 \<Rightarrow> (u32 \<times> int \<times> u32 \<times> u8 list) option prog" where
  "cpupool_getinfo env pool =
     do {
       a \<leftarrow> ask env (Xc ''xc_cpupool_getinfo'' [uint pool]);
       return
         (if a_int a = 0 then None
          else Some (word_of_int (a_out a ! 0), a_out a ! 1, word_of_int (a_out a ! 2),
                     map word_of_int (drop 3 (a_out a))))
     }"

text \<open>\<open>libxl_cpumap_alloc\<close>: 0 and a map of that many bytes.\<close>

definition cpumap_alloc :: "env \<Rightarrow> u32 option prog" where
  "cpumap_alloc env =
     do {
       a \<leftarrow> ask env (Other ''libxl_cpumap_alloc'' [] []);
       return (if a_int a \<noteq> 0 then None else Some (word_of_int (a_out a ! 0)))
     }"

text \<open>The loop; \<open>acc\<close> are the pools so far.  A list that cannot grow is dropped whole; a map that
  cannot be made ends the list.\<close>

fun list_pools :: "env \<Rightarrow> nat \<Rightarrow> u32 \<Rightarrow> libxl_cpupoolinfo list \<Rightarrow> (fault + libxl_cpupoolinfo list option) prog" where
  "list_pools env 0 pool acc = return (Inl Diverges)"
| "list_pools env (Suc fuel) pool acc =
     do {
       info \<leftarrow> cpupool_getinfo env pool;
       (case info of
          None \<Rightarrow> return (Inr (Some acc))
        | Some (pid, sched, doms, cmap) \<Rightarrow>
            do {
              ok \<leftarrow> xs_do env (Other ''realloc'' [int (length acc) + 1] []);
              if \<not> ok then return (Inr None)
              else
                do {
                  m \<leftarrow> cpumap_alloc env;
                  (case m of
                     None \<Rightarrow> return (Inr (Some acc))
                   | Some sz \<Rightarrow>
                       list_pools env fuel (pid + 1)
                         (acc @ [\<lparr>poolid = pid, sched_id = sched, n_dom = doms,
                                  pool_cpumap = \<lparr>cpumap_size = sz, cpumap_map = take (unat sz) cmap\<rparr>\<rparr>]))
                }
            })
     }"

text \<open>Without a pool the pointer stays NULL, which the callers take for a failure.\<close>

definition libxl_list_cpupool :: "env \<Rightarrow> nat \<Rightarrow> (fault + libxl_cpupoolinfo list option) prog" where
  "libxl_list_cpupool env fuel =
     do {
       r \<leftarrow> list_pools env fuel 0 [];
       return (case r of Inl e \<Rightarrow> Inl e | Inr l \<Rightarrow> Inr (if l = Some [] then None else l))
     }"

definition libxl_get_freecpus :: "env \<Rightarrow> (int \<times> libxl_cpumap option) prog" where
  "libxl_get_freecpus env =
     do {
       ncpus \<leftarrow> int_of env (Other ''libxl_get_max_cpus'' [] []);
       if ncpus = 0 then return (ERROR_FAIL, None)
       else
         do {
           a \<leftarrow> ask env (Xc ''xc_cpupool_freeinfo'' []);
           return
             (if a_int a = 0 then (ERROR_FAIL, None)
              else (0, Some \<lparr>cpumap_size = word_of_int ((ncpus + 7) div 8), cpumap_map = map word_of_int (a_out a)\<rparr>))
         }
     }"

section \<open>Making and removing pools\<close>

definition pool_path :: "u32 \<Rightarrow> string" where
  "pool_path pool = ''/local/pool/'' @ print_d pool"

text \<open>A hypercall for each processor of the list that is in the map, until one fails; the value
  says whether all went well.\<close>

fun each_cpu :: "env \<Rightarrow> (nat \<Rightarrow> xcall) \<Rightarrow> (nat \<Rightarrow> bool) \<Rightarrow> nat list \<Rightarrow> bool prog" where
  "each_cpu env call test [] = return True"
| "each_cpu env call test (i # is) =
     (if test i then
        do {
          r \<leftarrow> int_of env (call i);
          if r \<noteq> 0 then return False else each_cpu env call test is
        }
      else each_cpu env call test is)"

text \<open>The removal takes the pool out of the store outside the transaction it opens for it.\<close>

definition libxl_destroy_cpupool :: "env \<Rightarrow> nat \<Rightarrow> cpumap_ops \<Rightarrow> u32 \<Rightarrow> (fault + int) prog" where
  "libxl_destroy_cpupool env fuel ops pool =
     do {
       info \<leftarrow> cpupool_getinfo env pool;
       (case info of
          None \<Rightarrow> return (Inr ERROR_NOMEM)
        | Some (pid, sched, doms, cmap) \<Rightarrow>
            if pid \<noteq> pool \<or> doms \<noteq> 0 then return (Inr ERROR_INVAL)
            else
              do {
                m \<leftarrow> cpumap_alloc env;
                (case m of
                   None \<Rightarrow> return (Inr ERROR_NOMEM)
                 | Some sz \<Rightarrow>
                     (let cpumap = \<lparr>cpumap_size = sz, cpumap_map = take (unat sz) cmap\<rparr> in
                      do {
                        ok \<leftarrow> each_cpu env (\<lambda>i. Xc ''xc_cpupool_removecpu'' [uint pool, int i])
                                (cpumap_test ops cpumap) (cpumap_range ops cpumap);
                        if \<not> ok then return (Inr ERROR_FAIL)
                        else
                          do {
                            r \<leftarrow> int_of env (Xc ''xc_cpupool_destroy'' [uint pool]);
                            if r \<noteq> 0 then return (Inr ERROR_FAIL)
                            else
                              do {
                                c \<leftarrow> retry_transaction env fuel (\<lambda>t.
                                  do {_ \<leftarrow> xs_do env (Xs_rm XBT_NULL (pool_path pool)); return ()});
                                return (case c of Inl e \<Rightarrow> Inl e | Inr b \<Rightarrow> Inr 0)
                              }
                          }
                      }))
              })
     }"

text \<open>The name and identifier go into the store; whether they arrive is not looked at.\<close>

definition libxl_create_cpupool ::
  "env \<Rightarrow> nat \<Rightarrow> cpumap_ops \<Rightarrow> string \<Rightarrow> int \<Rightarrow> libxl_cpumap \<Rightarrow> string \<Rightarrow> u32 \<Rightarrow> (fault + int \<times> u32) prog" where
  "libxl_create_cpupool env fuel ops name schedid cpumap uuid pool0 =
     do {
       us \<leftarrow> str_of env (Other ''libxl__uuid2string'' [] [uuid]);
       (case us of
          None \<Rightarrow> return (Inr (ERROR_NOMEM, pool0))
        | Some uuid_string \<Rightarrow>
            do {
              a \<leftarrow> ask env (Xc ''xc_cpupool_create'' [uint pool0, schedid]);
              (let pool = word_of_int (a_out a ! 0) in
               if a_int a \<noteq> 0 then return (Inr (ERROR_FAIL, pool))
               else
                 do {
                   ok \<leftarrow> each_cpu env (\<lambda>i. Xc ''xc_cpupool_addcpu'' [uint pool, int i])
                           (cpumap_test ops cpumap) (cpumap_range ops cpumap);
                   if \<not> ok then
                     try_then (libxl_destroy_cpupool env fuel ops pool) (\<lambda>rc. return (Inr (ERROR_FAIL, pool)))
                   else
                     do {
                       c \<leftarrow> retry_transaction env fuel (\<lambda>t.
                         do {
                           _ \<leftarrow> xs_do env (Xs_mkdir t (pool_path pool));
                           _ \<leftarrow> xs_do env (Xs_write t (pool_path pool @ ''/uuid'') uuid_string);
                           _ \<leftarrow> xs_do env (Xs_write t (pool_path pool @ ''/name'') name);
                           return ()
                         });
                       return (case c of Inl e \<Rightarrow> Inl e | Inr b \<Rightarrow> Inr (0, pool))
                     }
                 })
            })
     }"

definition libxl_cpupool_rename :: "env \<Rightarrow> nat \<Rightarrow> string \<Rightarrow> u32 \<Rightarrow> (fault + int) prog" where
  "libxl_cpupool_rename env fuel name pool =
     do {
       info \<leftarrow> cpupool_getinfo env pool;
       (case info of
          None \<Rightarrow> return (Inr ERROR_NOMEM)
        | Some (pid, sched, doms, cmap) \<Rightarrow>
            if pid \<noteq> pool then return (Inr ERROR_INVAL)
            else
              do {
                c \<leftarrow> retry_transaction env fuel (\<lambda>t.
                  do {_ \<leftarrow> xs_do env (Xs_write t (pool_path pool @ ''/name'') name); return ()});
                return (case c of Inl e \<Rightarrow> Inl e | Inr b \<Rightarrow> Inr (if b then 0 else ERROR_FAIL))
              })
     }"

section \<open>Processors\<close>

definition libxl_cpupool_cpuadd :: "env \<Rightarrow> u32 \<Rightarrow> nat \<Rightarrow> int prog" where
  "libxl_cpupool_cpuadd env pool cpu =
     do {
       r \<leftarrow> int_of env (Xc ''xc_cpupool_addcpu'' [uint pool, int cpu]);
       return (if r \<noteq> 0 then ERROR_FAIL else 0)
     }"

definition libxl_cpupool_cpuremove :: "env \<Rightarrow> u32 \<Rightarrow> nat \<Rightarrow> int prog" where
  "libxl_cpupool_cpuremove env pool cpu =
     do {
       r \<leftarrow> int_of env (Xc ''xc_cpupool_removecpu'' [uint pool, int cpu]);
       return (if r \<noteq> 0 then ERROR_FAIL else 0)
     }"

text \<open>The number of processors of the list that satisfy the test and are then moved.\<close>

fun move_cpus :: "(nat \<Rightarrow> int prog) \<Rightarrow> (nat \<Rightarrow> bool) \<Rightarrow> nat list \<Rightarrow> int \<Rightarrow> int prog" where
  "move_cpus move test [] n = return n"
| "move_cpus move test (i # is) n =
     (if test i then
        do {r \<leftarrow> move i; move_cpus move test is (if r = 0 then n + 1 else n)}
      else move_cpus move test is n)"

text \<open>The result, and \<open>*cpus\<close> when it is assigned.\<close>

definition libxl_cpupool_cpuadd_node :: "env \<Rightarrow> u32 \<Rightarrow> cpumap_ops \<Rightarrow> u32 \<Rightarrow> int \<Rightarrow> (int \<times> int option) prog" where
  "libxl_cpupool_cpuadd_node env invalid ops pool node =
     do {
       (rc, free) \<leftarrow> libxl_get_freecpus env;
       if rc \<noteq> 0 then return (ERROR_FAIL, None)
       else
         do {
           (rc2, topo) \<leftarrow> libxl_get_topologyinfo env invalid;
           if rc2 \<noteq> 0 then return (ERROR_FAIL, None)
           else
             do {
               n \<leftarrow> move_cpus (libxl_cpupool_cpuadd env pool)
                      (\<lambda>i. cpumap_test ops (the free) i \<and> nodemap (the topo) ! i = word_of_int node)
                      [0..<length (nodemap (the topo))] 0;
               return (0, Some n)
             }
         }
     }"

fun remove_from_pools ::
  "env \<Rightarrow> cpumap_ops \<Rightarrow> libxl_topologyinfo \<Rightarrow> u32 \<Rightarrow> int \<Rightarrow> libxl_cpupoolinfo list \<Rightarrow> int \<Rightarrow> int prog" where
  "remove_from_pools env ops topo pool node [] n = return n"
| "remove_from_pools env ops topo pool node (p # ps) n =
     (if poolid p = pool then
        do {
          n' \<leftarrow> move_cpus (libxl_cpupool_cpuremove env pool)
                 (\<lambda>i. nodemap topo ! i = word_of_int node \<and> cpumap_test ops (pool_cpumap p) i)
                 [0..<length (nodemap topo)] n;
          remove_from_pools env ops topo pool node ps n'
        }
      else remove_from_pools env ops topo pool node ps n)"

definition libxl_cpupool_cpuremove_node ::
  "env \<Rightarrow> nat \<Rightarrow> u32 \<Rightarrow> cpumap_ops \<Rightarrow> u32 \<Rightarrow> int \<Rightarrow> (fault + int \<times> int option) prog" where
  "libxl_cpupool_cpuremove_node env fuel invalid ops pool node =
     try_then (libxl_list_cpupool env fuel) (\<lambda>pools.
       (case pools of
          None \<Rightarrow> return (Inr (ERROR_NOMEM, None))
        | Some ps \<Rightarrow>
            do {
              (rc, topo) \<leftarrow> libxl_get_topologyinfo env invalid;
              if rc \<noteq> 0 then return (Inr (ERROR_FAIL, None))
              else do {n \<leftarrow> remove_from_pools env ops (the topo) pool node ps 0; return (Inr (0, Some n))}
            }))"

section \<open>Domains\<close>

text \<open>The pool's name goes to the domain's entry in the store; a domain without one leaves the
  transaction open.\<close>

fun name_pool :: "env \<Rightarrow> nat \<Rightarrow> u32 \<Rightarrow> string \<Rightarrow> (fault + unit) prog" where
  "name_pool env 0 pool dom_path = return (Inl Diverges)"
| "name_pool env (Suc fuel) pool dom_path =
     do {
       t \<leftarrow> int_of env Xs_transaction_start;
       name \<leftarrow> str_of env (Other ''libxl__cpupoolid_to_name'' [uint pool] []);
       vm \<leftarrow> xs_read env XBT_NULL (dom_path @ ''/vm'');
       (case vm of
          None \<Rightarrow> return (Inr ())
        | Some vm_path \<Rightarrow>
            do {
              _ \<leftarrow> xs_do env (Xs_write t (vm_path @ ''/pool_name'') (null_str name));
              a \<leftarrow> ask env (Xs_transaction_end t False);
              if a_int a \<noteq> 0 \<or> a_errno a \<noteq> EAGAIN then return (Inr ())
              else name_pool env fuel pool dom_path
            })
     }"

definition libxl_cpupool_movedomain :: "env \<Rightarrow> nat \<Rightarrow> u32 \<Rightarrow> u32 \<Rightarrow> (fault + int) prog" where
  "libxl_cpupool_movedomain env fuel pool did =
     do {
       p \<leftarrow> str_of env (Xs_get_domain_path did);
       (case p of
          None \<Rightarrow> return (Inr ERROR_FAIL)
        | Some dom_path \<Rightarrow>
            do {
              r \<leftarrow> int_of env (Xc ''xc_cpupool_movedomain'' [uint pool, uint did]);
              if r \<noteq> 0 then return (Inr ERROR_FAIL)
              else try_then (name_pool env fuel pool dom_path) (\<lambda>u. return (Inr 0))
            })
     }"

end
