(* ===== verification/Transactions.thy ===== *)
theory Transactions
  imports Libxl_Cpupool
begin

text \<open>
  The transactions a program opens and ends, whatever the environment answers: a history is
  read as a run of the discipline the store imposes (a transaction is used and ended only
  while it is open), and programs that keep it are composed from programs that do.
\<close>

section \<open>The discipline\<close>

fun call_txn :: "xcall \<Rightarrow> int option" where
  "call_txn (Xs_read t p) = Some t"
| "call_txn (Xs_write t p v) = Some t"
| "call_txn (Xs_writev t p kvs) = Some t"
| "call_txn (Xs_rm t p) = Some t"
| "call_txn (Xs_mkdir t p) = Some t"
| "call_txn (Xs_set_permissions t p perms) = Some t"
| "call_txn (Xs_directory t p) = Some t"
| "call_txn c = None"

text \<open>The open transactions after one more call and its answer, None when the call uses or ends
  one that is not open; 0 stands for no transaction, also as the number of one that could
  not be started.\<close>

fun txn_step :: "int list \<Rightarrow> xcall \<times> answer \<Rightarrow> int list option" where
  "txn_step ops (Xs_transaction_start, a) = Some (if a_int a = 0 then ops else a_int a # ops)"
| "txn_step ops (Xs_transaction_end t abort, a) =
     (if t = 0 then Some ops else if t \<in> set ops then Some (remove1 t ops) else None)"
| "txn_step ops (c, a) =
     (case call_txn c of
        None \<Rightarrow> Some ops
      | Some t \<Rightarrow> if t = 0 \<or> t \<in> set ops then Some ops else None)"

fun txn_run :: "int list \<Rightarrow> history \<Rightarrow> int list option" where
  "txn_run ops [] = Some ops"
| "txn_run ops (e # tr) = Option.bind (txn_step ops e) (\<lambda>ops'. txn_run ops' tr)"

definition open_txns :: "history \<Rightarrow> int list option" where
  "open_txns tr = txn_run [] tr"

lemma txn_run_append: "txn_run ops (tr @ tr') = Option.bind (txn_run ops tr) (\<lambda>ops'. txn_run ops' tr')"
proof (induction tr arbitrary: ops)
  case (Cons e tr)
  then show ?case by (cases "txn_step ops e") simp_all
qed simp

lemma open_after [simp]:
  "open_txns (after env tr c) = Option.bind (open_txns tr) (\<lambda>ops. txn_step ops (c, env tr c))"
  by (cases "txn_run [] tr") (simp_all add: open_txns_def after_def txn_run_append)

section \<open>Programs that keep it\<close>

text \<open>\<open>closes t m\<close>: run while \<open>t\<close> is open (or with no transaction, for 0), \<open>m\<close> ends with the
  transactions open that were open before, and uses none that is not.\<close>

definition closes :: "int \<Rightarrow> 'a prog \<Rightarrow> bool" where
  "closes t m \<longleftrightarrow>
     (\<forall>tr ops. open_txns tr = Some ops \<longrightarrow> t = 0 \<or> t \<in> set ops \<longrightarrow>
        open_txns (snd (run_state m tr)) = Some ops)"

lemma closesD:
  "closes t m \<Longrightarrow> run_state m tr = (x, tr') \<Longrightarrow> open_txns tr = Some ops \<Longrightarrow> t = 0 \<or> t \<in> set ops \<Longrightarrow>
     open_txns tr' = Some ops"
  unfolding closes_def by (metis snd_conv)

lemma closesI:
  "(\<And>tr ops x tr'. open_txns tr = Some ops \<Longrightarrow> t = 0 \<or> t \<in> set ops \<Longrightarrow> run_state m tr = (x, tr') \<Longrightarrow>
     open_txns tr' = Some ops) \<Longrightarrow> closes t m"
  unfolding closes_def by (metis prod.collapse)

named_theorems closing

lemma closes_return [closing]: "closes t (return x)"
  by (simp add: closes_def)

lemma closes_bind [closing]:
  assumes "closes t m" "\<And>x. closes t (f x)"
  shows "closes t (State_Monad.bind m f)"
proof (rule closesI)
  fix tr ops y tr'
  assume o: "open_txns tr = Some ops" "t = 0 \<or> t \<in> set ops"
    and r: "run_state (State_Monad.bind m f) tr = (y, tr')"
  obtain x tr1 where 1: "run_state m tr = (x, tr1)" by (meson surj_pair)
  with r have 2: "run_state (f x) tr1 = (y, tr')" by simp
  show "open_txns tr' = Some ops"
    by (rule closesD [OF assms(2) 2 closesD [OF assms(1) 1 o] o(2)])
qed

lemma step_unchanged:
  assumes "call_txn c \<in> {None, Some 0, Some t}" "c \<noteq> Xs_transaction_start" "\<And>u b. c \<noteq> Xs_transaction_end u b"
    "t = 0 \<or> t \<in> set ops"
  shows "txn_step ops (c, a) = Some ops"
  using assms by (cases c) auto

definition plain :: "int \<Rightarrow> xcall \<Rightarrow> bool" where
  "plain t c \<longleftrightarrow> call_txn c \<in> {None, Some 0, Some t} \<and>
     (case c of Xs_transaction_start \<Rightarrow> False | Xs_transaction_end u b \<Rightarrow> False | _ \<Rightarrow> True)"

lemma plain_calls [simp]:
  "plain t (Xs_read u p) = (u = 0 \<or> u = t)" "plain t (Xs_write u p v) = (u = 0 \<or> u = t)"
  "plain t (Xs_writev u p kvs) = (u = 0 \<or> u = t)" "plain t (Xs_rm u p) = (u = 0 \<or> u = t)"
  "plain t (Xs_mkdir u p) = (u = 0 \<or> u = t)" "plain t (Xs_set_permissions u p perms) = (u = 0 \<or> u = t)"
  "plain t (Xs_directory u p) = (u = 0 \<or> u = t)" "plain t (Xs_watch p q)" "plain t (Xs_unwatch p q)"
  "plain t Xs_select" "plain t Xs_read_watch" "plain t (Xs_get_domain_path d)" "plain t Xs_open"
  "plain t Xs_close" "plain t (Usleep n)" "plain t (Callback d p)" "plain t (Stat p)" "plain t (Xc f is)"
  "plain t (Other f is ss)"
  by (auto simp: plain_def)

lemma closes_ask:
  assumes "plain t c"
  shows "closes t (ask env c)"
proof -
  have "txn_step ops (c, env tr c) = Some ops" if "t = 0 \<or> t \<in> set ops" for tr ops
    using assms that by (intro step_unchanged [of c t]) (auto simp: plain_def split: xcall.splits)
  then show ?thesis by (simp add: closes_def)
qed

lemma closes_calls [closing]:
  "plain t c \<Longrightarrow> closes t (ask env c)" "plain t (Xs_read u p) \<Longrightarrow> closes t (xs_read env u p)"
  "plain t c \<Longrightarrow> closes t (xs_do env c)" "plain t c \<Longrightarrow> closes t (int_of env c)"
  "plain t c \<Longrightarrow> closes t (str_of env c)"
  unfolding xs_read_def xs_do_def int_of_def str_of_def
  by (intro closes_bind closes_ask closes_return; assumption)+

lemma closes_cases [closing]:
  "closes t m \<Longrightarrow> closes t n \<Longrightarrow> closes t (if b then m else n)"
  "closes t m \<Longrightarrow> (\<And>x. closes t (f x)) \<Longrightarrow> closes t (case z of None \<Rightarrow> m | Some x \<Rightarrow> f x)"
  "(\<And>x. closes t (g x)) \<Longrightarrow> (\<And>x. closes t (h x)) \<Longrightarrow> closes t (case s of Inl x \<Rightarrow> g x | Inr x \<Rightarrow> h x)"
  "(\<And>x y. closes t (k x y)) \<Longrightarrow> closes t (case p of (x, y) \<Rightarrow> k x y)"
  by (cases z; cases s; cases p; simp)+

lemma closes_let [closing]: "(\<And>x. closes t (f x)) \<Longrightarrow> closes t (let x = e in f x)"
  by simp

lemma closes_lift_fault [closing]: "closes t (lift_fault r)"
  by (simp add: lift_fault_def closes_return)

lemma closes_try_then [closing]:
  "closes t m \<Longrightarrow> (\<And>x. closes t (f x)) \<Longrightarrow> closes t (try_then m f)"
  unfolding try_then_def by (intro closing)

lemma closes_null: "closes 0 m \<Longrightarrow> closes t m"
  by (simp add: closes_def)

text \<open>A transaction of its own.\<close>

lemma open_start:
  assumes "open_txns tr = Some ops" "t = a_int (env tr Xs_transaction_start)"
  shows "open_txns (after env tr Xs_transaction_start) = Some (if t = 0 then ops else t # ops)"
  using assms by simp

lemma open_end:
  assumes "open_txns tr = Some (if t = 0 then ops else t # ops)"
  shows "open_txns (after env tr (Xs_transaction_end t abort)) = Some ops"
  using assms by simp

lemma closes_retry [closing]:
  assumes "\<And>u. closes u (body u)"
  shows "closes t (retry_transaction env fuel body)"
proof (induction fuel)
  case 0
  show ?case by (simp add: closes_return)
next
  case (Suc fuel)
  show ?case
  proof (rule closesI)
    fix tr ops y tr'
    assume o: "open_txns tr = Some ops" "t = 0 \<or> t \<in> set ops"
      and r: "run_state (retry_transaction env (Suc fuel) body) tr = (y, tr')"
    define u where "u = a_int (env tr Xs_transaction_start)"
    define tr1 where "tr1 = after env tr Xs_transaction_start"
    obtain x tr2 where 2: "run_state (body u) tr1 = (x, tr2)" by (meson surj_pair)
    have "open_txns tr1 = Some (if u = 0 then ops else u # ops)"
      unfolding tr1_def using open_start [of tr ops u env] o(1) u_def by blast
    then have "open_txns tr2 = Some (if u = 0 then ops else u # ops)"
      by (rule closesD [OF assms 2]) simp
    then have 3: "open_txns (after env tr2 (Xs_transaction_end u False)) = Some ops" by (rule open_end)
    from r 2 have "tr' = after env tr2 (Xs_transaction_end u False) \<or>
        run_state (retry_transaction env fuel body) (after env tr2 (Xs_transaction_end u False)) = (y, tr')"
      by (simp add: u_def [symmetric] tr1_def [symmetric] split: if_splits)
    with 3 closesD [OF Suc _ 3 o(2)] show "open_txns tr' = Some ops" by blast
  qed
qed

text \<open>Programs written out with a start and several ends: \<open>ends u t m\<close> says that \<open>m\<close> is run in the
  transaction \<open>u\<close> that has just been started and ends it.\<close>

definition ends :: "int \<Rightarrow> int \<Rightarrow> 'a prog \<Rightarrow> bool" where
  "ends u t m \<longleftrightarrow>
     (\<forall>tr ops. open_txns tr = Some (if u = 0 then ops else u # ops) \<longrightarrow> t = 0 \<or> t \<in> set ops \<longrightarrow>
        open_txns (snd (run_state m tr)) = Some ops)"

named_theorems ending

lemma endsI:
  "(\<And>tr ops x tr'. open_txns tr = Some (if u = 0 then ops else u # ops) \<Longrightarrow> t = 0 \<or> t \<in> set ops \<Longrightarrow>
     run_state m tr = (x, tr') \<Longrightarrow> open_txns tr' = Some ops) \<Longrightarrow> ends u t m"
  unfolding ends_def by (metis prod.collapse)

lemma endsD:
  "ends u t m \<Longrightarrow> run_state m tr = (x, tr') \<Longrightarrow> open_txns tr = Some (if u = 0 then ops else u # ops) \<Longrightarrow>
     t = 0 \<or> t \<in> set ops \<Longrightarrow> open_txns tr' = Some ops"
  unfolding ends_def by (metis snd_conv)

lemma closes_start:
  assumes "\<And>u. ends u t (f u)"
  shows "closes t (State_Monad.bind (int_of env Xs_transaction_start) f)"
proof (rule closesI)
  fix tr ops x tr'
  assume o: "open_txns tr = Some ops" "t = 0 \<or> t \<in> set ops"
    and r: "run_state (State_Monad.bind (int_of env Xs_transaction_start) f) tr = (x, tr')"
  define u where "u = a_int (env tr Xs_transaction_start)"
  from r have "run_state (f u) (after env tr Xs_transaction_start) = (x, tr')" by (simp add: u_def)
  moreover have "open_txns (after env tr Xs_transaction_start) = Some (if u = 0 then ops else u # ops)"
    using open_start [of tr ops u env] o(1) u_def by blast
  ultimately show "open_txns tr' = Some ops" using endsD [OF assms] o(2) by blast
qed

lemma ends_bind [ending]:
  assumes "closes u m" "\<And>x. ends u t (f x)"
  shows "ends u t (State_Monad.bind m f)"
proof (rule endsI)
  fix tr ops y tr'
  assume o: "open_txns tr = Some (if u = 0 then ops else u # ops)" "t = 0 \<or> t \<in> set ops"
    and r: "run_state (State_Monad.bind m f) tr = (y, tr')"
  obtain x tr1 where 1: "run_state m tr = (x, tr1)" by (meson surj_pair)
  with r have 2: "run_state (f x) tr1 = (y, tr')" by simp
  have "open_txns tr1 = Some (if u = 0 then ops else u # ops)" by (rule closesD [OF assms(1) 1 o(1)]) simp
  with endsD [OF assms(2) 2 _ o(2)] show "open_txns tr' = Some ops" by blast
qed

lemma ends_end:
  assumes "\<And>a. closes t (f a)"
  shows "ends u t (State_Monad.bind (ask env (Xs_transaction_end u abort)) f)"
proof (rule endsI)
  fix tr ops y tr'
  assume o: "open_txns tr = Some (if u = 0 then ops else u # ops)" "t = 0 \<or> t \<in> set ops"
    and r: "run_state (State_Monad.bind (ask env (Xs_transaction_end u abort)) f) tr = (y, tr')"
  from r have "run_state (f (env tr (Xs_transaction_end u abort))) (after env tr (Xs_transaction_end u abort)) = (y, tr')"
    by simp
  from closesD [OF assms this open_end [OF o(1)] o(2)] show "open_txns tr' = Some ops" .
qed

lemma ends_cases [ending]:
  "(b \<Longrightarrow> ends u t m) \<Longrightarrow> (\<not> b \<Longrightarrow> ends u t n) \<Longrightarrow> ends u t (if b then m else n)"
  "ends u t m \<Longrightarrow> (\<And>x. ends u t (f x)) \<Longrightarrow> ends u t (case z of None \<Rightarrow> m | Some x \<Rightarrow> f x)"
  "(\<And>x y. ends u t (k x y)) \<Longrightarrow> ends u t (case p of (x, y) \<Rightarrow> k x y)"
  by (cases z; cases p; simp)+

lemma ends_null: "u = 0 \<Longrightarrow> closes t m \<Longrightarrow> ends u t m"
  by (simp add: ends_def closes_def)

section \<open>The operations\<close>

text \<open>Proofs unfold an operation and compose.\<close>

lemma closes_add_side [closing]: "closes t (add_side env t path perms name other ents)"
  unfolding add_side_def by (intro closing; simp)

lemma closes_paths [closing]: "closes t (libxl__device_frontend_path env dev)" "closes t (libxl__device_backend_path env dev)"
  unfolding libxl__device_frontend_path_def libxl__device_backend_path_def by (intro closing; simp)+

lemma closes_generic_add [closing]: "closes t (libxl__device_generic_add env fuel valid dev bents fents)"
  unfolding libxl__device_generic_add_def by (intro closing; simp)

lemma closes_device_destroy [closing]: "closes t (libxl__device_destroy env fuel p force)"
  unfolding libxl__device_destroy_def by (intro closing; simp)

lemma closes_wait_for_dev_destroy [closing]: "closes t (wait_for_dev_destroy env)"
  unfolding wait_for_dev_destroy_def by (intro closing; simp)

lemma closes_wait_watches [closing]: "closes t (wait_watches env n)"
  by (induction n) (simp_all, (intro closing; simp)+)

lemma closes_destroy_kind [closing]: "closes t (destroy_kind env fuel force path devs n)"
  by (induction devs arbitrary: n) (simp_all, (intro closing; simp)+)

lemma closes_destroy_kinds [closing]: "closes t (destroy_kinds env fuel force did ks n)"
  by (induction ks arbitrary: n) (auto intro!: closing)

lemma closes_devices_destroy [closing]: "closes t (libxl__devices_destroy env fuel did force)"
  unfolding libxl__devices_destroy_def by (intro closing; simp)

lemma closes_device_del [closing]: "closes t (libxl__device_del env fuel dev wait)"
  unfolding libxl__device_del_def by (intro closing; simp)

lemma closes_validate [closing]: "closes t (validate_virtual_disk env disk)"
  unfolding validate_virtual_disk_def by (intro closing; simp)

lemma closes_backend_entries [closing]: "closes t (backend_entries env junk disk)"
  unfolding backend_entries_def qdisk_entries_def blktap_enabled_def blktap_devpath_def physical_device_def
    libxl__device_physdisk_major_minor_def Let_def
  by (cases "disk_backend disk") (simp_all, (intro closing; simp)+)

lemma closes_disk_add [closing]: "closes t (libxl_device_disk_add env fuel valid junk did disk)"
  unfolding libxl_device_disk_add_def flexarray_make_def by (intro closing; simp)

lemma closes_disk_del [closing]: "closes t (libxl_device_disk_del env fuel disk wait)"
  unfolding libxl_device_disk_del_def by (intro closing; simp)

lemma closes_disk_list [closing]: "closes t (libxl_device_disk_list env fmt did)"
proof -
  have "closes t (disks_of_entries env fmt did p ds)" for p ds
    unfolding atomize_eq [symmetric]
    by (induction ds) (auto simp: disk_of_entry_def intro!: closing)
  then show ?thesis unfolding libxl_device_disk_list_def libxl_append_disk_list_of_type_def
    by (intro closing; simp)
qed

lemma closes_cdrom_insert [closing]: "closes t (libxl_cdrom_insert env fuel valid junk fmt did disk)"
  unfolding libxl_cdrom_insert_def by (intro closing; simp)

lemma closes_info [closing]: "closes t (libxl_domain_info env k did)" "closes t (getinfolist env d n)"
  "closes t (libxl_get_physinfo env)" "closes t (is_hvm env did)" "closes t (cpupool_getinfo env pool)"
  "closes t (cpumap_alloc env)"
  unfolding libxl_domain_info_def getinfolist_def libxl_get_physinfo_def is_hvm_def cpupool_getinfo_def cpumap_alloc_def
  by (intro closing; simp)+

lemma closes_domain_destroy [closing]: "closes t (libxl_domain_destroy env k fuel did force)"
  unfolding libxl_domain_destroy_def by (intro closing; simp)

lemma closes_rename_in [closing]: "closes t (rename_in env t did p old new)"
  unfolding rename_in_def by (intro closing; simp)

lemma closes_rename: "closes t (libxl_domain_rename env fuel did old new 0)"
proof -
  have "closes t (rename_loop env fuel did p old new 0)" for p
  proof (induction fuel)
    case (Suc fuel)
    then have "closes t (if a_int a \<noteq> 0 then return (Inr 0) else if a_errno a \<noteq> EAGAIN then return (Inr ERROR_FAIL)
        else rename_loop env fuel did p old new 0)" for a by (intro closing)
    then have "ends u t (if rc \<noteq> 0 then do {_ \<leftarrow> ask env (Xs_transaction_end u True); return (Inr rc)}
        else do {
          a \<leftarrow> ask env (Xs_transaction_end u False);
          if a_int a \<noteq> 0 then return (Inr 0) else if a_errno a \<noteq> EAGAIN then return (Inr ERROR_FAIL)
          else rename_loop env fuel did p old new 0})" for u rc
      by (intro ends_cases ends_end closes_return)
    from ends_bind [OF closes_rename_in this] show ?case
      unfolding rename_loop.simps by (auto intro!: closes_start ends_cases(1) intro: ends_null closes_return)
  qed (simp add: closes_return)
  then show ?thesis unfolding libxl_domain_rename_def by (intro closing; simp)
qed

lemma closes_write_online [closing]: "closes t (write_online env t p test is)"
  by (induction "is") (auto intro!: closing)

lemma closes_set_vcpuonline: "closes t (libxl_set_vcpuonline env fuel k ops did cpumap)"
  unfolding libxl_set_vcpuonline_def by (intro closing; simp)

lemma closes_fill_dom0_in [closing]: "closes t (fill_dom0_in env k t out)"
  unfolding fill_dom0_in_def by (intro closing; simp)

lemma closes_fill_dom0 [closing]: "closes t (libxl__fill_dom0_memory_info env fuel k out)"
proof (induction fuel arbitrary: out)
  case (Suc fuel)
  then show ?case by (auto intro!: closes_start ending ends_end closing)
qed (simp add: closes_return)

lemma closes_free_memory: "closes t (libxl_get_free_memory env fuel k junk out)"
proof -
  have "closes t (libxl__get_free_memory_slack env fuel k junk out)" for junk out
    by (induction fuel arbitrary: junk) (auto intro!: closing split: option.split)
  then show ?thesis unfolding libxl_get_free_memory_def by (intro closing; simp)
qed

lemma closes_each_cpu [closing]: "(\<And>i. plain t (call i)) \<Longrightarrow> closes t (each_cpu env call test is)"
  by (induction "is") (auto intro!: closing)

lemma closes_destroy_cpupool [closing]: "closes t (libxl_destroy_cpupool env fuel ops pool)"
  unfolding libxl_destroy_cpupool_def by (intro closing; simp)

lemma closes_create_cpupool: "closes t (libxl_create_cpupool env fuel ops name schedid cpumap uuid pool)"
  unfolding libxl_create_cpupool_def by (intro closing; simp)

lemma closes_cpupool_rename: "closes t (libxl_cpupool_rename env fuel name pool)"
  unfolding libxl_cpupool_rename_def by (intro closing; simp)

text \<open>C30. Whatever the environment answers, and however often commits fail, these operations end
  every transaction they start and use none that is not open: run with the transactions
  \<open>ops\<close> open, they return, or give up retrying, with exactly \<open>ops\<close> open.\<close>

theorem transactions_closed:
  "closes 0 (libxl__device_generic_add env fuel valid dev bents fents) \<and>
   closes 0 (libxl__device_destroy env fuel be_path force) \<and>
   closes 0 (libxl__devices_destroy env fuel did force) \<and>
   closes 0 (libxl__device_del env fuel dev wait) \<and>
   closes 0 (libxl_device_disk_add env fuel valid junk did disk) \<and>
   closes 0 (libxl_device_disk_del env fuel disk wait) \<and>
   closes 0 (libxl_cdrom_insert env fuel valid junk fmt did disk) \<and>
   closes 0 (libxl_domain_rename env fuel did old new 0) \<and>
   closes 0 (libxl_domain_destroy env k fuel did force) \<and>
   closes 0 (libxl_set_vcpuonline env fuel k cops did cpumap) \<and>
   closes 0 (libxl__fill_dom0_memory_info env fuel k out) \<and>
   closes 0 (libxl_get_free_memory env fuel k out out') \<and>
   closes 0 (libxl_create_cpupool env fuel cops name schedid cpumap uuid pool) \<and>
   closes 0 (libxl_destroy_cpupool env fuel cops pool) \<and>
   closes 0 (libxl_cpupool_rename env fuel name pool)"
  by (intro conjI closing closes_rename closes_set_vcpuonline closes_free_memory closes_create_cpupool
      closes_cpupool_rename)

text \<open>C31. Two operations that do not: moving a domain to a pool leaves its transaction open when
  the domain has no machine path, and setting the target of the control domain ends a
  transaction twice when its memory entries are missing and cannot be filled in.\<close>

theorem transactions_slip:
  assumes "t \<noteq> 0" "\<forall>tr. a_int (env tr Xs_transaction_start) = t"
    and "\<forall>tr u p. a_str (env tr (Xs_read u p)) = None" "\<forall>tr d. a_str (env tr (Xs_get_domain_path d)) \<noteq> None"
    and "\<forall>tr args. a_int (env tr (Xc ''xc_cpupool_movedomain'' args)) = 0"
    and "\<forall>tr args. a_int (env tr (Xc ''xc_domain_getinfolist'' args)) < 0"
    and "\<forall>tr. a_int (env tr (Xs_transaction_end t False)) \<noteq> 0"
    and "open_txns tr = Some ops" "t \<notin> set ops"
  shows "open_txns (snd (run_state (libxl_cpupool_movedomain env (Suc fuel) pool did) tr)) = Some (t # ops) \<and>
    open_txns (snd (run_state (libxl_set_memory_target env (Suc (Suc fuel)) c k 0 target_kb relative enforce) tr)) = None"
proof
  obtain path where "a_str (env tr (Xs_get_domain_path did)) = Some path" using assms(4) by blast
  then show "open_txns (snd (run_state (libxl_cpupool_movedomain env (Suc fuel) pool did) tr)) = Some (t # ops)"
    using assms by (simp add: libxl_cpupool_movedomain_def)
  show "open_txns (snd (run_state (libxl_set_memory_target env (Suc (Suc fuel)) c k 0 target_kb relative enforce) tr)) = None"
    using assms by (simp add: libxl_set_memory_target_def fill_dom0_in_def libxl_domain_info_def getinfolist_def)
qed

lemma transactions_slip_witness:
  "\<forall>c k. let env = (\<lambda>tr c.
       \<lparr>a_int = (case c of Xs_transaction_start \<Rightarrow> 7 | Xs_transaction_end t abort \<Rightarrow> 1
                 | Xc f args \<Rightarrow> if f = ''xc_domain_getinfolist'' then -1 else 0 | _ \<Rightarrow> 0),
        a_errno = 0, a_str = (case c of Xs_get_domain_path d \<Rightarrow> Some [] | _ \<Rightarrow> None), a_list = None,
        a_out = [], a_doms = []\<rparr>) in
     open_txns (snd (run_state (libxl_cpupool_movedomain env 1 0 5) [])) = Some [7] \<and>
     open_txns (snd (run_state (libxl_set_memory_target env 2 c k 0 1024 False False) [])) = None"
proof (intro allI)
  fix c k
  let ?env = "\<lambda>tr c.
       \<lparr>a_int = (case c of Xs_transaction_start \<Rightarrow> 7 | Xs_transaction_end t abort \<Rightarrow> 1
                 | Xc f args \<Rightarrow> if f = ''xc_domain_getinfolist'' then -1 else 0 | _ \<Rightarrow> 0),
        a_errno = 0, a_str = (case c of Xs_get_domain_path d \<Rightarrow> Some [] | _ \<Rightarrow> None), a_list = None,
        a_out = [], a_doms = []\<rparr>"
  show "let env = ?env in
     open_txns (snd (run_state (libxl_cpupool_movedomain env 1 0 5) [])) = Some [7] \<and>
     open_txns (snd (run_state (libxl_set_memory_target env 2 c k 0 1024 False False) [])) = None"
    using transactions_slip [of 7 ?env "[]" "[]" 0 0 5 c k 1024 False False]
    by (simp add: open_txns_def numeral_2_eq_2)
qed

end
