(* ===== verification/Libxl_Waits.thy ===== *)
theory Libxl_Waits
  imports Domain_Store
begin

text \<open>
  The loops that wait for a backend and for memory, and the request a domain is shut down
  with: how long they go on, what ends them and what they then say.
\<close>

section \<open>Waiting for a backend\<close>

text \<open>What the reads of a stretch of history answered.\<close>

fun reads :: "history \<Rightarrow> string option list" where
  "reads [] = []"
| "reads ((c, a) # tr) = (case c of Xs_read t p \<Rightarrow> a_str a # reads tr | _ \<Rightarrow> reads tr)"

lemma reads_append: "reads (tr @ tr') = reads tr @ reads tr'"
  by (induction tr rule: reads.induct) (auto split: xcall.split)

text \<open>How a poll with at most \<open>n\<close> reads that saw \<open>vs\<close> ends.\<close>

definition polled :: "nat \<Rightarrow> string \<Rightarrow> string option list \<Rightarrow> int \<Rightarrow> bool" where
  "polled n state vs r \<longleftrightarrow>
     (\<exists>before. None \<notin> set before \<and> Some state \<notin> set before \<and>
        (r = 0 \<and> vs = before @ [Some state] \<and> length vs \<le> n \<or>
         r = -1 \<and> vs = before @ [None] \<and> length vs \<le> n \<or>
         r = -1 \<and> vs = before \<and> length vs = n))"

lemma polled_Suc:
  assumes "polled n state vs r" "v \<noteq> state"
  shows "polled (Suc n) state (Some v # vs) r"
proof -
  from assms(1) obtain before where b: "None \<notin> set before" "Some state \<notin> set before"
    and c: "r = 0 \<and> vs = before @ [Some state] \<and> length vs \<le> n \<or>
         r = -1 \<and> vs = before @ [None] \<and> length vs \<le> n \<or> r = -1 \<and> vs = before \<and> length vs = n"
    unfolding polled_def by blast
  show ?thesis unfolding polled_def
    by (rule exI [of _ "Some v # before"]) (use b c assms(2) in auto)
qed

lemma backend_loop_polled:
  "\<exists>new. snd (run_state (backend_loop env n path state) tr) = tr @ new \<and>
     polled n state (reads new) (fst (run_state (backend_loop env n path state) tr))"
proof (induction n arbitrary: tr)
  case 0
  show ?case by (simp add: polled_def)
next
  case (Suc n)
  let ?c = "Xs_read 0 path"
  show ?case
  proof (cases "a_str (env tr ?c)")
    case None
    then show ?thesis by (auto simp: polled_def after_def intro!: exI [of _ "[]"])
  next
    case (Some v)
    show ?thesis
    proof (cases "v = state")
      case True
      with Some show ?thesis by (auto simp: polled_def after_def intro!: exI [of _ "[]"])
    next
      case False
      define tr1 where "tr1 = after env (after env tr ?c) (Usleep 100000)"
      from Suc obtain new where n: "snd (run_state (backend_loop env n path state) tr1) = tr1 @ new"
        "polled n state (reads new) (fst (run_state (backend_loop env n path state) tr1))" by blast
      have "run_state (backend_loop env (Suc n) path state) tr = run_state (backend_loop env n path state) tr1"
        using Some False by (simp add: tr1_def)
      moreover have "tr1 = tr @ [(?c, env tr ?c), (Usleep 100000, env (after env tr ?c) (Usleep 100000))]"
        by (simp add: tr1_def after_def)
      ultimately show ?thesis using n polled_Suc [OF n(2) False] Some by simp
    qed
  qed
qed

text \<open>C35. The wait for a backend: \<open>libxl__wait_for_backend\<close> returns after at most 100 reads of the
  state; it returns 0 exactly when the last of them saw the state it waits for, and -1 when
  the last found no entry or all 100 saw other states.  The reads before saw other states.\<close>

theorem wait_for_backend_polls:
  "\<exists>new. snd (run_state (libxl__wait_for_backend env be_path state) tr) = tr @ new \<and>
     polled 100 state (reads new) (fst (run_state (libxl__wait_for_backend env be_path state) tr))"
  unfolding libxl__wait_for_backend_def by (rule backend_loop_polled)

section \<open>Free memory\<close>

lemma unat_ucast64: "unat (ucast w :: u64) = unat (w :: u32)" "unat (w :: u32) < 2 ^ 32"
proof -
  have "unat w < 2 ^ LENGTH(32)" by (rule unsigned_less)
  then show "unat w < 2 ^ 32" by simp
  then show "unat (ucast w :: u64) = unat w" by (simp add: unsigned_ucast_eq take_bit_nat_eq_self)
qed

lemma enough_free_iff:
  assumes "unat (free_pages info) < 2 ^ 61"
  shows "enough_free info slack kb \<longleftrightarrow>
    4 * unat (free_pages info) < unat slack \<or> unat kb + unat slack \<le> 4 * unat (free_pages info)"
proof -
  have f: "unat (free_pages info * 4) = 4 * unat (free_pages info)"
    using assms by (simp add: unat_word_ariths)
  note s = unat_ucast64 [of slack] unat_ucast64 [of kb]
  show ?thesis
  proof (cases "4 * unat (free_pages info) < unat slack")
    case True
    then have "unat (free_pages info * 4 - ucast slack) = 2 ^ 64 - unat slack + 4 * unat (free_pages info)"
      using f s by (simp add: unat_sub_if')
    then show ?thesis using True s by (simp add: enough_free_def word_le_nat_alt)
  next
    case False
    then have "unat (free_pages info * 4 - ucast slack) = 4 * unat (free_pages info) - unat slack"
      using f s by (simp add: unat_sub_if')
    then show ?thesis using False s by (auto simp: enough_free_def word_le_nat_alt)
  qed
qed

lemma beyond_slack:
  assumes "unat (w :: u64) < 2 ^ 32"
  shows "(if ucast slack < w then ucast (w - ucast slack) else 0 :: u32) = of_nat (unat w - unat (slack :: u32))"
proof (cases "unat slack < unat w")
  case True
  then have "unat (w - ucast slack) = unat w - unat slack"
    by (simp add: unat_sub_if' unat_ucast64)
  then have "unat (ucast (w - ucast slack) :: u32) = unat w - unat slack"
    using assms by (simp add: unsigned_ucast_eq take_bit_nat_eq_self)
  then have "ucast (w - ucast slack) = (of_nat (unat w - unat slack) :: u32)"
    using assms by (simp add: word_unat_eq_iff unsigned_of_nat take_bit_nat_eq_self)
  with True show ?thesis by (simp add: word_less_nat_alt unat_ucast64)
next
  case False
  then show ?thesis by (simp add: word_less_nat_alt unat_ucast64)
qed

lemma run_physinfo: "snd (run_state (libxl_get_physinfo env) tr) = after env tr (Xc ''xc_physinfo'' [])"
  by (simp add: libxl_get_physinfo_def)

lemma free_memory_loop_constant:
  assumes "\<forall>tr. fst (run_state (libxl_get_physinfo env) tr) = (0, Some info)"
  shows "fst (run_state (free_memory_loop env slack kb n) tr) =
    (if 0 < n \<and> enough_free info slack kb then 0 else ERROR_NOMEM)"
proof (induction n arbitrary: tr)
  case (Suc n)
  have "run_state (libxl_get_physinfo env) tr = ((0, Some info), after env tr (Xc ''xc_physinfo'' []))"
    using assms run_physinfo [of env tr] by (metis prod.collapse)
  with Suc show ?case by simp
qed simp

lemma slack_read:
  assumes "\<forall>tr. a_str (env tr (Xs_read 0 free_mem_slack_path)) = Some s" "strtoul_kb s = (slack, [])"
  shows "run_state (libxl__get_free_memory_slack env (Suc fuel) k junk out) tr =
    (Inr (0, slack), after env tr (Xs_read 0 free_mem_slack_path))"
  using assms by simp

text \<open>C34. On a host whose memory does not change, \<open>libxl_get_free_memory\<close> gives the free and the
  scrubbed memory beyond the slack, and 0 when there is less than the slack; but
  \<open>libxl_wait_for_free_memory\<close> reports success both when the free memory covers the request
  and the slack, and when it does not even cover the slack, because the difference it compares
  is unsigned.\<close>

theorem free_memory_tests:
  assumes "\<forall>tr. fst (run_state (libxl_get_physinfo env) tr) = (0, Some info)"
    and "\<forall>tr. a_str (env tr (Xs_read 0 free_mem_slack_path)) = Some s" "strtoul_kb s = (slack, [])"
    and "unat (free_pages info) + unat (scrub_pages info) < 2 ^ 30" "0 < secs"
  shows "fst (run_state (libxl_get_free_memory env (Suc fuel) k junk out) tr) =
      Inr (0, of_nat (4 * (unat (free_pages info) + unat (scrub_pages info)) - unat slack)) \<and>
    fst (run_state (libxl_wait_for_free_memory env (Suc fuel) k junk kb secs) tr) =
      Inr (if 4 * unat (free_pages info) < unat slack \<or> unat kb + unat slack \<le> 4 * unat (free_pages info)
           then 0 else ERROR_NOMEM)"
proof
  let ?n = "4 * (unat (free_pages info) + unat (scrub_pages info))"
  let ?kb = "(free_pages info + scrub_pages info) * 4"
  have f: "unat ?kb = ?n" using assms(4) by (simp add: unat_word_ariths)
  have p: "run_state (libxl_get_physinfo env) tr = ((0, Some info), after env tr (Xc ''xc_physinfo'' []))"
    using assms(1) run_physinfo [of env tr] by (metis prod.collapse)
  have "unat ?kb < 2 ^ 32" using f assms(4) by simp
  from beyond_slack [OF this, of slack]
  have "(if ucast slack < ?kb then ucast (?kb - ucast slack) else 0 :: u32) = of_nat (?n - unat slack)"
    by (simp only: f)
  with p show "fst (run_state (libxl_get_free_memory env (Suc fuel) k junk out) tr) = Inr (0, of_nat (?n - unat slack))"
    by (simp add: libxl_get_free_memory_def slack_read [where env = env, OF assms(2,3)] Let_def
        del: libxl__get_free_memory_slack.simps distrib_right_numeral distrib_left_numeral)
  have "unat (free_pages info) < 2 ^ 61" using assms(4) by simp
  from enough_free_iff [OF this]
  show "fst (run_state (libxl_wait_for_free_memory env (Suc fuel) k junk kb secs) tr) =
      Inr (if 4 * unat (free_pages info) < unat slack \<or> unat kb + unat slack \<le> 4 * unat (free_pages info)
           then 0 else ERROR_NOMEM)"
    using assms(5) free_memory_loop_constant [OF assms(1)]
    by (simp add: libxl_wait_for_free_memory_def slack_read [where env = env, OF assms(2,3)] split_beta
        del: libxl__get_free_memory_slack.simps)
qed

lemma free_memory_tests_witness:
  "\<forall>k. let a = \<lparr>a_int = 0, a_errno = 0, a_str = Some (decimal 4096), a_list = None,
                a_out = [1, 1, 1, 1, 1, 1000, 10, 0, 1, 0], a_doms = []\<rparr>;
        env = (\<lambda>_ _. a) in
     fst (run_state (libxl_get_free_memory env 1 k 0 0) []) = Inr (0, 0) \<and>
     fst (run_state (libxl_wait_for_free_memory env 1 k 0 100000 10) []) = Inr 0"
proof
  fix k
  define a where "a = \<lparr>a_int = 0, a_errno = 0, a_str = Some (decimal 4096), a_list = None,
                a_out = [1, 1, 1, 1, 1, 1000, 10, 0, 1, 0], a_doms = []\<rparr>"
  define info where "info = \<lparr>threads_per_core = 1, cores_per_socket = 1, max_cpu_id = 1, nr_cpus = 1,
    cpu_khz = 1, total_pages = 1000, free_pages = 10, scrub_pages = 0, nr_nodes = 1, hw_cap = [], phys_cap = 0\<rparr>"
  have "\<forall>tr. fst (run_state (libxl_get_physinfo (\<lambda>_ _. a)) tr) = (0, Some info)"
    by (simp add: libxl_get_physinfo_def a_def info_def Let_def)
  moreover have "strtoul_kb (decimal 4096) = (4096, [])"
    using strtoull10_decimal [of "[]" 4096] by (simp add: strtoul_kb_def)
  ultimately show "let a = \<lparr>a_int = 0, a_errno = 0, a_str = Some (decimal 4096), a_list = None,
                a_out = [1, 1, 1, 1, 1, 1000, 10, 0, 1, 0], a_doms = []\<rparr>;
        env = (\<lambda>_ _. a) in
     fst (run_state (libxl_get_free_memory env 1 k 0 0) []) = Inr (0, 0) \<and>
     fst (run_state (libxl_wait_for_free_memory env 1 k 0 100000 10) []) = Inr 0"
    using free_memory_tests [of "\<lambda>_ _. a" info "decimal 4096" 4096 10 0 k 0 0 "[]" 100000]
    unfolding a_def [symmetric] Let_def by (simp add: a_def info_def)
qed

section \<open>Shutting down\<close>

text \<open>What the hypervisor says of a domain: whether it is fully virtualized, and whether it has then set up
  the interrupt by which drivers of the guest are called.\<close>

definition hvm_and_drivers :: "env \<Rightarrow> int \<Rightarrow> u32 \<Rightarrow> bool \<Rightarrow> bool \<Rightarrow> bool" where
  "hvm_and_drivers env irq did hvm drivers \<longleftrightarrow>
     (\<forall>tr. (a_int (env tr (Other ''libxl__domain_is_hvm'' [uint did] [])) \<noteq> 0) = hvm \<and>
        (\<not> a_int (env tr (Xc ''xc_get_hvm_param'' [uint did, irq])) < 0 \<and>
           a_out (env tr (Xc ''xc_get_hvm_param'' [uint did, irq])) ! 0 \<noteq> 0) = drivers)"

context xenstore
begin

lemma shutdown_view:
  assumes h: "hvm_and_drivers env irq did hvm drivers"
    and "run_state (libxl_domain_shutdown env irq did req) tr = (r, tr')"
  shows "if 5 < unat req then view tr' 0 = view tr 0 \<and> r = Inr ERROR_INVAL
     else if hvm \<and> \<not> drivers then view tr' 0 = view tr 0 \<and> r = Inr ERROR_FAIL
     else if req = 5 then view tr' 0 = view tr 0 \<and> r = Inl Out_of_bounds
     else r = Inr 0 \<and> view tr' 0 = tree_write (domain_path did @ ''/control/shutdown'') (req_table ! unat req) (view tr 0)"
proof -
  define n where "n = unat (sext64 req)"
  have l: "length req_table = 5" by (simp add: req_table_def)
  have "unat req = n \<and> unat req < 2 ^ 31 \<or> 2 ^ 31 \<le> n \<and> \<not> unat req < 2 ^ 31"
    using unat_sext64 [of req] unat_sext64_negative [of req] by (cases "unat req < 2 ^ 31") (simp_all add: n_def)
  then have n: "n = unat req \<or> 5 < n \<and> 5 < unat req" by auto
  have 5: "req = 5 \<longleftrightarrow> unat req = 5" by (simp add: word_unat_eq_iff)
  have q: "a_int (env tr (Other ''libxl__domain_is_hvm'' [uint did] [])) \<noteq> 0 \<longleftrightarrow> hvm"
    "\<not> a_int (env tr (Xc ''xc_get_hvm_param'' [uint did, irq])) < 0 \<and>
       a_out (env tr (Xc ''xc_get_hvm_param'' [uint did, irq])) ! 0 \<noteq> 0 \<longleftrightarrow> drivers" for tr
    using h unfolding hvm_and_drivers_def by blast+
  note defs = libxl_domain_shutdown_def n_def [symmetric] l is_hvm_def
  consider "unat req < 5" "n = unat req" | "unat req = 5" "n = 5" | "5 < unat req" "5 < n" using n by linarith
  then show ?thesis
  proof cases
    case 1
    then show ?thesis using assms(2) by (cases hvm; cases drivers) (simp_all add: defs 5 q, auto)
  next
    case 2
    then show ?thesis using assms(2) by (cases hvm; cases drivers) (simp_all add: defs 5 q, auto)
  next
    case 3
    then show ?thesis using assms(2) by (auto simp: defs)
  qed
qed

end

text \<open>C36. Asking a domain to shut down.  A negative request or one above 5 is refused.  For a fully
  virtualized domain without drivers of its own every other request fails, too.  Otherwise a request from 0
  to 4 leaves its word in the domain's control directory, in the order poweroff, reboot, suspend, crash,
  halt, and 5 passes the check and reads one word past the table.\<close>

theorem domain_shutdown_requests:
  assumes "hvm_and_drivers others irq did hvm drivers"
    and "run_state (libxl_domain_shutdown (store_env others s0) irq did req) tr = (r, tr')"
  shows "if 5 < unat req then committed s0 tr' = committed s0 tr \<and> r = Inr ERROR_INVAL
     else if hvm \<and> \<not> drivers then committed s0 tr' = committed s0 tr \<and> r = Inr ERROR_FAIL
     else if req = 5 then committed s0 tr' = committed s0 tr \<and> r = Inl Out_of_bounds
     else r = Inr 0 \<and> committed s0 tr' =
       tree_write (domain_path did @ ''/control/shutdown'')
         ([''poweroff'', ''reboot'', ''suspend'', ''crash'', ''halt''] ! unat req) (committed s0 tr)"
proof -
  have "hvm_and_drivers (store_env others s0) irq did hvm drivers"
    using assms(1) by (simp add: hvm_and_drivers_def store_env_def)
  from store.shutdown_view [OF this assms(2)] show ?thesis
    by (simp only: committed_view req_table_def)
qed

lemma domain_shutdown_requests_witness:
  "fst (run_state (libxl_domain_shutdown (store_env (\<lambda>_ _. ans 0) []) 0 5 1) []) = Inr 0 \<and>
   fst (run_state (libxl_domain_shutdown (store_env (\<lambda>_ _. ans 0) []) 0 5 5) []) = Inl Out_of_bounds \<and>
   fst (run_state (libxl_domain_shutdown (store_env (\<lambda>_ _. (ans 1)\<lparr>a_out := [0]\<rparr>) []) 0 5 1) []) = Inr ERROR_FAIL"
  using domain_shutdown_requests [OF _ prod.collapse [symmetric], where others = "\<lambda>_ _. ans 0" and irq = "0" and did = "5"
      and hvm = False and drivers = "a_out (ans 0) ! 0 \<noteq> 0" and ?s0.0 = "[]" and req = "1" and tr = "[]"]
    domain_shutdown_requests [OF _ prod.collapse [symmetric], where others = "\<lambda>_ _. ans 0" and irq = "0" and did = "5"
      and hvm = False and drivers = "a_out (ans 0) ! 0 \<noteq> 0" and ?s0.0 = "[]" and req = "5" and tr = "[]"]
    domain_shutdown_requests [OF _ prod.collapse [symmetric], where others = "\<lambda>_ _. (ans 1)\<lparr>a_out := [0]\<rparr>" and irq = "0" and did = "5"
      and hvm = True and drivers = False and ?s0.0 = "[]" and req = "1" and tr = "[]"]
  by (simp add: ans_def hvm_and_drivers_def)

end
