(* ===== verification/Libxl_Devices.thy ===== *)
theory Libxl_Devices
  imports Libxl_Domain
begin

text \<open>
  The other devices of \<open>libxl.c\<close>: network interfaces of both kinds, consoles, keyboards and
  framebuffers are written to the store and network interfaces are listed from it; and what
  a guest's ejection of a medium says of the disk.
\<close>

section \<open>Printing and reading addresses\<close>

definition hex2 :: "u8 \<Rightarrow> string" where
  "hex2 b = [hexdigit (unat b div 16), hexdigit (unat b mod 16)]"

text \<open>\<open>%02x:%02x:%02x:%02x:%02x:%02x\<close> of the six bytes of an address.\<close>

fun print_mac :: "u8 list \<Rightarrow> string" where
  "print_mac [] = []"
| "print_mac [b] = hex2 b"
| "print_mac (b # bs) = hex2 b @ '':'' @ print_mac bs"

lemma tokens_shorter:
  assumes "t = dropWhile (\<lambda>x. x = c) s" "t \<noteq> []"
  shows "length (dropWhile (\<lambda>x. x \<noteq> c) t) < length s"
proof -
  have "hd t \<noteq> c" using assms hd_dropWhile [of "\<lambda>x. x = c" s] by auto
  then have "dropWhile (\<lambda>x. x \<noteq> c) t = dropWhile (\<lambda>x. x \<noteq> c) (tl t)" using assms(2) by (cases t) auto
  then have "length (dropWhile (\<lambda>x. x \<noteq> c) t) \<le> length (tl t)" by (simp only: length_dropWhile_le)
  also have "\<dots> < length t" using assms(2) by (cases t) auto
  also have "\<dots> \<le> length s" unfolding assms(1) by (rule length_dropWhile_le)
  finally show ?thesis .
qed

text \<open>The tokens that calls of \<open>strtok\<close> with the one separator \<open>c\<close> return.\<close>

function tokens :: "char \<Rightarrow> string \<Rightarrow> string list" where
  "tokens c s =
     (let t = dropWhile (\<lambda>x. x = c) s in
      if t = [] then [] else takeWhile (\<lambda>x. x \<noteq> c) t # tokens c (dropWhile (\<lambda>x. x \<noteq> c) t))"
  by pat_completeness auto

termination
  by (relation "measure (\<lambda>(c, s). length s)") (auto simp: tokens_shorter)

declare tokens.simps [simp del]

text \<open>A word at the start of a string is its first token, and a separator there is skipped.\<close>

lemma tokens_word:
  assumes "c \<notin> set t" "t \<noteq> []" "rest = [] \<or> hd rest = c"
  shows "tokens c (t @ rest) = t # tokens c rest"
proof -
  obtain x xs where t: "t = x # xs" "x \<noteq> c" using assms(1,2) by (cases t) auto
  then have "dropWhile (\<lambda>y. y = c) (t @ rest) = t @ rest" by simp
  moreover have "takeWhile (\<lambda>y. y \<noteq> c) (t @ rest) = t" "dropWhile (\<lambda>y. y \<noteq> c) (t @ rest) = rest"
    using assms(1,3) by (cases rest; auto simp: takeWhile_append dropWhile_append)+
  ultimately show ?thesis using tokens.simps [of c "t @ rest"] assms(2) by (simp add: Let_def)
qed

lemma tokens_sep: "tokens c (c # rest) = tokens c rest"
  using tokens.simps [of c "c # rest"] tokens.simps [of c rest] by simp

text \<open>\<open>strtoul\<close> with base 16: the prefix \<open>0x\<close> may stand before the digits.\<close>

definition strtoul16 :: "string \<Rightarrow> u64" where
  "strtoul16 s =
     (let (neg, cs) = read_sign (dropWhile isspace s);
          ds = (if 2 < length cs \<and> cs ! 0 = CHR ''0'' \<and> cs ! 1 \<in> {CHR ''x'', CHR ''X''} \<and>
                   digit_in 16 (cs ! 2) \<noteq> None
                then drop 2 cs else cs);
          n = fst (read_base 16 0 ds) in
      if 2 ^ 64 \<le> n then - 1 else if neg then - of_nat n else of_nat n)"

text \<open>An address of six bytes, zeros to begin with: at most six tokens are read.\<close>

definition parse_mac :: "string \<Rightarrow> u8 list" where
  "parse_mac s =
     (let bs = map (\<lambda>t. ucast (strtoul16 t)) (take 6 (tokens (CHR '':'') s)) in
      bs @ replicate (6 - length bs) 0)"

text \<open>\<open>strtok\<close> of NULL goes on in the string of an earlier call, which may not be there.\<close>

definition mac_of :: "string option \<Rightarrow> fault + u8 list" where
  "mac_of val = (case val of None \<Rightarrow> Inl Null_pointer | Some s \<Rightarrow> Inr (parse_mac s))"

definition signed_or_minus1 :: "string option \<Rightarrow> c_int" where
  "signed_or_minus1 val = (case val of None \<Rightarrow> -1 | Some s \<Rightarrow> atoi s)"

section \<open>Adding a device\<close>

text \<open>Every addition makes two flexible arrays first and ends with the transaction, whose
  result is not looked at.  When the second array cannot be made, the null pointer for it is freed with the
  first array, through its members.\<close>

definition with_flexarrays :: "env \<Rightarrow> 'a \<Rightarrow> (fault + 'a) prog \<Rightarrow> (fault + 'a) prog" where
  "with_flexarrays env nomem m =
     do {
       front \<leftarrow> flexarray_make env;
       if \<not> front then return (Inr nomem)
       else do {back \<leftarrow> flexarray_make env; if \<not> back then return (Inl Null_pointer) else m}
     }"

definition same_device :: "libxl_device_kind \<Rightarrow> c_int \<Rightarrow> u32 \<Rightarrow> u32 \<Rightarrow> libxl__device" where
  "same_device k dev be fe =
     \<lparr>backend_devid = sint dev, backend_domid = be, backend_kind = k, devid = sint dev, domid = fe, kind = k\<rparr>"

text \<open>The number after the one of the last device listed; the directory of an empty list has
  no last entry.\<close>

definition next_devid :: "env \<Rightarrow> string \<Rightarrow> string \<Rightarrow> (fault + c_int) prog" where
  "next_devid env dompath k =
     do {
       a \<leftarrow> ask env (Xs_directory XBT_NULL (dompath @ ''/device/'' @ k));
       return
         (case a_list a of
            None \<Rightarrow> Inr 0
          | Some l \<Rightarrow> if l = [] then Inl Out_of_bounds else Inr (to_int (fst (strtoull10 (last l)) + 1)))
     }"

section \<open>Network interfaces\<close>

datatype libxl_nic_type = NICTYPE_UNSET | NICTYPE_IOEMU | NICTYPE_VIF

record libxl_device_nic =
  nic_backend_domid :: u32
  nic_domid :: u32
  nic_devid :: c_int
  nic_mtu :: c_int
  nic_model :: "string option"
  nic_mac :: "u8 list"
  nic_ip :: "string option"
  nic_bridge :: "string option"
  nic_ifname :: "string option"
  nic_script :: "string option"
  nic_nictype :: libxl_nic_type

text \<open>The address of a new interface begins with Xen's prefix; the rest comes from the bytes
  of a fresh identifier.\<close>

definition fresh_mac :: "int list \<Rightarrow> nat \<Rightarrow> u8 list" where
  "fresh_mac r i =
     [0x00, 0x16, 0x3e, word_of_int (r ! i) AND 0x7f, word_of_int (r ! (i + 1)), word_of_int (r ! (i + 2))]"

definition libxl_device_nic_init :: "env \<Rightarrow> c_int \<Rightarrow> (int \<times> libxl_device_nic) prog" where
  "libxl_device_nic_init env devnum =
     do {
       u \<leftarrow> ask env (Other ''libxl_uuid_generate'' [] []);
       dir \<leftarrow> str_of env (Other ''libxl_xen_script_dir_path'' [] []);
       ok \<leftarrow> xs_do env (Other ''asprintf'' [] [null_str dir @ ''/vif-bridge'']);
       (let nic = \<lparr>nic_backend_domid = 0, nic_domid = 0, nic_devid = devnum, nic_mtu = 1492,
                   nic_model = Some ''rtl8139'', nic_mac = fresh_mac (a_out u) 0, nic_ip = None,
                   nic_bridge = Some ''xenbr0'', nic_ifname = None, nic_script = None,
                   nic_nictype = NICTYPE_UNSET\<rparr> in
        return
          (if \<not> ok then (ERROR_FAIL, nic)
           else (0, nic\<lparr>nic_script := Some (null_str dir @ ''/vif-bridge''), nic_nictype := NICTYPE_IOEMU\<rparr>)))
     }"

definition nic_backend_entries :: "libxl_device_nic \<Rightarrow> string option \<Rightarrow> string option \<Rightarrow> entries" where
  "nic_backend_entries nic ip bridge =
     [(''frontend-id'', Some (print_d (nic_domid nic))), (''online'', Some ''1''), (''state'', Some ''1''),
      (''script'', nic_script nic), (''mac'', Some (print_mac (nic_mac nic)))] @
     (if nic_ip nic = None then [] else [(''ip'', ip)]) @
     [(''bridge'', bridge), (''handle'', Some (print_d (nic_devid nic)))]"

definition nic_frontend_entries :: "libxl_device_nic \<Rightarrow> entries" where
  "nic_frontend_entries nic =
     [(''backend-id'', Some (print_d (nic_backend_domid nic))), (''state'', Some ''1''),
      (''handle'', Some (print_d (nic_devid nic))), (''mac'', Some (print_mac (nic_mac nic)))]"

text \<open>\<open>libxl__strdup\<close> of a string or NULL.\<close>

definition xl_strdup :: "env \<Rightarrow> string option \<Rightarrow> string option prog" where
  "xl_strdup env s = str_of env (Other ''libxl__strdup'' [] (case s of None \<Rightarrow> [] | Some x \<Rightarrow> [x]))"

definition libxl_device_nic_add ::
  "env \<Rightarrow> nat \<Rightarrow> (libxl_device_kind \<Rightarrow> bool) \<Rightarrow> u32 \<Rightarrow> libxl_device_nic
     \<Rightarrow> (fault + int \<times> libxl_device_nic) prog" where
  "libxl_device_nic_add env fuel valid did nic0 =
     with_flexarrays env (ERROR_NOMEM, nic0)
       (try_then
          (if nic_devid nic0 = -1 then
             do {
               p \<leftarrow> str_of env (Xs_get_domain_path did);
               (case p of
                  None \<Rightarrow> return (Inr None)
                | Some dompath \<Rightarrow> try_then (next_devid env dompath ''vif'') (\<lambda>n. return (Inr (Some n))))
             }
           else return (Inr (Some (nic_devid nic0)))) (\<lambda>n.
        (case n of
           None \<Rightarrow> return (Inr (ERROR_FAIL, nic0))
         | Some dev \<Rightarrow>
             (let nic = nic0\<lparr>nic_devid := dev\<rparr> in
              do {
                ip \<leftarrow> (if nic_ip nic = None then return None else xl_strdup env (nic_ip nic));
                bridge \<leftarrow> xl_strdup env (nic_bridge nic);
                try_then
                  (libxl__device_generic_add env fuel valid
                     (same_device DEVICE_VIF dev (nic_backend_domid nic) (nic_domid nic))
                     (Some (nic_backend_entries nic ip bridge)) (Some (nic_frontend_entries nic)))
                  (\<lambda>ignored. return (Inr (0, nic)))
              }))))"

definition libxl_device_nic_del :: "env \<Rightarrow> nat \<Rightarrow> libxl_device_nic \<Rightarrow> bool \<Rightarrow> (fault + int) prog" where
  "libxl_device_nic_del env fuel nic wait =
     libxl__device_del env fuel
       (same_device DEVICE_VIF (nic_devid nic) (nic_backend_domid nic) (nic_domid nic)) wait"

record libxl_nicinfo =
  ni_backend :: "string option"
  ni_backend_id :: u32
  ni_frontend :: "string option"
  ni_frontend_id :: u32
  ni_devid :: c_int
  ni_state :: c_int
  ni_script :: "string option"
  ni_mac :: "u8 list"
  ni_evtch :: c_int
  ni_rref_tx :: c_int
  ni_rref_rx :: c_int

definition nic_of_entry :: "env \<Rightarrow> string \<Rightarrow> string \<Rightarrow> (fault + libxl_nicinfo) prog" where
  "nic_of_entry env dompath l =
     (let fe = dompath @ ''/device/vif/'' @ l in
      do {
        be \<leftarrow> xs_read env XBT_NULL (fe @ ''/backend'');
        bid \<leftarrow> xs_read env XBT_NULL (fe @ ''/backend-id'');
        st \<leftarrow> xs_read env XBT_NULL (fe @ ''/state'');
        mac \<leftarrow> xs_read env XBT_NULL (fe @ ''/mac'');
        try_then (lift_fault (mac_of mac)) (\<lambda>m.
          do {
            ev \<leftarrow> xs_read env XBT_NULL (fe @ ''/event-channel'');
            tx \<leftarrow> xs_read env XBT_NULL (fe @ ''/tx-ring-ref'');
            rx \<leftarrow> xs_read env XBT_NULL (fe @ ''/rx-ring-ref'');
            fr \<leftarrow> xs_read env XBT_NULL (null_str be @ ''/frontend'');
            fid \<leftarrow> xs_read env XBT_NULL (null_str be @ ''/frontend-id'');
            sc \<leftarrow> xs_read env XBT_NULL (null_str be @ ''/script'');
            return (Inr
              \<lparr>ni_backend = be, ni_backend_id = number_or_minus1 bid, ni_frontend = fr,
               ni_frontend_id = number_or_minus1 fid, ni_devid = to_int (fst (strtoull10 l)),
               ni_state = number_or_minus1 st, ni_script = sc, ni_mac = m, ni_evtch = signed_or_minus1 ev,
               ni_rref_tx = signed_or_minus1 tx, ni_rref_rx = signed_or_minus1 rx\<rparr>)
          })
      })"

text \<open>The entries of a list, one after the other.\<close>

fun collect :: "('a \<Rightarrow> (fault + 'b) prog) \<Rightarrow> 'a list \<Rightarrow> (fault + 'b list) prog" where
  "collect f [] = return (Inr [])"
| "collect f (x # xs) = try_then (f x) (\<lambda>y. try_then (collect f xs) (\<lambda>ys. return (Inr (y # ys))))"

text \<open>The list of the devices of one kind, None for NULL.\<close>

definition list_devices ::
  "env \<Rightarrow> string \<Rightarrow> (string \<Rightarrow> string \<Rightarrow> (fault + 'b) prog) \<Rightarrow> u32 \<Rightarrow> (fault + 'b list option) prog" where
  "list_devices env k entry did =
     do {
       p \<leftarrow> str_of env (Xs_get_domain_path did);
       (case p of
          None \<Rightarrow> return (Inr None)
        | Some dompath \<Rightarrow>
            do {
              a \<leftarrow> ask env (Xs_directory XBT_NULL (dompath @ ''/device/'' @ k));
              (case a_list a of
                 None \<Rightarrow> return (Inr None)
               | Some l \<Rightarrow>
                   do {
                     ok \<leftarrow> xs_do env (Other ''calloc'' [int (length l)] []);
                     if \<not> ok then return (Inr None)
                     else try_then (collect (entry dompath) l) (\<lambda>r. return (Inr (Some r)))
                   })
            })
     }"

definition libxl_list_nics :: "env \<Rightarrow> u32 \<Rightarrow> (fault + libxl_nicinfo list option) prog" where
  "libxl_list_nics env did = list_devices env ''vif'' (nic_of_entry env) did"

section \<open>Network interfaces of the second kind\<close>

record libxl_device_net2 =
  net2_backend_domid :: u32
  net2_domid :: u32
  net2_devid :: c_int
  net2_front_mac :: "u8 list"
  net2_back_mac :: "u8 list"
  net2_trusted :: c_int
  net2_back_trusted :: c_int
  net2_filter_mac :: c_int
  net2_front_filter_mac :: c_int
  net2_pdev :: c_int
  net2_max_bypasses :: c_int
  net2_bridge :: "string option"

definition libxl_device_net2_init :: "env \<Rightarrow> c_int \<Rightarrow> libxl_device_net2 prog" where
  "libxl_device_net2_init env devnum =
     do {
       u \<leftarrow> ask env (Other ''libxl_uuid_generate'' [] []);
       return
         \<lparr>net2_backend_domid = 0, net2_domid = 0, net2_devid = devnum,
          net2_front_mac = fresh_mac (a_out u) 0, net2_back_mac = fresh_mac (a_out u) 3,
          net2_trusted = 0, net2_back_trusted = 1, net2_filter_mac = 1, net2_front_filter_mac = 0,
          net2_pdev = 0, net2_max_bypasses = 5, net2_bridge = Some ''xenbr0''\<rparr>
     }"

definition net2_backend_entries :: "libxl_device_net2 \<Rightarrow> string option \<Rightarrow> entries" where
  "net2_backend_entries net2 dom_name =
     [(''domain'', dom_name), (''frontend-id'', Some (print_d (net2_domid net2))),
      (''local-trusted'', Some (print_d (net2_back_trusted net2))),
      (''mac'', Some (print_mac (net2_back_mac net2))),
      (''remote-trusted'', Some (print_d (net2_trusted net2))),
      (''remote-mac'', Some (print_mac (net2_front_mac net2))),
      (''max-bypasses'', Some (print_d (net2_max_bypasses net2))),
      (''filter-mac'', Some (if net2_filter_mac net2 \<noteq> 0 then ''1'' else ''0'')),
      (''handle'', Some (print_d (net2_devid net2))), (''online'', Some ''1''), (''state'', Some ''1'')]"

definition net2_frontend_entries :: "libxl_device_net2 \<Rightarrow> entries" where
  "net2_frontend_entries net2 =
     [(''backend-id'', Some (print_d (net2_backend_domid net2))),
      (''local-trusted'', Some (print_d (net2_trusted net2))),
      (''mac'', Some (print_mac (net2_front_mac net2))),
      (''remote-trusted'', Some (print_d (net2_back_trusted net2))),
      (''remote-mac'', Some (print_mac (net2_back_mac net2))),
      (''filter-mac'', Some (if net2_filter_mac net2 \<noteq> 0 then ''1'' else ''0'')), (''state'', Some ''1'')]"

definition libxl_device_net2_add ::
  "env \<Rightarrow> nat \<Rightarrow> (libxl_device_kind \<Rightarrow> bool) \<Rightarrow> u32 \<Rightarrow> libxl_device_net2
     \<Rightarrow> (fault + int \<times> libxl_device_net2) prog" where
  "libxl_device_net2_add env fuel valid did net0 =
     with_flexarrays env (ERROR_NOMEM, net0)
       (do {
          p \<leftarrow> str_of env (Xs_get_domain_path did);
          (case p of
             None \<Rightarrow> return (Inr (ERROR_FAIL, net0))
           | Some dompath \<Rightarrow>
               do {
                 name \<leftarrow> xs_read env XBT_NULL (dompath @ ''/name'');
                 try_then
                   (if net2_devid net0 = -1 then next_devid env dompath ''vif2''
                    else return (Inr (net2_devid net0))) (\<lambda>dev.
                   (let net2 = net0\<lparr>net2_devid := dev\<rparr> in
                    try_then
                      (libxl__device_generic_add env fuel valid
                         (same_device DEVICE_VIF2 dev (net2_backend_domid net2) (net2_domid net2))
                         (Some (net2_backend_entries net2 name)) (Some (net2_frontend_entries net2)))
                      (\<lambda>ignored. return (Inr (0, net2)))))
               })
        })"

record libxl_net2info =
  n2_backend :: "string option"
  n2_backend_id :: u32
  n2_frontend :: "string option"
  n2_frontend_id :: u32
  n2_devid :: c_int
  n2_state :: c_int
  n2_mac :: "u8 list"
  n2_trusted :: c_int
  n2_back_mac :: "u8 list"
  n2_filter_mac :: c_int

definition net2_of_entry :: "env \<Rightarrow> string \<Rightarrow> string \<Rightarrow> (fault + libxl_net2info) prog" where
  "net2_of_entry env dompath l =
     (let fe = dompath @ ''/device/vif2/'' @ l in
      do {
        be \<leftarrow> xs_read env XBT_NULL (fe @ ''/backend'');
        bid \<leftarrow> xs_read env XBT_NULL (fe @ ''/backend-id'');
        st \<leftarrow> xs_read env XBT_NULL (fe @ ''/state'');
        mac \<leftarrow> xs_read env XBT_NULL (fe @ ''/mac'');
        try_then (lift_fault (mac_of mac)) (\<lambda>m.
          do {
            tr \<leftarrow> xs_read env XBT_NULL (fe @ ''/remote-trusted'');
            rmac \<leftarrow> xs_read env XBT_NULL (fe @ ''/remote-mac'');
            try_then (lift_fault (mac_of rmac)) (\<lambda>rm.
              do {
                fm \<leftarrow> xs_read env XBT_NULL (fe @ ''/filter-mac'');
                fr \<leftarrow> xs_read env XBT_NULL (null_str be @ ''/frontend'');
                fid \<leftarrow> xs_read env XBT_NULL (null_str be @ ''/frontend-id'');
                return (Inr
                  \<lparr>n2_backend = be, n2_backend_id = number_or_minus1 bid, n2_frontend = fr,
                   n2_frontend_id = number_or_minus1 fid, n2_devid = to_int (fst (strtoull10 l)),
                   n2_state = number_or_minus1 st, n2_mac = m, n2_trusted = number_or_minus1 tr,
                   n2_back_mac = rm, n2_filter_mac = number_or_minus1 fm\<rparr>)
              })
          })
      })"

definition libxl_device_net2_list :: "env \<Rightarrow> u32 \<Rightarrow> (fault + libxl_net2info list option) prog" where
  "libxl_device_net2_list env did = list_devices env ''vif2'' (net2_of_entry env) did"

definition libxl_device_net2_del :: "env \<Rightarrow> nat \<Rightarrow> libxl_device_net2 \<Rightarrow> bool \<Rightarrow> (fault + int) prog" where
  "libxl_device_net2_del env fuel net2 wait =
     libxl__device_del env fuel
       (same_device DEVICE_VIF2 (net2_devid net2) (net2_backend_domid net2) (net2_domid net2)) wait"

section \<open>Consoles\<close>

datatype libxl_console_consback = LIBXL_CONSBACK_XENCONSOLED | LIBXL_CONSBACK_IOEMU

text \<open>The build state is its console's port and frame number.\<close>

record libxl_device_console =
  con_backend_domid :: u32
  con_domid :: u32
  con_devid :: c_int
  con_consback :: libxl_console_consback
  con_build_state :: "(u32 \<times> u64) option"
  con_output :: "string option"

definition domid_to_name :: "env \<Rightarrow> u32 \<Rightarrow> string option prog" where
  "domid_to_name env did = str_of env (Other ''libxl__domid_to_name'' [uint did] [])"

text \<open>\<open>limit\<close> and \<open>protocol\<close> are \<open>LIBXL_XENCONSOLE_LIMIT\<close> and \<open>LIBXL_XENCONSOLE_PROTOCOL\<close>.\<close>

definition libxl_device_console_add ::
  "env \<Rightarrow> nat \<Rightarrow> (libxl_device_kind \<Rightarrow> bool) \<Rightarrow> int \<Rightarrow> string \<Rightarrow> u32 \<Rightarrow> libxl_device_console
     \<Rightarrow> (fault + int) prog" where
  "libxl_device_console_add env fuel valid limit protocol did con =
     with_flexarrays env ERROR_NOMEM
       (do {
          name \<leftarrow> domid_to_name env did;
          (let back = [(''frontend-id'', Some (print_d (con_domid con))), (''online'', Some ''1''),
                       (''state'', Some ''1''), (''domain'', name), (''protocol'', Some protocol)];
               front = [(''backend-id'', Some (print_d (con_backend_domid con))),
                        (''limit'', Some (print_int limit)),
                        (''type'', Some (if con_consback con = LIBXL_CONSBACK_XENCONSOLED
                                         then ''xenconsoled'' else ''ioemu'')),
                        (''output'', con_output con)];
               add = (\<lambda>rest. try_then
                 (libxl__device_generic_add env fuel valid
                    (same_device DEVICE_CONSOLE (con_devid con) (con_backend_domid con) (con_domid con))
                    (Some back) (Some (front @ rest)))
                 (\<lambda>ignored. return (Inr 0))) in
           if con_devid con = 0 then
             (case con_build_state con of
                None \<Rightarrow> return (Inr ERROR_INVAL)
              | Some (port, mfn) \<Rightarrow>
                  add [(''port'', Some (print_u port)), (''ring-ref'', Some (decimal (unat mfn)))])
           else add [(''state'', Some ''1''), (''protocol'', Some protocol)])
        })"

section \<open>Keyboards and framebuffers\<close>

record libxl_device_vkb =
  vkb_backend_domid :: u32
  vkb_domid :: u32
  vkb_devid :: c_int

definition libxl_device_vkb_init :: "c_int \<Rightarrow> libxl_device_vkb" where
  "libxl_device_vkb_init dev_num = \<lparr>vkb_backend_domid = 0, vkb_domid = 0, vkb_devid = dev_num\<rparr>"

definition libxl_device_vkb_add ::
  "env \<Rightarrow> nat \<Rightarrow> (libxl_device_kind \<Rightarrow> bool) \<Rightarrow> u32 \<Rightarrow> libxl_device_vkb \<Rightarrow> (fault + int) prog" where
  "libxl_device_vkb_add env fuel valid did vkb =
     with_flexarrays env ERROR_NOMEM
       (do {
          name \<leftarrow> domid_to_name env did;
          try_then
            (libxl__device_generic_add env fuel valid
               (same_device DEVICE_VKBD (vkb_devid vkb) (vkb_backend_domid vkb) (vkb_domid vkb))
               (Some [(''frontend-id'', Some (print_d (vkb_domid vkb))), (''online'', Some ''1''),
                      (''state'', Some ''1''), (''domain'', name)])
               (Some [(''backend-id'', Some (print_d (vkb_backend_domid vkb))), (''state'', Some ''1'')]))
            (\<lambda>ignored. return (Inr 0))
        })"

definition libxl_device_vkb_clean_shutdown :: int where
  "libxl_device_vkb_clean_shutdown = ERROR_NI"

definition libxl_device_vkb_hard_shutdown :: int where
  "libxl_device_vkb_hard_shutdown = ERROR_NI"

record libxl_device_vfb =
  vfb_backend_domid :: u32
  vfb_domid :: u32
  vfb_devid :: c_int
  vfb_vnc :: c_int
  vfb_vnclisten :: "string option"
  vfb_vncpasswd :: "string option"
  vfb_vncdisplay :: c_int
  vfb_vncunused :: c_int
  vfb_keymap :: "string option"
  vfb_sdl :: c_int
  vfb_opengl :: c_int
  vfb_display :: "string option"
  vfb_xauthority :: "string option"

definition libxl_device_vfb_init :: "c_int \<Rightarrow> libxl_device_vfb" where
  "libxl_device_vfb_init dev_num =
     \<lparr>vfb_backend_domid = 0, vfb_domid = 0, vfb_devid = dev_num, vfb_vnc = 1,
      vfb_vnclisten = Some ''127.0.0.1'', vfb_vncpasswd = None, vfb_vncdisplay = 0, vfb_vncunused = 1,
      vfb_keymap = None, vfb_sdl = 0, vfb_opengl = 0, vfb_display = None, vfb_xauthority = None\<rparr>"

definition vfb_backend_entries :: "libxl_device_vfb \<Rightarrow> string option \<Rightarrow> entries" where
  "vfb_backend_entries vfb name =
     [(''frontend-id'', Some (print_d (vfb_domid vfb))), (''online'', Some ''1''), (''state'', Some ''1''),
      (''domain'', name), (''vnc'', Some (print_d (vfb_vnc vfb))), (''vnclisten'', vfb_vnclisten vfb),
      (''vncpasswd'', vfb_vncpasswd vfb), (''vncdisplay'', Some (print_d (vfb_vncdisplay vfb))),
      (''vncunused'', Some (print_d (vfb_vncunused vfb))), (''sdl'', Some (print_d (vfb_sdl vfb))),
      (''opengl'', Some (print_d (vfb_opengl vfb)))] @
     (case vfb_xauthority vfb of None \<Rightarrow> [] | Some x \<Rightarrow> [(''xauthority'', Some x)]) @
     (case vfb_display vfb of None \<Rightarrow> [] | Some x \<Rightarrow> [(''display'', Some x)])"

definition libxl_device_vfb_add ::
  "env \<Rightarrow> nat \<Rightarrow> (libxl_device_kind \<Rightarrow> bool) \<Rightarrow> u32 \<Rightarrow> libxl_device_vfb \<Rightarrow> (fault + int) prog" where
  "libxl_device_vfb_add env fuel valid did vfb =
     with_flexarrays env ERROR_NOMEM
       (do {
          name \<leftarrow> domid_to_name env did;
          try_then
            (libxl__device_generic_add env fuel valid
               (same_device DEVICE_VFB (vfb_devid vfb) (vfb_backend_domid vfb) (vfb_domid vfb))
               (Some (vfb_backend_entries vfb name))
               (Some [(''backend-id'', Some (print_d (vfb_backend_domid vfb))), (''state'', Some ''1'')]))
            (\<lambda>ignored. return (Inr 0))
        })"

definition libxl_device_vfb_clean_shutdown :: int where
  "libxl_device_vfb_clean_shutdown = ERROR_NI"

definition libxl_device_vfb_hard_shutdown :: int where
  "libxl_device_vfb_hard_shutdown = ERROR_NI"

section \<open>Ejected media\<close>

text \<open>What \<open>sscanf\<close> stores for \<open>/local/domain/%d/backend/%5[a-z]/%*d/%*d\<close>.\<close>

definition scan_backend :: "string \<Rightarrow> u32 option \<times> string option" where
  "scan_backend s =
     (if take 14 s \<noteq> ''/local/domain/'' then (None, None)
      else
        (let (v, rest) = strtol10 (drop 14 s) in
         if rest = drop 14 s then (None, None)
         else if take 9 rest \<noteq> ''/backend/'' then (Some (word_of_int v), None)
         else
           (let ty = take 5 (takeWhile (\<lambda>c. 97 \<le> (of_char c :: nat) \<and> (of_char c :: nat) \<le> 122) (drop 9 rest)) in
            (Some (word_of_int v), if ty = [] then None else Some ty))))"

text \<open>\<open>junk\<close> is what the buffer of the type held before.\<close>

definition libxl_event_get_disk_eject_info ::
  "env \<Rightarrow> string \<Rightarrow> u32 \<Rightarrow> libxl_event \<Rightarrow> libxl_device_disk \<Rightarrow> (fault + int \<times> libxl_device_disk) prog" where
  "libxl_event_get_disk_eject_info env junk did ev disk =
     do {
       v \<leftarrow> xs_read env XBT_NULL (event_path ev);
       if v \<noteq> Some ''eject'' then return (Inr (0, disk))
       else if length (event_path ev) < 6 then return (Inl Out_of_bounds)
       else
         do {
           be \<leftarrow> xs_read env XBT_NULL (take (length (event_path ev) - 6) (event_path ev) @ ''/backend'');
           (case be of
              None \<Rightarrow> return (Inl Null_pointer)
            | Some backend \<Rightarrow>
                (let (dom_no, ty) = scan_backend backend;
                     backend_type = (case ty of None \<Rightarrow> junk | Some t \<Rightarrow> t) in
                 do {
                   dev \<leftarrow> xs_read env XBT_NULL (backend @ ''/dev'');
                   return (Inr (1,
                     \<lparr>disk_backend_domid = (case dom_no of None \<Rightarrow> disk_backend_domid disk | Some d \<Rightarrow> d),
                      disk_domid = did, pdev_path = Some [], vdev = dev,
                      disk_backend =
                        (if backend_type = ''tap'' \<or> backend_type = ''vbd'' then DISK_BACKEND_TAP
                         else if backend_type = ''qdisk'' then DISK_BACKEND_QDISK else DISK_BACKEND_UNKNOWN),
                      disk_format = DISK_FORMAT_EMPTY, unpluggable = 1, readwrite = 0, is_cdrom = 1\<rparr>))
                 }))
         }
     }"

end
