(* ===== verification/Xl_Common.thy ===== *)
theory Xl_Common
  imports Libxl_Memory Libxl_Hypervisor Libxl_Devices
begin

text \<open>
  What the commands of \<open>xl_cmdimpl.c\<close> share: a command may end the process with \<open>exit\<close>, finds
  its domain by number or name, and takes the lock file.  The process's global variables
  (the domain, its name, the lock's descriptor) are arguments and results.
\<close>

section \<open>Ending the process\<close>

datatype stop = Faults fault | Exits int | Aborts

definition xl_then :: "(stop + 'a) prog \<Rightarrow> ('a \<Rightarrow> (stop + 'b) prog) \<Rightarrow> (stop + 'b) prog" where
  "xl_then m f = do {r \<leftarrow> m; (case r of Inl e \<Rightarrow> return (Inl e) | Inr x \<Rightarrow> f x)}"

text \<open>A part of the library, which may be undefined, and a part that always returns.\<close>

definition xl_lib :: "(fault + 'a) prog \<Rightarrow> (stop + 'a) prog" where
  "xl_lib m = do {r \<leftarrow> m; return (case r of Inl e \<Rightarrow> Inl (Faults e) | Inr x \<Rightarrow> Inr x)}"

definition xl_call :: "'a prog \<Rightarrow> (stop + 'a) prog" where
  "xl_call m = do {x \<leftarrow> m; return (Inr x)}"

definition xl_exit :: "int \<Rightarrow> (stop + 'a) prog" where
  "xl_exit code = return (Inl (Exits code))"

lemma run_xl_then [simp]:
  "run_state (xl_then m f) tr =
     (case run_state m tr of (Inl e, tr') \<Rightarrow> (Inl e, tr') | (Inr x, tr') \<Rightarrow> run_state (f x) tr')"
  by (simp add: xl_then_def split: prod.split sum.split)

lemma run_xl_lib [simp]:
  "run_state (xl_lib m) tr =
     (case run_state m tr of (Inl e, tr') \<Rightarrow> (Inl (Faults e), tr') | (Inr x, tr') \<Rightarrow> (Inr x, tr'))"
  by (simp add: xl_lib_def split: prod.split sum.split)

lemma run_xl_call [simp]:
  "run_state (xl_call m) tr = (case run_state m tr of (x, tr') \<Rightarrow> (Inr x, tr'))"
  by (simp add: xl_call_def split: prod.split)

lemma run_xl_exit [simp]: "run_state (xl_exit code) tr = (Inl (Exits code), tr)"
  by (simp add: xl_exit_def)

text \<open>The macros that end the process when a call fails.\<close>

definition CHK_ERRNO :: "int \<Rightarrow> (stop + unit) prog" where
  "CHK_ERRNO r = (if r < 0 then xl_exit (- ERROR_FAIL) else return (Inr ()))"

definition MUST :: "int \<Rightarrow> (stop + unit) prog" where
  "MUST r = (if r < 0 then xl_exit (- r) else return (Inr ()))"

definition xmalloc :: "env \<Rightarrow> u64 \<Rightarrow> (stop + unit) prog" where
  "xmalloc env sz =
     xl_then (xl_call (xs_do env (Other ''malloc'' [uint sz] []))) (\<lambda>ok.
       if ok then return (Inr ()) else xl_exit (- ERROR_FAIL))"

text \<open>The memory is there, or NULL for the size 0.\<close>

definition xrealloc :: "env \<Rightarrow> u64 \<Rightarrow> (stop + bool) prog" where
  "xrealloc env sz =
     (if sz = 0 then return (Inr False)
      else
        xl_then (xl_call (xs_do env (Other ''realloc'' [uint sz] []))) (\<lambda>ok.
          if ok then return (Inr True) else xl_exit (- ERROR_FAIL)))"

section \<open>Finding a domain\<close>

text \<open>The number, when the string is one; None when it is a name.\<close>

definition qualifier_to_id :: "string \<Rightarrow> u32 option" where
  "qualifier_to_id p =
     (if p \<noteq> [] \<and> (\<forall>c\<in>set p. isdigit c) then Some (ucast (fst (strtoull10 p))) else None)"

text \<open>The result, the domain and whether it was given by name; \<open>old\<close> is what the variable for
  the domain held.\<close>

definition domain_qualifier_to_domid ::
  "env \<Rightarrow> dominf \<Rightarrow> string \<Rightarrow> u32 \<Rightarrow> (int \<times> u32 \<times> bool) prog" where
  "domain_qualifier_to_domid env k p old =
     (case qualifier_to_id p of
        None \<Rightarrow>
          do {
            a \<leftarrow> ask env (Other ''libxl_name_to_domid'' [] [p]);
            return (if a_int a \<noteq> 0 then (a_int a, old, True)
                    else (0, word_of_int (a_out a ! 0), True))
          }
      | Some d \<Rightarrow>
          do {
            r \<leftarrow> libxl_domain_info env k d;
            return (if fst r = ERROR_INVAL then fst r else 0, d, False)
          })"

definition cpupool_qualifier_to_cpupoolid :: "env \<Rightarrow> string \<Rightarrow> u32 \<Rightarrow> (int \<times> u32 \<times> bool) prog" where
  "cpupool_qualifier_to_cpupoolid env p old =
     (case qualifier_to_id p of
        None \<Rightarrow>
          do {
            a \<leftarrow> ask env (Other ''libxl_name_to_cpupoolid'' [] [p]);
            return (a_int a, if a_int a \<noteq> 0 then old else word_of_int (a_out a ! 0), True)
          }
      | Some d \<Rightarrow> return (0, d, False))"

text \<open>The domain and its name.\<close>

definition find_domain :: "env \<Rightarrow> dominf \<Rightarrow> u32 \<Rightarrow> string \<Rightarrow> (stop + u32 \<times> string option) prog" where
  "find_domain env k old p =
     xl_then (xl_call (domain_qualifier_to_domid env k p old)) (\<lambda>(rc, did, was_name).
       if rc \<noteq> 0 then xl_exit 2
       else if was_name then return (Inr (did, Some p))
       else xl_call (do {
              name \<leftarrow> str_of env (Other ''libxl_domid_to_name'' [uint did] []);
              return (did, name)
            }))"

section \<open>The lock\<close>

definition EINTR :: int where "EINTR = 4"

datatype lock_type = F_WRLCK | F_UNLCK

text \<open>\<open>fcntl\<close> again and again while signals interrupt it.\<close>

fun set_lock :: "env \<Rightarrow> nat \<Rightarrow> int \<Rightarrow> lock_type \<Rightarrow> (fault + int) prog" where
  "set_lock env 0 fd l = return (Inl Diverges)"
| "set_lock env (Suc fuel) fd l =
     do {
       a \<leftarrow> ask env (Other ''fcntl'' [fd, if l = F_WRLCK then 1 else 2] []);
       if a_int a < 0 \<and> a_errno a = EINTR then set_lock env fuel fd l
       else return (Inr (if a_int a < 0 then ERROR_FAIL else 0))
     }"

text \<open>The result and the descriptor, which is negative when the lock is not held.\<close>

definition acquire_lock :: "env \<Rightarrow> nat \<Rightarrow> string \<Rightarrow> int \<Rightarrow> (fault + int \<times> int) prog" where
  "acquire_lock env fuel lockfile fd_lock =
     (if 0 \<le> fd_lock then return (Inr (ERROR_INVAL, fd_lock))
      else
        do {
          fd \<leftarrow> int_of env (Other ''open'' [] [lockfile]);
          if fd < 0 then return (Inr (ERROR_FAIL, fd))
          else try_then (set_lock env fuel fd F_WRLCK) (\<lambda>rc. return (Inr (rc, fd)))
        })"

definition release_lock :: "env \<Rightarrow> nat \<Rightarrow> int \<Rightarrow> (fault + int \<times> int) prog" where
  "release_lock env fuel fd_lock =
     (if fd_lock < 0 then return (Inr (ERROR_INVAL, fd_lock))
      else
        try_then (set_lock env fuel fd_lock F_UNLCK) (\<lambda>rc.
          do {
            _ \<leftarrow> ask env (Other ''close'' [fd_lock] []);
            return (Inr (rc, -1))
          }))"

section \<open>Messages on a descriptor\<close>

definition write_exactly :: "env \<Rightarrow> int \<Rightarrow> string \<Rightarrow> int prog" where
  "write_exactly env fd text = int_of env (Other ''libxl_write_exactly'' [fd] [text])"

text \<open>The result, and what the buffer holds afterwards: the bytes read when the result is 0.\<close>

definition read_exactly :: "env \<Rightarrow> int \<Rightarrow> nat \<Rightarrow> (int \<times> string) prog" where
  "read_exactly env fd n =
     do {
       a \<leftarrow> ask env (Other ''libxl_read_exactly'' [fd, int n] []);
       return (a_int a, null_str (a_str a))
     }"

definition close_fd :: "env \<Rightarrow> int \<Rightarrow> unit prog" where
  "close_fd env fd = do {_ \<leftarrow> ask env (Other ''close'' [fd] []); return ()}"

lemma run_write_exactly [simp]:
  "run_state (write_exactly env fd s) tr =
     (a_int (env tr (Other ''libxl_write_exactly'' [fd] [s])),
      after env tr (Other ''libxl_write_exactly'' [fd] [s]))"
  by (simp add: write_exactly_def)

lemma run_read_exactly [simp]:
  "run_state (read_exactly env fd n) tr =
     (let c = Other ''libxl_read_exactly'' [fd, int n] [] in
      ((a_int (env tr c), null_str (a_str (env tr c))), after env tr c))"
  by (simp add: read_exactly_def Let_def)

lemma run_close_fd [simp]:
  "run_state (close_fd env fd) tr = ((), after env tr (Other ''close'' [fd] []))"
  by (simp add: close_fd_def)

section \<open>Programs that extend the history\<close>

lemma extends_xl [extends_intros]:
  "extends m \<Longrightarrow> extends (xl_lib m)" "extends n \<Longrightarrow> extends (xl_call n)" "extends (xl_exit code)"
  "extends p \<Longrightarrow> (\<And>x. extends (f x)) \<Longrightarrow> extends (xl_then p f)"
  unfolding xl_lib_def xl_call_def xl_exit_def xl_then_def by (intro extends_intros; assumption)+

end
