(* ===== verification/Xl_Config.thy ===== *)
theory Xl_Config
  imports Xl_Common
begin

text \<open>
  \<open>parse_config_data\<close> of \<open>xl_cmdimpl.c\<close>: from a domain's configuration to the structures the
  library creates the domain from.  The parser of the file (\<open>libxlu_cfg\<close>) and the functions
  that fill a structure with its defaults are arguments.
\<close>

section \<open>The configuration file and the structures\<close>

text \<open>What the parsed file says of a name: a string, a number, or a list, whose items may be
  NULL; an integer is the error of \<open>xlu_cfg_get_list\<close>.\<close>

record xlu_cfg =
  cfg_string :: "string \<Rightarrow> string option"
  cfg_long :: "string \<Rightarrow> u64 option"
  cfg_list :: "string \<Rightarrow> int + string option list"

datatype libxl_action_on_shutdown =
    LIBXL_ACTION_DESTROY | LIBXL_ACTION_RESTART | LIBXL_ACTION_RESTART_RENAME
  | LIBXL_ACTION_PRESERVE | LIBXL_ACTION_COREDUMP_DESTROY | LIBXL_ACTION_COREDUMP_RESTART

record create_info =
  ci_hvm :: c_int
  ci_hap :: c_int
  ci_oos :: c_int
  ci_name :: "string option"
  ci_uuid :: string
  ci_poolid :: u32
  ci_poolname :: "string option"

record domain_build =
  bd_max_vcpus :: c_int
  bd_cur_vcpus :: c_int
  bd_max_memkb :: u32
  bd_target_memkb :: u32
  bd_shadow_memkb :: u32
  bd_video_memkb :: u32
  bd_tsc_mode :: c_int
  bd_disable_migrate :: c_int
  bd_kernel :: "string option"
  bd_pae :: c_int
  bd_apic :: c_int
  bd_acpi :: c_int
  bd_nx :: c_int
  bd_viridian :: c_int
  bd_hpet :: c_int
  bd_vpt_align :: c_int
  bd_timer_mode :: c_int
  bd_bootloader :: "string option"
  bd_bootloader_args :: "string option"
  bd_cmdline :: "string option"
  bd_ramdisk :: "string option"

datatype libxl_qemu_machine_type = XENFV | XENPV

record device_model =
  dm_gfx_passthru :: c_int
  dm_device_model :: "string option"
  dm_stdvga :: c_int
  dm_vnc :: c_int
  dm_vnclisten :: "string option"
  dm_vncpasswd :: "string option"
  dm_vncdisplay :: c_int
  dm_vncunused :: c_int
  dm_keymap :: "string option"
  dm_sdl :: c_int
  dm_opengl :: c_int
  dm_nographic :: c_int
  dm_serial :: "string option"
  dm_boot :: "string option"
  dm_usb :: c_int
  dm_usbdevice :: "string option"
  dm_soundhw :: "string option"
  dm_xen_platform_pci :: c_int
  dm_extra :: "string option list"
  dm_type :: libxl_qemu_machine_type

record pcidev =
  pci_msitranslate :: c_int
  pci_power_mgmt :: c_int
  pci_bdf :: string

record domain_config =
  dc_c_info :: create_info
  dc_b_info :: domain_build
  dc_dm_info :: device_model
  dc_disks :: "libxl_device_disk list"
  dc_vifs :: "libxl_device_nic list"
  dc_vif2s :: "libxl_device_net2 list"
  dc_pcidevs :: "pcidev list"
  dc_vfbs :: "libxl_device_vfb list"
  dc_vkbs :: "libxl_device_vkb list"
  dc_on_poweroff :: libxl_action_on_shutdown
  dc_on_reboot :: libxl_action_on_shutdown
  dc_on_watchdog :: libxl_action_on_shutdown
  dc_on_crash :: libxl_action_on_shutdown

text \<open>The functions of the library that fill in defaults, and the \<open>default_vifscript\<close> of \<open>xl\<close>.\<close>

record config_defaults =
  init_create_info :: create_info
  init_build_info :: "create_info \<Rightarrow> domain_build"
  init_dm_info :: "device_model \<Rightarrow> create_info \<Rightarrow> domain_build \<Rightarrow> device_model"
  required_shadow_memory :: "u32 \<Rightarrow> c_int \<Rightarrow> u32"
  default_vifscript :: "string option"

section \<open>Actions\<close>

definition action_on_shutdown_names :: "(libxl_action_on_shutdown \<times> string) list" where
  "action_on_shutdown_names =
     [(LIBXL_ACTION_DESTROY, ''destroy''), (LIBXL_ACTION_RESTART, ''restart''),
      (LIBXL_ACTION_RESTART_RENAME, ''rename-restart''), (LIBXL_ACTION_PRESERVE, ''preserve''),
      (LIBXL_ACTION_COREDUMP_DESTROY, ''coredump-destroy''),
      (LIBXL_ACTION_COREDUMP_RESTART, ''coredump-restart'')]"

definition parse_action_on_shutdown :: "string \<Rightarrow> libxl_action_on_shutdown option" where
  "parse_action_on_shutdown buf = map_option fst (find (\<lambda>(a, n). buf = n) action_on_shutdown_names)"

definition action_for :: "xlu_cfg \<Rightarrow> string \<Rightarrow> string \<Rightarrow> (stop + libxl_action_on_shutdown) prog" where
  "action_for cfg key dflt =
     (case parse_action_on_shutdown (case cfg_string cfg key of None \<Rightarrow> dflt | Some s \<Rightarrow> s) of
        None \<Rightarrow> xl_exit 1
      | Some a \<Rightarrow> return (Inr a))"

section \<open>Creation\<close>

text \<open>An entry that is there changes a structure; a string that is there replaces one.\<close>

definition given :: "'a option \<Rightarrow> ('a \<Rightarrow> 'b \<Rightarrow> 'b) \<Rightarrow> 'b \<Rightarrow> 'b" where
  "given v f x = (case v of None \<Rightarrow> x | Some y \<Rightarrow> f y x)"

definition replaced :: "string option \<Rightarrow> string option \<Rightarrow> string option" where
  "replaced v old = (case v of None \<Rightarrow> old | Some s \<Rightarrow> Some s)"

definition long_int :: "xlu_cfg \<Rightarrow> string \<Rightarrow> c_int \<Rightarrow> c_int" where
  "long_int cfg key old = (case cfg_long cfg key of None \<Rightarrow> old | Some l \<Rightarrow> to_int l)"

text \<open>\<open>builder\<close> is compared over its own length.\<close>

definition builder_hvm :: "string option \<Rightarrow> c_int" where
  "builder_hvm b = (case b of None \<Rightarrow> 0 | Some buf \<Rightarrow> if strncmp_eq buf ''hvm'' (length buf) then 1 else 0)"

definition parse_create_info :: "env \<Rightarrow> config_defaults \<Rightarrow> xlu_cfg \<Rightarrow> (stop + create_info) prog" where
  "parse_create_info env dfl cfg =
     (let c0 = (init_create_info dfl)\<lparr>ci_hvm := builder_hvm (cfg_string cfg ''builder''),
                 ci_hap := long_int cfg ''hap'' (ci_hap (init_create_info dfl)),
                 ci_name := (case cfg_string cfg ''name'' of None \<Rightarrow> Some ''test'' | Some s \<Rightarrow> Some s)\<rparr> in
      xl_then
        (case cfg_string cfg ''uuid'' of
           None \<Rightarrow> xl_call (str_of env (Other ''libxl_uuid_generate'' [] []))
         | Some buf \<Rightarrow>
             xl_then (xl_call (ask env (Other ''libxl_uuid_from_string'' [] [buf]))) (\<lambda>a.
               if a_int a \<noteq> 0 then xl_exit 1 else return (Inr (a_str a)))) (\<lambda>uuid.
      (let c1 = c0\<lparr>ci_uuid := null_str uuid, ci_oos := long_int cfg ''oos'' (ci_oos c0)\<rparr> in
       xl_then
         (case cfg_string cfg ''pool'' of
            None \<Rightarrow> return (Inr c1)
          | Some buf \<Rightarrow>
              xl_call (do {
                r \<leftarrow> cpupool_qualifier_to_cpupoolid env buf (-1);
                return (c1\<lparr>ci_poolid := fst (snd r)\<rparr>)
              })) (\<lambda>c2.
       xl_then (xl_call (str_of env (Other ''libxl_cpupoolid_to_name'' [uint (ci_poolid c2)] []))) (\<lambda>name.
         if name = None then xl_exit 1 else return (Inr (c2\<lparr>ci_poolname := name\<rparr>)))))))"

section \<open>Building\<close>

text \<open>\<open>l * 1024\<close> in a \<open>long\<close>, kept in 32 bits.\<close>

definition kilobytes :: "u64 \<Rightarrow> fault + u32" where
  "kilobytes l =
     (if sint l * 1024 < - (2 ^ 63) \<or> 2 ^ 63 \<le> sint l * 1024 then Inl Int_overflow
      else Inr (ucast (l * 1024)))"

definition given_kb :: "u64 option \<Rightarrow> (u32 \<Rightarrow> 'b \<Rightarrow> 'b) \<Rightarrow> 'b \<Rightarrow> (stop + 'b) prog" where
  "given_kb v f x =
     (case v of
        None \<Rightarrow> return (Inr x)
      | Some l \<Rightarrow> xl_then (xl_lib (lift_fault (kilobytes l))) (\<lambda>kb. return (Inr (f kb x))))"

text \<open>\<open>(1 << l) - 1\<close> in an \<open>int\<close>.\<close>

definition vcpu_mask :: "u64 \<Rightarrow> fault + c_int" where
  "vcpu_mask l =
     (if sint l < 0 \<or> 31 \<le> sint l then Inl Int_overflow else Inr (push_bit (unat l) 1 - 1))"

definition parse_memory :: "xlu_cfg \<Rightarrow> domain_build \<Rightarrow> (stop + domain_build) prog" where
  "parse_memory cfg b0 =
     xl_then
       (case cfg_long cfg ''vcpus'' of
          None \<Rightarrow> return (Inr b0)
        | Some l \<Rightarrow>
            xl_then (xl_lib (lift_fault (vcpu_mask l))) (\<lambda>mask.
              return (Inr (b0\<lparr>bd_max_vcpus := to_int l, bd_cur_vcpus := mask\<rparr>)))) (\<lambda>b1.
     xl_then
       (given_kb (cfg_long cfg ''memory'') (\<lambda>kb b. b\<lparr>bd_max_memkb := kb, bd_target_memkb := kb\<rparr>)
          (b1\<lparr>bd_max_vcpus := long_int cfg ''maxvcpus'' (bd_max_vcpus b1)\<rparr>)) (\<lambda>b2.
     given_kb (cfg_long cfg ''maxmem'') (\<lambda>kb b. b\<lparr>bd_max_memkb := kb\<rparr>) b2))"

definition parse_hvm :: "xlu_cfg \<Rightarrow> domain_build \<Rightarrow> domain_build" where
  "parse_hvm cfg b =
     b\<lparr>bd_pae := long_int cfg ''pae'' (bd_pae b), bd_apic := long_int cfg ''apic'' (bd_apic b),
       bd_acpi := long_int cfg ''acpi'' (bd_acpi b), bd_nx := long_int cfg ''nx'' (bd_nx b),
       bd_viridian := long_int cfg ''viridian'' (bd_viridian b), bd_hpet := long_int cfg ''hpet'' (bd_hpet b),
       bd_vpt_align := long_int cfg ''vpt_align'' (bd_vpt_align b),
       bd_timer_mode := long_int cfg ''timer_mode'' (bd_timer_mode b)\<rparr>"

definition parse_pv :: "env \<Rightarrow> xlu_cfg \<Rightarrow> domain_build \<Rightarrow> (stop + domain_build) prog" where
  "parse_pv env cfg b =
     (let extra = (case cfg_string cfg ''extra'' of None \<Rightarrow> [] | Some s \<Rightarrow> s);
          line = (case cfg_string cfg ''root'' of None \<Rightarrow> extra | Some root \<Rightarrow> ''root='' @ root @ '' '' @ extra) in
      xl_then
        (xl_call (xs_do env (Other (if cfg_string cfg ''root'' = None then ''strdup'' else ''asprintf'') [] [line]))) (\<lambda>ok.
         if \<not> ok then xl_exit 1
         else
           (let b1 = b\<lparr>bd_bootloader := replaced (cfg_string cfg ''bootloader'') (bd_bootloader b),
                       bd_bootloader_args := replaced (cfg_string cfg ''bootloader_args'') (bd_bootloader_args b)\<rparr> in
            if bd_bootloader b1 = None \<and> bd_kernel b1 = None then xl_exit 1
            else return (Inr (b1\<lparr>bd_cmdline := Some line,
                   bd_ramdisk := replaced (cfg_string cfg ''ramdisk'') (bd_ramdisk b1)\<rparr>)))))"

section \<open>Devices\<close>

text \<open>The items of a list up to the first NULL.\<close>

fun items_to_null :: "string option list \<Rightarrow> string list" where
  "items_to_null [] = []"
| "items_to_null (None # xs) = []"
| "items_to_null (Some x # xs) = x # items_to_null xs"

fun parse_disks :: "string list \<Rightarrow> (stop + libxl_device_disk list) prog" where
  "parse_disks [] = return (Inr [])"
| "parse_disks (buf # bufs) =
     (case parse_disk_config buf of
        None \<Rightarrow> xl_exit 1
      | Some disk \<Rightarrow> xl_then (parse_disks bufs) (\<lambda>disks. return (Inr (disk # disks))))"

text \<open>The C string at a position of a buffer, and a call of \<open>strtok\<close> that goes on from a
  position: the buffer, the start of the token or NULL, and where the next call goes on.\<close>

definition cstr :: "string \<Rightarrow> nat \<Rightarrow> string" where
  "cstr b i = takeWhile (\<lambda>c. c \<noteq> NUL) (drop i b)"

definition strtok_at :: "string \<Rightarrow> nat \<Rightarrow> char \<Rightarrow> string \<times> nat option \<times> nat" where
  "strtok_at b pos d =
     (let s = dropWhile (\<lambda>c. c = d) (cstr b pos);
          start = pos + (length (cstr b pos) - length s);
          e = start + length (takeWhile (\<lambda>c. c \<noteq> d) s) in
      if s = [] then (b, None, start)
      else if e < length b \<and> b ! e = d then (b[e := NUL], Some start, e + 1)
      else (b, Some start, e))"

text \<open>The six bytes of an address that starts at \<open>p3\<close>: a zero byte is put after every two
  characters, wherever the string ends.\<close>

fun set_mac :: "nat \<Rightarrow> nat \<Rightarrow> string \<Rightarrow> nat \<Rightarrow> u8 list \<Rightarrow> fault + string \<times> u8 list" where
  "set_mac 0 j b p3 mac = Inr (b, mac)"
| "set_mac (Suc n) j b p3 mac =
     (if length b \<le> p3 + 2 then Inl Out_of_bounds
      else
        (let b' = b[p3 + 2 := NUL] in
         set_mac n (j + 1) b' (p3 + 3) (mac[j := ucast (strtoul16 (cstr b' p3))])))"

text \<open>One option of a network interface, from position \<open>p\<close>: None ends the loop.\<close>

definition vif_option ::
  "env \<Rightarrow> string \<Rightarrow> nat \<Rightarrow> libxl_device_nic \<Rightarrow> (fault + (string \<times> libxl_device_nic) option) prog" where
  "vif_option env b p nic =
     (let q = p + length (takeWhile (\<lambda>c. c = CHR '' '') (cstr b p)) in
      case strchr (cstr b q) (CHR ''='') of
        None \<Rightarrow> return (Inr None)
      | Some i \<Rightarrow>
          (let b1 = b[q + i := NUL]; key = cstr b1 q; val = cstr b1 (q + i + 1);
               ok = (\<lambda>nic'. return (Inr (Some (b1, nic')))) in
           if key = ''model'' then ok (nic\<lparr>nic_model := Some val\<rparr>)
           else if key = ''mac'' then
             try_then (lift_fault (set_mac 6 0 b1 (q + i + 1) (nic_mac nic))) (\<lambda>(b2, mac).
               return (Inr (Some (b2, nic\<lparr>nic_mac := mac\<rparr>))))
           else if key = ''bridge'' then ok (nic\<lparr>nic_bridge := Some val\<rparr>)
           else if key = ''type'' then
             ok (nic\<lparr>nic_nictype := (if val = ''ioemu'' then NICTYPE_IOEMU else NICTYPE_VIF)\<rparr>)
           else if key = ''ip'' then ok (nic\<lparr>nic_ip := Some val\<rparr>)
           else if key = ''script'' then ok (nic\<lparr>nic_script := Some val\<rparr>)
           else if key = ''vifname'' then ok (nic\<lparr>nic_ifname := Some val\<rparr>)
           else if key = ''backend'' then
             do {
               a \<leftarrow> ask env (Other ''libxl_name_to_domid'' [] [val]);
               ok (nic\<lparr>nic_backend_domid := (if a_int a \<noteq> 0 then 0 else word_of_int (a_out a ! 0))\<rparr>)
             }
           else ok nic))"

text \<open>The loop over the options; every call of \<open>strtok\<close> moves on, so a buffer of \<open>n\<close> bytes has
  fewer than \<open>n\<close> options.\<close>

fun vif_loop :: "env \<Rightarrow> nat \<Rightarrow> string \<Rightarrow> nat \<Rightarrow> libxl_device_nic \<Rightarrow> (fault + libxl_device_nic) prog" where
  "vif_loop env 0 b pos nic = return (Inl Diverges)"
| "vif_loop env (Suc n) b pos nic =
     (let (b1, tok, pos1) = strtok_at b pos (CHR '','') in
      case tok of
        None \<Rightarrow> return (Inr nic)
      | Some p \<Rightarrow>
          try_then (vif_option env b1 p nic) (\<lambda>r.
            case r of None \<Rightarrow> return (Inr nic) | Some (b2, nic2) \<Rightarrow> vif_loop env n b2 pos1 nic2))"

definition parse_vif :: "env \<Rightarrow> string \<Rightarrow> libxl_device_nic \<Rightarrow> (fault + libxl_device_nic) prog" where
  "parse_vif env buf nic = vif_loop env (length buf + 1) (buf @ [NUL]) 0 nic"

fun parse_vifs ::
  "env \<Rightarrow> config_defaults \<Rightarrow> nat \<Rightarrow> string list \<Rightarrow> (stop + libxl_device_nic list) prog" where
  "parse_vifs env dfl num [] = return (Inr [])"
| "parse_vifs env dfl num (buf # bufs) =
     xl_then (xl_call (libxl_device_nic_init env (of_nat num))) (\<lambda>(e, nic0).
     xl_then (CHK_ERRNO e) (\<lambda>u.
     xl_then (xl_lib (parse_vif env buf
         (nic0\<lparr>nic_script := replaced (default_vifscript dfl) (nic_script nic0)\<rparr>))) (\<lambda>nic.
     xl_then (parse_vifs env dfl (num + 1) bufs) (\<lambda>nics. return (Inr (nic # nics))))))"

text \<open>A key and the value after the sign of equality.\<close>

definition key_value :: "(char \<Rightarrow> bool) \<Rightarrow> string \<Rightarrow> (string \<times> string) option" where
  "key_value blank tok =
     (let p = dropWhile blank tok in
      map_option (\<lambda>i. (take i p, drop (i + 1) p)) (strchr p (CHR ''='')))"

definition is_one :: "string \<Rightarrow> c_int" where
  "is_one val = (if val \<noteq> [] \<and> hd val = CHR ''1'' then 1 else 0)"

definition vif2_option ::
  "env \<Rightarrow> dominf \<Rightarrow> string \<Rightarrow> string \<Rightarrow> libxl_device_net2 \<Rightarrow> libxl_device_net2 prog" where
  "vif2_option env k key val net2 =
     (if key = ''front_mac'' then
        do {
          a \<leftarrow> ask env (Other ''libxl_strtomac'' [] [val]);
          return (net2\<lparr>net2_front_mac := map word_of_int (a_out a)\<rparr>)
        }
      else if key = ''back_mac'' then
        do {
          a \<leftarrow> ask env (Other ''libxl_strtomac'' [] [val]);
          return (net2\<lparr>net2_back_mac := map word_of_int (a_out a)\<rparr>)
        }
      else if key = ''backend'' then
        do {
          r \<leftarrow> domain_qualifier_to_domid env k val (net2_backend_domid net2);
          return (net2\<lparr>net2_backend_domid := fst (snd r)\<rparr>)
        }
      else if key = ''trusted'' then return (net2\<lparr>net2_trusted := is_one val\<rparr>)
      else if key = ''back_trusted'' then return (net2\<lparr>net2_back_trusted := is_one val\<rparr>)
      else if key = ''bridge'' then return (net2\<lparr>net2_bridge := Some val\<rparr>)
      else if key = ''filter_mac'' then return (net2\<lparr>net2_filter_mac := is_one val\<rparr>)
      else if key = ''front_filter_mac'' then return (net2\<lparr>net2_front_filter_mac := is_one val\<rparr>)
      else if key = ''pdev'' then return (net2\<lparr>net2_pdev := to_int (fst (strtoull10 val))\<rparr>)
      else if key = ''max_bypasses'' then return (net2\<lparr>net2_max_bypasses := to_int (fst (strtoull10 val))\<rparr>)
      else return net2)"

fun vif2_options :: "env \<Rightarrow> dominf \<Rightarrow> string list \<Rightarrow> libxl_device_net2 \<Rightarrow> libxl_device_net2 prog" where
  "vif2_options env k [] net2 = return net2"
| "vif2_options env k (t # ts) net2 =
     (case key_value (\<lambda>c. c = CHR '' '' \<or> c = CHR 0x09) t of
        None \<Rightarrow> vif2_options env k ts net2
      | Some (key, val) \<Rightarrow>
          do {n \<leftarrow> vif2_option env k key val net2; vif2_options env k ts n})"

fun parse_vif2s :: "env \<Rightarrow> dominf \<Rightarrow> nat \<Rightarrow> string list \<Rightarrow> libxl_device_net2 list prog" where
  "parse_vif2s env k num [] = return []"
| "parse_vif2s env k num (buf # bufs) =
     do {
       n0 \<leftarrow> libxl_device_net2_init env (of_nat num);
       n \<leftarrow> vif2_options env k (tokens (CHR '','') buf) n0;
       ns \<leftarrow> parse_vif2s env k (num + 1) bufs;
       return (n # ns)
     }"

definition vfb_option :: "string \<Rightarrow> string \<Rightarrow> libxl_device_vfb \<Rightarrow> libxl_device_vfb" where
  "vfb_option key val vfb =
     (if key = ''vnc'' then vfb\<lparr>vfb_vnc := atoi val\<rparr>
      else if key = ''vnclisten'' then vfb\<lparr>vfb_vnclisten := Some val\<rparr>
      else if key = ''vncpasswd'' then vfb\<lparr>vfb_vncpasswd := Some val\<rparr>
      else if key = ''vncdisplay'' then vfb\<lparr>vfb_vncdisplay := atoi val\<rparr>
      else if key = ''vncunused'' then vfb\<lparr>vfb_vncunused := atoi val\<rparr>
      else if key = ''keymap'' then vfb\<lparr>vfb_keymap := Some val\<rparr>
      else if key = ''sdl'' then vfb\<lparr>vfb_sdl := atoi val\<rparr>
      else if key = ''opengl'' then vfb\<lparr>vfb_opengl := atoi val\<rparr>
      else if key = ''display'' then vfb\<lparr>vfb_display := Some val\<rparr>
      else if key = ''xauthority'' then vfb\<lparr>vfb_xauthority := Some val\<rparr>
      else vfb)"

text \<open>An option without a sign of equality ends the loop.\<close>

fun vfb_options :: "string list \<Rightarrow> libxl_device_vfb \<Rightarrow> libxl_device_vfb" where
  "vfb_options [] vfb = vfb"
| "vfb_options (t # ts) vfb =
     (case key_value (\<lambda>c. c = CHR '' '') t of
        None \<Rightarrow> vfb
      | Some (key, val) \<Rightarrow> vfb_options ts (vfb_option key val vfb))"

definition parse_vfbs :: "string list \<Rightarrow> (libxl_device_vfb \<times> libxl_device_vkb) list" where
  "parse_vfbs bufs =
     map (\<lambda>(num, buf). (vfb_options (tokens (CHR '','') buf) (libxl_device_vfb_init (of_nat num)),
                        libxl_device_vkb_init (of_nat num)))
       (enumerate 0 bufs)"

fun parse_pcis :: "env \<Rightarrow> c_int \<Rightarrow> c_int \<Rightarrow> string list \<Rightarrow> pcidev list prog" where
  "parse_pcis env msi pm [] = return []"
| "parse_pcis env msi pm (buf # bufs) =
     do {
       r \<leftarrow> int_of env (Other ''libxl_device_pci_parse_bdf'' [] [buf]);
       ps \<leftarrow> parse_pcis env msi pm bufs;
       return (if r = 0 then \<lparr>pci_msitranslate = msi, pci_power_mgmt = pm, pci_bdf = buf\<rparr> # ps else ps)
     }"

text \<open>The processor policies: their parser is called for every item; a string begins with the
  word \<open>host\<close>.\<close>

fun call_each :: "env \<Rightarrow> string \<Rightarrow> string list \<Rightarrow> unit prog" where
  "call_each env f [] = return ()"
| "call_each env f (x # xs) = do {_ \<leftarrow> ask env (Other f [] [x]); call_each env f xs}"

definition parse_cpuid :: "env \<Rightarrow> xlu_cfg \<Rightarrow> unit prog" where
  "parse_cpuid env cfg =
     (case cfg_list cfg ''cpuid'' of
        Inr l \<Rightarrow> call_each env ''libxl_cpuid_parse_config_xend'' (items_to_null l)
      | Inl e \<Rightarrow>
          if e = EINVAL then
            (case cfg_string cfg ''cpuid'' of
               None \<Rightarrow> return ()
             | Some buf \<Rightarrow>
                 (case tokens (CHR '','') buf of
                    [] \<Rightarrow> return ()
                  | t # ts \<Rightarrow> if t = ''host'' then call_each env ''libxl_cpuid_parse_config'' ts else return ()))
          else return ())"

section \<open>The device model\<close>

definition parse_dm :: "xlu_cfg \<Rightarrow> device_model \<Rightarrow> device_model" where
  "parse_dm cfg d =
     (let str = (\<lambda>key old. replaced (cfg_string cfg key) old); num = long_int cfg in
      d\<lparr>dm_device_model := str ''device_model'' (dm_device_model d),
        dm_stdvga := num ''stdvga'' (dm_stdvga d), dm_vnc := num ''vnc'' (dm_vnc d),
        dm_vnclisten := str ''vnclisten'' (dm_vnclisten d), dm_vncpasswd := str ''vncpasswd'' (dm_vncpasswd d),
        dm_vncdisplay := num ''vncdisplay'' (dm_vncdisplay d), dm_vncunused := num ''vncunused'' (dm_vncunused d),
        dm_keymap := str ''keymap'' (dm_keymap d), dm_sdl := num ''sdl'' (dm_sdl d),
        dm_opengl := num ''opengl'' (dm_opengl d), dm_nographic := num ''nographic'' (dm_nographic d),
        dm_gfx_passthru := num ''gfx_passthru'' (dm_gfx_passthru d), dm_serial := str ''serial'' (dm_serial d),
        dm_boot := str ''boot'' (dm_boot d), dm_usb := num ''usb'' (dm_usb d),
        dm_usbdevice := str ''usbdevice'' (dm_usbdevice d), dm_soundhw := str ''soundhw'' (dm_soundhw d),
        dm_xen_platform_pci := num ''xen_platform_pci'' (dm_xen_platform_pci d)\<rparr>)"

definition parse_device_model ::
  "env \<Rightarrow> config_defaults \<Rightarrow> xlu_cfg \<Rightarrow> create_info \<Rightarrow> domain_build \<Rightarrow> device_model \<Rightarrow> (stop + device_model) prog" where
  "parse_device_model env dfl cfg c b d0 =
     (if ci_hvm c = 1 then
        (let d = parse_dm cfg (init_dm_info dfl d0 c b) in
         xl_then
           (case cfg_list cfg ''device_model_args'' of
              Inl e \<Rightarrow> return (Inr d)
            | Inr l \<Rightarrow> xl_then (xmalloc env (8 * (of_nat (length l) + 1))) (\<lambda>u. return (Inr (d\<lparr>dm_extra := l\<rparr>))))
           (\<lambda>d1. return (Inr (d1\<lparr>dm_type := XENFV\<rparr>))))
      else return (Inr (d0\<lparr>dm_type := (if ci_hvm c \<noteq> 0 then XENFV else XENPV)\<rparr>)))"

section \<open>The whole\<close>

text \<open>A list that is there, up to NULL; no items without it.\<close>

definition list_items :: "xlu_cfg \<Rightarrow> string \<Rightarrow> string list" where
  "list_items cfg key = (case cfg_list cfg key of Inl e \<Rightarrow> [] | Inr l \<Rightarrow> items_to_null l)"

text \<open>\<open>d0\<close> is the configuration before, with every byte zero, and \<open>readdata\<close> is
  \<open>xlu_cfg_readdata\<close>, which fails with an error.\<close>

definition parse_config_data ::
  "env \<Rightarrow> dominf \<Rightarrow> config_defaults \<Rightarrow> (string \<Rightarrow> int + xlu_cfg) \<Rightarrow> string \<Rightarrow> domain_config
     \<Rightarrow> (stop + domain_config) prog" where
  "parse_config_data env k dfl readdata text d0 =
     xl_then (xl_call (xs_do env (Other ''xlu_cfg_init'' [] []))) (\<lambda>ok.
     if \<not> ok then xl_exit 1
     else
       case readdata text of
         Inl e \<Rightarrow> xl_exit 1
       | Inr cfg \<Rightarrow>
           xl_then (parse_create_info env dfl cfg) (\<lambda>c.
           xl_then (parse_memory cfg (init_build_info dfl c)) (\<lambda>b1.
           xl_then (action_for cfg ''on_poweroff'' ''destroy'') (\<lambda>poweroff.
           xl_then (action_for cfg ''on_reboot'' ''restart'') (\<lambda>reboot.
           xl_then (action_for cfg ''on_watchdog'' ''destroy'') (\<lambda>watchdog.
           xl_then (action_for cfg ''on_crash'' ''destroy'') (\<lambda>crash.
           xl_then
             (given_kb (cfg_long cfg ''shadow_memory'') (\<lambda>kb b. b\<lparr>bd_shadow_memkb := kb\<rparr>)
                (b1\<lparr>bd_shadow_memkb := required_shadow_memory dfl (bd_max_memkb b1) (bd_max_vcpus b1)\<rparr>)) (\<lambda>b2.
           xl_then
             (given_kb (cfg_long cfg ''videoram'') (\<lambda>kb b. b\<lparr>bd_video_memkb := kb\<rparr>)
                (b2\<lparr>bd_disable_migrate := long_int cfg ''nomigrate'' (bd_disable_migrate b2),
                    bd_tsc_mode := long_int cfg ''tsc_mode'' (bd_tsc_mode b2)\<rparr>)) (\<lambda>b3.
           (let b4 = b3\<lparr>bd_kernel := replaced (cfg_string cfg ''kernel'') (bd_kernel b3)\<rparr>;
                dm0 = (dc_dm_info d0)\<lparr>dm_gfx_passthru := long_int cfg ''gfx_passthru'' (dm_gfx_passthru (dc_dm_info d0))\<rparr> in
            xl_then (if ci_hvm c = 1 then return (Inr (parse_hvm cfg b4)) else parse_pv env cfg b4) (\<lambda>b5.
            xl_then (parse_disks (list_items cfg ''disk'')) (\<lambda>disks.
            xl_then (parse_vifs env dfl 0 (list_items cfg ''vif'')) (\<lambda>vifs.
            xl_then (xl_call (parse_vif2s env k 0 (list_items cfg ''vif2''))) (\<lambda>vif2s.
            xl_then (xl_call (parse_pcis env (long_int cfg ''pci_msitranslate'' 1)
                                (long_int cfg ''pci_power_mgmt'' 0) (list_items cfg ''pci''))) (\<lambda>pcis.
            xl_then (xl_call (parse_cpuid env cfg)) (\<lambda>u.
            xl_then (parse_device_model env dfl cfg c b5 dm0) (\<lambda>dm.
              return (Inr
                \<lparr>dc_c_info = c, dc_b_info = b5, dc_dm_info = dm, dc_disks = disks, dc_vifs = vifs,
                 dc_vif2s = vif2s, dc_pcidevs = pcis,
                 dc_vfbs = map fst (parse_vfbs (list_items cfg ''vfb'')),
                 dc_vkbs = map snd (parse_vfbs (list_items cfg ''vfb'')),
                 dc_on_poweroff = poweroff, dc_on_reboot = reboot, dc_on_watchdog = watchdog,
                 dc_on_crash = crash\<rparr>))))))))))))))))))"

end
