(* ===== verification/Xl_Create.thy ===== *)
theory Xl_Create
  imports Xl_Config
begin

text \<open>
  Creating a domain with \<open>xl\<close>: the header of a saved domain, making room in memory, the
  creation itself, and the daemon that stays behind, waits for the domain's death and starts
  it again.
\<close>

section \<open>What the commands work with\<close>

text \<open>The constants of the headers and of \<open>xl.c\<close>, and what uninitialised variables hold.\<close>

record xl_params =
  xp_lockfile :: string
  xp_autoballoon :: bool
  xp_mem :: mem_constants
  xp_dominf :: dominf
  xp_defaults :: config_defaults
  xp_readdata :: "string \<Rightarrow> int + xlu_cfg"
  xp_config0 :: domain_config
  xp_timeout :: int
  xp_valid :: "libxl_device_kind \<Rightarrow> bool"
  xp_numbers :: "int \<times> int"
  xp_format :: libxl_disk_format
  xp_kb :: u32
  xp_type :: string
  xp_event :: libxl_event
  xp_disk :: libxl_device_disk
  SHUTDOWN_poweroff :: u32
  SHUTDOWN_reboot :: u32
  SHUTDOWN_suspend :: u32
  SHUTDOWN_crash :: u32
  SHUTDOWN_watchdog :: u32

section \<open>Saved domains\<close>

definition u32_bytes :: "u32 \<Rightarrow> string" where
  "u32_bytes w =
     (let n = unat w in [char_of n, char_of (n div 256), char_of (n div 256 div 256), char_of (n div 256 div 256 div 256)])"

definition bytes_u32 :: "string \<Rightarrow> u32" where
  "bytes_u32 s = of_nat (foldr (\<lambda>c n. of_char c + 256 * n) s 0)"

definition savefileheader_magic :: string where
  "savefileheader_magic = ''Xen saved domain, xl format'' @ [CHR 0x0A, CHR '' '', NUL, CHR '' '', CHR 0x0D]"

definition SAVEFILE_BYTEORDER_VALUE :: u32 where
  "SAVEFILE_BYTEORDER_VALUE = 0x01020304"

record save_file_header =
  sh_magic :: string
  sh_byteorder :: u32
  sh_mandatory_flags :: u32
  sh_optional_flags :: u32
  sh_optional_data_len :: u32

definition header_bytes :: "save_file_header \<Rightarrow> string" where
  "header_bytes h =
     sh_magic h @ u32_bytes (sh_byteorder h) @ u32_bytes (sh_mandatory_flags h) @
     u32_bytes (sh_optional_flags h) @ u32_bytes (sh_optional_data_len h)"

definition header_of_bytes :: "string \<Rightarrow> save_file_header" where
  "header_of_bytes s =
     \<lparr>sh_magic = take 32 s, sh_byteorder = bytes_u32 (take 4 (drop 32 s)),
      sh_mandatory_flags = bytes_u32 (take 4 (drop 36 s)), sh_optional_flags = bytes_u32 (take 4 (drop 40 s)),
      sh_optional_data_len = bytes_u32 (take 4 (drop 44 s))\<rparr>"

text \<open>The optional data: the size of the configuration and the configuration.\<close>

definition save_domain_core_writeconfig :: "env \<Rightarrow> int \<Rightarrow> string \<Rightarrow> c_int \<Rightarrow> (stop + unit) prog" where
  "save_domain_core_writeconfig env fd config_data config_len =
     xl_then (xrealloc env 4) (\<lambda>u.
     (let total = 4 + config_len;
          hdr = \<lparr>sh_magic = savefileheader_magic, sh_byteorder = SAVEFILE_BYTEORDER_VALUE,
                 sh_mandatory_flags = 0, sh_optional_flags = 0, sh_optional_data_len = total\<rparr> in
      xl_then
        (if config_len = 0 then return (Inr True) else xrealloc env (ucast total)) (\<lambda>there.
      if config_len \<noteq> 0 \<and> (sint config_len < 0 \<or> length config_data < unat config_len)
      then return (Inl (Faults Out_of_bounds))
      else
        xl_then (xl_call (write_exactly env fd (header_bytes hdr))) (\<lambda>r1.
        xl_then (CHK_ERRNO r1) (\<lambda>u.
        xl_then (xl_call (write_exactly env fd (u32_bytes config_len @ take (unat config_len) config_data))) (\<lambda>r2.
        CHK_ERRNO r2))))))"

text \<open>The configuration of a saved domain, if it has one; an integer is the error returned.\<close>

definition read_savefile :: "env \<Rightarrow> int \<Rightarrow> (stop + (int + string option)) prog" where
  "read_savefile env fd =
     xl_then (xl_call (read_exactly env fd 48)) (\<lambda>(rc, s).
     xl_then (CHK_ERRNO rc) (\<lambda>u.
     (let hdr = header_of_bytes s; len = sh_optional_data_len hdr in
      if sh_magic hdr \<noteq> savefileheader_magic \<or> sh_byteorder hdr \<noteq> SAVEFILE_BYTEORDER_VALUE \<or>
         sh_mandatory_flags hdr \<noteq> 0
      then return (Inr (Inl ERROR_INVAL))
      else if len = 0 then return (Inr (Inr None))
      else
        xl_then (xmalloc env (ucast len)) (\<lambda>u.
        xl_then (xl_call (read_exactly env fd (unat len))) (\<lambda>(rc2, optdata).
        xl_then (CHK_ERRNO rc2) (\<lambda>u.
          if len < 4 then return (Inr (Inl ERROR_INVAL))
          else
            (let config_len = bytes_u32 (take 4 optdata) in
             if uint len - 4 < sint config_len then return (Inr (Inl ERROR_INVAL))
             else
               xl_then (xmalloc env (sext64 config_len)) (\<lambda>u.
                 if sint config_len < 0 then return (Inl (Faults Out_of_bounds))
                 else return (Inr (Inr (Some (take (unat config_len) (drop 4 optdata))))))))))) ))"

section \<open>Memory\<close>

fun freemem_loop :: "env \<Rightarrow> nat \<Rightarrow> xl_params \<Rightarrow> u32 \<Rightarrow> nat \<Rightarrow> (fault + int) prog" where
  "freemem_loop env fuel p need 0 = return (Inr ERROR_NOMEM)"
| "freemem_loop env fuel p need (Suc retries) =
     try_then (libxl_get_free_memory env fuel (xp_dominf p) (xp_kb p) (xp_kb p)) (\<lambda>(rc, free).
       if rc < 0 then return (Inr rc)
       else if need \<le> free then return (Inr 0)
       else
         try_then (libxl_set_memory_target env fuel (xp_mem p) (xp_dominf p) 0 (free - need) True False) (\<lambda>rc2.
           if rc2 < 0 then return (Inr rc2)
           else
             try_then (libxl_wait_for_free_memory env fuel (xp_dominf p) (xp_kb p) need 10) (\<lambda>rc3.
               if rc3 = 0 then return (Inr 0)
               else if rc3 \<noteq> ERROR_NOMEM then return (Inr rc3)
               else
                 try_then (libxl_wait_for_memory_target env fuel (xp_dominf p) 0 (xp_kb p) 1) (\<lambda>rc4.
                   if rc4 < 0 then return (Inr rc4) else freemem_loop env fuel p need retries))))"

definition freemem :: "env \<Rightarrow> nat \<Rightarrow> xl_params \<Rightarrow> domain_config \<Rightarrow> (fault + int) prog" where
  "freemem env fuel p cfg =
     (if \<not> xp_autoballoon p then return (Inr 0)
      else
        freemem_loop env fuel p
          (libxl_domain_need_memory (xp_mem p)
             \<lparr>bi_hvm = ci_hvm (dc_c_info cfg) \<noteq> 0, bi_target_memkb = bd_target_memkb (dc_b_info cfg),
              bi_shadow_memkb = bd_shadow_memkb (dc_b_info cfg)\<rparr>
             (null_str (dm_device_model (dc_dm_info cfg)))) 3)"

section \<open>The death of a domain\<close>

text \<open>1 when the domain is to be started again, 2 when it is to be renamed before.\<close>

definition handle_domain_death ::
  "env \<Rightarrow> nat \<Rightarrow> xl_params \<Rightarrow> u32 \<Rightarrow> domain_config \<Rightarrow> libxl_dominfo \<Rightarrow> (fault + int) prog" where
  "handle_domain_death env fuel p did cfg info =
     (let reason = shutdown_reason info in
      if reason \<noteq> SHUTDOWN_poweroff p \<and> reason \<noteq> SHUTDOWN_reboot p \<and> reason = SHUTDOWN_suspend p
      then return (Inr 0)
      else
        (let action =
           (if reason = SHUTDOWN_poweroff p then dc_on_poweroff cfg
            else if reason = SHUTDOWN_reboot p then dc_on_reboot cfg
            else if reason = SHUTDOWN_crash p then dc_on_crash cfg
            else if reason = SHUTDOWN_watchdog p then dc_on_watchdog cfg
            else LIBXL_ACTION_DESTROY);
           dump = action \<in> {LIBXL_ACTION_COREDUMP_DESTROY, LIBXL_ACTION_COREDUMP_RESTART};
           then_do = (if action = LIBXL_ACTION_COREDUMP_DESTROY then LIBXL_ACTION_DESTROY
                      else if dump then LIBXL_ACTION_RESTART else action);
           file = ''/var/xen/dump/'' @ null_str (ci_name (dc_c_info cfg)) in
         do {
           _ \<leftarrow> (if dump then
                 do {
                   ok \<leftarrow> xs_do env (Other ''asprintf'' [] [file]);
                   if ok then libxl_domain_core_dump env did file else return 0
                 }
               else return 0);
           (case then_do of
              LIBXL_ACTION_PRESERVE \<Rightarrow> return (Inr 0)
            | LIBXL_ACTION_RESTART_RENAME \<Rightarrow> return (Inr 2)
            | _ \<Rightarrow>
                try_then (libxl_domain_destroy env (xp_dominf p) fuel did False) (\<lambda>rc.
                  return (Inr (if then_do = LIBXL_ACTION_RESTART then 1 else 0))))
         }))"

definition preserve_domain :: "env \<Rightarrow> nat \<Rightarrow> u32 \<Rightarrow> domain_config \<Rightarrow> (fault + bool) prog" where
  "preserve_domain env fuel did cfg =
     do {
       now \<leftarrow> int_of env (Other ''time'' [] []);
       if now = -1 then return (Inr False)
       else
         do {
           tm \<leftarrow> xs_do env (Other ''gmtime_r'' [now] []);
           if \<not> tm then return (Inr False)
           else
             do {
               stime \<leftarrow> ask env (Other ''strftime'' [24] [''-%Y%m%dT%H%MZ'']);
               if a_int stime = 0 then return (Inr False)
               else
                 do {
                   uuid \<leftarrow> str_of env (Other ''libxl_uuid_generate'' [] []);
                   try_then
                     (libxl_domain_preserve env fuel did (null_str (ci_name (dc_c_info cfg)))
                        (null_str (a_str stime)) (null_str uuid))
                     (\<lambda>rc. return (Inr (rc = 0)))
                 }
             }
         }
     }"

section \<open>Waiting for events\<close>

datatype loop_end = Quit | Restart

text \<open>The daemon's loop: the domain is destroyed or preserved when it dies, and an ejected medium
  is taken out of its drive.  An event that cannot be read leaves what the variable held.\<close>

fun event_loop ::
  "env \<Rightarrow> nat \<Rightarrow> xl_params \<Rightarrow> u32 \<Rightarrow> domain_config \<Rightarrow> (fault + loop_end) prog" where
  "event_loop env 0 p did cfg = return (Inl Diverges)"
| "event_loop env (Suc fuel) p did cfg =
     do {
       n \<leftarrow> int_of env Xs_select;
       if n = 0 then event_loop env fuel p did cfg
       else
         do {
           r \<leftarrow> libxl_get_event env;
           (let ev = (case snd r of None \<Rightarrow> xp_event p | Some e \<Rightarrow> e) in
            if event_type ev = LIBXL_EVENT_DOMAIN_DEATH then
              do {
                d \<leftarrow> libxl_event_get_domain_death_info env (xp_dominf p) did;
                if fst d < 0 then event_loop env fuel p did cfg
                else if fst d = 0 then return (Inr Quit)
                else
                  try_then (handle_domain_death env fuel p did cfg (the (snd d))) (\<lambda>restart.
                    if restart = 2 then
                      try_then (preserve_domain env fuel did cfg) (\<lambda>kept.
                        return (Inr (if kept then Restart else Quit)))
                    else return (Inr (if restart = 1 then Restart else Quit)))
              }
            else if event_type ev = LIBXL_EVENT_DISK_EJECT then
              try_then (libxl_event_get_disk_eject_info env (xp_type p) did ev (xp_disk p)) (\<lambda>(rc, disk).
                if rc \<noteq> 0 then
                  try_then (libxl_cdrom_insert env fuel (xp_valid p) (xp_numbers p) (xp_format p) did disk) (\<lambda>rc2.
                    event_loop env fuel p did cfg)
                else event_loop env fuel p did cfg)
            else event_loop env fuel p did cfg)
         }
     }"

section \<open>Creating\<close>

record domain_create =
  cd_debug :: bool
  cd_daemonize :: bool
  cd_paused :: bool
  cd_dryrun :: bool
  cd_quiet :: bool
  cd_console_autoconnect :: bool
  cd_config_file :: "string option"
  cd_extra_config :: "string option"
  cd_restore_file :: "string option"
  cd_migrate_fd :: int

text \<open>What the function leaves: its value, the domain, the two names and the lock.\<close>

record created =
  cr_ret :: int
  cr_domid :: u32
  cr_common :: "string option"
  cr_migration :: "string option"
  cr_lock :: int

text \<open>The wait for the child on the console while signals interrupt it.\<close>

fun wait_console :: "env \<Rightarrow> nat \<Rightarrow> int \<Rightarrow> (fault + unit) prog" where
  "wait_console env 0 pid = return (Inl Diverges)"
| "wait_console env (Suc fuel) pid =
     do {
       a \<leftarrow> ask env (Other ''waitpid'' [pid] []);
       if a_int a < 0 \<and> a_errno a = EINTR then wait_console env fuel pid else return (Inr ())
     }"

text \<open>The labels \<open>out\<close> and \<open>error_out\<close>; a daemon ends here.\<close>

definition create_out :: "env \<Rightarrow> nat \<Rightarrow> bool \<Rightarrow> int \<Rightarrow> created \<Rightarrow> (stop + created) prog" where
  "create_out env fuel daemon pid cr =
     xl_then (if 0 < pid then xl_lib (wait_console env fuel pid) else return (Inr ())) (\<lambda>u.
       if daemon then xl_exit (cr_ret cr) else return (Inr cr))"

definition create_error_out ::
  "env \<Rightarrow> nat \<Rightarrow> xl_params \<Rightarrow> bool \<Rightarrow> int \<Rightarrow> created \<Rightarrow> (stop + created) prog" where
  "create_error_out env fuel p daemon pid cr =
     xl_then (xl_lib (release_lock env fuel (cr_lock cr))) (\<lambda>(rc, fd).
     xl_then (xl_call (xs_do env (Other ''libxl_domid_valid_guest'' [uint (cr_domid cr)] []))) (\<lambda>guest.
     xl_then (if guest then xl_lib (libxl_domain_destroy env (xp_dominf p) fuel (cr_domid cr) False) else return (Inr 0))
       (\<lambda>rc2. create_out env fuel daemon pid (cr\<lparr>cr_lock := fd\<rparr>))))"

text \<open>The parent waits for the process that becomes the daemon: whether it ended well.\<close>

fun wait_daemonized :: "env \<Rightarrow> nat \<Rightarrow> int \<Rightarrow> (stop + bool) prog" where
  "wait_daemonized env 0 pid = return (Inl (Faults Diverges))"
| "wait_daemonized env (Suc fuel) pid =
     do {
       a \<leftarrow> ask env (Other ''waitpid'' [pid] []);
       if a_int a = pid then return (Inr (a_out a ! 0 = 0))
       else if a_int a \<noteq> -1 then return (Inl Aborts)
       else if a_errno a \<noteq> EINTR then return (Inr False)
       else wait_daemonized env fuel pid
     }"

text \<open>The child that becomes the daemon.  \<open>CHK_ERRNO\<close> is applied to comparisons, which are
  never negative, so that files that cannot be opened end nothing.\<close>

definition become_daemon :: "env \<Rightarrow> string \<Rightarrow> (stop + unit) prog" where
  "become_daemon env name =
     xl_then (xl_call (int_of env (Other ''libxl_ctx_postfork'' [] []))) (\<lambda>rc.
     if rc \<noteq> 0 then xl_exit (-1)
     else
       xl_then (xl_call (xs_do env (Other ''asprintf'' [] [''xl-'' @ name]))) (\<lambda>ok.
       if \<not> ok then xl_exit 1
       else
         xl_then (xl_call (ask env (Other ''libxl_create_logfile'' [] [''xl-'' @ name]))) (\<lambda>a.
         if a_int a \<noteq> 0 then xl_exit (-1)
         else
           xl_call (do {
             logfile \<leftarrow> int_of env (Other ''open'' [] [null_str (a_str a)]);
             nullfd \<leftarrow> int_of env (Other ''open'' [] [''/dev/null'']);
             _ \<leftarrow> ask env (Other ''dup2'' [nullfd, 0] []);
             _ \<leftarrow> ask env (Other ''dup2'' [logfile, 1] []);
             _ \<leftarrow> ask env (Other ''dup2'' [logfile, 2] []);
             _ \<leftarrow> ask env (Other ''daemon'' [0, 1] []);
             return ()
           }))))"

text \<open>The daemon's part: the wait for the domain's death.  The variable \<open>ret\<close> of the event loop
  hides the function's own, which stays the domain's number.  \<open>restart\<close> is the jump to the
  label \<open>start\<close>, with the configuration under the domain's own name.\<close>

definition wait_for_death ::
  "env \<Rightarrow> nat \<Rightarrow> xl_params \<Rightarrow> int \<Rightarrow> domain_config \<Rightarrow> created
     \<Rightarrow> (domain_config \<Rightarrow> (stop + created) prog) \<Rightarrow> (stop + created) prog" where
  "wait_for_death env fuel p pid cfg cr restart =
     xl_then (xmalloc env (16 * of_nat (length (dc_disks cfg)))) (\<lambda>u.
     xl_then (xmalloc env 16) (\<lambda>u.
     xl_then (xl_lib (libxl_wait_for_disk_ejects env (cr_domid cr) (dc_disks cfg))) (\<lambda>w1.
     xl_then (xl_call (libxl_wait_for_domain_death env)) (\<lambda>w2.
     xl_then (xl_lib (event_loop env fuel p (cr_domid cr) cfg)) (\<lambda>r.
       case r of
         Quit \<Rightarrow> create_out env fuel True pid cr
       | Restart \<Rightarrow>
           xl_then (xl_call (ask env (Usleep 2000000))) (\<lambda>u.
             restart (case cr_common cr of
                        None \<Rightarrow> cfg
                      | Some n \<Rightarrow> cfg\<lparr>dc_c_info := (dc_c_info cfg)\<lparr>ci_name := Some n\<rparr>\<rparr>)))))))"

text \<open>When the domain is there: the caller goes on without it, or a child becomes the daemon.\<close>

definition after_creation ::
  "env \<Rightarrow> nat \<Rightarrow> xl_params \<Rightarrow> bool \<Rightarrow> bool \<Rightarrow> int \<Rightarrow> domain_config \<Rightarrow> created
     \<Rightarrow> (domain_config \<Rightarrow> (stop + created) prog) \<Rightarrow> (stop + created) prog" where
  "after_creation env fuel p daemonize daemon pid cfg cr restart =
     (if \<not> daemonize then create_out env fuel daemon pid cr
      else if daemon then wait_for_death env fuel p pid cfg cr restart
      else
        xl_then (xl_call (int_of env (Other ''libxl_fork'' [] []))) (\<lambda>child.
          if child \<noteq> 0 then
            xl_then (wait_daemonized env fuel child) (\<lambda>ok.
              if ok then create_out env fuel daemon pid cr
              else create_error_out env fuel p daemon pid (cr\<lparr>cr_ret := ERROR_FAIL\<rparr>))
          else
            xl_then (become_daemon env (null_str (ci_name (dc_c_info cfg)))) (\<lambda>u.
              wait_for_death env fuel p pid cfg cr restart)))"

text \<open>The domain is made and its configuration stored; \<open>pid\<close> is the child on the console, which
  the library starts when it is to connect one.\<close>

definition make_domain ::
  "env \<Rightarrow> domain_create \<Rightarrow> int \<Rightarrow> string \<Rightarrow> bool \<Rightarrow> int \<Rightarrow> domain_config \<Rightarrow> created
     \<Rightarrow> (bool \<times> int \<times> created) prog" where
  "make_domain env di restore_fd config console pid cfg cr =
     do {
       made \<leftarrow> ask env
         (Other (if cd_restore_file di \<noteq> None then ''libxl_domain_create_restore'' else ''libxl_domain_create_new'')
            [if console then 1 else 0, restore_fd] [null_str (ci_name (dc_c_info cfg))]);
       (let pid2 = (if console then a_out made ! 1 else pid);
            cr2 = cr\<lparr>cr_ret := a_int made, cr_domid := word_of_int (a_out made ! 0)\<rparr> in
        if a_int made \<noteq> 0 then return (False, pid2, cr2)
        else
          do {
            stored \<leftarrow> int_of env (Other ''libxl_userdata_store'' [uint (cr_domid cr2)] [''xl'', config]);
            return (if stored \<noteq> 0 then (False, pid2, cr2\<lparr>cr_ret := ERROR_FAIL\<rparr>) else (True, pid2, cr2))
          })
     }"

text \<open>From the label \<open>start\<close> on; \<open>fuel\<close> bounds the restarts and every loop inside.\<close>

fun create_start ::
  "env \<Rightarrow> nat \<Rightarrow> xl_params \<Rightarrow> domain_create \<Rightarrow> int \<Rightarrow> string \<Rightarrow> bool \<Rightarrow> bool \<Rightarrow> bool \<Rightarrow> int \<Rightarrow> domain_config
     \<Rightarrow> created \<Rightarrow> (stop + created) prog" where
  "create_start env 0 p di restore_fd config daemon halted console pid cfg cr = return (Inl (Faults Diverges))"
| "create_start env (Suc fuel) p di restore_fd config daemon halted console pid cfg cr =
     xl_then (xl_lib (acquire_lock env fuel (xp_lockfile p) (cr_lock cr))) (\<lambda>(rc, fd).
     (let cr1 = cr\<lparr>cr_domid := -1, cr_lock := fd\<rparr> in
      if rc < 0 then create_error_out env fuel p daemon pid cr1
      else
        xl_then (xl_lib (freemem env fuel p cfg)) (\<lambda>free.
        if free < 0 then create_error_out env fuel p daemon pid (cr1\<lparr>cr_ret := ERROR_FAIL\<rparr>)
        else
          xl_then (xl_call (make_domain env di restore_fd config console pid cfg cr1)) (\<lambda>(ok, pid2, cr2).
          if \<not> ok then create_error_out env fuel p daemon pid2 cr2
          else
            xl_then (xl_lib (release_lock env fuel (cr_lock cr2))) (\<lambda>(rc2, fd2).
            xl_then (if halted then return (Inr 0)
                     else xl_lib (libxl_domain_unpause env fuel (xp_timeout p) (cr_domid cr2))) (\<lambda>rc3.
            (let cr3 = cr2\<lparr>cr_lock := fd2, cr_ret := sint (cr_domid cr2)\<rparr> in
             after_creation env fuel p (cd_daemonize di) daemon pid2 cfg cr3
               (\<lambda>cfg2. create_start env fuel p di restore_fd config True False False pid2 cfg2 cr3))))))))"

text \<open>The configuration: of the saved domain, or of a file with what is added on the command
  line; None for an error returned with its code.\<close>

definition create_config ::
  "env \<Rightarrow> domain_create \<Rightarrow> string option \<Rightarrow> (stop + (int + string)) prog" where
  "create_config env di saved =
     (case cd_config_file di of
        None \<Rightarrow> return (Inr (case saved of None \<Rightarrow> Inl ERROR_INVAL | Some s \<Rightarrow> Inr s))
      | Some file \<Rightarrow>
          xl_then (xl_call (ask env (Other ''libxl_read_file_contents'' [] [file]))) (\<lambda>a.
            if a_int a \<noteq> 0 then return (Inr (Inl ERROR_FAIL))
            else
              (let text = null_str (a_str a) in
               case cd_extra_config di of
                 None \<Rightarrow> return (Inr (Inr text))
               | Some extra \<Rightarrow>
                   if cd_restore_file di \<noteq> None \<or> extra = [] then return (Inr (Inr text))
                   else if 2 ^ 31 - 1 - (int (length extra) + 3) < int (length text) then return (Inr (Inl ERROR_FAIL))
                   else
                     xl_then (xl_call (xs_do env (Other ''realloc'' [int (length text + length extra + 3)] []))) (\<lambda>ok.
                       return (Inr (if ok then Inr (text @ [CHR 0x0A] @ extra @ [CHR 0x0A]) else Inl ERROR_FAIL))))))"

definition create_domain ::
  "env \<Rightarrow> nat \<Rightarrow> xl_params \<Rightarrow> domain_create \<Rightarrow> string option \<Rightarrow> int \<Rightarrow> (stop + created) prog" where
  "create_domain env fuel p di common fd_lock =
     (let failed = (\<lambda>e. return (Inr \<lparr>cr_ret = e, cr_domid = -1, cr_common = common, cr_migration = None, cr_lock = fd_lock\<rparr>)) in
      xl_then
        (case cd_restore_file di of
           None \<Rightarrow> return (Inr (-1))
         | Some file \<Rightarrow>
             if 0 \<le> cd_migrate_fd di then return (Inr (cd_migrate_fd di))
             else xl_call (int_of env (Other ''open'' [] [file]))) (\<lambda>restore_fd.
      xl_then (if cd_restore_file di = None then return (Inr (Inr None)) else read_savefile env restore_fd) (\<lambda>saved.
        case saved of
          Inl e \<Rightarrow> failed e
        | Inr data \<Rightarrow>
            xl_then (create_config env di data) (\<lambda>config.
              case config of
                Inl e \<Rightarrow> failed e
              | Inr text \<Rightarrow>
                  xl_then (parse_config_data env (xp_dominf p) (xp_defaults p) (xp_readdata p) text (xp_config0 p)) (\<lambda>cfg.
                    (let incoming = 0 \<le> cd_migrate_fd di \<and> ci_name (dc_c_info cfg) \<noteq> None;
                         common2 = (if incoming then ci_name (dc_c_info cfg) else common);
                         name = (if incoming then Some (null_str common2 @ ''--incoming'') else ci_name (dc_c_info cfg));
                         cfg2 = cfg\<lparr>dc_c_info := (dc_c_info cfg)\<lparr>ci_name := name\<rparr>\<rparr>;
                         cr = \<lparr>cr_ret = 0, cr_domid = -1, cr_common = common2,
                               cr_migration = (if incoming then name else None), cr_lock = fd_lock\<rparr> in
                     if incoming \<and> common \<noteq> None then return (Inl Aborts)
                     else
                       xl_then (if incoming then xl_call (xs_do env (Other ''asprintf'' [] [null_str name])) else return (Inr True)) (\<lambda>ok.
                         if \<not> ok then xl_exit 1
                         else if cd_dryrun di then create_out env fuel False (-1) cr
                         else create_start env fuel p di restore_fd text False (cd_paused di)
                                (cd_console_autoconnect di) (-1) cfg2 cr)))))))"

end
