(* ===== verification/Xl_Migrate.thy ===== *)
theory Xl_Migrate
  imports Xl_Create
begin

text \<open>
  Saving a domain to a file and moving it to another host: the sender and the receiver of a
  migration, two processes that talk over two pipes.
\<close>

section \<open>Saving\<close>

text \<open>The domain, its name, and the configuration with its length.\<close>

definition save_domain_core_begin ::
  "env \<Rightarrow> dominf \<Rightarrow> u32 \<Rightarrow> string \<Rightarrow> string option \<Rightarrow> (stop + u32 \<times> string option \<times> string) prog" where
  "save_domain_core_begin env k old domain_spec override =
     xl_then (find_domain env k old domain_spec) (\<lambda>(did, common).
     xl_then (xl_call (ask env
       (case override of
          Some file \<Rightarrow> Other ''libxl_read_file_contents'' [] [file]
        | None \<Rightarrow> Other ''libxl_userdata_retrieve'' [uint did] [''xl'']))) (\<lambda>a.
       if a_int a \<noteq> 0 then xl_exit 2
       else return (Inr (did, common, case a_str a of None \<Rightarrow> [] | Some s \<Rightarrow> s))))"

definition save_domain ::
  "env \<Rightarrow> nat \<Rightarrow> xl_params \<Rightarrow> u32 \<Rightarrow> string \<Rightarrow> string \<Rightarrow> bool \<Rightarrow> string option \<Rightarrow> (stop + unit) prog" where
  "save_domain env fuel p old spec filename checkpoint override =
     xl_then (save_domain_core_begin env (xp_dominf p) old spec override) (\<lambda>(did, common, config).
     xl_then (xl_call (int_of env (Other ''open'' [] [filename]))) (\<lambda>fd.
     if fd < 0 then xl_exit 2
     else
       xl_then (save_domain_core_writeconfig env fd config (of_nat (length config))) (\<lambda>u.
       xl_then (xl_call (libxl_domain_suspend env None did fd)) (\<lambda>rc.
       xl_then (CHK_ERRNO rc) (\<lambda>u.
       xl_then (xl_call (close_fd env fd)) (\<lambda>u.
       xl_then (xl_lib (if checkpoint then libxl_domain_unpause env fuel (xp_timeout p) did
                        else libxl_domain_destroy env (xp_dominf p) fuel did False)) (\<lambda>rc2.
         xl_exit 0)))))))"

section \<open>Messages\<close>

definition migrate_receiver_banner :: string where
  "migrate_receiver_banner = ''xl migration receiver ready, send binary domain data.'' @ [CHR 0x0A]"

text \<open>The other messages are sent with their final zero byte.\<close>

definition migrate_receiver_ready :: string where
  "migrate_receiver_ready = ''domain received, ready to unpause'' @ [NUL]"

definition migrate_permission_to_go :: string where
  "migrate_permission_to_go = ''domain is yours, you are cleared to unpause'' @ [NUL]"

definition migrate_report :: string where
  "migrate_report = ''my copy unpause results are as follows'' @ [NUL]"

definition migrate_read_fixedmessage :: "env \<Rightarrow> int \<Rightarrow> string \<Rightarrow> int prog" where
  "migrate_read_fixedmessage env fd msg =
     do {
       (rc, buf) \<leftarrow> read_exactly env fd (length msg);
       return (if rc \<noteq> 0 then ERROR_FAIL else if buf \<noteq> msg then ERROR_FAIL else 0)
     }"

section \<open>The child that runs the transport\<close>

definition gettimeofday :: "env \<Rightarrow> (stop + int) prog" where
  "gettimeofday env =
     xl_then (xl_call (ask env (Other ''gettimeofday'' [] []))) (\<lambda>a.
     xl_then (CHK_ERRNO (a_int a)) (\<lambda>u. return (Inr (a_out a ! 0 * 1000000 + a_out a ! 1))))"

text \<open>Times are in microseconds.\<close>

fun child_report_loop :: "env \<Rightarrow> nat \<Rightarrow> int \<Rightarrow> int \<Rightarrow> int \<Rightarrow> (stop + unit) prog" where
  "child_report_loop env 0 child recv_fd waituntil = return (Inl (Faults Diverges))"
| "child_report_loop env (Suc fuel) child recv_fd waituntil =
     xl_then (xl_call (ask env (Other ''waitpid'' [child, 1] []))) (\<lambda>w.
       if a_int w = child then
         (if a_out w ! 0 \<noteq> 0
          then xl_call (do {_ \<leftarrow> ask env (Other ''libxl_report_child_exitstatus'' [child, a_out w ! 0] []); return ()})
          else return (Inr ()))
       else if a_int w = -1 then
         (if a_errno w = EINTR then child_report_loop env fuel child recv_fd waituntil else return (Inr ()))
       else if a_int w \<noteq> 0 then return (Inl Aborts)
       else
         xl_then (gettimeofday env) (\<lambda>now.
           if waituntil < now then return (Inr ())
           else
             (let timeout = waituntil - now in
              xl_then (xl_call (ask env (Other ''select''
                [recv_fd, if 0 \<le> recv_fd then timeout else min timeout 1000] []))) (\<lambda>sr.
                if 0 < a_int sr then child_report_loop env fuel child (-1) waituntil
                else if a_int sr = -1 \<and> a_errno sr \<noteq> EINTR then return (Inr ())
                else child_report_loop env fuel child recv_fd waituntil))))"

definition migration_child_report :: "env \<Rightarrow> nat \<Rightarrow> int \<Rightarrow> int \<Rightarrow> (stop + unit) prog" where
  "migration_child_report env fuel child recv_fd =
     (if child = 0 then return (Inr ())
      else xl_then (gettimeofday env) (\<lambda>now. child_report_loop env fuel child recv_fd (now + 2000000)))"

section \<open>The sender\<close>

text \<open>The labels at the end.\<close>

definition failed_suspend :: "env \<Rightarrow> nat \<Rightarrow> int \<Rightarrow> int \<Rightarrow> int \<Rightarrow> (stop + unit) prog" where
  "failed_suspend env fuel child send_fd recv_fd =
     xl_then (xl_call (close_fd env send_fd)) (\<lambda>u.
     xl_then (migration_child_report env fuel child recv_fd) (\<lambda>u. xl_exit (- ERROR_FAIL)))"

definition failed_resume :: "env \<Rightarrow> nat \<Rightarrow> u32 \<Rightarrow> int \<Rightarrow> int \<Rightarrow> int \<Rightarrow> (stop + unit) prog" where
  "failed_resume env fuel did child send_fd recv_fd =
     xl_then (xl_call (close_fd env send_fd)) (\<lambda>u.
     xl_then (migration_child_report env fuel child recv_fd) (\<lambda>u.
     xl_then (xl_call (libxl_domain_resume env did)) (\<lambda>rc. xl_exit (- ERROR_FAIL))))"

definition failed_badly :: "env \<Rightarrow> nat \<Rightarrow> int \<Rightarrow> int \<Rightarrow> int \<Rightarrow> (stop + unit) prog" where
  "failed_badly env fuel child send_fd recv_fd =
     xl_then (xl_call (close_fd env send_fd)) (\<lambda>u.
     xl_then (migration_child_report env fuel child recv_fd) (\<lambda>u. xl_exit (- ERROR_BADFAIL)))"

text \<open>After the target has acknowledged the transfer and the domain has been renamed away: the
  permission to start, and what the target reports.\<close>

definition give_permission ::
  "env \<Rightarrow> nat \<Rightarrow> xl_params \<Rightarrow> u32 \<Rightarrow> string option \<Rightarrow> string \<Rightarrow> int \<Rightarrow> int \<Rightarrow> int \<Rightarrow> (stop + unit) prog" where
  "give_permission env fuel p did common away child send_fd recv_fd =
     (let badly = failed_badly env fuel child send_fd recv_fd in
      xl_then (xl_call (write_exactly env send_fd migrate_permission_to_go)) (\<lambda>rc.
      if rc \<noteq> 0 then badly
      else
        xl_then (xl_call (migrate_read_fixedmessage env recv_fd migrate_report)) (\<lambda>rc2.
        if rc2 \<noteq> 0 then badly
        else
          xl_then (xl_call (read_exactly env recv_fd 1)) (\<lambda>(rc3, rc_buf).
          if rc3 \<noteq> 0 then badly
          else if rc_buf \<noteq> [NUL] then
            xl_then (xl_call (migrate_read_fixedmessage env recv_fd migrate_permission_to_go)) (\<lambda>rc4.
              if rc4 \<noteq> 0 then badly
              else
                xl_then (case common of
                           None \<Rightarrow> return (Inr 0)
                         | Some name \<Rightarrow> xl_lib (libxl_domain_rename env fuel did (Some away) name 0)) (\<lambda>rc5.
                xl_then (xl_call (libxl_domain_resume env did)) (\<lambda>rc6. xl_exit (- ERROR_FAIL))))
          else
            xl_then (xl_lib (libxl_domain_destroy env (xp_dominf p) fuel did True)) (\<lambda>rc7. xl_exit 0)))))"

text \<open>The parent after the fork: \<open>XL_SUSPEND_LIVE\<close> is the flag of the transfer.\<close>

definition migrate_send ::
  "env \<Rightarrow> nat \<Rightarrow> xl_params \<Rightarrow> u32 \<Rightarrow> string option \<Rightarrow> string \<Rightarrow> int \<Rightarrow> int \<Rightarrow> int \<Rightarrow> (stop + unit) prog" where
  "migrate_send env fuel p did common config child send_fd recv_fd =
     (let resume = failed_resume env fuel did child send_fd recv_fd in
      xl_then (xl_call (migrate_read_fixedmessage env recv_fd migrate_receiver_banner)) (\<lambda>rc.
      if rc \<noteq> 0 then
        xl_then (xl_call (close_fd env send_fd)) (\<lambda>u.
        xl_then (migration_child_report env fuel child recv_fd) (\<lambda>u. xl_exit (- rc)))
      else
        xl_then (save_domain_core_writeconfig env send_fd config (of_nat (length config))) (\<lambda>u.
        xl_then (xl_call (libxl_domain_suspend env (Some XL_SUSPEND_LIVE) did send_fd)) (\<lambda>rc2.
        if rc2 \<noteq> 0 then
          (if rc2 = ERROR_GUEST_TIMEDOUT then failed_suspend env fuel child send_fd recv_fd else resume)
        else
          xl_then (xl_call (migrate_read_fixedmessage env recv_fd migrate_receiver_ready)) (\<lambda>rc3.
          if rc3 \<noteq> 0 then resume
          else
            (case common of
               None \<Rightarrow> give_permission env fuel p did common [] child send_fd recv_fd
             | Some name \<Rightarrow>
                 (let away = name @ ''--migratedaway'' in
                  xl_then (xl_call (xs_do env (Other ''asprintf'' [] [away]))) (\<lambda>ok.
                  if \<not> ok then resume
                  else
                    xl_then (xl_lib (libxl_domain_rename env fuel did (Some name) away 0)) (\<lambda>rc4.
                    if rc4 \<noteq> 0 then resume
                    else give_permission env fuel p did common away child send_fd recv_fd)))))))))"

definition migrate_domain ::
  "env \<Rightarrow> nat \<Rightarrow> xl_params \<Rightarrow> u32 \<Rightarrow> string \<Rightarrow> string \<Rightarrow> string option \<Rightarrow> (stop + unit) prog" where
  "migrate_domain env fuel p old spec rune override =
     xl_then (save_domain_core_begin env (xp_dominf p) old spec override) (\<lambda>(did, common, config).
     if config = [] then xl_exit 1
     else
       xl_then (xl_call (ask env (Other ''libxl_pipe'' [] []))) (\<lambda>sendpipe.
       xl_then (MUST (a_int sendpipe)) (\<lambda>u.
       xl_then (xl_call (ask env (Other ''libxl_pipe'' [] []))) (\<lambda>recvpipe.
       xl_then (MUST (a_int recvpipe)) (\<lambda>u.
       xl_then (xl_call (int_of env (Other ''libxl_fork'' [] []))) (\<lambda>child.
       if child = -1 then xl_exit 1
       else if child = 0 then
         xl_then (xl_call (do {
           _ \<leftarrow> ask env (Other ''dup2'' [a_out sendpipe ! 0, 0] []);
           _ \<leftarrow> ask env (Other ''dup2'' [a_out recvpipe ! 1, 1] []);
           _ \<leftarrow> close_fd env (a_out sendpipe ! 0);
           _ \<leftarrow> close_fd env (a_out sendpipe ! 1);
           _ \<leftarrow> close_fd env (a_out recvpipe ! 0);
           _ \<leftarrow> close_fd env (a_out recvpipe ! 1);
           ask env (Other ''execlp'' [] [''sh'', ''sh'', ''-c'', rune])
         })) (\<lambda>u. xl_exit (-1))
       else
         xl_then (xl_call (close_fd env (a_out sendpipe ! 0))) (\<lambda>u.
         xl_then (xl_call (close_fd env (a_out recvpipe ! 1))) (\<lambda>u.
           migrate_send env fuel p did common config child (a_out sendpipe ! 1) (a_out recvpipe ! 0)))))))))"

section \<open>The receiver\<close>

text \<open>The label \<open>perhaps_destroy_notify_rc\<close>: the report, the result as a byte, and the domain
  destroyed and given back when something went wrong.\<close>

definition notify_rc :: "env \<Rightarrow> nat \<Rightarrow> xl_params \<Rightarrow> u32 \<Rightarrow> int \<Rightarrow> (stop + unit) prog" where
  "notify_rc env fuel p did rc =
     xl_then (xl_call (write_exactly env 1 migrate_report)) (\<lambda>rc2.
     if rc2 \<noteq> 0 then xl_exit (- ERROR_BADFAIL)
     else if ((- rc) mod 256 \<noteq> 0) \<noteq> (rc \<noteq> 0) then return (Inl Aborts)
     else
       xl_then (xl_call (write_exactly env 1 [char_of (nat ((- rc) mod 256))])) (\<lambda>rc3.
       if rc3 \<noteq> 0 then xl_exit (- ERROR_BADFAIL)
       else if rc = 0 then xl_exit 0
       else
         xl_then (xl_lib (libxl_domain_destroy env (xp_dominf p) fuel did True)) (\<lambda>rc4.
         if rc4 \<noteq> 0 then xl_exit (- ERROR_BADFAIL)
         else
           xl_then (xl_call (write_exactly env 1 migrate_permission_to_go)) (\<lambda>rc5.
             xl_exit (if rc5 \<noteq> 0 then - ERROR_BADFAIL else 0)))))"

text \<open>\<open>fd_lock\<close> is negative in a process that has just begun, and there is no name yet.\<close>

definition migrate_receive ::
  "env \<Rightarrow> nat \<Rightarrow> xl_params \<Rightarrow> bool \<Rightarrow> bool \<Rightarrow> (stop + unit) prog" where
  "migrate_receive env fuel p debug daemonize =
     xl_then (xl_call (write_exactly env 1 migrate_receiver_banner)) (\<lambda>b.
     xl_then (CHK_ERRNO b) (\<lambda>u.
     xl_then
       (create_domain env fuel p
          \<lparr>cd_debug = debug, cd_daemonize = daemonize, cd_paused = True, cd_dryrun = False, cd_quiet = False,
           cd_console_autoconnect = False, cd_config_file = None, cd_extra_config = None,
           cd_restore_file = Some ''incoming migration stream'', cd_migrate_fd = 0\<rparr> None (-1)) (\<lambda>cr.
     if cr_ret cr < 0 then xl_exit (- cr_ret cr)
     else
       xl_then (xl_call (write_exactly env 1 migrate_receiver_ready)) (\<lambda>rc.
       if rc \<noteq> 0 then xl_exit (- rc)
       else
         xl_then (xl_call (migrate_read_fixedmessage env 0 migrate_permission_to_go)) (\<lambda>rc2.
         if rc2 \<noteq> 0 then notify_rc env fuel p (cr_domid cr) rc2
         else
           xl_then (case cr_migration cr of
                      None \<Rightarrow> return (Inr 0)
                    | Some name \<Rightarrow>
                        xl_lib (libxl_domain_rename env fuel (cr_domid cr) (Some name) (null_str (cr_common cr)) 0)) (\<lambda>rc3.
           if rc3 \<noteq> 0 then notify_rc env fuel p (cr_domid cr) rc3
           else
             xl_then (xl_lib (libxl_domain_unpause env fuel (xp_timeout p) (cr_domid cr))) (\<lambda>rc4.
               notify_rc env fuel p (cr_domid cr) rc4)))))))"

end
