(* ===== verification/Quiet_Calls.thy ===== *)
theory Quiet_Calls
  imports Xl_Migrate
begin

text \<open>
  What a program calls: \<open>only Q m\<close> says that every call \<open>m\<close> makes satisfies \<open>Q\<close>.  Almost every
  part of a migration is quiet: it neither resumes nor unpauses a domain and writes no message.
\<close>

definition only :: "(xcall \<Rightarrow> bool) \<Rightarrow> 'a prog \<Rightarrow> bool" where
  "only Q m \<longleftrightarrow> (\<forall>tr. \<exists>new. snd (run_state m tr) = tr @ new \<and> (\<forall>e\<in>set new. Q (fst e)))"

lemma onlyD:
  "only Q m \<Longrightarrow> run_state m tr = (x, tr') \<Longrightarrow> \<exists>new. tr' = tr @ new \<and> (\<forall>e\<in>set new. Q (fst e))"
  unfolding only_def by (metis snd_conv)

lemma only_mono: "only Q m \<Longrightarrow> (\<And>c. Q c \<Longrightarrow> Q' c) \<Longrightarrow> only Q' m"
  unfolding only_def by meson

named_theorems onlies

lemma only_return [onlies]: "only Q (return x)"
  by (simp add: only_def)

lemma only_bind [onlies]:
  assumes "only Q m" "\<And>x. only Q (f x)"
  shows "only Q (State_Monad.bind m f)"
  unfolding only_def
proof
  fix tr
  obtain x tr1 where 1: "run_state m tr = (x, tr1)" by fastforce
  from onlyD [OF assms(1) 1] obtain n1 where n1: "tr1 = tr @ n1" "\<forall>e\<in>set n1. Q (fst e)" by blast
  obtain y tr2 where 2: "run_state (f x) tr1 = (y, tr2)" by fastforce
  from onlyD [OF assms(2) 2] obtain n2 where n2: "tr2 = tr1 @ n2" "\<forall>e\<in>set n2. Q (fst e)" by blast
  show "\<exists>new. snd (run_state (State_Monad.bind m f) tr) = tr @ new \<and> (\<forall>e\<in>set new. Q (fst e))"
    using 1 2 n1 n2 by (intro exI [of _ "n1 @ n2"]) auto
qed

lemma only_calls [onlies]:
  "Q c \<Longrightarrow> only Q (ask env c)" "Q (Xs_read t p) \<Longrightarrow> only Q (xs_read env t p)" "Q c \<Longrightarrow> only Q (xs_do env c)"
  "Q c \<Longrightarrow> only Q (int_of env c)" "Q c \<Longrightarrow> only Q (str_of env c)"
  by (simp_all add: only_def after_def)

lemma only_cases [onlies]:
  "(b \<Longrightarrow> only Q m) \<Longrightarrow> (\<not> b \<Longrightarrow> only Q n) \<Longrightarrow> only Q (if b then m else n)"
  "(z = None \<Longrightarrow> only Q m) \<Longrightarrow> (\<And>x. z = Some x \<Longrightarrow> only Q (f x)) \<Longrightarrow> only Q (case z of None \<Rightarrow> m | Some x \<Rightarrow> f x)"
  "(\<And>x. only Q (g x)) \<Longrightarrow> (\<And>x. only Q (h x)) \<Longrightarrow> only Q (case s of Inl x \<Rightarrow> g x | Inr x \<Rightarrow> h x)"
  "(\<And>x y. only Q (k x y)) \<Longrightarrow> only Q (case p of (x, y) \<Rightarrow> k x y)"
  by (cases z; cases s; cases p; simp)+

lemma only_let [onlies]: "(\<And>x. only Q (f x)) \<Longrightarrow> only Q (let x = e in f x)"
  by simp

lemma only_faults [onlies]:
  "only Q (lift_fault r)" "only Q m \<Longrightarrow> (\<And>x. only Q (f x)) \<Longrightarrow> only Q (try_then m f)"
  unfolding lift_fault_def try_then_def by (intro onlies; assumption?)+

lemma only_xl [onlies]:
  "only Q m \<Longrightarrow> only Q (xl_lib m)" "only Q n \<Longrightarrow> only Q (xl_call n)" "only Q (xl_exit code)"
  "only Q p \<Longrightarrow> (\<And>x. only Q (f x)) \<Longrightarrow> only Q (xl_then p f)"
  unfolding xl_lib_def xl_call_def xl_exit_def xl_then_def by (intro onlies; assumption?)+

lemma only_retry [onlies]:
  assumes "\<And>t. only Q (body t)" "Q Xs_transaction_start" "\<And>t. Q (Xs_transaction_end t False)"
  shows "only Q (retry_transaction env fuel body)"
  by (induction fuel) (auto intro!: onlies assms)

section \<open>Quiet and calm calls\<close>

text \<open>A calm call besides neither touches the lock nor makes a domain.\<close>

fun quiet :: "xcall \<Rightarrow> bool" where
  "quiet (Xc f args) = (f \<noteq> ''xc_domain_resume'' \<and> f \<noteq> ''xc_domain_unpause'')"
| "quiet (Other f args strs) = (f \<noteq> ''libxl_write_exactly'')"
| "quiet c = True"

fun calm :: "xcall \<Rightarrow> bool" where
  "calm (Xc f args) = (f \<noteq> ''xc_domain_resume'' \<and> f \<noteq> ''xc_domain_unpause'')"
| "calm (Other f args strs) =
     (f \<notin> {''libxl_write_exactly'', ''fcntl'', ''close'', ''libxl_domain_create_new'',
           ''libxl_domain_create_restore'', ''libxl_userdata_store''})"
| "calm c = True"

lemma calm_quiet: "only calm m \<Longrightarrow> only quiet m"
proof (erule only_mono)
  show "calm c \<Longrightarrow> quiet c" for c by (cases c) simp_all
qed

lemma calm_devices [onlies]:
  "only calm (libxl__device_frontend_path env dev)" "only calm (libxl__device_backend_path env dev)"
  "only calm (libxl__device_destroy env fuel p force)" "only calm (wait_for_dev_destroy env)"
  unfolding libxl__device_frontend_path_def libxl__device_backend_path_def libxl__device_destroy_def
    wait_for_dev_destroy_def by (intro onlies; simp)+

lemma calm_wait_watches [onlies]: "only calm (wait_watches env n)"
  by (induction n) (auto intro!: onlies)

lemma calm_destroy_kind [onlies]: "only calm (destroy_kind env fuel force path devs n)"
  by (induction devs arbitrary: n) (auto intro!: onlies)

lemma calm_destroy_kinds [onlies]: "only calm (destroy_kinds env fuel force did ks n)"
  by (induction ks arbitrary: n) (auto intro!: onlies)

lemma calm_devices_destroy [onlies]: "only calm (libxl__devices_destroy env fuel did force)"
  unfolding libxl__devices_destroy_def by (intro onlies; simp)

lemma calm_info [onlies]:
  "only calm (libxl_domain_info env k did)" "only calm (getinfolist env d n)"
  "only calm (libxl_get_physinfo env)" "only calm (is_hvm env did)"
  unfolding libxl_domain_info_def getinfolist_def libxl_get_physinfo_def is_hvm_def
  by (intro onlies; simp)+

lemma calm_domain_destroy [onlies]: "only calm (libxl_domain_destroy env k fuel did force)"
  unfolding libxl_domain_destroy_def by (intro onlies; simp)

lemma calm_rename [onlies]: "only calm (libxl_domain_rename env fuel did old new txn)"
proof -
  have r: "only calm (rename_in env t did p old new)" for t p
    unfolding rename_in_def by (intro onlies; simp)
  have "only calm (rename_loop env fuel did p old new txn)" for p
    by (induction fuel) (auto intro!: onlies r)
  then show ?thesis unfolding libxl_domain_rename_def by (intro onlies; simp)
qed

lemma calm_suspend [onlies]: "only calm (libxl_domain_suspend env flags did fd)"
  unfolding libxl_domain_suspend_def by (intro onlies; simp)

section \<open>Memory\<close>

lemma calm_fill_dom0 [onlies]: "only calm (libxl__fill_dom0_memory_info env fuel k out)"
proof -
  have r: "only calm (fill_dom0_in env k t out)" for t out
    unfolding fill_dom0_in_def by (intro onlies; simp)
  show ?thesis by (induction fuel arbitrary: out) (auto intro!: onlies r)
qed

lemma calm_slack [onlies]: "only calm (libxl__get_free_memory_slack env fuel k junk out)"
  by (induction fuel arbitrary: junk) (auto intro!: onlies split: option.split)

lemma calm_set_target [onlies]: "only calm (libxl_set_memory_target env fuel c k did target relative enforce)"
proof -
  have r: "only calm (set_target_in env c k t did dompath target relative enforce rc s)" for t dompath rc s
    unfolding set_target_in_def by (intro onlies; simp)
  have "only calm (set_target_loop env fuel c k did dompath target relative enforce current rc)" for dompath current rc
    by (induction fuel arbitrary: current rc) (auto intro!: onlies r)
  then show ?thesis unfolding libxl_set_memory_target_def by (intro onlies; simp)
qed

lemma calm_free_memory [onlies]:
  "only calm (libxl_get_free_memory env fuel k junk out)" "only calm (free_memory_loop env slack kb secs)"
  "only calm (libxl_wait_for_free_memory env fuel k junk kb secs2)"
proof -
  show "only calm (libxl_get_free_memory env fuel k junk out)"
    unfolding libxl_get_free_memory_def by (intro onlies; simp)
  show r: "only calm (free_memory_loop env slack kb secs)" for slack secs
    by (induction secs) (auto intro!: onlies)
  show "only calm (libxl_wait_for_free_memory env fuel k junk kb secs2)"
    unfolding libxl_wait_for_free_memory_def by (intro onlies r; simp)
qed

lemma calm_wait_target [onlies]: "only calm (libxl_wait_for_memory_target env fuel k did junk secs)"
proof -
  have g: "only calm (libxl_get_memory_target env fuel k did junk out)" for out
    unfolding libxl_get_memory_target_def by (intro onlies; simp)
  have "only calm (memory_target_loop env fuel k did junk target n)" for target n
    by (induction n arbitrary: target)
      (subst memory_target_loop.simps, auto intro!: onlies g)+
  then show ?thesis unfolding libxl_wait_for_memory_target_def .
qed

lemma calm_freemem [onlies]: "only calm (freemem env fuel p cfg)"
proof -
  have "only calm (freemem_loop env fuel p need n)" for need n
    by (induction n) (auto intro!: onlies)
  then show ?thesis unfolding freemem_def by (intro onlies; simp)
qed

section \<open>The commands\<close>

lemma calm_ends [onlies]:
  "only calm (CHK_ERRNO r)" "only calm (MUST r)" "only calm (xmalloc env sz)" "only calm (xrealloc env sz)"
  "only calm (read_exactly env fd n)"
  "only calm (migrate_read_fixedmessage env fd msg)" "only calm (gettimeofday env)"
  unfolding CHK_ERRNO_def MUST_def xmalloc_def xrealloc_def read_exactly_def
    migrate_read_fixedmessage_def gettimeofday_def by (intro onlies; simp)+

lemma calm_find [onlies]:
  "only calm (domain_qualifier_to_domid env k q old)" "only calm (cpupool_qualifier_to_cpupoolid env q old)"
  "only calm (find_domain env k old q)"
  unfolding domain_qualifier_to_domid_def cpupool_qualifier_to_cpupoolid_def find_domain_def
  by (intro onlies; simp)+

lemma calm_read_savefile [onlies]: "only calm (read_savefile env fd)"
  unfolding read_savefile_def by (intro onlies; simp)

lemma calm_config_parts [onlies]:
  "only calm (parse_create_info env dfl cfg)" "only calm (given_kb v f x)" "only calm (parse_memory cfg b)"
  "only calm (action_for cfg key dflt)" "only calm (parse_pv env cfg b)" "only calm (parse_device_model env dfl cfg c b d)"
  unfolding parse_create_info_def given_kb_def parse_memory_def action_for_def parse_pv_def parse_device_model_def
  by (intro onlies; simp)+

lemma calm_vifs [onlies]: "only calm (parse_vifs env dfl num bufs)"
proof -
  have o: "only calm (vif_option env b p nic)" for b p nic
    unfolding vif_option_def Let_def by (intro onlies; simp)
  have "only calm (vif_loop env n b pos nic)" for n b pos nic
    by (induction n arbitrary: b pos nic) (auto intro!: onlies o)
  then have l: "only calm (parse_vif env buf nic)" for buf nic unfolding parse_vif_def .
  have i: "only calm (libxl_device_nic_init env d)" for d
    unfolding libxl_device_nic_init_def by (intro onlies; simp)
  show ?thesis by (induction bufs arbitrary: num) (auto intro!: onlies l i)
qed

lemma calm_vif2s [onlies]: "only calm (parse_vif2s env k num bufs)"
proof -
  have o: "only calm (vif2_option env k key val n)" for key val n
    unfolding vif2_option_def by (intro onlies; simp)
  have l: "only calm (vif2_options env k ts n)" for ts n
    by (induction ts arbitrary: n) (auto intro!: onlies o split: option.split)
  have i: "only calm (libxl_device_net2_init env d)" for d
    unfolding libxl_device_net2_init_def by (intro onlies; simp)
  show ?thesis by (induction bufs arbitrary: num) (auto intro!: onlies l i)
qed

lemma calm_lists [onlies]:
  "only calm (parse_disks bufs)" "only calm (parse_pcis env msi pm bufs)"
  by (induction bufs) (auto intro!: onlies split: option.split)

lemma calm_cpuid [onlies]: "only calm (parse_cpuid env cfg)"
proof -
  have e: "only calm (call_each env f xs)" if "\<And>x. calm (Other f [] [x])" for f xs
    using that by (induction xs) (auto intro!: onlies simp del: calm.simps)
  show ?thesis unfolding parse_cpuid_def
    by (auto intro!: onlies e split: sum.split option.split list.split)
qed

lemma calm_parse_config [onlies]: "only calm (parse_config_data env k dfl readdata text d)"
  unfolding parse_config_data_def by (intro onlies; simp)

lemma calm_create_config [onlies]: "only calm (create_config env di saved)"
  unfolding create_config_def by (intro onlies; simp)

lemma calm_wait_daemonized [onlies]: "only calm (wait_daemonized env fuel pid)"
  by (induction fuel) (auto intro!: onlies)

lemmas calm_facts = calm_devices calm_wait_watches calm_destroy_kind calm_destroy_kinds
  calm_devices_destroy calm_info calm_domain_destroy calm_rename calm_suspend calm_fill_dom0
  calm_slack calm_set_target calm_free_memory calm_wait_target calm_freemem calm_ends calm_find
  calm_read_savefile calm_config_parts calm_vifs calm_vif2s calm_lists calm_cpuid
  calm_parse_config calm_create_config calm_wait_daemonized

lemmas quiet_facts [onlies] = calm_facts [THEN calm_quiet]
lemmas quiet_facts_ends = calm_ends(1) [THEN calm_quiet] calm_ends(4) [THEN calm_quiet]

lemma quiet_close [onlies]: "only quiet (close_fd env fd)"
  unfolding close_fd_def by (intro onlies; simp)

lemma quiet_lock [onlies]:
  "only quiet (acquire_lock env fuel file fd)" "only quiet (release_lock env fuel fd)"
proof -
  have r: "only quiet (set_lock env fuel fd l)" for fd l
    by (induction fuel) (auto intro!: onlies)
  show "only quiet (acquire_lock env fuel file fd)" "only quiet (release_lock env fuel fd)"
    unfolding acquire_lock_def release_lock_def by (intro onlies r; simp)+
qed

lemma quiet_make_domain [onlies]: "only quiet (make_domain env di fd config console pid cfg cr)"
  unfolding make_domain_def by (intro onlies; simp)

lemma quiet_create_ends [onlies]:
  "only quiet (create_out env fuel daemon pid cr)" "only quiet (create_error_out env fuel p daemon pid cr)"
proof -
  have w: "only quiet (wait_console env fuel pid)"
    by (induction fuel) (auto intro!: onlies)
  show o: "only quiet (create_out env fuel daemon pid cr)" for cr
    unfolding create_out_def by (intro onlies w; simp)
  show "only quiet (create_error_out env fuel p daemon pid cr)"
    unfolding create_error_out_def by (intro onlies o; simp)
qed

lemma quiet_child_report [onlies]: "only quiet (migration_child_report env fuel child fd)"
proof -
  have "only quiet (child_report_loop env fuel child fd w)" for fd w
    by (induction fuel arbitrary: fd) (auto intro!: onlies)
  then show ?thesis unfolding migration_child_report_def by (intro onlies; simp)
qed

lemma quiet_save_begin [onlies]: "only quiet (save_domain_core_begin env k old spec override)"
  unfolding save_domain_core_begin_def by (intro onlies; simp split: option.split)

text \<open>Creating the domain of an incoming migration, in the process that goes on after it: there
  the fork does not answer 0.\<close>

lemma only_int_of:
  assumes "Q c" "\<And>tr. only Q (f (a_int (env tr c)))"
  shows "only Q (xl_then (xl_call (int_of env c)) f)"
  unfolding only_def
proof
  fix tr
  obtain x tr' where r: "run_state (f (a_int (env tr c))) (after env tr c) = (x, tr')" by fastforce
  from onlyD [OF assms(2) r] obtain new where "tr' = after env tr c @ new" "\<forall>e\<in>set new. Q (fst e)" by blast
  with r assms(1) show "\<exists>new. snd (run_state (xl_then (xl_call (int_of env c)) f) tr) = tr @ new \<and> (\<forall>e\<in>set new. Q (fst e))"
    by (intro exI [of _ "(c, env tr c) # new"]) (auto simp: after_def)
qed

definition goes_on :: "env \<Rightarrow> bool" where
  "goes_on env \<longleftrightarrow> (\<forall>tr. a_int (env tr (Other ''libxl_fork'' [] [])) \<noteq> 0)"

lemma quiet_after_creation:
  "goes_on env \<Longrightarrow> only quiet (after_creation env fuel p daemonize False pid cfg cr restart)"
  unfolding after_creation_def goes_on_def by (auto intro!: onlies only_int_of)

lemma quiet_create_start:
  assumes "goes_on env"
  shows "only quiet (create_start env fuel p di fd config False True console pid cfg cr)"
  by (cases fuel) (auto simp: Let_def split_def intro!: onlies quiet_after_creation assms)

lemma quiet_create_domain:
  assumes "goes_on env" "cd_paused di"
  shows "only quiet (create_domain env fuel p di common fd)"
  unfolding create_domain_def Let_def
  using quiet_create_start [OF assms(1)] assms(2) by (intro onlies; simp)

end
