(* ===== verification/Saved_Domain.thy ===== *)
theory Saved_Domain
  imports Quiet_Calls Xenstore
begin

text \<open>
  The file of a saved domain: the header and the configuration that \<open>save_domain\<close> and the sender
  of a migration write are the ones that \<open>create_domain\<close> reads.
\<close>

section \<open>Numbers in the header\<close>

lemma bytes_u32_of_bytes [simp]: "bytes_u32 (u32_bytes w) = w"
proof -
  let ?n = "unat w"
  have "?n mod (256 * (256 * (256 * 256))) =
      ?n mod 256 + 256 * (?n div 256 mod 256 + 256 * (?n div 256 div 256 mod 256 + 256 * (?n div 256 div 256 div 256 mod 256)))"
    unfolding mod_mult2_eq [of ?n 256 "256 * (256 * 256)"] mod_mult2_eq [of "?n div 256" 256 "256 * 256"]
      mod_mult2_eq [of "?n div 256 div 256" 256 256] by simp
  moreover have "?n mod (256 * (256 * (256 * 256))) = ?n" by (rule mod_less) (use unsigned_less [of w, where 'a = nat] in simp)
  ultimately have "(of_nat (?n mod 256 + 256 * (?n div 256 mod 256 +
      256 * (?n div 256 div 256 mod 256 + 256 * (?n div 256 div 256 div 256 mod 256)))) :: u32) = of_nat ?n"
    by (simp only:)
  then show ?thesis by (simp add: bytes_u32_def u32_bytes_def Let_def)
qed

lemma length_u32_bytes [simp]: "length (u32_bytes w) = 4"
  by (simp add: u32_bytes_def Let_def)

lemma length_header_bytes: "length (sh_magic h) = 32 \<Longrightarrow> length (header_bytes h) = 48"
  by (simp add: header_bytes_def)

lemma header_of_header_bytes: "length (sh_magic h) = 32 \<Longrightarrow> header_of_bytes (header_bytes h) = h"
  by (simp add: header_bytes_def header_of_bytes_def)

lemma length_magic [simp]: "length savefileheader_magic = 32"
  by (simp add: savefileheader_magic_def)

section \<open>Streams\<close>

text \<open>The bytes a process has written to a descriptor, a failed write giving none, and how many it has
  tried to read from one.\<close>

fun bytes_of :: "int \<Rightarrow> xcall \<times> answer \<Rightarrow> string" where
  "bytes_of fd (Other f [x] [s], a) = (if f = ''libxl_write_exactly'' \<and> x = fd \<and> a_int a = 0 then s else [])"
| "bytes_of fd c = []"

definition written :: "int \<Rightarrow> history \<Rightarrow> string" where
  "written fd tr = concat (map (bytes_of fd) tr)"

fun read_len :: "int \<Rightarrow> xcall \<Rightarrow> nat" where
  "read_len fd (Other f [x, n] strs) = (if f = ''libxl_read_exactly'' \<and> x = fd then nat n else 0)"
| "read_len fd c = 0"

definition consumed :: "int \<Rightarrow> history \<Rightarrow> nat" where
  "consumed fd tr = sum_list (map (\<lambda>e. read_len fd (fst e)) tr)"

lemma written_after [simp]: "written fd (after env tr c) = written fd tr @ bytes_of fd (c, env tr c)"
  by (simp add: written_def after_def)

lemma consumed_after [simp]: "consumed fd (after env tr c) = consumed fd tr + read_len fd c"
  by (simp add: consumed_def after_def)

text \<open>A descriptor from which the bytes \<open>s\<close> can be read.  \<open>libxl_read_exactly\<close> answers 0 or an error
  number, which is positive: \<open>EPROTO\<close> when the file ends too early.  The buffer then begins with the
  bytes there were and goes on with whatever the memory held.\<close>

definition stream :: "env \<Rightarrow> int \<Rightarrow> string \<Rightarrow> bool" where
  "stream env fd s \<longleftrightarrow>
     (\<forall>tr n. let a = env tr (Other ''libxl_read_exactly'' [fd, int n] []); k = consumed fd tr in
        if k + n \<le> length s then a_int a = 0 \<and> a_str a = Some (take n (drop k s))
        else 0 < a_int a \<and> (\<exists>buf. a_str a = Some buf \<and> length buf = n \<and> take (length s - k) buf = drop k s))"

text \<open>A descriptor that takes every byte.\<close>

definition sink :: "env \<Rightarrow> int \<Rightarrow> bool" where
  "sink env fd \<longleftrightarrow> (\<forall>tr s. a_int (env tr (Other ''libxl_write_exactly'' [fd] [s])) = 0)"

definition has_memory :: "env \<Rightarrow> bool" where
  "has_memory env \<longleftrightarrow> (\<forall>tr sz. a_int (env tr (Other ''malloc'' [sz] [])) \<noteq> 0)"

text \<open>A read succeeds or fails without the caller of \<open>CHK_ERRNO\<close> noticing, and the buffer holds what
  there was.\<close>

lemma stream_buffer:
  assumes "stream env fd s"
  shows "\<exists>buf. a_str (env tr (Other ''libxl_read_exactly'' [fd, int n] [])) = Some buf \<and>
      0 \<le> a_int (env tr (Other ''libxl_read_exactly'' [fd, int n] [])) \<and>
      take n (take (length s - consumed fd tr) buf) = take n (drop (consumed fd tr) s) \<and>
      (consumed fd tr \<le> length s \<longrightarrow> length buf = n)"
proof -
  let ?a = "env tr (Other ''libxl_read_exactly'' [fd, int n] [])" and ?k = "consumed fd tr"
  have *: "if ?k + n \<le> length s then a_int ?a = 0 \<and> a_str ?a = Some (take n (drop ?k s))
        else 0 < a_int ?a \<and> (\<exists>buf. a_str ?a = Some buf \<and> length buf = n \<and> take (length s - ?k) buf = drop ?k s)"
    using assms unfolding stream_def Let_def by blast
  show ?thesis
  proof (cases "?k + n \<le> length s")
    case True
    with * show ?thesis by (auto simp: min_def)
  next
    case False
    with * show ?thesis by auto
  qed
qed

section \<open>Writing\<close>

definition saved_header :: "string \<Rightarrow> save_file_header" where
  "saved_header config =
     \<lparr>sh_magic = savefileheader_magic, sh_byteorder = SAVEFILE_BYTEORDER_VALUE, sh_mandatory_flags = 0,
      sh_optional_flags = 0, sh_optional_data_len = 4 + of_nat (length config)\<rparr>"

text \<open>What a saved domain's file begins with.\<close>

definition saved_bytes :: "string \<Rightarrow> string" where
  "saved_bytes config = header_bytes (saved_header config) @ u32_bytes (of_nat (length config)) @ config"

lemma length_saved_bytes: "length (saved_bytes config) = 52 + length config"
  by (simp add: saved_bytes_def header_bytes_def saved_header_def)

lemma writeconfig_writes:
  assumes "run_state (save_domain_core_writeconfig env fd config (of_nat (length config))) tr = (Inr u, tr')"
    and s: "sink env fd" and "length config < 2 ^ 31"
  shows "written fd tr' = written fd tr @ saved_bytes config"
proof -
  have n: "unat (of_nat (length config) :: u32) = length config"
    using assms(3) by (simp add: unat_of_nat)
  have z: "(of_nat (length config) :: u32) = 0 \<longleftrightarrow> config = []"
    using n by (auto dest: arg_cong [where f = unat])
  show ?thesis
  proof (cases "config = []")
    case True
    show ?thesis
      using assms(1) unfolding True
      by (auto simp: save_domain_core_writeconfig_def Let_def xrealloc_def CHK_ERRNO_def saved_bytes_def saved_header_def
            s [unfolded sink_def]
          split: if_splits)
  next
    case False
    then show ?thesis
      using assms(1)
      by (auto simp: save_domain_core_writeconfig_def Let_def xrealloc_def CHK_ERRNO_def n z saved_bytes_def saved_header_def
            s [unfolded sink_def]
          split: if_splits)
  qed
qed

section \<open>Reading\<close>

lemma stream_read:
  assumes "stream env fd s" "consumed fd tr \<le> length s"
  shows "\<exists>rc buf tr'. run_state (read_exactly env fd n) tr = ((rc, buf), tr') \<and> 0 \<le> rc \<and> length buf = n \<and>
    take (length s - consumed fd tr) buf = take n (drop (consumed fd tr) s) \<and> consumed fd tr' = consumed fd tr + n"
proof -
  from stream_buffer [OF assms(1), of tr n] assms(2) obtain buf where
    "a_str (env tr (Other ''libxl_read_exactly'' [fd, int n] [])) = Some buf"
    "0 \<le> a_int (env tr (Other ''libxl_read_exactly'' [fd, int n] []))"
    "take n (take (length s - consumed fd tr) buf) = take n (drop (consumed fd tr) s)" "length buf = n" by blast
  then show ?thesis by (auto simp: Let_def null_str_def min_def split: if_splits)
qed

lemma memory_malloc:
  "has_memory env \<Longrightarrow> \<exists>tr'. run_state (xmalloc env sz) tr = (Inr (), tr') \<and> consumed fd tr' = consumed fd tr"
  by (simp add: xmalloc_def has_memory_def)

lemma saved_parts:
  "header_of_bytes (take 48 (saved_bytes config @ rest)) = saved_header config"
  "take (4 + length config) (drop 48 (saved_bytes config @ rest)) = u32_bytes (of_nat (length config)) @ config"
proof -
  have h: "length (header_bytes (saved_header config)) = 48"
    by (rule length_header_bytes) (simp add: saved_header_def)
  show "header_of_bytes (take 48 (saved_bytes config @ rest)) = saved_header config"
    using h by (simp add: saved_bytes_def header_of_header_bytes saved_header_def)
  show "take (4 + length config) (drop 48 (saved_bytes config @ rest)) = u32_bytes (of_nat (length config)) @ config"
    using h by (simp add: saved_bytes_def)
qed

lemma read_savefile_reads:
  assumes st: "stream env fd (take m (saved_bytes config @ rest))" and mem: "has_memory env"
    and c: "consumed fd tr = 0" and len: "length config < 2 ^ 31" and m: "52 \<le> m"
  shows "\<exists>config'. fst (run_state (read_savefile env fd) tr) = Inr (Inr (Some config')) \<and>
    length config' = length config \<and> take (m - 52) config' = take (m - 52) config"
proof -
  let ?n = "4 + length config" and ?s = "take m (saved_bytes config @ rest)"
  have n: "unat (of_nat (length config) :: u32) = length config"
    "unat (4 + of_nat (length config) :: u32) = ?n"
    using len by (simp_all add: unat_of_nat unat_plus_if')
  have si: "sint (of_nat (length config) :: c_int) = int (length config)"
    using len n(1) by (subst sint_small) simp_all
  have u: "uint (4 + of_nat (length config) :: u32) = 4 + int (length config)"
    using n(2) by (metis of_nat_add of_nat_numeral uint_nat)
  then have z: "(4 + of_nat (length config) :: u32) \<noteq> 0" by auto
  have l: "\<not> (4 + of_nat (length config) :: u32) < 4"
    by (simp add: word_less_nat_alt n(2))
  have ls: "52 \<le> length ?s" using m by (simp add: length_saved_bytes)
  from stream_read [OF st, of tr 48] c obtain rc1 s1 tr1 where
    1: "run_state (read_exactly env fd 48) tr = ((rc1, s1), tr1)" "0 \<le> rc1" "length s1 = 48"
      "take (length ?s) s1 = take 48 ?s" "consumed fd tr1 = 48" by auto
  then have "s1 = take 48 (saved_bytes config @ rest)" using ls m by (simp del: take_append)
  then have h: "header_of_bytes s1 = saved_header config" using saved_parts(1) by simp
  from memory_malloc [OF mem] obtain tr2 where
    2: "run_state (xmalloc env (ucast (4 + of_nat (length config) :: u32))) tr1 = (Inr (), tr2)" "consumed fd tr2 = 48"
    using 1(5) by metis
  from stream_read [OF st, of tr2 ?n] 2(2) ls obtain rc3 opt tr3 where
    3: "run_state (read_exactly env fd ?n) tr2 = ((rc3, opt), tr3)" "0 \<le> rc3" "length opt = ?n"
      "take (length ?s - 48) opt = take ?n (drop 48 ?s)" by auto
  have "take (m - 48) (take ?n (drop 48 (saved_bytes config @ rest))) = take (m - 48) (u32_bytes (of_nat (length config)) @ config)"
    unfolding saved_parts(2) ..
  moreover have "take (m - 48) opt = take (m - 48) (take ?n (drop 48 (saved_bytes config @ rest)))"
  proof -
    have "take ?n (drop 48 ?s) = take (m - 48) (take ?n (drop 48 (saved_bytes config @ rest)))"
      by (simp add: drop_take take_take min.commute del: take_append drop_append)
    moreover have "take (m - 48) opt = take (length ?s - 48) opt"
      using 3(3) by (cases "m \<le> 52 + length config") (simp_all add: length_saved_bytes min_def)
    ultimately show ?thesis using 3(4) by (simp del: take_append drop_append)
  qed
  ultimately have o: "take (m - 48) opt = take (m - 48) (u32_bytes (of_nat (length config)) @ config)" by simp
  have o4: "take 4 opt = u32_bytes (of_nat (length config))"
    using arg_cong [OF o, of "take 4"] m by (simp add: min_absorb1)
  have oc: "take (m - 52) (drop 4 opt) = take (m - 52) config"
    using arg_cong [OF o, of "drop 4"] m by (simp add: drop_take)
  from memory_malloc [OF mem] obtain tr4 where
    4: "run_state (xmalloc env (sext64 (of_nat (length config) :: c_int))) tr3 = (Inr (), tr4)"
    by metis
  have "fst (run_state (read_savefile env fd) tr) = Inr (Inr (Some (take (length config) (drop 4 opt))))"
    using 1(2) 3(2)
    by (simp add: read_savefile_def Let_def CHK_ERRNO_def 1(1) h 2(1) 3(1) 4 n si u z l o4 saved_header_def del: run_read_exactly)
  then show ?thesis using 3(3) oc by (simp add: min_def)
qed

section \<open>Round trip\<close>

text \<open>C9. The configuration saved with a domain: written to a descriptor that takes every byte by
  \<open>save_domain_core_writeconfig\<close>, it is read back exactly, whatever its bytes, by the code that restores a
  domain.  A file cut off behind the length of the configuration is not refused: the test of \<open>CHK_ERRNO\<close> lets
  the positive error number through, and the configuration taken has the bytes that are left, and behind
  them, up to the full length, what the memory held.\<close>

theorem savefile_roundtrip:
  assumes "run_state (save_domain_core_writeconfig writer out config (of_nat (length config))) [] = (Inr u, tr)"
    and "sink writer out" and "length config < 2 ^ 31" and "has_memory reader"
    and "stream reader fd (take m (written out tr @ guest))" and "52 \<le> m"
  shows "(length (written out tr) \<le> m \<longrightarrow> fst (run_state (read_savefile reader fd) []) = Inr (Inr (Some config))) \<and>
    (\<exists>config'. fst (run_state (read_savefile reader fd) []) = Inr (Inr (Some config')) \<and>
       length config' = length config \<and> take (m - 52) config' = take (m - 52) config)"
proof -
  have w: "written out tr = saved_bytes config"
    using writeconfig_writes [OF assms(1,2,3)] by (simp add: written_def)
  have c: "consumed fd [] = 0" by (simp add: consumed_def)
  from read_savefile_reads [OF assms(5) [unfolded w] assms(4) c assms(3,6)] show ?thesis
    by (auto simp: w length_saved_bytes)
qed

text \<open>A process whose descriptors all hold the bytes \<open>s\<close>, whose memory holds zeros, and for which every other
  call succeeds.\<close>

definition reader_of :: "string \<Rightarrow> env" where
  "reader_of s tr c =
     (case c of
        Other f [fd, n] [] \<Rightarrow>
          if f = ''libxl_read_exactly''
          then (ans (if consumed fd tr + nat n \<le> length s then 0 else 71))
                 \<lparr>a_str := Some (take (nat n) (drop (consumed fd tr) s @ replicate (nat n) NUL))\<rparr>
          else ans 0
      | Other f args strs \<Rightarrow> ans (if f \<in> {''malloc'', ''realloc''} then 1 else 0)
      | _ \<Rightarrow> ans 0)"

lemma reader_of_ok: "stream (reader_of s) fd s" "sink (reader_of s) fd" "has_memory (reader_of s)"
  by (auto simp: stream_def sink_def has_memory_def reader_of_def Let_def ans_def min_def)

theorem savefile_roundtrip_witness:
  "written 5 (snd (run_state (save_domain_core_writeconfig (reader_of []) 5 ''name=1'' 6) [])) = saved_bytes ''name=1'' \<and>
   fst (run_state (read_savefile (reader_of (saved_bytes ''name=1'' @ ''guest'')) 4) []) = Inr (Inr (Some ''name=1'')) \<and>
   (\<exists>c. fst (run_state (read_savefile (reader_of (take 55 (saved_bytes ''name=1''))) 4) []) = Inr (Inr (Some c)) \<and>
      length c = length ''name=1'' \<and> take 3 c = ''nam'')"
proof -
  let ?w = "run_state (save_domain_core_writeconfig (reader_of []) 5 ''name=1'' 6) []"
  have r: "fst ?w = Inr ()"
    by (simp add: save_domain_core_writeconfig_def Let_def xrealloc_def CHK_ERRNO_def reader_of_def ans_def)
  then have w: "run_state (save_domain_core_writeconfig (reader_of []) 5 ''name=1'' (of_nat (length ''name=1''))) [] = (Inr (), snd ?w)"
    by (simp add: prod_eq_iff)
  have b: "written 5 (snd ?w) = saved_bytes ''name=1''"
    using writeconfig_writes [OF w reader_of_ok(2)] by (simp add: written_def)
  from savefile_roundtrip [OF w, of "reader_of (saved_bytes ''name=1'' @ ''guest'')" 4 100 "''guest''"]
    savefile_roundtrip [OF w, of "reader_of (take 55 (saved_bytes ''name=1''))" 4 55 "[]"]
  show ?thesis using b by (simp add: reader_of_ok length_saved_bytes)
qed

end
