(* ===== verification/Migration.thy ===== *)
theory Migration
  imports Quiet_Calls Xenstore
begin

text \<open>
  The handshake at the end of a migration: whatever the two hosts answer and at whatever point
  one of the processes fails, the domain does not end up running on both hosts.
\<close>

section \<open>What a history shows\<close>

definition sent :: "string \<Rightarrow> history \<Rightarrow> bool" where
  "sent msg tr \<longleftrightarrow> (\<exists>fd a. (Other ''libxl_write_exactly'' [fd] [msg], a) \<in> set tr)"

definition received :: "string \<Rightarrow> history \<Rightarrow> bool" where
  "received msg tr \<longleftrightarrow>
     (\<exists>fd a. (Other ''libxl_read_exactly'' [fd, int (length msg)] [], a) \<in> set tr \<and>
             a_int a = 0 \<and> null_str (a_str a) = msg)"

text \<open>The domain was resumed, and it was unpaused with success.\<close>

definition resumed :: "history \<Rightarrow> bool" where
  "resumed tr \<longleftrightarrow> (\<exists>args a. (Xc ''xc_domain_resume'' args, a) \<in> set tr)"

definition started :: "history \<Rightarrow> bool" where
  "started tr \<longleftrightarrow> (\<exists>args a. (Xc ''xc_domain_unpause'' args, a) \<in> set tr \<and> 0 \<le> a_int a)"

abbreviation GO :: string where
  "GO \<equiv> migrate_permission_to_go"

lemma facts_append:
  "sent msg (tr @ tr') \<longleftrightarrow> sent msg tr \<or> sent msg tr'"
  "received msg (tr @ tr') \<longleftrightarrow> received msg tr \<or> received msg tr'"
  "resumed (tr @ tr') \<longleftrightarrow> resumed tr \<or> resumed tr'"
  "started (tr @ tr') \<longleftrightarrow> started tr \<or> started tr'"
  unfolding sent_def received_def resumed_def started_def set_append by blast+

text \<open>Calls that leave each of the facts alone.\<close>

definition no_go :: "xcall \<Rightarrow> bool" where
  "no_go c \<longleftrightarrow> (\<forall>fd. c \<noteq> Other ''libxl_write_exactly'' [fd] [GO])"

definition no_resume :: "xcall \<Rightarrow> bool" where
  "no_resume c \<longleftrightarrow> (\<forall>args. c \<noteq> Xc ''xc_domain_resume'' args)"

definition no_unpause :: "xcall \<Rightarrow> bool" where
  "no_unpause c \<longleftrightarrow> (\<forall>args. c \<noteq> Xc ''xc_domain_unpause'' args)"

lemma quiet_no: "quiet c \<Longrightarrow> no_go c" "quiet c \<Longrightarrow> no_resume c" "quiet c \<Longrightarrow> no_unpause c"
  by (auto simp: no_go_def no_resume_def no_unpause_def)

lemma no_facts:
  "\<forall>e\<in>set tr. no_go (fst e) \<Longrightarrow> \<not> sent GO tr" "\<forall>e\<in>set tr. no_resume (fst e) \<Longrightarrow> \<not> resumed tr"
  "\<forall>e\<in>set tr. no_unpause (fst e) \<Longrightarrow> \<not> started tr"
  by (auto simp: sent_def resumed_def started_def no_go_def no_resume_def no_unpause_def)

section \<open>Assertions\<close>

text \<open>From a history with \<open>P\<close> the program ends the process with \<open>E\<close> or goes on with \<open>Q\<close>.\<close>

definition ht :: "(history \<Rightarrow> bool) \<Rightarrow> (stop + 'a) prog \<Rightarrow> ('a \<Rightarrow> history \<Rightarrow> bool) \<Rightarrow> (history \<Rightarrow> bool) \<Rightarrow> bool" where
  "ht P m Q E \<longleftrightarrow>
     (\<forall>tr r tr'. P tr \<longrightarrow> run_state m tr = (r, tr') \<longrightarrow> (case r of Inl e \<Rightarrow> E tr' | Inr x \<Rightarrow> Q x tr'))"

lemma htD:
  "ht P m Q E \<Longrightarrow> P tr \<Longrightarrow> run_state m tr = (r, tr') \<Longrightarrow> (case r of Inl e \<Rightarrow> E tr' | Inr x \<Rightarrow> Q x tr')"
  unfolding ht_def by blast

lemma ht_then:
  "ht P m Q E \<Longrightarrow> (\<And>x. ht (Q x) (f x) R E) \<Longrightarrow> ht P (xl_then m f) R E"
  unfolding ht_def by (fastforce split: prod.splits sum.splits)

lemma ht_stop: "(\<And>tr. P tr \<Longrightarrow> E tr) \<Longrightarrow> ht P (xl_exit c) R E" "(\<And>tr. P tr \<Longrightarrow> E tr) \<Longrightarrow> ht P (return (Inl s)) R E"
  by (auto simp: ht_def)

lemma ht_return: "(\<And>tr. P tr \<Longrightarrow> Q x tr) \<Longrightarrow> ht P (return (Inr x)) Q E"
  by (auto simp: ht_def)

lemma ht_pre: "ht P m Q E \<Longrightarrow> (\<And>tr. P' tr \<Longrightarrow> P tr) \<Longrightarrow> ht P' m Q E"
  unfolding ht_def by blast

lemma ht_if: "(b \<Longrightarrow> ht P m Q E) \<Longrightarrow> (\<not> b \<Longrightarrow> ht P n Q E) \<Longrightarrow> ht P (if b then m else n) Q E"
  by simp

lemma ht_only:
  assumes "only S m" "\<And>tr new. P tr \<Longrightarrow> \<forall>e\<in>set new. S (fst e) \<Longrightarrow> P (tr @ new)" "\<And>tr. P tr \<Longrightarrow> E tr"
  shows "ht P m (\<lambda>_. P) E"
  unfolding ht_def
proof (intro allI impI)
  fix tr r tr' assume p: "P tr" and r: "run_state m tr = (r, tr')"
  from onlyD [OF assms(1) r] obtain new where "tr' = tr @ new" "\<forall>e\<in>set new. S (fst e)" by blast
  with assms(2) [OF p] have "P tr'" by simp
  with assms(3) show "case r of Inl e \<Rightarrow> E tr' | Inr x \<Rightarrow> P tr'" by (simp split: sum.split)
qed

lemma read_received:
  assumes "run_state (migrate_read_fixedmessage env fd msg) tr = (0, tr')"
  shows "received msg tr'"
proof -
  let ?c = "Other ''libxl_read_exactly'' [fd, int (length msg)] []"
  have "a_int (env tr ?c) = 0" "null_str (a_str (env tr ?c)) = msg" "(?c, env tr ?c) \<in> set tr'"
    using assms by (auto simp: migrate_read_fixedmessage_def after_def Let_def split: if_splits)
  then show ?thesis unfolding received_def by blast
qed

lemma ht_read:
  assumes "\<And>tr new. P tr \<Longrightarrow> \<forall>e\<in>set new. quiet (fst e) \<Longrightarrow> P (tr @ new)"
  shows "ht P (xl_call (migrate_read_fixedmessage env fd msg)) (\<lambda>rc tr. P tr \<and> (rc = 0 \<longrightarrow> received msg tr)) E"
  unfolding ht_def
proof (intro allI impI)
  fix tr r tr' assume p: "P tr" and r: "run_state (xl_call (migrate_read_fixedmessage env fd msg)) tr = (r, tr')"
  then obtain rc where rc: "run_state (migrate_read_fixedmessage env fd msg) tr = (rc, tr')" "r = Inr rc"
    by (auto split: prod.splits)
  have "only quiet (migrate_read_fixedmessage env fd msg)" by (rule onlies)
  from onlyD [OF this rc(1)] assms [OF p] have "P tr'" by blast
  with rc read_received show "case r of Inl e \<Rightarrow> E tr' | Inr rc \<Rightarrow> P tr' \<and> (rc = 0 \<longrightarrow> received msg tr')" by auto
qed

text \<open>Quiet programs keep every fact.\<close>

definition kept :: "(history \<Rightarrow> bool) \<Rightarrow> bool" where
  "kept P \<longleftrightarrow> (\<forall>tr new. P tr \<longrightarrow> (\<forall>e\<in>set new. quiet (fst e)) \<longrightarrow> P (tr @ new))"

lemma keptD: "kept P \<Longrightarrow> P tr \<Longrightarrow> \<forall>e\<in>set new. quiet (fst e) \<Longrightarrow> P (tr @ new)"
  by (simp add: kept_def)

lemma kept_facts:
  "kept (\<lambda>tr. \<not> sent GO tr)" "kept (\<lambda>tr. \<not> resumed tr)" "kept (\<lambda>tr. \<not> started tr)" "kept (received GO)"
  unfolding kept_def facts_append using no_facts quiet_no by blast+

lemma kept_conj: "kept P \<Longrightarrow> kept Q \<Longrightarrow> kept (\<lambda>tr. P tr \<and> Q tr)"
  by (simp add: kept_def)

lemma ht_quiet:
  "only quiet m \<Longrightarrow> kept P \<Longrightarrow> (\<And>tr. P tr \<Longrightarrow> E tr) \<Longrightarrow> ht P m (\<lambda>_. P) E"
  by (rule ht_only) (auto dest: keptD)

lemma ht_quiet_then:
  "only quiet m \<Longrightarrow> kept P \<Longrightarrow> (\<And>tr. P tr \<Longrightarrow> E tr) \<Longrightarrow> (\<And>x. ht P (f x) R E) \<Longrightarrow> ht P (xl_then m f) R E"
  by (rule ht_then [OF ht_quiet])

section \<open>The sender\<close>

definition sender_ok :: "history \<Rightarrow> bool" where
  "sender_ok tr \<longleftrightarrow> (resumed tr \<longrightarrow> sent GO tr \<longrightarrow> received GO tr)"

definition before_go :: "history \<Rightarrow> bool" where
  "before_go tr \<longleftrightarrow> \<not> sent GO tr \<and> \<not> resumed tr"

lemma kept_before_go: "kept before_go"
  unfolding before_go_def by (intro kept_conj kept_facts)

lemma sender_okI: "before_go tr \<Longrightarrow> sender_ok tr" "\<not> resumed tr \<Longrightarrow> sender_ok tr" "\<not> sent GO tr \<Longrightarrow> sender_ok tr"
  "received GO tr \<Longrightarrow> sender_ok tr"
  by (simp_all add: sender_ok_def before_go_def)

lemma resume_no_go: "only no_go (libxl_domain_resume env did)"
  unfolding libxl_domain_resume_def
  by (intro onlies only_mono [OF calm_info(4) [THEN calm_quiet] quiet_no(1)]; simp add: no_go_def)

lemma ht_resume:
  assumes "\<And>tr new. P tr \<Longrightarrow> \<forall>e\<in>set new. no_go (fst e) \<Longrightarrow> P (tr @ new)" "\<And>tr. P tr \<Longrightarrow> E tr"
  shows "ht P (xl_call (libxl_domain_resume env did)) (\<lambda>_. P) E"
  by (rule ht_only [where S = no_go]) (blast intro: onlies resume_no_go assms)+

lemma ht_failed_resume: "ht (\<lambda>tr. \<not> sent GO tr) (failed_resume env fuel did child s r) R sender_ok"
  unfolding failed_resume_def
  by (intro ht_quiet_then ht_then [OF ht_resume] ht_stop onlies kept_facts)
    (auto simp: facts_append sender_okI dest: no_facts)

lemma ht_failed_badly: "ht (\<lambda>tr. \<not> resumed tr) (failed_badly env fuel child s r) R sender_ok"
  unfolding failed_badly_def
  by (intro ht_quiet_then ht_stop onlies kept_facts) (auto simp: sender_okI)

lemma ht_failed_suspend: "ht before_go (failed_suspend env fuel child s r) R sender_ok"
  unfolding failed_suspend_def
  by (intro ht_quiet_then ht_stop onlies kept_before_go) (auto simp: sender_okI)

lemma write_no_resume: "only no_resume (xl_call (write_exactly env fd s))"
  unfolding write_exactly_def by (intro onlies) (simp add: no_resume_def)

lemma ht_write_go: "ht before_go (xl_call (write_exactly env fd s)) (\<lambda>_ tr. \<not> resumed tr) sender_ok"
  by (rule ht_pre [of "\<lambda>tr. \<not> resumed tr"], rule ht_only [OF write_no_resume])
    (auto simp: facts_append before_go_def sender_okI dest: no_facts)

lemma ht_give_back:
  "ht (received GO)
     (xl_then (case common of
                 None \<Rightarrow> return (Inr 0)
               | Some name \<Rightarrow> xl_lib (libxl_domain_rename env fuel did (Some away) name 0)) (\<lambda>rc5.
      xl_then (xl_call (libxl_domain_resume env did)) (\<lambda>rc6. xl_exit c))) R sender_ok"
  by (intro ht_quiet_then ht_then [OF ht_resume] ht_stop onlies kept_facts)
    (auto simp: facts_append sender_okI)

lemma ht_report:
  "ht (\<lambda>tr. \<not> resumed tr)
     (if rc3 \<noteq> 0 then failed_badly env fuel child s r
      else if rc_buf \<noteq> [NUL] then
        xl_then (xl_call (migrate_read_fixedmessage env r GO)) (\<lambda>rc4.
          if rc4 \<noteq> 0 then failed_badly env fuel child s r
          else
            xl_then (case common of
                       None \<Rightarrow> return (Inr 0)
                     | Some name \<Rightarrow> xl_lib (libxl_domain_rename env fuel did (Some away) name 0)) (\<lambda>rc5.
            xl_then (xl_call (libxl_domain_resume env did)) (\<lambda>rc6. xl_exit c)))
      else xl_then (xl_lib (libxl_domain_destroy env k fuel did True)) (\<lambda>rc7. xl_exit d)) R sender_ok"
proof (intro ht_if ht_failed_badly)
  show "ht (\<lambda>tr. \<not> resumed tr)
     (xl_then (xl_call (migrate_read_fixedmessage env r GO)) (\<lambda>rc4.
        if rc4 \<noteq> 0 then failed_badly env fuel child s r
        else
          xl_then (case common of
                     None \<Rightarrow> return (Inr 0)
                   | Some name \<Rightarrow> xl_lib (libxl_domain_rename env fuel did (Some away) name 0)) (\<lambda>rc5.
          xl_then (xl_call (libxl_domain_resume env did)) (\<lambda>rc6. xl_exit c)))) R sender_ok"
    by (intro ht_then [OF ht_read] ht_if ht_pre [OF ht_failed_badly] ht_pre [OF ht_give_back])
      (auto dest: keptD [OF kept_facts(2)])
  show "ht (\<lambda>tr. \<not> resumed tr) (xl_then (xl_lib (libxl_domain_destroy env k fuel did True)) (\<lambda>rc7. xl_exit d)) R sender_ok"
    by (intro ht_quiet_then ht_stop onlies kept_facts) (auto simp: sender_okI)
qed

lemma ht_pair: "(\<And>a b. ht P (f a b) Q E) \<Longrightarrow> ht P (case x of (a, b) \<Rightarrow> f a b) Q E"
  by (cases x) simp

lemma ht_give_permission: "ht before_go (give_permission env fuel p did common away child s r) R sender_ok"
proof -
  let ?P = "\<lambda>tr. \<not> resumed tr"
  have q: "ht ?P (xl_then m f) R sender_ok" if "only quiet m" "\<And>x. ht ?P (f x) R sender_ok" for m :: "(stop + 'b) prog" and f
    using that by (intro ht_quiet_then kept_facts) (auto simp: sender_okI)
  show ?thesis unfolding give_permission_def Let_def
    apply (rule ht_then [OF ht_write_go])
    apply (rule ht_if [OF ht_failed_badly])
    apply (rule q, intro onlies)
    apply (rule ht_if [OF ht_failed_badly])
    apply (rule q, intro onlies)
    apply (rule ht_pair)
    apply (rule ht_report)
    done
qed

section \<open>The sender's whole run\<close>

lemma config_not_GO:
  assumes "k = unat (of_nat (length xs) :: u32)"
  shows "u32_bytes (of_nat (length xs)) @ take k xs \<noteq> GO"
proof
  assume g: "u32_bytes (of_nat (length xs)) @ take k xs = GO"
  then have "(u32_bytes (of_nat (length xs)) @ take k xs) ! 1 = GO ! 1" by simp
  then have "char_of (k div 256) = CHR ''o''"
    by (simp add: u32_bytes_def Let_def migrate_permission_to_go_def assms [symmetric])
  then have "of_char (char_of (k div 256)) = (111 :: nat)" by simp
  then have "(k div 256) mod 256 = 111" by (simp only: of_char_of)
  then have "256 \<le> k" by (cases "k < 256") auto
  moreover have "k \<le> length xs" by (simp add: assms unat_of_nat)
  moreover have "length (u32_bytes (of_nat (length xs)) @ take k xs) = 44"
    unfolding g by (simp add: migrate_permission_to_go_def)
  ultimately show False by (simp add: u32_bytes_def Let_def)
qed

lemma header_not_GO: "sh_magic h = savefileheader_magic \<Longrightarrow> header_bytes h \<noteq> GO"
proof
  assume "sh_magic h = savefileheader_magic" "header_bytes h = GO"
  then have "hd savefileheader_magic = hd GO" by (metis header_bytes_def hd_append2 list.distinct(1) savefileheader_magic_def append_is_Nil_conv)
  then show False by (simp add: savefileheader_magic_def migrate_permission_to_go_def)
qed

lemma writeconfig_only:
  "only (\<lambda>c. no_go c \<and> no_resume c) (save_domain_core_writeconfig env fd config (of_nat (length config)))"
proof -
  have w: "only (\<lambda>c. no_go c \<and> no_resume c) (write_exactly env fd s)" if "s \<noteq> GO" for s
    unfolding write_exactly_def using that by (intro onlies) (simp add: no_go_def no_resume_def)
  have q: "only (\<lambda>c. no_go c \<and> no_resume c) m" if "only quiet m" for m :: "'x prog"
    using that by (rule only_mono) (simp add: quiet_no)
  show ?thesis unfolding save_domain_core_writeconfig_def Let_def
    by (intro only_xl only_cases only_return q [OF quiet_facts_ends(1)] q [OF quiet_facts_ends(2)] w config_not_GO header_not_GO)
      simp_all
qed

lemma ht_writeconfig:
  "ht before_go (save_domain_core_writeconfig env fd config (of_nat (length config))) (\<lambda>_. before_go) sender_ok"
  by (rule ht_only [OF writeconfig_only])
    (use no_facts in \<open>auto simp: before_go_def facts_append sender_okI\<close>)

lemma ht_migrate_send: "ht before_go (migrate_send env fuel p did common config child s r) R sender_ok"
proof -
  have q: "ht before_go (xl_then m f) R sender_ok" if "only quiet m" "\<And>x. ht before_go (f x) R sender_ok" for m :: "(stop + 'b) prog" and f
    using that by (intro ht_quiet_then kept_before_go) (auto simp: sender_okI)
  have resume: "ht before_go (failed_resume env fuel did child s r) R sender_ok"
    by (rule ht_pre [OF ht_failed_resume]) (simp add: before_go_def)
  show ?thesis unfolding migrate_send_def Let_def
    by (intro q ht_then [OF ht_writeconfig] ht_if ht_failed_suspend resume ht_give_permission onlies ht_stop)
      (auto simp: sender_okI intro!: q onlies resume ht_give_permission split: option.split)
qed

lemma ht_migrate_domain: "ht before_go (migrate_domain env fuel p old spec rune override) R sender_ok"
proof -
  have q: "ht before_go (xl_then m f) R sender_ok" if "only quiet m" "\<And>x. ht before_go (f x) R sender_ok" for m :: "(stop + 'b) prog" and f
    using that by (intro ht_quiet_then kept_before_go) (auto simp: sender_okI)
  show ?thesis unfolding migrate_domain_def
    by (intro q ht_pair ht_if ht_migrate_send onlies ht_stop) (simp_all add: sender_okI)
qed

section \<open>The receiver\<close>

definition receiver_ok :: "history \<Rightarrow> bool" where
  "receiver_ok tr \<longleftrightarrow> (started tr \<longrightarrow> received GO tr \<and> \<not> sent GO tr)"

definition stopped :: "history \<Rightarrow> bool" where
  "stopped tr \<longleftrightarrow> \<not> started tr \<and> \<not> sent GO tr"

definition going :: "history \<Rightarrow> bool" where
  "going tr \<longleftrightarrow> received GO tr \<and> \<not> sent GO tr"

lemma kept_receiver: "kept stopped" "kept going"
  unfolding stopped_def going_def by (intro kept_conj kept_facts)+

lemma receiver_okI: "stopped tr \<Longrightarrow> receiver_ok tr" "\<not> started tr \<Longrightarrow> receiver_ok tr" "going tr \<Longrightarrow> receiver_ok tr"
  by (simp_all add: receiver_ok_def stopped_def going_def)

lemma write_no_unpause: "only no_unpause (xl_call (write_exactly env fd s))"
  unfolding write_exactly_def by (intro onlies) (simp add: no_unpause_def)

lemma ht_write_stopped: "ht (\<lambda>tr. \<not> started tr) (xl_call (write_exactly env fd s)) (\<lambda>_ tr. \<not> started tr) receiver_ok"
  by (rule ht_only [OF write_no_unpause]) (use no_facts in \<open>auto simp: facts_append receiver_okI\<close>)

lemma write_no_go: "s \<noteq> GO \<Longrightarrow> only (\<lambda>c. no_go c \<and> no_unpause c) (xl_call (write_exactly env fd s))"
  unfolding write_exactly_def by (intro onlies) (simp add: no_go_def no_unpause_def)

lemma ht_write_other:
  assumes "s \<noteq> GO"
  shows "ht stopped (xl_call (write_exactly env fd s)) (\<lambda>_. stopped) receiver_ok"
    and "ht going (xl_call (write_exactly env fd s)) (\<lambda>_. going) receiver_ok"
  using no_facts
  by (intro ht_only [OF write_no_go [OF assms]]; auto simp: stopped_def going_def facts_append receiver_ok_def)+

lemma other_messages: "migrate_report \<noteq> GO" "migrate_receiver_banner \<noteq> GO" "migrate_receiver_ready \<noteq> GO" "[c] \<noteq> GO"
  by (simp_all add: migrate_report_def migrate_receiver_banner_def migrate_receiver_ready_def migrate_permission_to_go_def)

text \<open>The end: after success nothing is given back, and otherwise the domain was not started.\<close>

lemma ht_notify_ok: "ht going (notify_rc env fuel p did 0) R receiver_ok"
  unfolding notify_rc_def
  by (intro ht_then [OF ht_write_other(2)] ht_if ht_stop other_messages) (auto simp: receiver_okI)

lemma ht_notify_failed:
  assumes "rc \<noteq> 0"
  shows "ht (\<lambda>tr. \<not> started tr) (notify_rc env fuel p did rc) R receiver_ok"
proof -
  have q: "ht (\<lambda>tr. \<not> started tr) (xl_then m f) R receiver_ok"
    if "only quiet m" "\<And>x. ht (\<lambda>tr. \<not> started tr) (f x) R receiver_ok" for m :: "(stop + 'b) prog" and f
    using that by (intro ht_quiet_then kept_facts) (auto simp: receiver_okI)
  show ?thesis unfolding notify_rc_def
    by (intro ht_then [OF ht_write_stopped] ht_if ht_stop q onlies) (simp_all add: receiver_okI assms)
qed

lemma unpause_result:
  assumes "run_state (libxl_domain_unpause env fuel timeout did) tr = (r, tr')" "stopped tr" "received GO tr"
  shows "case r of Inl e \<Rightarrow> receiver_ok tr' | Inr rc \<Rightarrow> (rc = 0 \<longrightarrow> going tr') \<and> (rc \<noteq> 0 \<longrightarrow> \<not> started tr')"
proof -
  define before where "before =
    do {
      hvm \<leftarrow> is_hvm env did;
      (if hvm then
         do {
           st \<leftarrow> xs_read env XBT_NULL (dm_path did ''state'');
           if st = Some ''paused'' then
             do {
               _ \<leftarrow> xs_do env (Xs_write XBT_NULL (dm_path did ''command'') ''continue'');
               libxl__wait_for_device_model env fuel timeout did (Some ''running'') False
             }
           else return (Inr 0)
         }
       else return (Inr 0))
    }"
  have m: "only quiet (libxl__wait_for_device_model env fuel timeout did st cb)" for st cb
  proof -
    have w: "only quiet (wait_again env n v)" for n v by (induction n) (auto intro!: onlies)
    have "only quiet (device_model_loop env n did path st cb rc tv)" for n path rc tv
      by (induction n arbitrary: rc tv) (auto intro!: onlies w split: option.split)
    then show ?thesis unfolding libxl__wait_for_device_model_def by (intro onlies; simp)
  qed
  have b: "only quiet before" unfolding before_def by (intro onlies m; simp)
  obtain x tr1 where 1: "run_state before tr = (x, tr1)" by fastforce
  from onlyD [OF b 1] have s: "stopped tr1" and g: "received GO tr1"
    using keptD [OF kept_receiver(1) assms(2)] keptD [OF kept_facts(4) assms(3)] by auto
  let ?c = "Xc ''xc_domain_unpause'' [uint did]"
  have u: "libxl_domain_unpause env fuel timeout did = try_then before (\<lambda>ignored.
      do {rc \<leftarrow> fail_if_negative env ?c; return (Inr rc)})"
    by (rule state_ext) (auto simp: libxl_domain_unpause_def before_def split: prod.split sum.split)
  show ?thesis
  proof (cases x)
    case (Inl e)
    with assms(1) 1 s show ?thesis by (auto simp: u receiver_okI)
  next
    case (Inr i)
    with assms(1) 1 have r: "r = Inr (if a_int (env tr1 ?c) < 0 then ERROR_FAIL else 0)" "tr' = after env tr1 ?c"
      by (auto simp: u fail_if_negative_def)
    with s g show ?thesis
      by (auto simp: after_def facts_append stopped_def going_def) (auto simp: started_def sent_def)
  qed
qed

lemma ht_unpause:
  "ht (\<lambda>tr. stopped tr \<and> received GO tr) (xl_lib (libxl_domain_unpause env fuel timeout did))
     (\<lambda>rc tr. (rc = 0 \<longrightarrow> going tr) \<and> (rc \<noteq> 0 \<longrightarrow> \<not> started tr)) receiver_ok"
  unfolding ht_def
proof (intro allI impI)
  fix tr r tr'
  assume p: "stopped tr \<and> received GO tr" and r: "run_state (xl_lib (libxl_domain_unpause env fuel timeout did)) tr = (r, tr')"
  obtain x tr1 where 1: "run_state (libxl_domain_unpause env fuel timeout did) tr = (x, tr1)" by fastforce
  from unpause_result [OF 1] p r 1
  show "case r of Inl e \<Rightarrow> receiver_ok tr' | Inr rc \<Rightarrow> (rc = 0 \<longrightarrow> going tr') \<and> (rc \<noteq> 0 \<longrightarrow> \<not> started tr')"
    by (auto split: sum.splits)
qed

lemma ht_notify:
  "ht (\<lambda>tr. (rc = 0 \<longrightarrow> going tr) \<and> (rc \<noteq> 0 \<longrightarrow> \<not> started tr)) (notify_rc env fuel p did rc) R receiver_ok"
  by (cases "rc = 0") (auto intro: ht_pre [OF ht_notify_ok] ht_pre [OF ht_notify_failed])

lemma ht_migrate_receive:
  assumes "goes_on env"
  shows "ht stopped (migrate_receive env fuel p debug daemonize) R receiver_ok"
proof -
  have q: "ht stopped (xl_then m f) R receiver_ok" if "only quiet m" "\<And>x. ht stopped (f x) R receiver_ok" for m :: "(stop + 'b) prog" and f
    using that by (intro ht_quiet_then kept_receiver) (auto simp: receiver_okI)
  let ?Q = "\<lambda>tr. stopped tr \<and> received GO tr"
  have g: "ht ?Q (xl_then m f) R receiver_ok" if "only quiet m" "\<And>x. ht ?Q (f x) R receiver_ok" for m :: "(stop + 'b) prog" and f
    using that by (intro ht_quiet_then kept_conj kept_receiver kept_facts) (auto simp: receiver_okI)
  have failed: "ht stopped (notify_rc env fuel p did rc) R receiver_ok" "ht ?Q (notify_rc env fuel p did rc) R receiver_ok"
    if "rc \<noteq> 0" for did rc
    by (rule ht_pre [OF ht_notify_failed [OF that]]; simp add: stopped_def)+
  have after: "ht ?Q
      (xl_then (case cr_migration cr of
                  None \<Rightarrow> return (Inr 0)
                | Some name \<Rightarrow>
                    xl_lib (libxl_domain_rename env fuel (cr_domid cr) (Some name) (null_str (cr_common cr)) 0)) (\<lambda>rc3.
       if rc3 \<noteq> 0 then notify_rc env fuel p (cr_domid cr) rc3
       else
         xl_then (xl_lib (libxl_domain_unpause env fuel (xp_timeout p) (cr_domid cr))) (\<lambda>rc4.
           notify_rc env fuel p (cr_domid cr) rc4))) R receiver_ok" for cr
    by (intro g ht_if failed ht_then [OF ht_unpause] ht_notify onlies)
  have go: "ht stopped
      (xl_then (xl_call (migrate_read_fixedmessage env 0 GO)) (\<lambda>rc2.
         if rc2 \<noteq> 0 then notify_rc env fuel p (cr_domid cr) rc2
         else
           xl_then (case cr_migration cr of
                      None \<Rightarrow> return (Inr 0)
                    | Some name \<Rightarrow>
                        xl_lib (libxl_domain_rename env fuel (cr_domid cr) (Some name) (null_str (cr_common cr)) 0)) (\<lambda>rc3.
           if rc3 \<noteq> 0 then notify_rc env fuel p (cr_domid cr) rc3
           else
             xl_then (xl_lib (libxl_domain_unpause env fuel (xp_timeout p) (cr_domid cr))) (\<lambda>rc4.
               notify_rc env fuel p (cr_domid cr) rc4)))) R receiver_ok" for cr
    by (rule ht_then [OF ht_read [where P = stopped]])
      (auto dest: keptD [OF kept_receiver(1)] intro: ht_pre [OF failed(1)] ht_pre [OF after])
  show ?thesis unfolding migrate_receive_def
    by (intro ht_then [OF ht_write_other(1)] q go ht_if ht_stop other_messages onlies quiet_create_domain assms)
      (simp_all add: receiver_okI)
qed

section \<open>Both\<close>

text \<open>The pipes deliver only what was written into them: the receiver gets the permission to
  start only if the sender gave it, and the sender gets it back only if the receiver gave it
  back.\<close>

definition pipes_deliver :: "history \<Rightarrow> history \<Rightarrow> bool" where
  "pipes_deliver sender receiver \<longleftrightarrow>
     (received GO receiver \<longrightarrow> sent GO sender) \<and> (received GO sender \<longrightarrow> sent GO receiver)"

text \<open>C7. A migration never leaves the domain running on both hosts: when the sender has resumed
  its copy, the receiver has not unpaused its own with success, whatever the two hosts answer
  to each call and wherever one of the two processes stops.  The receiving process is the one
  that \<open>libxl_fork\<close> answers with a child, when it forks to leave a daemon behind.\<close>

theorem migration_one_copy:
  assumes "goes_on receiver"
    and "run_state (migrate_domain sender fuel p old spec rune override) [] = (r, trs)"
    and "run_state (migrate_receive receiver fuel' p' debug daemonize) [] = (r', trr)"
    and "pipes_deliver trs trr"
  shows "\<not> (resumed trs \<and> started trr)"
proof -
  have b: "before_go []" "stopped []" by (simp_all add: before_go_def stopped_def sent_def resumed_def started_def)
  have "sender_ok trs"
    using htD [OF ht_migrate_domain b(1) assms(2), of "\<lambda>_. sender_ok"] by (cases r) simp_all
  moreover have "receiver_ok trr"
    using htD [OF ht_migrate_receive [OF assms(1)] b(2) assms(3), of "\<lambda>_. receiver_ok"] by (cases r') simp_all
  ultimately show ?thesis using assms(4) by (auto simp: sender_ok_def receiver_ok_def pipes_deliver_def)
qed

text \<open>Two hosts of which the receiving one cannot read the domain.\<close>

definition broken_hosts :: env where
  "broken_hosts tr c =
     (case c of
        Other f args strs \<Rightarrow>
          if f = ''libxl_read_exactly'' then
            (if args = [4, 54] then (ans 0)\<lparr>a_str := Some migrate_receiver_banner\<rparr> else ans (-1))
          else if f \<in> {''libxl_fork'', ''waitpid''} then (ans 7)\<lparr>a_out := [0]\<rparr>
          else if f = ''libxl_userdata_retrieve'' then (ans 0)\<lparr>a_str := Some ''c''\<rparr>
          else if f = ''realloc'' then ans 1
          else (ans 0)\<lparr>a_out := [4, 5]\<rparr>
      | _ \<Rightarrow> ans 0)"

lemma message_lengths: "length migrate_receiver_banner = 54" "length migrate_receiver_ready = 34" "length GO = 44"
  by (simp_all add: migrate_receiver_banner_def migrate_receiver_ready_def migrate_permission_to_go_def)

lemma facts_after:
  "received GO (after env tr c) \<longleftrightarrow>
     received GO tr \<or> (\<exists>fd. c = Other ''libxl_read_exactly'' [fd, 44] [] \<and> a_int (env tr c) = 0 \<and> null_str (a_str (env tr c)) = GO)"
  "resumed (after env tr c) \<longleftrightarrow> resumed tr \<or> (\<exists>args. c = Xc ''xc_domain_resume'' args)"
  "\<not> received GO []" "\<not> resumed []"
  by (auto simp: received_def resumed_def after_def message_lengths)

lemmas broken_simps =
  MUST_def CHK_ERRNO_def message_lengths migrate_read_fixedmessage_def Let_def is_hvm_def facts_after
  broken_hosts_def [of _ "Other _ _ _"] broken_hosts_def [of _ "Xc _ _"] ans_def null_str_def

lemma broken_sender:
  "resumed (snd (run_state (migrate_domain broken_hosts 1 p 0 ''vm'' rune None) [])) \<and>
   \<not> received GO (snd (run_state (migrate_domain broken_hosts 1 p 0 ''vm'' rune None) []))"
  by (simp add: migrate_domain_def save_domain_core_begin_def find_domain_def domain_qualifier_to_domid_def
     qualifier_to_id_def isdigit_def migrate_send_def save_domain_core_writeconfig_def xrealloc_def libxl_domain_suspend_def
     failed_resume_def migration_child_report_def gettimeofday_def libxl_domain_resume_def broken_simps)

lemma broken_receiver:
  "\<not> received GO (snd (run_state (migrate_receive broken_hosts 1 p False True) []))"
  by (simp add: migrate_receive_def create_domain_def read_savefile_def broken_simps)

theorem migration_one_copy_witness:
  "\<forall>p rune. resumed (snd (run_state (migrate_domain broken_hosts 1 p 0 ''vm'' rune None) [])) \<and>
     \<not> started (snd (run_state (migrate_receive broken_hosts 1 p False True) []))"
proof (intro allI)
  fix p rune
  have "goes_on broken_hosts" by (simp add: goes_on_def broken_hosts_def ans_def)
  from migration_one_copy [OF this prod.collapse [symmetric] prod.collapse [symmetric],
      of broken_hosts 1 p 0 "''vm''" rune None 1 p False True]
  show "resumed (snd (run_state (migrate_domain broken_hosts 1 p 0 ''vm'' rune None) [])) \<and>
     \<not> started (snd (run_state (migrate_receive broken_hosts 1 p False True) []))"
    using broken_sender [of p rune] broken_receiver [of p] unfolding pipes_deliver_def by blast
qed

end
