(* ===== verification/Creation_Lock.thy ===== *)
theory Creation_Lock
  imports Migration
begin

text \<open>
  The lock of domain creation: two processes that create domains never make room in memory and
  make their domain at the same time.
\<close>

section \<open>The lock in a history\<close>

text \<open>The descriptor through which the process holds the lock after a call: \<open>fcntl\<close> sets and
  removes it, and closing the descriptor removes it.\<close>

fun lock_step :: "xcall \<times> answer \<Rightarrow> int option \<Rightarrow> int option" where
  "lock_step (Other f args strs, a) l =
     (if f = ''fcntl'' \<and> 0 \<le> a_int a then (if args ! 1 = 1 then Some (args ! 0) else if l = Some (args ! 0) then None else l)
      else if f = ''close'' \<and> l = Some (args ! 0) then None else l)"
| "lock_step e l = l"

definition locked :: "history \<Rightarrow> int option" where
  "locked tr = fold lock_step tr None"

text \<open>Calls that make a domain or store its configuration.\<close>

fun makes :: "xcall \<Rightarrow> bool" where
  "makes (Other f args strs) =
     (f \<in> {''libxl_domain_create_new'', ''libxl_domain_create_restore'', ''libxl_userdata_store''})"
| "makes c = False"

fun under_lock :: "int option \<Rightarrow> history \<Rightarrow> bool" where
  "under_lock l [] = True"
| "under_lock l (e # tr) = ((makes (fst e) \<longrightarrow> l \<noteq> None) \<and> under_lock (lock_step e l) tr)"

lemma under_lock_append [simp]:
  "under_lock l (tr @ tr') \<longleftrightarrow> under_lock l tr \<and> under_lock (fold lock_step tr l) tr'"
  by (induction tr arbitrary: l) auto

lemma locked_after: "locked (after env tr c) = lock_step (c, env tr c) (locked tr)"
  by (simp add: locked_def after_def)

lemma under_lock_after: "under_lock None (after env tr c) \<longleftrightarrow> under_lock None tr \<and> (makes c \<longrightarrow> locked tr \<noteq> None)"
  by (simp add: locked_def after_def)

text \<open>Calls that have nothing to do with it.\<close>

fun lock_free :: "xcall \<Rightarrow> bool" where
  "lock_free (Other f args strs) =
     (f \<notin> {''fcntl'', ''close'', ''libxl_domain_create_new'', ''libxl_domain_create_restore'', ''libxl_userdata_store''})"
| "lock_free c = True"

lemma free_step: "lock_free c \<Longrightarrow> lock_step (c, a) l = l" "lock_free c \<Longrightarrow> \<not> makes c"
  by (cases c; simp)+

lemma free_history:
  "\<forall>e\<in>set new. lock_free (fst e) \<Longrightarrow> fold lock_step new l = l \<and> under_lock l new"
  by (induction new) (auto simp: free_step)

lemma calm_free: "only calm m \<Longrightarrow> only lock_free m"
proof (erule only_mono)
  show "calm c \<Longrightarrow> lock_free c" for c by (cases c) simp_all
qed

text \<open>The two states the process is in.\<close>

definition unlocked :: "history \<Rightarrow> bool" where
  "unlocked tr \<longleftrightarrow> under_lock None tr \<and> locked tr = None"

definition holding :: "int \<Rightarrow> history \<Rightarrow> bool" where
  "holding fd tr \<longleftrightarrow> under_lock None tr \<and> locked tr = Some fd \<and> 0 \<le> fd"

lemma states_ok: "unlocked tr \<Longrightarrow> under_lock None tr" "holding fd tr \<Longrightarrow> under_lock None tr"
  by (simp_all add: unlocked_def holding_def)

lemma free_keeps:
  assumes "\<forall>e\<in>set new. lock_free (fst e)"
  shows "unlocked tr \<Longrightarrow> unlocked (tr @ new)" "holding fd tr \<Longrightarrow> holding fd (tr @ new)"
  using free_history [OF assms] by (simp_all add: unlocked_def holding_def locked_def)

lemma ht_free:
  "only lock_free m \<Longrightarrow> ht unlocked m (\<lambda>_. unlocked) (under_lock None)"
  "only lock_free m \<Longrightarrow> ht (holding fd) m (\<lambda>_. holding fd) (under_lock None)"
  by (erule ht_only; auto intro: free_keeps states_ok)+

lemma ht_free_then:
  "only lock_free m \<Longrightarrow> (\<And>x. ht unlocked (f x) R (under_lock None)) \<Longrightarrow> ht unlocked (xl_then m f) R (under_lock None)"
  "only lock_free m \<Longrightarrow> (\<And>x. ht (holding fd) (f x) R (under_lock None)) \<Longrightarrow> ht (holding fd) (xl_then m f) R (under_lock None)"
  by (rule ht_then [OF ht_free(1)] ht_then [OF ht_free(2)]; assumption)+

section \<open>Parts that leave the lock alone\<close>

lemmas free_facts [onlies] = calm_facts [THEN calm_free]

lemma free_basics [onlies]:
  "only lock_free (libxl_get_event env)" "only lock_free (libxl_domain_core_dump env did file)"
  "only lock_free (libxl_event_get_domain_death_info env k did)"
  "only lock_free (libxl_event_get_disk_eject_info env junk did ev disk)"
  "only lock_free (libxl_wait_for_domain_death env)"
  unfolding libxl_get_event_def libxl_domain_core_dump_def fail_if_negative_def
    libxl_event_get_domain_death_info_def libxl_event_get_disk_eject_info_def libxl_wait_for_domain_death_def
  by (intro onlies; simp)+

lemma free_unpause [onlies]: "only lock_free (libxl_domain_unpause env fuel t did)"
proof -
  have w: "only lock_free (wait_again env n p)" for n p
    by (induction n) (auto intro!: onlies)
  have l: "only lock_free (device_model_loop env fuel did path state cb rc tv)" for path state cb rc tv
    by (induction fuel arbitrary: rc tv) (auto intro!: onlies w)
  show ?thesis
    unfolding libxl_domain_unpause_def libxl__wait_for_device_model_def fail_if_negative_def
    by (auto intro!: onlies l)
qed

lemma free_preserve [onlies]: "only lock_free (preserve_domain env fuel did cfg)"
proof -
  have r: "only lock_free (preserve_round env n did path vm uuid name preserved)" for n path vm uuid name preserved
    unfolding preserve_round_def by (intro onlies; simp)
  have l: "only lock_free (preserve_loop env n did path vm uuid name preserved)" for n path vm uuid name preserved
    by (induction n) (auto intro!: onlies r)
  have "only lock_free (libxl_domain_preserve env fuel did name suffix uuid)" for name suffix uuid
    unfolding libxl_domain_preserve_def by (intro onlies l; simp)
  then show ?thesis unfolding preserve_domain_def by (intro onlies; simp)
qed

lemma free_death [onlies]: "only lock_free (handle_domain_death env fuel p did cfg info)"
proof -
  have c: "only lock_free (case a of LIBXL_ACTION_PRESERVE \<Rightarrow> return (Inr 0) | LIBXL_ACTION_RESTART_RENAME \<Rightarrow> return (Inr 2)
      | _ \<Rightarrow> try_then (libxl_domain_destroy env k fuel did False) (\<lambda>rc. return (Inr (f a))))"
    for a and k and f :: "libxl_action_on_shutdown \<Rightarrow> int"
    by (cases a) (simp_all add: onlies)
  show ?thesis unfolding handle_domain_death_def by (intro onlies c; simp)
qed

lemma free_disk_del: "only lock_free (libxl_device_disk_del env fuel disk wait)"
proof -
  have "only lock_free (libxl__device_del env fuel dev wait)" for dev
    unfolding libxl__device_del_def by (auto intro!: onlies split: sum.split)
  then show ?thesis unfolding libxl_device_disk_del_def by (auto intro!: onlies)
qed

lemma free_disk_add: "only lock_free (libxl_device_disk_add env fuel valid nums did disk)"
proof -
  have g: "only lock_free (libxl__device_generic_add env fuel valid dev b f)" for dev b f
    unfolding libxl__device_generic_add_def add_side_def by (intro onlies; simp)
  have v: "only lock_free (validate_virtual_disk env disk)"
    unfolding validate_virtual_disk_def by (auto intro!: onlies split: option.split)
  have b: "only lock_free (backend_entries env nums d)" for d
    unfolding backend_entries_def physical_device_def blktap_enabled_def blktap_devpath_def qdisk_entries_def
      libxl__device_physdisk_major_minor_def
    by (auto intro!: onlies split: libxl_disk_backend.split option.split)
  show ?thesis unfolding libxl_device_disk_add_def Let_def flexarray_make_def
    by (intro onlies g v b; simp)
qed

lemma free_disk_list: "only lock_free (libxl_device_disk_list env fmt did)"
proof -
  have d: "only lock_free (disks_of_entries env fmt did path ds)" for path ds
    by (induction ds) (auto intro!: onlies simp: disk_of_entry_def)
  show ?thesis unfolding libxl_device_disk_list_def libxl_append_disk_list_of_type_def Let_def
    by (intro onlies d; simp)
qed

lemma free_event_loop [onlies]: "only lock_free (event_loop env fuel p did cfg)"
proof -
  have c: "only lock_free (libxl_cdrom_insert env n valid nums fmt did disk)" for n valid nums fmt disk
    unfolding libxl_cdrom_insert_def Let_def
    by (intro onlies free_disk_list free_disk_add free_disk_del; simp)
  show ?thesis by (induction fuel) (auto intro!: onlies c)
qed

lemma free_ejects [onlies]: "only lock_free (libxl_wait_for_disk_ejects env did disks)"
proof -
  have "only lock_free (watch_ejects env d disks)" for d
    by (induction disks) (auto intro!: onlies)
  then show ?thesis unfolding libxl_wait_for_disk_ejects_def by (intro onlies; simp)
qed

lemma free_create [onlies]:
  "only lock_free (create_out env fuel daemon pid cr)" "only lock_free (become_daemon env name)"
proof -
  have "only lock_free (wait_console env fuel pid)"
    by (induction fuel) (auto intro!: onlies)
  then show "only lock_free (create_out env fuel daemon pid cr)" "only lock_free (become_daemon env name)"
    unfolding create_out_def become_daemon_def by (intro onlies; simp)+
qed

section \<open>Setting and removing the lock\<close>

lemma ht_set_lock:
  "ht unlocked (xl_lib (set_lock env fuel fd F_WRLCK))
     (\<lambda>rc tr. if rc < 0 then unlocked tr else under_lock None tr \<and> locked tr = Some fd) (under_lock None)"
proof (induction fuel)
  case 0
  show ?case by (auto simp: ht_def unlocked_def)
next
  case (Suc fuel)
  show ?case
    unfolding ht_def
  proof (intro allI impI)
    fix tr r tr'
    assume u: "unlocked tr" and run: "run_state (xl_lib (set_lock env (Suc fuel) fd F_WRLCK)) tr = (r, tr')"
    let ?c = "Other ''fcntl'' [fd, 1] []" let ?a = "env tr ?c" let ?tr = "after env tr ?c"
    show "case r of Inl e \<Rightarrow> under_lock None tr'
        | Inr rc \<Rightarrow> if rc < 0 then unlocked tr' else under_lock None tr' \<and> locked tr' = Some fd"
    proof (cases "a_int ?a < 0")
      case True
      then have u1: "unlocked ?tr" using u by (simp add: unlocked_def under_lock_after locked_after)
      show ?thesis
      proof (cases "a_errno ?a = EINTR")
        case True
        with \<open>a_int ?a < 0\<close> run have "run_state (xl_lib (set_lock env fuel fd F_WRLCK)) ?tr = (r, tr')" by simp
        from htD [OF Suc u1 this] show ?thesis .
      next
        case False
        with \<open>a_int ?a < 0\<close> run have "r = Inr ERROR_FAIL" "tr' = ?tr" by auto
        then show ?thesis using u1 by simp
      qed
    next
      case False
      with run have "r = Inr 0" "tr' = ?tr" by auto
      then show ?thesis using u False by (simp add: unlocked_def under_lock_after locked_after)
    qed
  qed
qed

lemma ht_acquire_lock:
  assumes "fd < 0"
  shows "ht unlocked (xl_lib (acquire_lock env fuel file fd))
     (\<lambda>(rc, fd') tr. if rc < 0 then unlocked tr else holding fd' tr) (under_lock None)"
proof -
  have o: "unlocked (after env tr (Other ''open'' [] [file]))" if "unlocked tr" for tr
    using that by (simp add: unlocked_def under_lock_after locked_after)
  show ?thesis
    unfolding ht_def
  proof (intro allI impI)
    fix tr r tr'
    assume u: "unlocked tr" and run: "run_state (xl_lib (acquire_lock env fuel file fd)) tr = (r, tr')"
    let ?c = "Other ''open'' [] [file]" let ?fd = "a_int (env tr ?c)" let ?tr = "after env tr ?c"
    obtain q tr2 where q: "run_state (xl_lib (set_lock env fuel ?fd F_WRLCK)) ?tr = (q, tr2)" by fastforce
    from htD [OF ht_set_lock o [OF u] q] run q o [OF u] assms
    show "case r of Inl e \<Rightarrow> under_lock None tr'
        | Inr x \<Rightarrow> (case x of (rc, fd') \<Rightarrow> \<lambda>tr. if rc < 0 then unlocked tr else holding fd' tr) tr'"
      by (auto simp: acquire_lock_def holding_def split: prod.splits sum.splits if_splits)
  qed
qed

lemma set_lock_holding:
  assumes "run_state (set_lock env fuel fd F_UNLCK) tr = (r, tr')" "holding fd tr \<or> unlocked tr"
  shows "holding fd tr' \<or> unlocked tr'"
  using assms
proof (induction fuel arbitrary: tr)
  case 0
  then show ?case by simp
next
  case (Suc fuel)
  let ?c = "Other ''fcntl'' [fd, 2] []"
  have "holding fd (after env tr ?c) \<or> unlocked (after env tr ?c)"
    using Suc.prems(2) by (auto simp: holding_def unlocked_def under_lock_after locked_after)
  with Suc show ?case by (auto split: if_splits)
qed

text \<open>After a failed acquisition the descriptor may be open, but is not locked.\<close>

lemma ht_release_lock:
  "ht (\<lambda>tr. holding fd tr \<or> unlocked tr) (xl_lib (release_lock env fuel fd))
     (\<lambda>(rc, fd') tr. fd' < 0 \<and> unlocked tr) (under_lock None)"
  unfolding ht_def
proof (intro allI impI)
  fix tr r tr'
  assume h: "holding fd tr \<or> unlocked tr" and run: "run_state (xl_lib (release_lock env fuel fd)) tr = (r, tr')"
  obtain q tr2 where q: "run_state (set_lock env fuel fd F_UNLCK) tr = (q, tr2)" by fastforce
  from set_lock_holding [OF q h] have s: "holding fd tr2 \<or> unlocked tr2" .
  then have "unlocked (after env tr2 (Other ''close'' [fd] []))"
    by (auto simp: holding_def unlocked_def under_lock_after locked_after)
  with s run q h show "case r of Inl e \<Rightarrow> under_lock None tr'
      | Inr x \<Rightarrow> (case x of (rc, fd') \<Rightarrow> \<lambda>tr. fd' < 0 \<and> unlocked tr) tr'"
    by (auto simp: release_lock_def holding_def dest: states_ok split: sum.splits if_splits)
qed

section \<open>Creating a domain\<close>

definition released :: "created \<Rightarrow> history \<Rightarrow> bool" where
  "released cr tr \<longleftrightarrow> cr_lock cr < 0 \<and> unlocked tr"

lemma released_free: "released cr tr \<Longrightarrow> \<forall>e\<in>set new. lock_free (fst e) \<Longrightarrow> released cr (tr @ new)"
  by (simp add: released_def free_keeps)

lemma ht_released_then:
  assumes "only lock_free m" "\<And>x. ht (released cr) (f x) R (under_lock None)"
  shows "ht (released cr) (xl_then m f) R (under_lock None)"
  by (rule ht_then [OF ht_only [where P = "released cr", OF assms(1) released_free] assms(2)]) (simp_all add: released_def states_ok)

lemma ht_then_pair:
  "ht P m (\<lambda>(a, b). Q a b) E \<Longrightarrow> (\<And>a b. ht (Q a b) (f a b) R E) \<Longrightarrow> ht P (xl_then m (\<lambda>(a, b). f a b)) R E"
  by (erule ht_then) auto

lemma ht_then_triple:
  "ht P m (\<lambda>(a, b, c). Q a b c) E \<Longrightarrow> (\<And>a b c. ht (Q a b c) (f a b c) R E) \<Longrightarrow>
     ht P (xl_then m (\<lambda>(a, b, c). f a b c)) R E"
  by (erule ht_then) auto

lemma ht_assume: "(\<And>tr. P tr \<Longrightarrow> b) \<Longrightarrow> (b \<Longrightarrow> ht P m Q E) \<Longrightarrow> ht P m Q E"
  unfolding ht_def by blast

lemma ht_sum:
  "(\<And>x. ht P (f x) Q E) \<Longrightarrow> (\<And>y. ht P (g y) Q E) \<Longrightarrow> ht P (case s of Inl x \<Rightarrow> f x | Inr y \<Rightarrow> g y) Q E"
  by (cases s) simp_all

lemma ht_create_out: "ht (released cr) (create_out env fuel daemon pid cr) released (under_lock None)"
proof -
  have "only lock_free (wait_console env fuel pid)"
    by (induction fuel) (auto intro!: onlies)
  then show ?thesis unfolding create_out_def
    by (intro ht_released_then ht_if ht_stop ht_return onlies) (auto simp: released_def dest: states_ok)
qed

lemma ht_create_error_out:
  "ht (\<lambda>tr. holding (cr_lock cr) tr \<or> unlocked tr) (create_error_out env fuel p daemon pid cr) released (under_lock None)"
proof -
  have "ht (\<lambda>tr. fd < 0 \<and> unlocked tr)
      (xl_then (xl_call (xs_do env (Other ''libxl_domid_valid_guest'' [uint (cr_domid cr)] []))) (\<lambda>guest.
       xl_then (if guest then xl_lib (libxl_domain_destroy env (xp_dominf p) fuel (cr_domid cr) False) else return (Inr 0))
       (\<lambda>rc2. create_out env fuel daemon pid (cr\<lparr>cr_lock := fd\<rparr>)))) released (under_lock None)" for fd
  proof (rule ht_pre [of "released (cr\<lparr>cr_lock := fd\<rparr>)"], goal_cases)
    case 1
    show ?case by (intro ht_released_then ht_create_out onlies; simp)
  qed (simp add: released_def)
  then show ?thesis unfolding create_error_out_def
    by (intro ht_then [OF ht_release_lock]) (auto split: prod.split)
qed

lemma ht_make_domain:
  "ht (holding (cr_lock cr)) (xl_call (make_domain env di rfd config console pid cfg cr))
     (\<lambda>(ok, pid2, cr2) tr. cr_lock cr2 = cr_lock cr \<and> holding (cr_lock cr) tr) (under_lock None)"
  unfolding ht_def
  by (auto simp: make_domain_def Let_def holding_def under_lock_after locked_after split: if_splits)

lemma ht_wait_for_death:
  assumes "\<And>cfg2. ht (released cr) (restart cfg2) released (under_lock None)"
  shows "ht (released cr) (wait_for_death env fuel p pid cfg cr restart) released (under_lock None)"
proof -
  have c: "ht (released cr)
      (case r of Quit \<Rightarrow> create_out env fuel True pid cr
       | Restart \<Rightarrow> xl_then (xl_call (ask env (Usleep 2000000))) (\<lambda>u. restart (f u))) released (under_lock None)" for r f
    by (cases r) (auto intro!: ht_create_out ht_released_then assms onlies)
  show ?thesis unfolding wait_for_death_def by (intro ht_released_then c onlies; simp)
qed

lemma ht_after_creation:
  assumes "\<And>cfg2. ht (released cr) (restart cfg2) released (under_lock None)"
  shows "ht (released cr) (after_creation env fuel p daemonize daemon pid cfg cr restart) released (under_lock None)"
proof -
  have e: "ht (released cr) (create_error_out env fuel p daemon pid (cr\<lparr>cr_ret := ERROR_FAIL\<rparr>)) released (under_lock None)"
    by (rule ht_pre [OF ht_create_error_out]) (simp add: released_def)
  show ?thesis unfolding after_creation_def
    by (intro ht_if ht_create_out ht_wait_for_death assms ht_released_then e onlies; simp)
qed

lemma ht_create_start:
  "ht (released cr) (create_start env fuel p di rfd config daemon halted console pid cfg cr) released (under_lock None)"
proof (induction fuel arbitrary: daemon halted console pid cfg cr)
  case 0
  show ?case by (auto intro!: ht_stop simp: released_def dest: states_ok)
next
  case (Suc fuel)
  have error: "ht (holding (cr_lock cr2)) (create_error_out env fuel p daemon pid2 cr2) released (under_lock None)"
    "ht unlocked (create_error_out env fuel p daemon pid2 cr2) released (under_lock None)" for cr2 pid2
    by (rule ht_pre [OF ht_create_error_out]; simp)+
  have rest: "ht (released cr3)
      (xl_then (if halted then return (Inr 0) else xl_lib (libxl_domain_unpause env fuel (xp_timeout p) did)) (\<lambda>rc3.
         after_creation env fuel p (cd_daemonize di) daemon pid2 cfg cr3
           (\<lambda>cfg2. create_start env fuel p di rfd config True False False pid2 cfg2 cr3)))
      released (under_lock None)" for cr3 pid2 did
    by (intro ht_released_then ht_after_creation Suc onlies; simp)
  have made: "ht (\<lambda>tr. cr_lock cr2 = fd \<and> holding fd tr)
      (if \<not> ok then create_error_out env fuel p daemon pid2 cr2
       else
         xl_then (xl_lib (release_lock env fuel (cr_lock cr2))) (\<lambda>(rc2, fd2).
         xl_then (if halted then return (Inr 0)
                  else xl_lib (libxl_domain_unpause env fuel (xp_timeout p) (cr_domid cr2))) (\<lambda>rc3.
         (let cr3 = cr2\<lparr>cr_lock := fd2, cr_ret := sint (cr_domid cr2)\<rparr> in
          after_creation env fuel p (cd_daemonize di) daemon pid2 cfg cr3
            (\<lambda>cfg2. create_start env fuel p di rfd config True False False pid2 cfg2 cr3)))))
      released (under_lock None)" for ok pid2 cr2 fd
    unfolding Let_def
    by (intro ht_if ht_pre [OF error(1)] ht_then_pair [OF ht_pre [OF ht_release_lock]] ht_pre [OF rest])
      (auto simp: released_def)
  have made_pre: "ht (holding fd)
      (xl_call (make_domain env di rfd config console pid cfg (cr\<lparr>cr_domid := -1, cr_lock := fd\<rparr>)))
      (\<lambda>(ok, pid2, cr2) tr. cr_lock cr2 = fd \<and> holding fd tr) (under_lock None)" for fd
    using ht_make_domain [of "cr\<lparr>cr_domid := -1, cr_lock := fd\<rparr>"] by simp
  show ?case
  proof (rule ht_assume)
    show "cr_lock cr < 0" if "released cr tr" for tr using that by (simp add: released_def)
    assume lock: "cr_lock cr < 0"
    show "ht (released cr) (create_start env (Suc fuel) p di rfd config daemon halted console pid cfg cr)
        released (under_lock None)"
      unfolding create_start.simps Let_def
    proof (rule ht_then_pair [OF ht_pre [OF ht_acquire_lock [OF lock]]], goal_cases)
      case (1 tr)
      then show ?case by (simp add: released_def)
    next
      case (2 rc fd)
      show ?case
      proof (cases "rc < 0")
        case True
        then show ?thesis using error(2) by simp
      next
        case False
        have "ht (holding fd) (create_error_out env fuel p daemon pid
            (cr\<lparr>cr_domid := -1, cr_lock := fd, cr_ret := ERROR_FAIL\<rparr>)) released (under_lock None)"
          by (rule ht_pre [OF error(1)]) simp
        with False show ?thesis
          by (simp, intro made [unfolded Let_def] ht_free_then(2) ht_if ht_then_triple [OF made_pre] onlies)
      qed
    qed
  qed
qed

lemma ht_create_domain:
  assumes "fd < 0"
  shows "ht unlocked (create_domain env fuel p di common fd) released (under_lock None)"
proof -
  have start: "ht unlocked (create_start env fuel p di rfd config False halted console pid cfg cr) released (under_lock None)"
    if "cr_lock cr = fd" for rfd config halted console pid cfg cr
    by (rule ht_pre [OF ht_create_start]) (simp add: released_def that assms)
  have out: "ht unlocked (create_out env fuel daemon pid cr) released (under_lock None)"
    if "cr_lock cr = fd" for daemon pid cr
    by (rule ht_pre [OF ht_create_out]) (simp add: released_def that assms)
  have failed: "ht unlocked (return (Inr \<lparr>cr_ret = e, cr_domid = -1, cr_common = common, cr_migration = None,
      cr_lock = fd\<rparr>)) released (under_lock None)" for e
    by (rule ht_return) (simp add: released_def assms)
  show ?thesis
    unfolding create_domain_def Let_def
    by (intro ht_free_then(1) ht_sum ht_if failed start out ht_stop onlies; simp add: states_ok)
qed

section \<open>The property\<close>

text \<open>C8. Domains are created one at a time: whatever the calls answer, however often the domain
  is started again and wherever the process stops, every call of \<open>create_domain\<close> that makes a
  domain or stores its configuration is made while the process holds the lock on the lock file.
  When the function returns, it holds the lock no longer and knows that it does not.\<close>

theorem created_under_lock:
  "under_lock None (snd (run_state (create_domain env fuel p di common (-1)) [])) \<and>
   (case fst (run_state (create_domain env fuel p di common (-1)) []) of
      Inl e \<Rightarrow> True
    | Inr cr \<Rightarrow> cr_lock cr < 0 \<and> locked (snd (run_state (create_domain env fuel p di common (-1)) [])) = None)"
proof -
  have u: "unlocked []" by (simp add: unlocked_def locked_def)
  obtain r tr where r: "run_state (create_domain env fuel p di common (-1)) [] = (r, tr)" by fastforce
  from htD [OF ht_create_domain u r] show ?thesis
    by (auto simp: r released_def unlocked_def split: sum.splits)
qed

text \<open>When the lock file cannot be opened no domain is made and the function still returns what
  its result variable held, the 0 of success: \<open>error_out\<close> keeps the code of \<open>acquire_lock\<close>
  out of it, and the caller believes that domain 0 was created.\<close>

theorem lock_failure_succeeds:
  assumes "a_int (env tr (Other ''open'' [] [xp_lockfile p])) < 0" and "cr_lock cr < 0" and "cr_ret cr = 0"
    and "\<forall>tr. a_int (env tr (Other ''libxl_domid_valid_guest'' [uint (-1 :: u32)] [])) = 0"
  shows "\<exists>cr' tr'. run_state (create_start env (Suc fuel) p di rfd config False halted console (-1) cfg cr) tr = (Inr cr', tr') \<and>
    cr_ret cr' = 0 \<and> cr_domid cr' = -1 \<and> filter (\<lambda>e. makes (fst e)) tr' = filter (\<lambda>e. makes (fst e)) tr"
  using assms
  by (simp add: acquire_lock_def create_error_out_def release_lock_def create_out_def Let_def after_def)

definition no_lock_file :: env where
  "no_lock_file tr c = ans (case c of Other f args strs \<Rightarrow> if f = ''open'' then -1 else 0 | _ \<Rightarrow> 0)"

definition nothing_yet :: created where
  "nothing_yet = \<lparr>cr_ret = 0, cr_domid = -1, cr_common = None, cr_migration = None, cr_lock = -1\<rparr>"

theorem lock_failure_succeeds_witness:
  "\<forall>p di cfg. \<exists>cr' tr'. run_state (create_start no_lock_file 1 p di 0 [] False True False (-1) cfg nothing_yet) [] = (Inr cr', tr') \<and>
    cr_ret cr' = 0 \<and> cr_domid cr' = -1 \<and> filter (\<lambda>e. makes (fst e)) tr' = []"
proof (intro allI)
  fix p :: xl_params and di cfg
  have "a_int (no_lock_file [] (Other ''open'' [] [xp_lockfile p])) < 0" "cr_lock nothing_yet < 0" "cr_ret nothing_yet = 0"
    "\<forall>tr. a_int (no_lock_file tr (Other ''libxl_domid_valid_guest'' [uint (-1 :: u32)] [])) = 0"
    by (simp_all add: no_lock_file_def nothing_yet_def ans_def)
  from lock_failure_succeeds [OF this, of 0 di 0 "[]" True False cfg]
  show "\<exists>cr' tr'. run_state (create_start no_lock_file 1 p di 0 [] False True False (-1) cfg nothing_yet) [] = (Inr cr', tr') \<and>
    cr_ret cr' = 0 \<and> cr_domid cr' = -1 \<and> filter (\<lambda>e. makes (fst e)) tr' = []"
    by simp
qed

end
