(* ===== verification/Driver_Life.thy ===== *)
theory Driver_Life
  imports Store_Properties Block_Preservation
begin

text \<open>
  The two drivers together: an image written by the preservation driver and read back by the
  time travel driver, each opened by the name tapdisk gives it.
\<close>

text \<open>The requests of a session, one after the other.\<close>

fun drive_writes :: "junk \<Rightarrow> write_log \<Rightarrow> td_driver \<Rightarrow> ofile \<Rightarrow> fault + td_driver \<times> ofile" where
  "drive_writes j [] drv f = Inr (drv, f)"
| "drive_writes j ((now, q) # ws) drv f =
     (case tdpreservation_queue_write j now drv f q of
        Inl e \<Rightarrow> Inl e
      | Inr (c, drv', f') \<Rightarrow> drive_writes j ws drv' f')"

text \<open>One session on the file of a name: open, requests, close; None when the open fails.\<close>

definition drive_session ::
  "junk \<Rightarrow> fresh_mem \<Rightarrow> td_driver \<Rightarrow> string \<Rightarrow> write_log \<Rightarrow> ofile \<Rightarrow> fault + ofile option" where
  "drive_session j fr drv path ws f =
     (case tdpreservation_open fr (\<lambda>p. if p = path then Some f else None) drv path of
        Inl e \<Rightarrow> Inl e
      | Inr (ret, drv1, None) \<Rightarrow> Inr None
      | Inr (ret, drv1, Some f1) \<Rightarrow>
          if ret \<noteq> 0 then Inr None
          else
            (case drive_writes j ws drv1 f1 of
               Inl e \<Rightarrow> Inl e
             | Inr (drv2, f2) \<Rightarrow>
                 (case tdpreservation_close drv2 f2 of Inl e \<Rightarrow> Inl e | Inr (r, drv3, f3) \<Rightarrow> Inr (Some (reopened f3)))))"

fun drive_life ::
  "junk \<Rightarrow> fresh_mem \<Rightarrow> td_driver \<Rightarrow> string \<Rightarrow> write_log list \<Rightarrow> ofile \<Rightarrow> fault + ofile option" where
  "drive_life j fr drv path [] f = Inr (Some f)"
| "drive_life j fr drv path (ws # wss) f =
     (case drive_session j fr drv path ws f of
        Inr (Some f') \<Rightarrow> drive_life j fr drv path wss f'
      | r \<Rightarrow> r)"

text \<open>The driver adds nothing to the store.\<close>

lemma drive_writes_store:
  "(case drive_writes j ws drv f of Inl e \<Rightarrow> Inl e | Inr (drv', f') \<Rightarrow> Inr (prv_disk drv', f')) =
     run_writes j ws (prv_disk drv) f"
  by (induction j ws drv f rule: drive_writes.induct)
    (auto simp: tdpreservation_queue_write_def split: sum.split prod.split)

lemma drive_session_store: "drive_session j fr drv path ws f = run_session j zero_disk fr ws f"
proof (cases "pd_initialize zero_disk fr (Some f)")
  case (Inl e)
  then show ?thesis by (simp add: drive_session_def run_session_def tdpreservation_open_def)
next
  case (Inr x)
  then obtain r d o1 where x: "pd_initialize zero_disk fr (Some f) = Inr (r, d, o1)" by (cases x) auto
  let ?drv = "\<lambda>i. drv\<lparr>prv_disk := d, drv_info := i\<rparr>"
  have w: "run_writes j ws d f1 =
      (case drive_writes j ws (?drv (pd_set_driver_info d)) f1 of
         Inl e \<Rightarrow> Inl e | Inr (drv', f') \<Rightarrow> Inr (prv_disk drv', f'))" for f1
    by (simp add: drive_writes_store)
  show ?thesis
    by (cases o1)
      (auto simp: x w drive_session_def run_session_def tdpreservation_open_def tdpreservation_close_def
        split: sum.split prod.split)
qed

lemma drive_life_store: "drive_life j fr drv path wss f = run_life j zero_disk fr wss f"
  by (induction wss arbitrary: f) (auto simp: drive_session_store split: sum.split option.split)

text \<open>C1. Time travel through the drivers. An image made by the image tool, written through the preservation
  driver in time order, in any number of sessions each of which fits one filling of the append buffer, and
  opened by the time travel driver as \<open>path:seconds\<close>, where the path has no colon and the allocator leaves a
  byte behind the name: a read request on the disk that fits the stack buffer completes without an error,
  with the bytes as the requests before that second left them.\<close>

theorem time_travel:
  assumes "0 < bs" "bs \<le> 4096" "512 dvd bs" and "ds div bs < 2 ^ 31 - 64" "ds < 2 ^ 64"
    and "wss \<noteq> []" "\<forall>ws\<in>set wss. session_fits (table_entries ds bs) (bs div 512) ws"
    and "length wss < 2 ^ 40" and "in_order (concat wss)"
    and "unat (sec q) + unat (secs q) \<le> ds div bs * (bs div 512)" and "unat (secs q) < 2 ^ 31"
    and "fits_stack (bs div 512) bs (unat (sec q)) (unat (secs q))"
    and "CHR '':'' \<notin> set path" "n < 2 ^ 64"
    and "length path + length (decimal n) + 2 \<le> usable (length path + length (decimal n) + 1)"
  shows "\<exists>f0 f drv1 f1 drv2 f2. mkimage ds bs = Some f0 \<and>
     drive_life j fr drv path wss f0 = Inr (Some f) \<and>
     tdtimetravel_open usable True fr (\<lambda>p. if p = path then Some f else None) drv (path @ CHR '':'' # decimal n) =
       Inr (0, drv1, Some f1) \<and>
     tdtimetravel_queue_read j drv1 f1 q =
       Inr ((q\<lparr>req_buf := memcpy (req_buf q) 0 (overlays (before (stamp n) (concat wss)) zeros)
         (unat (sec q) * 512) (unat (secs q) * 512)\<rparr>, 0), drv2, f2)"
proof -
  from fresh_life_ok [OF assms(1-8), of j zero_disk fr] obtain f0 f where
    life: "mkimage ds bs = Some f0" "run_life j zero_disk fr wss f0 = Inr (Some f)" "fpos f = 0"
    and img: "holds_image (table_entries ds bs) bs (history (bs div 512) bs (concat wss) (\<lambda>_. [])) f"
    and dz: "hdr_disk_size (fdata f) = of_nat ds" by blast
  note s = sectors_of_block [OF assms(1,3)]
  obtain d1 f1 d2 f2 where o: "pd_initialize_read_only zero_disk fr (Some f) (stamp n) = Inr (0, d1, Some f1)"
    and r: "pd_read j d1 f1 q = Inr (0, memcpy (req_buf q) 0 (overlays (before (stamp n) (concat wss)) zeros)
       (unat (sec q) * 512) (unat (secs q) * 512), d2, f2)"
    using pd_read_at [OF img life(3), of q zero_disk fr "stamp n" j] assms blocks_of_image [OF img dz]
      bytes_at [OF assms(9), of "bs div 512" bs "stamp n"] s by auto
  from life o r show ?thesis
    using tdtimetravel_open_ok [where usable = usable, OF assms(13-15), of fr "\<lambda>p. if p = path then Some f else None" drv]
    by (auto simp: drive_life_store tdtimetravel_queue_read_def)
qed

lemma time_travel_witness:
  "\<forall>j fr drv m1 m2. \<exists>f0 f drv1 f1 drv2 f2. mkimage 4096 4096 = Some f0 \<and>
     drive_life j fr drv ''/img''
       [[(stamp 1, \<lparr>sec = 0, secs = 1, req_buf = m1\<rparr>)], [(stamp 43, \<lparr>sec = 0, secs = 2, req_buf = m2\<rparr>)]] f0 = Inr (Some f) \<and>
     tdtimetravel_open (\<lambda>n. n + 8) True fr (\<lambda>p. if p = ''/img'' then Some f else None) drv ''/img:42'' =
       Inr (0, drv1, Some f1) \<and>
     tdtimetravel_queue_read j drv1 f1 \<lparr>sec = 0, secs = 2, req_buf = zeros\<rparr> =
       Inr ((\<lparr>sec = 0, secs = 2, req_buf = memcpy zeros 0 (memcpy zeros 0 m1 0 512) 0 1024\<rparr>, 0), drv2, f2)"
  using time_travel [of 4096 4096
      "[[(stamp 1, \<lparr>sec = 0, secs = 1, req_buf = m1\<rparr>)], [(stamp 43, \<lparr>sec = 0, secs = 2, req_buf = m2\<rparr>)]]"
      "\<lparr>sec = 0, secs = 2, req_buf = zeros\<rparr>" "''/img''" 42 "\<lambda>n. n + 8" j fr drv for j fr drv m1 m2]
  by (simp add: decimal_42 session_fits_def in_range_def table_entries_def blocks_under_def in_order_def
      ts_before_def fits_stack_def overlay_def)

end
