(* ===== verification/Xl_Options.thy ===== *)
theory Xl_Options
  imports Xl_Common
begin

text \<open>
  The command line: \<open>getopt\<close> and \<open>getopt_long\<close> of the GNU library as the commands use them, with
  the operands moved behind the options.  A command receives its arguments without its name, so that
  operand \<open>i\<close> is \<open>argv[optind + i]\<close> once the options are read.
\<close>

section \<open>Options\<close>

text \<open>An option with its argument, or the \<open>?\<close> that stands for an unknown option, a missing or an
  unwanted argument.\<close>

datatype opt = Opt char "string option" | Unknown

text \<open>Whether the letter is one of the options, and whether it takes an argument.\<close>

fun opt_spec :: "string \<Rightarrow> char \<Rightarrow> bool option" where
  "opt_spec [] c = None"
| "opt_spec (o1 # os) c =
     (if o1 = c \<and> c \<noteq> CHR '':'' then Some (os \<noteq> [] \<and> hd os = CHR '':'') else opt_spec os c)"

text \<open>The letters of one argument, and the arguments left.\<close>

fun cluster :: "string \<Rightarrow> string \<Rightarrow> string list \<Rightarrow> opt list \<times> string list" where
  "cluster os [] rest = ([], rest)"
| "cluster os (c # cs) rest =
     (case opt_spec os c of
        None \<Rightarrow> (let (es, rest') = cluster os cs rest in (Unknown # es, rest'))
      | Some False \<Rightarrow> (let (es, rest') = cluster os cs rest in (Opt c None # es, rest'))
      | Some True \<Rightarrow>
          if cs \<noteq> [] then ([Opt c (Some cs)], rest)
          else (case rest of [] \<Rightarrow> ([Unknown], []) | a # rest' \<Rightarrow> ([Opt c (Some a)], rest')))"

record long_option =
  lo_name :: string
  lo_has_arg :: bool
  lo_val :: char

text \<open>The option of a long name: the one with the name, or the one the name abbreviates; several
  abbreviated ones must mean the same.\<close>

definition find_long :: "long_option list \<Rightarrow> string \<Rightarrow> long_option option" where
  "find_long los name =
     (case filter (\<lambda>l. lo_name l = name) los of
        l # _ \<Rightarrow> Some l
      | [] \<Rightarrow>
          (case filter (\<lambda>l. take (length name) (lo_name l) = name) los of
             [] \<Rightarrow> None
           | l # ls \<Rightarrow>
               if list_all (\<lambda>m. lo_has_arg m = lo_has_arg l \<and> lo_val m = lo_val l) ls then Some l else None))"

definition long_opt :: "long_option list \<Rightarrow> string \<Rightarrow> string list \<Rightarrow> opt \<times> string list" where
  "long_opt los text rest =
     (let name = takeWhile (\<lambda>c. c \<noteq> CHR ''='') text;
          val = drop (length name) text in
      case find_long los name of
        None \<Rightarrow> (Unknown, rest)
      | Some l \<Rightarrow>
          if val \<noteq> [] then (if lo_has_arg l then (Opt (lo_val l) (Some (tl val)), rest) else (Unknown, rest))
          else if lo_has_arg l then
            (case rest of [] \<Rightarrow> (Unknown, []) | a # rest' \<Rightarrow> (Opt (lo_val l) (Some a), rest'))
          else (Opt (lo_val l) None, rest))"

lemma cluster_rest: "length (snd (cluster os cs rest)) \<le> length rest"
  by (induction os cs rest rule: cluster.induct) (auto split: option.split bool.split list.split prod.split)

lemma long_opt_rest: "length (snd (long_opt los txt rest)) \<le> length rest"
  by (auto simp: long_opt_def Let_def split: option.split list.split)

text \<open>The options and the operands.\<close>

function getopt_long :: "string \<Rightarrow> long_option list \<Rightarrow> string list \<Rightarrow> opt list \<times> string list" where
  "getopt_long os los [] = ([], [])"
| "getopt_long os los (a # rest) =
     (if a = ''--'' then ([], rest)
      else if a = [] \<or> hd a \<noteq> CHR ''-'' \<or> a = ''-'' then
        (let (es, ops) = getopt_long os los rest in (es, a # ops))
      else if los \<noteq> [] \<and> take 2 a = ''--'' then
        (let (es, ops) = getopt_long os los (snd (long_opt los (drop 2 a) rest)) in
         (fst (long_opt los (drop 2 a) rest) # es, ops))
      else
        (let (es, ops) = getopt_long os los (snd (cluster os (tl a) rest)) in
         (fst (cluster os (tl a) rest) @ es, ops)))"
  by pat_completeness auto
termination
  by (relation "measure (\<lambda>(os, los, args). length args)")
    (auto simp: less_Suc_eq_le cluster_rest long_opt_rest)

definition getopt :: "string \<Rightarrow> string list \<Rightarrow> opt list \<times> string list" where
  "getopt os args = getopt_long os [] args"

section \<open>The shape of a command\<close>

text \<open>The usage of a command, printed.\<close>

definition xl_help :: "env \<Rightarrow> string \<Rightarrow> int \<Rightarrow> (stop + int) prog" where
  "xl_help env name rc = xl_call (do {_ \<leftarrow> ask env (Other ''help'' [] [name]); return rc})"

definition given_opt :: "char \<Rightarrow> opt list \<Rightarrow> bool" where
  "given_opt c es \<longleftrightarrow> Opt c None \<in> set es"

text \<open>The argument the option was last given, or the default.\<close>

fun opt_arg :: "char \<Rightarrow> opt list \<Rightarrow> string option \<Rightarrow> string option" where
  "opt_arg c [] d = d"
| "opt_arg c (Opt o1 (Some a) # es) d = opt_arg c es (if o1 = c then Some a else d)"
| "opt_arg c (Opt o1 None # es) d = opt_arg c es d"
| "opt_arg c (Unknown # es) d = opt_arg c es d"

text \<open>Most commands print their usage and end when the option \<open>h\<close> is met, and when there are
  fewer than \<open>n\<close> operands.  The other options are collected before anything is done.\<close>

definition command ::
  "env \<Rightarrow> string \<Rightarrow> string \<Rightarrow> nat \<Rightarrow> string list \<Rightarrow> (opt list \<Rightarrow> string list \<Rightarrow> (stop + int) prog) \<Rightarrow> (stop + int) prog" where
  "command env name os n args body =
     (let (es, ops) = getopt os args in
      if given_opt CHR ''h'' es then xl_help env name 0
      else if length ops < n then xl_help env name 2
      else body es ops)"

text \<open>A procedure without a result, before the command ends with 0.\<close>

definition done0 :: "(stop + 'a) prog \<Rightarrow> (stop + int) prog" where
  "done0 m = xl_then m (\<lambda>u. return (Inr 0))"

section \<open>Output\<close>

text \<open>What is written to the standard output, and the widths of \<open>printf\<close>.\<close>

definition printf :: "env \<Rightarrow> string \<Rightarrow> unit prog" where
  "printf env txt = do {_ \<leftarrow> ask env (Other ''printf'' [] [txt]); return ()}"

definition lf :: string where "lf = [CHR 0x0A]"
definition tab :: string where "tab = [CHR 0x09]"

definition pad_left :: "nat \<Rightarrow> char \<Rightarrow> string \<Rightarrow> string" where
  "pad_left n c s = replicate (n - length s) c @ s"

definition pad_right :: "nat \<Rightarrow> string \<Rightarrow> string" where
  "pad_right n s = s @ replicate (n - length s) CHR '' ''"

fun hex :: "nat \<Rightarrow> string" where
  "hex n = (if n < 16 then [hexdigit n] else hex (n div 16) @ [hexdigit (n mod 16)])"

declare hex.simps [simp del]

definition hex0 :: "nat \<Rightarrow> nat \<Rightarrow> string" where
  "hex0 n v = pad_left n CHR ''0'' (hex v)"

text \<open>One line after the other.\<close>

fun print_lines :: "env \<Rightarrow> string list \<Rightarrow> unit prog" where
  "print_lines env [] = return ()"
| "print_lines env (l # ls) = do {_ \<leftarrow> printf env (l @ lf); print_lines env ls}"

lemma run_help [simp]: "run_state (xl_help env name rc) tr = (Inr rc, after env tr (Other ''help'' [] [name]))"
  by (simp add: xl_help_def)

lemma run_done0 [simp]:
  "run_state (done0 m) tr = (case run_state m tr of (Inl e, tr') \<Rightarrow> (Inl e, tr') | (Inr x, tr') \<Rightarrow> (Inr 0, tr'))"
  by (simp add: done0_def split: prod.split sum.split)

lemma run_printf [simp]: "run_state (printf env txt) tr = ((), after env tr (Other ''printf'' [] [txt]))"
  by (simp add: printf_def)

section \<open>Lemmas\<close>

lemma getopt_help:
  assumes "given_opt CHR ''h'' (fst (getopt os args))"
  shows "command env name os n args body = xl_help env name 0"
  using assms by (cases "getopt os args") (simp add: command_def)

lemma command_operands:
  assumes "getopt os args = (es, ops)" "\<not> given_opt CHR ''h'' es"
  shows "command env name os n args body = (if length ops < n then xl_help env name 2 else body es ops)"
  using assms by (simp add: command_def)

text \<open>Arguments that do not start with a dash are operands wherever they stand.\<close>

lemma getopt_operand [simp]:
  "a = [] \<or> hd a \<noteq> CHR ''-'' \<or> a = ''-'' \<Longrightarrow>
     getopt_long os los (a # rest) = (fst (getopt_long os los rest), a # snd (getopt_long os los rest))"
  by (auto split: prod.split)

lemma getopt_operands:
  assumes "list_all (\<lambda>a. a = [] \<or> hd a \<noteq> CHR ''-'') args"
  shows "getopt_long os los args = ([], args)"
  using assms by (induction args) auto

end
