(* ===== verification/Xl_Print.thy ===== *)
theory Xl_Print
  imports Xl_Options Xl_Config
begin

text \<open>
  What \<open>xl\<close> prints of domains: the lists of domains and of virtual machines, and the description
  of a configuration.  The text goes to the standard output line by line.
\<close>

section \<open>The description of a configuration\<close>

definition line :: "nat \<Rightarrow> string \<Rightarrow> string" where
  "line n s = replicate n (CHR 0x09) @ s"

text \<open>The key and the value of an entry.\<close>

definition item :: "nat \<Rightarrow> string \<Rightarrow> string \<Rightarrow> string" where
  "item n key val = line n (''('' @ key @ '' '' @ val @ '')'')"

definition item_d :: "nat \<Rightarrow> string \<Rightarrow> c_int \<Rightarrow> string" where
  "item_d n key v = item n key (print_int (sint v))"

definition item_s :: "nat \<Rightarrow> string \<Rightarrow> string option \<Rightarrow> string" where
  "item_s n key v = item n key (null_str v)"

text \<open>Fields that are printed and that no command of \<open>xl\<close> sets, and what the library reads of the
  address of a PCI device: domain, bus, device, function and slot.\<close>

record info_rest =
  ir_ssidref :: u32
  ir_xsdata :: bool
  ir_platformdata :: bool
  ir_hvm :: c_int
  ir_videoram :: c_int
  ir_apic :: c_int
  ir_bdf :: "string \<Rightarrow> nat \<times> nat \<times> nat \<times> nat \<times> nat"

definition head_lines :: "info_rest \<Rightarrow> u32 \<Rightarrow> create_info \<Rightarrow> string list" where
  "head_lines r did c =
     [''(domain'', item_d 1 ''domid'' did, line 1 ''(create_info)'', item_d 1 ''hvm'' (ci_hvm c),
      item_d 1 ''hap'' (ci_hap c), item_d 1 ''oos'' (ci_oos c), item_d 1 ''ssidref'' (ir_ssidref r),
      item_s 1 ''name'' (ci_name c)]"

definition build_lines :: "info_rest \<Rightarrow> create_info \<Rightarrow> domain_build \<Rightarrow> string list" where
  "build_lines r c b =
     [item_s 1 ''cpupool'' (ci_poolname c),
      item 1 ''xsdata'' (if ir_xsdata r then ''contains data'' else ''(null)''),
      item 1 ''platformdata'' (if ir_platformdata r then ''contains data'' else ''(null)''),
      line 1 ''(build_info)'', item_d 1 ''max_vcpus'' (bd_max_vcpus b), item_d 1 ''tsc_mode'' (bd_tsc_mode b),
      item_d 1 ''max_memkb'' (bd_max_memkb b), item_d 1 ''target_memkb'' (bd_target_memkb b),
      item_d 1 ''nomigrate'' (bd_disable_migrate b)] @
     (if ci_hvm c = 0 \<and> bd_bootloader b \<noteq> None then
        item_s 1 ''bootloader'' (bd_bootloader b) #
        (if bd_bootloader_args b \<noteq> None then [item_s 1 ''bootloader_args'' (bd_bootloader_args b)] else [])
      else [])"

definition image_lines :: "info_rest \<Rightarrow> create_info \<Rightarrow> domain_build \<Rightarrow> device_model \<Rightarrow> string list" where
  "image_lines r c b dm =
     line 1 ''(image'' #
     (if ci_hvm c \<noteq> 0 then
        [line 2 ''(hvm'', item_s 3 ''loader'' (bd_kernel b), item_d 3 ''video_memkb'' (bd_video_memkb b),
         item_d 3 ''shadow_memkb'' (bd_shadow_memkb b), item_d 3 ''pae'' (bd_pae b), item_d 3 ''apic'' (bd_apic b),
         item_d 3 ''acpi'' (bd_acpi b), item_d 3 ''nx'' (bd_nx b), item_d 3 ''viridian'' (bd_viridian b),
         item_d 3 ''hpet'' (bd_hpet b), item_d 3 ''vpt_align'' (bd_vpt_align b),
         item_d 3 ''timer_mode'' (bd_timer_mode b), item_s 3 ''device_model'' (dm_device_model dm),
         item_d 3 ''videoram'' (ir_videoram r), item_d 3 ''stdvga'' (dm_stdvga dm), item_d 3 ''vnc'' (dm_vnc dm),
         item_s 3 ''vnclisten'' (dm_vnclisten dm), item_d 3 ''vncdisplay'' (dm_vncdisplay dm),
         item_d 3 ''vncunused'' (dm_vncunused dm), item_s 3 ''keymap'' (dm_keymap dm), item_d 3 ''sdl'' (dm_sdl dm),
         item_d 3 ''gfx_passthru'' (dm_gfx_passthru dm), item_d 3 ''opengl'' (dm_opengl dm),
         item_d 3 ''nographic'' (dm_nographic dm), item_s 3 ''serial'' (dm_serial dm), item_s 3 ''boot'' (dm_boot dm),
         item_d 3 ''usb'' (dm_usb dm), item_s 3 ''usbdevice'' (dm_usbdevice dm), item_d 3 ''apic'' (ir_apic r)]
      else
        [item_d 2 ''linux'' (ir_hvm r), item_s 3 ''kernel'' (bd_kernel b), item_s 3 ''cmdline'' (bd_cmdline b),
         item_s 3 ''ramdisk'' (bd_ramdisk b)]) @
     [line 2 '')'', line 1 '')'']"

definition device_lines :: "string \<Rightarrow> string list \<Rightarrow> string list" where
  "device_lines k ls = [line 1 ''(device'', line 2 (''('' @ k)] @ ls @ [line 2 '')'', line 1 '')'']"

fun backend_number :: "libxl_disk_backend \<Rightarrow> int" where
  "backend_number DISK_BACKEND_UNKNOWN = 0"
| "backend_number DISK_BACKEND_PHY = 1"
| "backend_number DISK_BACKEND_TAP = 2"
| "backend_number DISK_BACKEND_QDISK = 3"

definition disk_lines :: "libxl_device_disk \<Rightarrow> string list" where
  "disk_lines d =
     device_lines ''tap''
       [item_d 3 ''backend_domid'' (disk_backend_domid d), item_d 3 ''frontend_domid'' (disk_domid d),
        item_s 3 ''physpath'' (pdev_path d), item 3 ''phystype'' (print_int (backend_number (disk_backend d))),
        item_s 3 ''virtpath'' (vdev d), item 3 ''unpluggable'' (print_int (unpluggable d)),
        item 3 ''readwrite'' (print_int (readwrite d)), item 3 ''is_cdrom'' (print_int (is_cdrom d))]"

definition vif_lines :: "libxl_device_nic \<Rightarrow> string list" where
  "vif_lines n =
     device_lines ''vif''
       [item_d 3 ''backend_domid'' (nic_backend_domid n), item_d 3 ''frontend_domid'' (nic_domid n),
        item_d 3 ''devid'' (nic_devid n), item_d 3 ''mtu'' (nic_mtu n), item_s 3 ''model'' (nic_model n),
        item 3 ''mac'' (concat (map hex2 (nic_mac n)))]"

definition pci_lines :: "info_rest \<Rightarrow> pcidev \<Rightarrow> string list" where
  "pci_lines r d =
     (let (pdom, bus, dev, func, slot) = ir_bdf r (pci_bdf d) in
      device_lines ''pci''
        [item 3 ''pci dev'' (hex0 4 pdom @ '':'' @ hex0 2 bus @ '':'' @ hex0 2 dev @ ''.'' @ hex func @ ''@'' @ hex0 2 slot),
         line 3 (''(opts msitranslate '' @ print_int (sint (pci_msitranslate d)) @ '' power_mgmt '' @
           print_int (sint (pci_power_mgmt d)) @ '')'')])"

definition vfb_lines :: "libxl_device_vfb \<Rightarrow> string list" where
  "vfb_lines v =
     device_lines ''vfb''
       [item_d 3 ''backend_domid'' (vfb_backend_domid v), item_d 3 ''frontend_domid'' (vfb_domid v),
        item_d 3 ''devid'' (vfb_devid v), item_d 3 ''vnc'' (vfb_vnc v), item_s 3 ''vnclisten'' (vfb_vnclisten v),
        item_d 3 ''vncdisplay'' (vfb_vncdisplay v), item_d 3 ''vncunused'' (vfb_vncunused v),
        item_s 3 ''keymap'' (vfb_keymap v), item_d 3 ''sdl'' (vfb_sdl v), item_d 3 ''opengl'' (vfb_opengl v),
        item_s 3 ''display'' (vfb_display v), item_s 3 ''xauthority'' (vfb_xauthority v)]"

text \<open>The identifier comes from the hypervisor, not from the configuration.\<close>

definition printf_info :: "env \<Rightarrow> dominf \<Rightarrow> info_rest \<Rightarrow> u32 \<Rightarrow> domain_config \<Rightarrow> unit prog" where
  "printf_info env k r did cfg =
     do {
       _ \<leftarrow> print_lines env (head_lines r did (dc_c_info cfg));
       (rc, info) \<leftarrow> libxl_domain_info env k did;
       _ \<leftarrow> printf env (item 1 ''uuid'' (if rc = 0 then dom_uuid (the info) else ''<unknown>'') @ lf);
       print_lines env
         (build_lines r (dc_c_info cfg) (dc_b_info cfg) @
          image_lines r (dc_c_info cfg) (dc_b_info cfg) (dc_dm_info cfg) @
          concat (map disk_lines (dc_disks cfg)) @ concat (map vif_lines (dc_vifs cfg)) @
          concat (map (pci_lines r) (dc_pcidevs cfg)) @ concat (map vfb_lines (dc_vfbs cfg)) @ ['')''])
     }"

section \<open>Lists of domains\<close>

text \<open>\<open>seconds\<close> is what \<open>printf\<close> makes of a time in nanoseconds with the format \<open>8.1f\<close>.\<close>

definition shutdown_letter :: "nat \<Rightarrow> char" where
  "shutdown_letter reason = (if reason < 5 then ''-rscw'' ! reason else CHR ''?'')"

definition flag :: "char \<Rightarrow> bool \<Rightarrow> char" where
  "flag c b = (if b then c else CHR ''-'')"

definition domain_line :: "(u64 \<Rightarrow> string) \<Rightarrow> bool \<Rightarrow> libxl_dominfo \<Rightarrow> string option \<Rightarrow> string" where
  "domain_line seconds verbose info name =
     (let reason = (if shut_down info then shutdown_reason info else 0) in
      pad_right 40 (null_str name) @ '' '' @ pad_left 5 CHR '' '' (print_d (dom_id info)) @ '' '' @
      pad_left 5 CHR '' '' (decimal (unat (current_memkb info div 1024))) @ '' '' @
      pad_left 5 CHR '' '' (print_d (vcpu_online info)) @ ''     '' @
      [flag CHR ''r'' (running info), flag CHR ''b'' (blocked info), flag CHR ''p'' (paused info),
       flag CHR ''s'' (shut_down info), shutdown_letter (unat reason), flag CHR ''d'' (dying info)] @ ''  '' @
      seconds (cpu_time info) @
      (if verbose then
         '' '' @ dom_uuid info @
         (if shut_down info then '' '' @ pad_left 8 CHR '' '' (hex (unat reason)) else '' '' @ pad_left 8 CHR '' '' ''-'')
       else []))"

fun domain_lines :: "env \<Rightarrow> (u64 \<Rightarrow> string) \<Rightarrow> bool \<Rightarrow> libxl_dominfo list \<Rightarrow> unit prog" where
  "domain_lines env seconds verbose [] = return ()"
| "domain_lines env seconds verbose (i # is) =
     do {
       name \<leftarrow> str_of env (Other ''libxl_domid_to_name'' [uint (dom_id i)] []);
       _ \<leftarrow> printf env (domain_line seconds verbose i name @ lf);
       domain_lines env seconds verbose is
     }"

definition list_domains :: "env \<Rightarrow> (u64 \<Rightarrow> string) \<Rightarrow> bool \<Rightarrow> libxl_dominfo list \<Rightarrow> unit prog" where
  "list_domains env seconds verbose infos =
     do {
       _ \<leftarrow> printf env
              (''Name                                        ID   Mem VCPUs'' @ tab @ ''State'' @ tab @ ''Time(s)'' @
               (if verbose then ''   UUID                            Reason-Code'' else []) @ lf);
       domain_lines env seconds verbose infos
     }"

text \<open>A domain without a configuration is left out; the library's memory for a name may not be
  there, which ends the process.\<close>

fun list_domains_details ::
  "env \<Rightarrow> dominf \<Rightarrow> info_rest \<Rightarrow> (string \<Rightarrow> (stop + domain_config) prog) \<Rightarrow> libxl_dominfo list \<Rightarrow> (stop + unit) prog" where
  "list_domains_details env k r parse [] = return (Inr ())"
| "list_domains_details env k r parse (i # is) =
     (if dom_id i = 0 then list_domains_details env k r parse is
      else
        xl_then (xl_call (ask env (Other ''libxl_userdata_retrieve'' [uint (dom_id i)] [''xl'']))) (\<lambda>a.
          if a_int a \<noteq> 0 then list_domains_details env k r parse is
          else
            xl_then (xl_call (int_of env
              (Other ''asprintf'' [] [''<domid '' @ print_d (dom_id i) @ '' data>'']))) (\<lambda>n.
            xl_then (CHK_ERRNO n) (\<lambda>u.
            xl_then (parse (null_str (a_str a))) (\<lambda>cfg.
            xl_then (xl_call (printf_info env k r (dom_id i) cfg)) (\<lambda>u.
              list_domains_details env k r parse is))))))"

fun vm_lines :: "env \<Rightarrow> (string \<times> u32) list \<Rightarrow> unit prog" where
  "vm_lines env [] = return ()"
| "vm_lines env (vm # vms) =
     do {
       name \<leftarrow> str_of env (Other ''libxl_domid_to_name'' [uint (snd vm)] []);
       _ \<leftarrow> printf env (fst vm @ ''  '' @ print_d (snd vm) @ ''    '' @ pad_right 30 (null_str name) @ lf);
       vm_lines env vms
     }"

text \<open>A failure of the library is tested with \<open>info < 0\<close>, which never holds for a pointer: the loop
  then runs over NULL, \<open>junk\<close> times, which is what the number held.\<close>

definition list_vm :: "env \<Rightarrow> int \<Rightarrow> (stop + unit) prog" where
  "list_vm env junk =
     xl_then (xl_call (libxl_list_vm env)) (\<lambda>vms.
     xl_then (xl_call (printf env (''UUID                                  ID    name'' @ lf))) (\<lambda>u.
       case vms of
         Some l \<Rightarrow> xl_call (vm_lines env l)
       | None \<Rightarrow> if 0 < junk then return (Inl (Faults Null_pointer)) else return (Inr ())))"

end
