(* ===== verification/Libxl_Console.thy ===== *)
theory Libxl_Console
  imports Libxl_Domain
begin

text \<open>
  The operations of \<open>libxl.c\<close> that turn the process into a console client or a VNC viewer.
  \<open>execl\<close> comes back only when it fails, so what follows it is the failing case.
\<close>

text \<open>The two kinds of \<open>libxl_console_constype\<close>; None is any other value.\<close>

datatype libxl_console_constype = LIBXL_CONSTYPE_SERIAL | LIBXL_CONSTYPE_PV

definition libxl_console_exec ::
  "env \<Rightarrow> u32 \<Rightarrow> c_int \<Rightarrow> libxl_console_constype option \<Rightarrow> int prog" where
  "libxl_console_exec env did cons_num ty =
     do {
       bin \<leftarrow> str_of env (Other ''libxl_private_bindir_path'' [] []);
       (let p = null_str bin @ ''/xenconsole'';
            run = (\<lambda>t. do {
              _ \<leftarrow> ask env (Other ''execl'' []
                [p, p, print_d did, ''--num'', print_int (sint cons_num), ''--type'', t]);
              return ERROR_FAIL
            }) in
        case ty of
          Some LIBXL_CONSTYPE_PV \<Rightarrow> run ''pv''
        | Some LIBXL_CONSTYPE_SERIAL \<Rightarrow> run ''serial''
        | None \<Rightarrow> return ERROR_FAIL)
     }"

text \<open>\<open>stubdom_console\<close> is the constant \<open>STUBDOM_CONSOLE_SERIAL\<close>.\<close>

definition libxl_primary_console_exec :: "env \<Rightarrow> c_int \<Rightarrow> u32 \<Rightarrow> int prog" where
  "libxl_primary_console_exec env stubdom_console domid_vm =
     do {
       stub \<leftarrow> int_of env (Other ''libxl_get_stubdom_id'' [uint domid_vm] []);
       if word_of_int stub \<noteq> (0 :: u32)
       then libxl_console_exec env (word_of_int stub) stubdom_console (Some LIBXL_CONSTYPE_PV)
       else
         do {
           hvm \<leftarrow> is_hvm env domid_vm;
           libxl_console_exec env domid_vm 0
             (Some (if hvm then LIBXL_CONSTYPE_SERIAL else LIBXL_CONSTYPE_PV))
         }
     }"

text \<open>The display of the port; \<open>atoi\<close> may leave the numbers from which 5900 can be taken.\<close>

definition display_of :: "string option \<Rightarrow> fault + int" where
  "display_of vnc_port =
     (case vnc_port of
        None \<Rightarrow> Inr 0
      | Some s \<Rightarrow>
          if sint (atoi s) - 5900 < - (2 ^ 31) then Inl Int_overflow else Inr (sint (atoi s) - 5900))"

text \<open>A file without a name that holds the password, open at its start; None when one of the
  steps fails.  The call to \<open>lseek\<close> swaps the offset and the origin, which are both zero.\<close>

definition autopass_file :: "env \<Rightarrow> string \<Rightarrow> int option prog" where
  "autopass_file env vnc_pass =
     do {
       a \<leftarrow> ask env (Other ''mkstemp'' [] [''/tmp/vncautopass.XXXXXX'']);
       if a_int a < 0 then return None
       else
         do {
           kept \<leftarrow> xs_do env (Other ''unlink'' [] [null_str (a_str a)]);
           if kept then return None
           else
             do {
               short \<leftarrow> xs_do env (Other ''libxl_write_exactly'' [a_int a] [vnc_pass]);
               if short then return None
               else
                 do {
                   moved \<leftarrow> xs_do env (Other ''lseek'' [a_int a, 0, 0] []);
                   return (if moved then None else Some (a_int a))
                 }
             }
         }
     }"

text \<open>\<open>libxl__exec\<close> does not return; the call to \<open>abort\<close> after it is None.\<close>

definition libxl_vncviewer_exec :: "env \<Rightarrow> u32 \<Rightarrow> bool \<Rightarrow> (fault + int option) prog" where
  "libxl_vncviewer_exec env did autopass =
     (let entry = (\<lambda>name. xs_read env XBT_NULL (''/local/domain/'' @ print_d did @ ''/console/'' @ name)) in
      do {
        vnc_port \<leftarrow> entry ''vnc-port'';
        try_then (lift_fault (display_of vnc_port)) (\<lambda>port.
          do {
            vnc_listen \<leftarrow> entry ''vnc-listen'';
            vnc_pass \<leftarrow> (if autopass then entry ''vnc-pass'' else return None);
            bin \<leftarrow> str_of env (Other ''getenv'' [] [''VNCVIEWER'']);
            (let prg = (case bin of None \<Rightarrow> ''vncviewer'' | Some b \<Rightarrow> b);
                 host = (case vnc_listen of None \<Rightarrow> ''localhost'' | Some l \<Rightarrow> l) @ '':'' @ print_int port;
                 run = (\<lambda>fd more. do {
                   _ \<leftarrow> ask env (Other ''libxl__exec'' [fd, -1, -1] ([prg, prg, host] @ more));
                   return (Inr None)
                 }) in
             case vnc_pass of
               None \<Rightarrow> run (-1) []
             | Some pw \<Rightarrow>
                 do {
                   f \<leftarrow> autopass_file env pw;
                   (case f of None \<Rightarrow> return (Inr (Some ERROR_FAIL)) | Some fd \<Rightarrow> run fd [''-autopass''])
                 })
          })
      })"

end
