(* ===== verification/Xl_Domain_Commands.thy ===== *)
theory Xl_Domain_Commands
  imports Xl_Print Xl_Migrate Libxl_Console
begin

text \<open>
  The commands of \<open>xl\<close> on whole domains.  A command is one process: the global variables begin
  with zero, no name and no lock.
\<close>

section \<open>What the commands work with\<close>

text \<open>Constants of the headers; functions of the library that is not in the sources (what is read of a
  PCI address, the operations on maps of processors) and of the C library (a time in seconds with one
  decimal, of a width); and what uninitialised variables hold.\<close>

record cmd_params =
  cp_xl :: xl_params
  cp_irq :: int
  cp_stubdom_console :: c_int
  cp_trigger :: trigger_constants
  cp_seconds :: "nat \<Rightarrow> u64 \<Rightarrow> string"
  cp_ops :: cpumap_ops
  cp_set :: "libxl_cpumap \<Rightarrow> u32 \<Rightarrow> libxl_cpumap"
  cp_invalid :: u32
  XEN_SYSCTL_PHYSCAP_hvm :: u32
  XEN_SYSCTL_PHYSCAP_hvm_directio :: u32
  cp_rest :: info_rest
  cp_junk :: int
  cp_line :: "string option"

definition find_it :: "env \<Rightarrow> cmd_params \<Rightarrow> string \<Rightarrow> (stop + u32 \<times> string option) prog" where
  "find_it env p spec = find_domain env (xp_dominf (cp_xl p)) 0 spec"

text \<open>The domain is found and something is done with it.\<close>

definition on_domain :: "env \<Rightarrow> cmd_params \<Rightarrow> string \<Rightarrow> (u32 \<Rightarrow> (stop + 'a) prog) \<Rightarrow> (stop + 'a) prog" where
  "on_domain env p spec f = xl_then (find_it env p spec) (\<lambda>(did, name). f did)"

section \<open>Memory\<close>

text \<open>The suffix chooses the unit; without one the size is in megabytes.  The shifts are those of a
  64-bit number.\<close>

definition tolower :: "char \<Rightarrow> char" where
  "tolower c = (let n = of_char c :: nat in if 65 \<le> n \<and> n \<le> 90 then char_of (n + 32) else c)"

definition mem_unit :: "string \<Rightarrow> (u64 \<Rightarrow> u64) option" where
  "mem_unit endptr =
     (if 1 < length endptr then None
      else if endptr = [] then Some (push_bit 10)
      else
        (case tolower (hd endptr) of
           c \<Rightarrow> if c = CHR ''t'' then Some (push_bit 30)
               else if c = CHR ''g'' then Some (push_bit 20)
               else if c = CHR ''m'' then Some (push_bit 10)
               else if c = CHR ''k'' then Some id
               else if c = CHR ''b'' then Some (signed_drop_bit 10)
               else None))"

definition parse_mem_size_kb :: "string \<Rightarrow> u64" where
  "parse_mem_size_kb mem =
     (case mem_unit (snd (strtol10 mem)) of
        None \<Rightarrow> -1
      | Some f \<Rightarrow> f (word_of_int (fst (strtol10 mem))))"

text \<open>The two library calls take 32 bits.\<close>

definition set_memory_max :: "env \<Rightarrow> cmd_params \<Rightarrow> string \<Rightarrow> string \<Rightarrow> (stop + int) prog" where
  "set_memory_max env p spec mem =
     on_domain env p spec (\<lambda>did.
       if parse_mem_size_kb mem = -1 then xl_exit 3
       else xl_call (libxl_domain_setmaxmem env did (ucast (parse_mem_size_kb mem))))"

text \<open>This command ends the process after its usage.\<close>

definition main_memmax :: "env \<Rightarrow> cmd_params \<Rightarrow> string list \<Rightarrow> (stop + int) prog" where
  "main_memmax env p args =
     (if given_opt CHR ''h'' (fst (getopt ''h'' args)) then
        xl_then (xl_help env ''mem-max'' 0) (\<lambda>u. xl_exit 0)
      else
        command env ''mem-max'' ''h'' 2 args (\<lambda>es ops.
          xl_then (set_memory_max env p (ops ! 0) (ops ! 1)) (\<lambda>rc. return (Inr (if rc \<noteq> 0 then 1 else 0)))))"

definition set_memory_target :: "env \<Rightarrow> nat \<Rightarrow> cmd_params \<Rightarrow> string \<Rightarrow> string \<Rightarrow> (stop + int) prog" where
  "set_memory_target env fuel p spec mem =
     on_domain env p spec (\<lambda>did.
       if parse_mem_size_kb mem = -1 then xl_exit 3
       else
         xl_lib (libxl_set_memory_target env fuel (xp_mem (cp_xl p)) (xp_dominf (cp_xl p)) did
                   (ucast (parse_mem_size_kb mem)) False True))"

text \<open>The option \<open>h\<close> asks for an argument here.\<close>

definition main_memset :: "env \<Rightarrow> nat \<Rightarrow> cmd_params \<Rightarrow> string list \<Rightarrow> (stop + int) prog" where
  "main_memset env fuel p args =
     (let (es, ops) = getopt ''h:'' args in
      if \<exists>e\<in>set es. e \<noteq> Unknown then xl_help env ''mem-set'' 0
      else if length ops < 2 then xl_help env ''mem-set'' 2
      else done0 (set_memory_target env fuel p (ops ! 0) (ops ! 1)))"

section \<open>Media\<close>

text \<open>Without a medium the path is empty.\<close>

definition cd_insert :: "env \<Rightarrow> nat \<Rightarrow> cmd_params \<Rightarrow> string \<Rightarrow> string \<Rightarrow> string option \<Rightarrow> (stop + unit) prog" where
  "cd_insert env fuel p spec virtdev phys =
     on_domain env p spec (\<lambda>did.
       (let buf = (case phys of None \<Rightarrow> [] | Some s \<Rightarrow> s) @ '','' @ virtdev @ '':cdrom,r'' in
        xl_then (xl_call (int_of env (Other ''asprintf'' [] [buf]))) (\<lambda>n.
          if n < 0 then return (Inr ())
          else
            (case parse_disk_config buf of
               None \<Rightarrow> return (Inr ())
             | Some disk \<Rightarrow>
                 xl_then
                   (xl_lib (libxl_cdrom_insert env fuel (xp_valid (cp_xl p)) (xp_numbers (cp_xl p))
                      (xp_format (cp_xl p)) did (disk\<lparr>disk_backend_domid := 0, disk_domid := did\<rparr>)))
                   (\<lambda>rc. return (Inr ()))))))"

definition main_cd_eject :: "env \<Rightarrow> nat \<Rightarrow> cmd_params \<Rightarrow> string list \<Rightarrow> (stop + int) prog" where
  "main_cd_eject env fuel p args =
     command env ''cd-eject'' ''hn:'' 2 args (\<lambda>es ops. done0 (cd_insert env fuel p (ops ! 0) (ops ! 1) None))"

definition main_cd_insert :: "env \<Rightarrow> nat \<Rightarrow> cmd_params \<Rightarrow> string list \<Rightarrow> (stop + int) prog" where
  "main_cd_insert env fuel p args =
     command env ''cd-insert'' ''hn:'' 3 args (\<lambda>es ops.
       done0 (cd_insert env fuel p (ops ! 0) (ops ! 1) (Some (ops ! 2))))"

section \<open>Consoles\<close>

text \<open>The number and the type, unless an option ends the command.\<close>

fun console_options ::
  "opt list \<Rightarrow> c_int \<times> libxl_console_constype option \<Rightarrow> int + c_int \<times> libxl_console_constype option" where
  "console_options [] (num, ty) = Inr (num, ty)"
| "console_options (Opt c a # es) (num, ty) =
     (if c = CHR ''h'' then Inl 0
      else if c = CHR ''t'' then
        (if a = Some ''pv'' then console_options es (num, Some LIBXL_CONSTYPE_PV)
         else if a = Some ''serial'' then console_options es (num, Some LIBXL_CONSTYPE_SERIAL)
         else Inl 2)
      else console_options es (atoi (null_str a), ty))"
| "console_options (Unknown # es) (num, ty) = console_options es (num, ty)"

definition main_console :: "env \<Rightarrow> cmd_params \<Rightarrow> string list \<Rightarrow> (stop + int) prog" where
  "main_console env p args =
     (let (es, ops) = getopt ''hn:t:'' args in
      case console_options es (0, None) of
        Inl rc \<Rightarrow> if rc = 0 then xl_help env ''console'' 0 else return (Inr rc)
      | Inr (num, ty) \<Rightarrow>
          if ops = [] then xl_help env ''console'' 2
          else
            on_domain env p (ops ! 0) (\<lambda>did.
              xl_then
                (xl_call
                   (if ty = None then libxl_primary_console_exec env (cp_stubdom_console p) did
                    else libxl_console_exec env did num ty))
                (\<lambda>rc. return (Inr 1))))"

definition vncviewer :: "env \<Rightarrow> cmd_params \<Rightarrow> string \<Rightarrow> bool \<Rightarrow> (stop + int) prog" where
  "vncviewer env p spec autopass =
     on_domain env p spec (\<lambda>did.
       xl_then (xl_lib (libxl_vncviewer_exec env did autopass)) (\<lambda>r.
         case r of None \<Rightarrow> return (Inl Aborts) | Some rc \<Rightarrow> return (Inr 1)))"

definition vncviewer_options :: "long_option list" where
  "vncviewer_options =
     [\<lparr>lo_name = ''autopass'', lo_has_arg = False, lo_val = CHR ''a''\<rparr>,
      \<lparr>lo_name = ''vncviewer-autopass'', lo_has_arg = False, lo_val = CHR ''a''\<rparr>,
      \<lparr>lo_name = ''help'', lo_has_arg = False, lo_val = CHR ''h''\<rparr>]"

definition main_vncviewer :: "env \<Rightarrow> cmd_params \<Rightarrow> string list \<Rightarrow> (stop + int) prog" where
  "main_vncviewer env p args =
     (let (es, ops) = getopt_long ''ah'' vncviewer_options args in
      if given_opt CHR ''h'' es then xl_help env ''vncviewer'' 0
      else if length ops \<noteq> 1 then xl_help env ''vncviewer'' 2
      else
        xl_then (vncviewer env p (ops ! 0) (given_opt CHR ''a'' es)) (\<lambda>r.
          return (Inr (if r \<noteq> 0 then 1 else 0))))"

section \<open>PCI devices\<close>

text \<open>The library answers the devices five numbers each: domain, bus, device, function and slot.\<close>

fun pci_addresses :: "int list \<Rightarrow> (nat \<times> nat \<times> nat \<times> nat \<times> nat) list" where
  "pci_addresses (a # b # c # d # e # xs) = (nat a, nat b, nat c, nat d, nat e) # pci_addresses xs"
| "pci_addresses xs = []"

definition pci_line :: "nat \<times> nat \<times> nat \<times> nat \<times> nat \<Rightarrow> string" where
  "pci_line x = (case x of (d, b, v, f, s) \<Rightarrow> hex0 4 d @ '':'' @ hex0 2 b @ '':'' @ hex0 2 v @ ''.'' @ hex f)"

definition slot_line :: "nat \<times> nat \<times> nat \<times> nat \<times> nat \<Rightarrow> string" where
  "slot_line x =
     (case x of (d, b, v, f, s) \<Rightarrow> hex0 2 (s div 8 mod 32) @ ''.'' @ hex (s mod 8) @ '' '' @ pci_line x)"

definition pcilist_assignable :: "env \<Rightarrow> unit prog" where
  "pcilist_assignable env =
     do {
       a \<leftarrow> ask env (Other ''libxl_device_pci_list_assignable'' [] []);
       if a_int a \<noteq> 0 then return () else print_lines env (map pci_line (pci_addresses (a_out a)))
     }"

definition main_pcilist_assignable :: "env \<Rightarrow> string list \<Rightarrow> (stop + int) prog" where
  "main_pcilist_assignable env args =
     command env ''pci-list-assignable-devices'' ''h'' 0 args (\<lambda>es ops. done0 (xl_call (pcilist_assignable env)))"

definition pcilist :: "env \<Rightarrow> cmd_params \<Rightarrow> string \<Rightarrow> (stop + unit) prog" where
  "pcilist env p spec =
     on_domain env p spec (\<lambda>did. xl_call (do {
       a \<leftarrow> ask env (Other ''libxl_device_pci_list_assigned'' [uint did] []);
       if a_int a \<noteq> 0 then return ()
       else print_lines env (''Vdev Device'' # map slot_line (pci_addresses (a_out a)))
     }))"

definition main_pcilist :: "env \<Rightarrow> cmd_params \<Rightarrow> string list \<Rightarrow> (stop + int) prog" where
  "main_pcilist env p args = command env ''pci-list'' ''h'' 1 args (\<lambda>es ops. done0 (pcilist env p (ops ! 0)))"

text \<open>A device is named by its address; \<open>f\<close> is what is done with the device.\<close>

definition with_bdf :: "env \<Rightarrow> string \<Rightarrow> (int list \<Rightarrow> unit prog) \<Rightarrow> (stop + unit) prog" where
  "with_bdf env bdf f =
     xl_then (xl_call (ask env (Other ''libxl_device_pci_parse_bdf'' [] [bdf]))) (\<lambda>a.
       if a_int a \<noteq> 0 then xl_exit 2 else xl_call (f (a_out a)))"

definition pcidetach :: "env \<Rightarrow> cmd_params \<Rightarrow> string \<Rightarrow> string \<Rightarrow> bool \<Rightarrow> (stop + unit) prog" where
  "pcidetach env p spec bdf force =
     on_domain env p spec (\<lambda>did. with_bdf env bdf (\<lambda>d. do {
       _ \<leftarrow> ask env (Other ''libxl_device_pci_remove'' (uint did # of_bool force # d) []);
       return ()
     }))"

definition main_pcidetach :: "env \<Rightarrow> cmd_params \<Rightarrow> string list \<Rightarrow> (stop + int) prog" where
  "main_pcidetach env p args =
     command env ''pci-detach'' ''hf'' 2 args (\<lambda>es ops.
       done0 (pcidetach env p (ops ! 0) (ops ! 1) (given_opt CHR ''f'' es)))"

text \<open>The virtual slot that may be given is not used.\<close>

definition pciattach :: "env \<Rightarrow> cmd_params \<Rightarrow> string \<Rightarrow> string \<Rightarrow> (stop + unit) prog" where
  "pciattach env p spec bdf =
     on_domain env p spec (\<lambda>did. with_bdf env bdf (\<lambda>d. do {
       _ \<leftarrow> ask env (Other ''libxl_device_pci_add'' (uint did # d) []);
       return ()
     }))"

definition main_pciattach :: "env \<Rightarrow> cmd_params \<Rightarrow> string list \<Rightarrow> (stop + int) prog" where
  "main_pciattach env p args =
     command env ''pci-attach'' ''h'' 2 args (\<lambda>es ops. done0 (pciattach env p (ops ! 0) (ops ! 1)))"

section \<open>Life cycle\<close>

definition pause_domain :: "env \<Rightarrow> cmd_params \<Rightarrow> string \<Rightarrow> (stop + int) prog" where
  "pause_domain env p spec = on_domain env p spec (\<lambda>did. xl_call (libxl_domain_pause env did))"

definition unpause_domain :: "env \<Rightarrow> nat \<Rightarrow> cmd_params \<Rightarrow> string \<Rightarrow> (stop + int) prog" where
  "unpause_domain env fuel p spec =
     on_domain env p spec (\<lambda>did. xl_lib (libxl_domain_unpause env fuel (xp_timeout (cp_xl p)) did))"

text \<open>A result other than zero ends the process.\<close>

definition exit_if_failed :: "int \<Rightarrow> (stop + unit) prog" where
  "exit_if_failed rc = (if rc \<noteq> 0 then xl_exit (-1) else return (Inr ()))"

definition destroy_domain :: "env \<Rightarrow> nat \<Rightarrow> cmd_params \<Rightarrow> string \<Rightarrow> (stop + unit) prog" where
  "destroy_domain env fuel p spec =
     on_domain env p spec (\<lambda>did.
       if did = 0 then xl_exit (-1)
       else xl_then (xl_lib (libxl_domain_destroy env (xp_dominf (cp_xl p)) fuel did False)) exit_if_failed)"

text \<open>The wait for the death of the domain.\<close>

fun death_loop :: "env \<Rightarrow> nat \<Rightarrow> cmd_params \<Rightarrow> u32 \<Rightarrow> (fault + unit) prog" where
  "death_loop env 0 p did = return (Inl Diverges)"
| "death_loop env (Suc fuel) p did =
     do {
       n \<leftarrow> int_of env Xs_select;
       if n = 0 then death_loop env fuel p did
       else
         do {
           r \<leftarrow> libxl_get_event env;
           (let ev = (case snd r of None \<Rightarrow> xp_event (cp_xl p) | Some e \<Rightarrow> e) in
            if event_type ev = LIBXL_EVENT_DOMAIN_DEATH then
              do {
                d \<leftarrow> libxl_event_get_domain_death_info env (xp_dominf (cp_xl p)) did;
                if fst d < 0 then death_loop env fuel p did else return (Inr ())
              }
            else death_loop env fuel p did)
         }
     }"

definition shutdown_domain :: "env \<Rightarrow> nat \<Rightarrow> cmd_params \<Rightarrow> string \<Rightarrow> bool \<Rightarrow> (stop + unit) prog" where
  "shutdown_domain env fuel p spec wait =
     on_domain env p spec (\<lambda>did.
       xl_then (xl_lib (libxl_domain_shutdown env (cp_irq p) did 0)) (\<lambda>rc.
       xl_then (exit_if_failed rc) (\<lambda>u.
         if \<not> wait then return (Inr ())
         else
           xl_then (xl_call (libxl_wait_for_domain_death env)) (\<lambda>w.
             xl_lib (death_loop env fuel p did)))))"

definition reboot_domain :: "env \<Rightarrow> cmd_params \<Rightarrow> string \<Rightarrow> (stop + unit) prog" where
  "reboot_domain env p spec =
     on_domain env p spec (\<lambda>did.
       xl_then (xl_lib (libxl_domain_shutdown env (cp_irq p) did 1)) exit_if_failed)"

definition core_dump_domain :: "env \<Rightarrow> cmd_params \<Rightarrow> string \<Rightarrow> string \<Rightarrow> (stop + unit) prog" where
  "core_dump_domain env p spec filename =
     on_domain env p spec (\<lambda>did. xl_then (xl_call (libxl_domain_core_dump env did filename)) exit_if_failed)"

definition main_dump_core :: "env \<Rightarrow> cmd_params \<Rightarrow> string list \<Rightarrow> (stop + int) prog" where
  "main_dump_core env p args =
     command env ''dump-core'' ''h'' 2 args (\<lambda>es ops. done0 (core_dump_domain env p (ops ! 0) (ops ! 1)))"

definition main_pause :: "env \<Rightarrow> cmd_params \<Rightarrow> string list \<Rightarrow> (stop + int) prog" where
  "main_pause env p args = command env ''pause'' ''h'' 1 args (\<lambda>es ops. done0 (pause_domain env p (ops ! 0)))"

definition main_unpause :: "env \<Rightarrow> nat \<Rightarrow> cmd_params \<Rightarrow> string list \<Rightarrow> (stop + int) prog" where
  "main_unpause env fuel p args =
     command env ''unpause'' ''h'' 1 args (\<lambda>es ops. done0 (unpause_domain env fuel p (ops ! 0)))"

definition main_destroy :: "env \<Rightarrow> nat \<Rightarrow> cmd_params \<Rightarrow> string list \<Rightarrow> (stop + int) prog" where
  "main_destroy env fuel p args =
     command env ''destroy'' ''h'' 1 args (\<lambda>es ops. done0 (destroy_domain env fuel p (ops ! 0)))"

definition main_shutdown :: "env \<Rightarrow> nat \<Rightarrow> cmd_params \<Rightarrow> string list \<Rightarrow> (stop + int) prog" where
  "main_shutdown env fuel p args =
     command env ''shutdown'' ''hw'' 1 args (\<lambda>es ops.
       done0 (shutdown_domain env fuel p (ops ! 0) (given_opt CHR ''w'' es)))"

definition main_reboot :: "env \<Rightarrow> cmd_params \<Rightarrow> string list \<Rightarrow> (stop + int) prog" where
  "main_reboot env p args = command env ''reboot'' ''h'' 1 args (\<lambda>es ops. done0 (reboot_domain env p (ops ! 0)))"

end
