(* ===== verification/Xl_Device_Commands.thy ===== *)
theory Xl_Device_Commands
  imports Xl_Domain_Commands
begin

text \<open>
  The commands of \<open>xl\<close> that attach, list and detach network interfaces and disks.
\<close>

section \<open>Domains\<close>

text \<open>The domain of an operand; a negative result ends the command with 1.\<close>

definition on_qualified ::
  "env \<Rightarrow> cmd_params \<Rightarrow> string \<Rightarrow> u32 \<Rightarrow> (u32 \<Rightarrow> (stop + int) prog) \<Rightarrow> (stop + int) prog" where
  "on_qualified env p spec old f =
     xl_then (xl_call (domain_qualifier_to_domid env (xp_dominf (cp_xl p)) spec old)) (\<lambda>(rc, did, was_name).
       if rc < 0 then return (Inr 1) else f did)"

section \<open>Arguments\<close>

text \<open>Whether an argument begins with a word, compared over the given length.\<close>

definition begins :: "string \<Rightarrow> nat \<Rightarrow> string \<Rightarrow> bool" where
  "begins w n s \<longleftrightarrow> take n s = take n w"

text \<open>The value of a token in base 16, unless it has no digit.\<close>

definition hex_token :: "string \<Rightarrow> u32 option" where
  "hex_token tok =
     (let cs = snd (read_sign (dropWhile isspace tok)) in
      if cs = [] \<or> digit_in 16 (hd cs) = None then None else Some (ucast (strtoul16 tok)))"

text \<open>At most six bytes of an address, the first of them at index \<open>i\<close>.\<close>

fun set_bytes :: "nat \<Rightarrow> string list \<Rightarrow> u8 list \<Rightarrow> u8 list option" where
  "set_bytes i [] mac = Some mac"
| "set_bytes i (t # ts) mac =
     (if 6 \<le> i then Some mac
      else
        (case hex_token t of
           None \<Rightarrow> None
         | Some v \<Rightarrow> if 255 < v then None else set_bytes (i + 1) ts (mac[i := ucast v])))"

definition mac_arg :: "string \<Rightarrow> u8 list \<Rightarrow> u8 list option" where
  "mac_arg s mac = set_bytes 0 (tokens CHR '':'' s) mac"

section \<open>Network interfaces\<close>

text \<open>One argument; None is an argument that ends the command.  The comparison with \<open>script=\<close> takes
  the first six characters, and the value keeps the sign of equality.\<close>

definition nic_arg :: "env \<Rightarrow> string \<Rightarrow> libxl_device_nic \<Rightarrow> libxl_device_nic option prog" where
  "nic_arg env a nic =
     (if begins ''type='' 5 a then
        return
          (if drop 5 a = ''vif'' then Some (nic\<lparr>nic_nictype := NICTYPE_VIF\<rparr>)
           else if begins ''ioemu'' 5 (drop 5 a) then Some (nic\<lparr>nic_nictype := NICTYPE_IOEMU\<rparr>)
           else None)
      else if begins ''mac='' 4 a then
        return (map_option (\<lambda>m. nic\<lparr>nic_mac := m\<rparr>) (mac_arg (drop 4 a) (nic_mac nic)))
      else if begins ''bridge='' 7 a then return (Some (nic\<lparr>nic_bridge := Some (drop 7 a)\<rparr>))
      else if begins ''ip='' 3 a then
        do {ip \<leftarrow> str_of env (Other ''strdup'' [] [drop 3 a]); return (Some (nic\<lparr>nic_ip := ip\<rparr>))}
      else if begins ''script='' 6 a then return (Some (nic\<lparr>nic_script := Some (drop 6 a)\<rparr>))
      else if begins ''backend='' 8 a then
        do {
          r \<leftarrow> ask env (Other ''libxl_name_to_domid'' [] [drop 8 a]);
          return (Some (nic\<lparr>nic_backend_domid := (if a_int r \<noteq> 0 then 0 else word_of_int (a_out r ! 0))\<rparr>))
        }
      else if begins ''vifname='' 8 a then return (Some (nic\<lparr>nic_ifname := Some (drop 8 a)\<rparr>))
      else if begins ''model='' 6 a then return (Some (nic\<lparr>nic_model := Some (drop 6 a)\<rparr>))
      else if begins ''rate='' 5 a \<or> begins ''accel='' 6 a then return (Some nic)
      else return None)"

text \<open>The arguments one after the other.\<close>

fun fold_args :: "(string \<Rightarrow> 'a \<Rightarrow> 'a option prog) \<Rightarrow> string list \<Rightarrow> 'a \<Rightarrow> 'a option prog" where
  "fold_args f [] x = return (Some x)"
| "fold_args f (a # as) x =
     do {
       r \<leftarrow> f a x;
       (case r of None \<Rightarrow> return None | Some y \<Rightarrow> fold_args f as y)
     }"

definition main_networkattach :: "env \<Rightarrow> nat \<Rightarrow> cmd_params \<Rightarrow> string list \<Rightarrow> (stop + int) prog" where
  "main_networkattach env fuel p args =
     command env ''network-attach'' ''h'' 0 args (\<lambda>es ops.
       if length ops < 2 \<or> 11 < length ops then xl_help env ''network-attach'' 0
       else
         on_qualified env p (ops ! 0) 0 (\<lambda>did.
           xl_then (xl_call (libxl_device_nic_init env (-1))) (\<lambda>(rc, nic0).
           xl_then (xl_call (fold_args (nic_arg env) (drop 1 ops) nic0)) (\<lambda>r.
             case r of
               None \<Rightarrow> return (Inr 1)
             | Some nic \<Rightarrow>
                 xl_then (xl_lib (libxl_device_nic_add env fuel (xp_valid (cp_xl p)) did (nic\<lparr>nic_domid := did\<rparr>)))
                   (\<lambda>(rc2, nic2). return (Inr (if rc2 \<noteq> 0 then 1 else 0)))))))"

definition num_l :: "nat \<Rightarrow> int \<Rightarrow> string" where "num_l n i = pad_left n CHR '' '' (print_int i)"
definition num_r :: "nat \<Rightarrow> int \<Rightarrow> string" where "num_r n i = pad_right n (print_int i)"

definition nic_lines :: "libxl_nicinfo \<Rightarrow> string list" where
  "nic_lines n =
     [num_r 3 (sint (ni_devid n)) @ '' '' @ num_r 2 (sint (ni_backend_id n)) @ '' '',
      print_mac (ni_mac n) @ '' '',
      num_l 6 (sint (ni_devid n)) @ '' '' @ num_l 5 (sint (ni_state n)) @ '' '' @ num_l 6 (sint (ni_evtch n)) @ '' '' @
      num_l 5 (sint (ni_rref_tx n)) @ ''/'' @ num_r 11 (sint (ni_rref_rx n)) @ '' '' @
      pad_right 30 (null_str (ni_backend n)) @ lf]"

fun print_each :: "env \<Rightarrow> string list \<Rightarrow> unit prog" where
  "print_each env [] = return ()"
| "print_each env (t # ts) = do {_ \<leftarrow> printf env t; print_each env ts}"

text \<open>What is printed for each domain named; a domain that is not found is left out, and the one found
  before stays the domain.\<close>

fun for_domains ::
  "env \<Rightarrow> cmd_params \<Rightarrow> (u32 \<Rightarrow> (fault + string list) prog) \<Rightarrow> u32 \<Rightarrow> string list \<Rightarrow> (fault + unit) prog" where
  "for_domains env p f old [] = return (Inr ())"
| "for_domains env p f old (s # ss) =
     do {
       r \<leftarrow> domain_qualifier_to_domid env (xp_dominf (cp_xl p)) s old;
       (case r of (rc, did, was_name) \<Rightarrow>
         if rc < 0 then for_domains env p f did ss
         else
           try_then (f did) (\<lambda>texts.
             do {
               _ \<leftarrow> print_each env texts;
               for_domains env p f did ss
             }))
     }"

definition main_networklist :: "env \<Rightarrow> cmd_params \<Rightarrow> string list \<Rightarrow> (stop + int) prog" where
  "main_networklist env p args =
     command env ''network-list'' ''h'' 0 args (\<lambda>es ops.
       if ops = [] then xl_help env ''network-list'' 1
       else
         xl_then (xl_call (printf env
           (''Idx BE Mac Addr.         handle state evt-ch   tx-/rx-ring-ref '' @ pad_right 30 ''BE-path'' @ lf))) (\<lambda>u.
         done0 (xl_lib (for_domains env p (\<lambda>did.
           try_then (libxl_list_nics env did) (\<lambda>r.
             return (Inr (case r of None \<Rightarrow> [] | Some ns \<Rightarrow> concat (map nic_lines ns))))) 0 ops))))"

text \<open>The interface that is found by its number or, when there is a colon, by its address: the library
  answers its domains and its number.\<close>

definition found_nic :: "answer \<Rightarrow> libxl_device_nic" where
  "found_nic a =
     \<lparr>nic_backend_domid = word_of_int (a_out a ! 0), nic_domid = word_of_int (a_out a ! 1),
      nic_devid = word_of_int (a_out a ! 2), nic_mtu = 0, nic_model = None, nic_mac = [], nic_ip = None,
      nic_bridge = None, nic_ifname = None, nic_script = None, nic_nictype = NICTYPE_UNSET\<rparr>"

definition main_networkdetach :: "env \<Rightarrow> nat \<Rightarrow> cmd_params \<Rightarrow> string list \<Rightarrow> (stop + int) prog" where
  "main_networkdetach env fuel p args =
     command env ''network-detach'' ''h'' 0 args (\<lambda>es ops.
       if length ops \<noteq> 2 then xl_help env ''network-detach'' 0
       else
         on_qualified env p (ops ! 0) 0 (\<lambda>did.
           xl_then (xl_call (ask env (Other (if strchr (ops ! 1) CHR '':'' = None then ''libxl_devid_to_device_nic''
                                             else ''libxl_mac_to_device_nic'') [uint did] [ops ! 1]))) (\<lambda>a.
             if a_int a \<noteq> 0 then return (Inr 1)
             else
               xl_then (xl_lib (libxl_device_nic_del env fuel (found_nic a) True)) (\<lambda>rc.
                 return (Inr (if rc \<noteq> 0 then 1 else 0))))))"

section \<open>Disks\<close>

text \<open>A call of \<open>strtok\<close> with one delimiter: the token, or NULL, and what is left of the string.\<close>

definition next_token :: "char \<Rightarrow> string \<Rightarrow> string option \<times> string" where
  "next_token c s =
     (let t = dropWhile (\<lambda>x. x = c) s in
      if t = [] then (None, [])
      else (Some (takeWhile (\<lambda>x. x \<noteq> c) t), drop 1 (dropWhile (\<lambda>x. x \<noteq> c) t)))"

text \<open>The backend and the format that the words before the path choose, and the rest; None when a word
  is not valid.  Comparing a token that is NULL is a fault.\<close>

definition attach_type ::
  "string \<Rightarrow> fault + (libxl_disk_backend \<times> libxl_disk_format \<times> string) option" where
  "attach_type s =
     (case next_token CHR '':'' s of
        (None, r) \<Rightarrow> Inl Null_pointer
      | (Some tok, r) \<Rightarrow>
          if tok = ''phy'' then Inr (Some (DISK_BACKEND_PHY, DISK_FORMAT_UNKNOWN, r))
          else if tok = ''file'' then Inr (Some (DISK_BACKEND_TAP, DISK_FORMAT_UNKNOWN, r))
          else if tok = ''tap'' then
            (case next_token CHR '':'' r of
               (None, r2) \<Rightarrow> Inl Null_pointer
             | (Some tok2, r2) \<Rightarrow>
                 Inr
                   (if tok2 = ''aio'' then Some (DISK_BACKEND_TAP, DISK_FORMAT_UNKNOWN, r2)
                    else if tok2 = ''vhd'' then Some (DISK_BACKEND_TAP, DISK_FORMAT_VHD, r2)
                    else if tok2 = ''qcow'' then Some (DISK_BACKEND_QDISK, DISK_FORMAT_QCOW, r2)
                    else if tok2 = ''qcow2'' then Some (DISK_BACKEND_QDISK, DISK_FORMAT_QCOW2, r2)
                    else None))
          else Inr None)"

definition attach_disk :: "string list \<Rightarrow> fault + libxl_device_disk option" where
  "attach_disk ops =
     (case attach_type (ops ! 1) of
        Inl e \<Rightarrow> Inl e
      | Inr None \<Rightarrow> Inr None
      | Inr (Some (backend, fmt, path)) \<Rightarrow>
          Inr
            (if path = [] then None
             else
               Some (zero_device_disk
                 \<lparr>disk_backend := backend, disk_format := fmt, pdev_path := Some path, vdev := Some (ops ! 2),
                  unpluggable := 1,
                  readwrite := of_bool (length ops \<le> 3 \<or> take 1 (ops ! 3) = ''w'')\<rparr>)))"

text \<open>A disk that cannot be added is not a failure of the command.\<close>

definition main_blockattach :: "env \<Rightarrow> nat \<Rightarrow> cmd_params \<Rightarrow> string list \<Rightarrow> (stop + int) prog" where
  "main_blockattach env fuel p args =
     command env ''block-attach'' ''h'' 0 args (\<lambda>es ops.
       if length ops < 3 \<or> 5 < length ops then xl_help env ''block-attach'' 0
       else
         xl_then (xl_lib (lift_fault (attach_disk ops))) (\<lambda>r.
           case r of
             None \<Rightarrow> return (Inr 1)
           | Some disk \<Rightarrow>
               on_qualified env p (ops ! 0) (word_of_int (cp_junk p)) (\<lambda>fe.
                 (let add = (\<lambda>be.
                    xl_then (xl_lib (libxl_device_disk_add env fuel (xp_valid (cp_xl p)) (xp_numbers (cp_xl p)) fe
                               (disk\<lparr>disk_domid := fe, disk_backend_domid := be\<rparr>))) (\<lambda>rc. return (Inr 0))) in
                  if length ops = 5 then on_qualified env p (ops ! 4) 0 add else add 0))))"

definition disk_line :: "libxl_diskinfo \<Rightarrow> string" where
  "disk_line d =
     num_r 5 (di_devid d) @ '' '' @ num_r 3 (sint (di_backend_id d)) @ '' '' @ num_r 6 (sint (di_frontend_id d)) @ '' '' @
     num_r 5 (sint (di_state d)) @ '' '' @ num_r 6 (sint (di_evtch d)) @ '' '' @ num_r 8 (sint (di_rref d)) @ '' '' @
     pad_right 30 (null_str (di_backend d)) @ lf"

fun disk_infos :: "env \<Rightarrow> u32 \<Rightarrow> libxl_device_disk list \<Rightarrow> (fault + string list) prog" where
  "disk_infos env did [] = return (Inr [])"
| "disk_infos env did (d # ds) =
     try_then (libxl_device_disk_getinfo env did d) (\<lambda>(rc, info).
     try_then (disk_infos env did ds) (\<lambda>ls.
       return (Inr ((if rc = 0 then [disk_line (the info)] else []) @ ls))))"

definition main_blocklist :: "env \<Rightarrow> cmd_params \<Rightarrow> string list \<Rightarrow> (stop + int) prog" where
  "main_blocklist env p args =
     command env ''block-list'' ''h'' 0 args (\<lambda>es ops.
       if ops = [] then xl_help env ''block-list'' 0
       else
         xl_then (xl_call (printf env
           (''Vdev  BE  handle state evt-ch ring-ref '' @ pad_right 30 ''BE-path'' @ lf))) (\<lambda>u.
         done0 (xl_lib (for_domains env p (\<lambda>did.
           try_then (libxl_device_disk_list env (xp_format (cp_xl p)) did) (\<lambda>(n, ds). disk_infos env did ds)) 0 ops))))"

text \<open>The library answers the domains, the number of the backend, the path and the name of a disk.\<close>

definition found_disk :: "answer \<Rightarrow> libxl_device_disk" where
  "found_disk a =
     zero_device_disk
       \<lparr>disk_backend_domid := word_of_int (a_out a ! 0), disk_domid := word_of_int (a_out a ! 1),
        disk_backend := (if a_out a ! 2 = 1 then DISK_BACKEND_PHY else if a_out a ! 2 = 2 then DISK_BACKEND_TAP
                         else if a_out a ! 2 = 3 then DISK_BACKEND_QDISK else DISK_BACKEND_UNKNOWN),
        pdev_path := a_str a, vdev := (case a_list a of None \<Rightarrow> None | Some l \<Rightarrow> Some (hd l))\<rparr>"

definition main_blockdetach :: "env \<Rightarrow> nat \<Rightarrow> cmd_params \<Rightarrow> string list \<Rightarrow> (stop + int) prog" where
  "main_blockdetach env fuel p args =
     command env ''block-detach'' ''h'' 0 args (\<lambda>es ops.
       if length ops \<noteq> 2 then xl_help env ''block-detach'' 0
       else
         on_qualified env p (ops ! 0) 0 (\<lambda>did.
           xl_then (xl_call (ask env (Other ''libxl_devid_to_device_disk'' [uint did] [ops ! 1]))) (\<lambda>a.
             if a_int a \<noteq> 0 then return (Inr 1)
             else
               xl_then (xl_lib (libxl_device_disk_del env fuel (found_disk a) True)) (\<lambda>rc. return (Inr 0)))))"

section \<open>Network interfaces of the second kind\<close>

text \<open>A number in base 10, unless there is no digit.\<close>

definition number_arg :: "string \<Rightarrow> c_int option" where
  "number_arg s = (if snd (strtoull10 s) = s then None else Some (ucast (fst (strtoull10 s))))"

text \<open>The interface and the domain of the backend, whose name is the whole argument.  The address after
  \<open>back_mac=\<close> is read from the second character on, and the name of the bridge from the thirteenth of the
  argument, wherever it ends; None ends the command.\<close>

definition net2_arg ::
  "string \<Rightarrow> libxl_device_net2 \<times> string option \<Rightarrow> fault + (libxl_device_net2 \<times> string option) option" where
  "net2_arg a x =
     (let (net2, back) = x; ok = (\<lambda>n. Inr (Some (n, back))); one = (\<lambda>k. of_bool (take 1 (drop k a) = ''1'')) in
      if begins ''front_mac='' 10 a then
        Inr (map_option (\<lambda>m. (net2\<lparr>net2_front_mac := m\<rparr>, back)) (mac_arg (drop 10 a) (net2_front_mac net2)))
      else if begins ''back_mac='' 9 a then
        (if length a < 10 then Inl Out_of_bounds
         else Inr (map_option (\<lambda>m. (net2\<lparr>net2_back_mac := m\<rparr>, back)) (mac_arg (drop 10 a) (net2_back_mac net2))))
      else if begins ''backend='' 8 a then Inr (Some (net2, Some a))
      else if begins ''trusted='' 8 a then ok (net2\<lparr>net2_trusted := one 8\<rparr>)
      else if begins ''back_trusted='' 13 a then ok (net2\<lparr>net2_back_trusted := one 13\<rparr>)
      else if begins ''bridge='' 7 a then
        (if length a < 13 then Inl Out_of_bounds else ok (net2\<lparr>net2_bridge := Some (drop 13 a)\<rparr>))
      else if begins ''filter_mac='' 11 a then ok (net2\<lparr>net2_filter_mac := one 11\<rparr>)
      else if begins ''front_filter_mac='' 17 a then ok (net2\<lparr>net2_front_filter_mac := one 17\<rparr>)
      else if begins ''pdev='' 5 a then
        Inr (map_option (\<lambda>v. (net2\<lparr>net2_pdev := v\<rparr>, back)) (number_arg (drop 5 a)))
      else if begins ''max_bypasses='' 13 a then
        Inr (map_option (\<lambda>v. (net2\<lparr>net2_max_bypasses := v\<rparr>, back)) (number_arg (drop 13 a)))
      else Inr None)"

fun net2_args ::
  "string list \<Rightarrow> libxl_device_net2 \<times> string option \<Rightarrow> fault + (libxl_device_net2 \<times> string option) option" where
  "net2_args [] x = Inr (Some x)"
| "net2_args (a # as) x =
     (case net2_arg a x of Inl e \<Rightarrow> Inl e | Inr None \<Rightarrow> Inr None | Inr (Some y) \<Rightarrow> net2_args as y)"

text \<open>Without a backend its domain is what the variable held.\<close>

definition main_network2attach :: "env \<Rightarrow> nat \<Rightarrow> cmd_params \<Rightarrow> string list \<Rightarrow> (stop + int) prog" where
  "main_network2attach env fuel p args =
     command env ''network2-attach'' ''h'' 0 args (\<lambda>es ops.
       if ops = [] \<or> 10 < length ops then xl_help env ''network2-attach'' 0
       else
         on_qualified env p (ops ! 0) (word_of_int (cp_junk p)) (\<lambda>did.
           xl_then (xl_call (libxl_device_net2_init env (-1))) (\<lambda>net0.
           xl_then (xl_lib (lift_fault (net2_args (drop 1 ops) (net0, None)))) (\<lambda>r.
             case r of
               None \<Rightarrow> return (Inr 1)
             | Some (net2, back) \<Rightarrow>
                 (let add = (\<lambda>be.
                    xl_then (xl_lib (libxl_device_net2_add env fuel (xp_valid (cp_xl p)) did
                               (net2\<lparr>net2_domid := did, net2_backend_domid := be\<rparr>))) (\<lambda>rc. return (Inr 0))) in
                  case back of
                    None \<Rightarrow> add (word_of_int (cp_junk p))
                  | Some b \<Rightarrow> on_qualified env p b (word_of_int (cp_junk p)) add)))))"

definition net2_lines :: "libxl_net2info \<Rightarrow> string list" where
  "net2_lines n =
     [num_l 3 (sint (n2_devid n)) @ '' '' @ num_l 2 (sint (n2_backend_id n)) @ '' '' @ num_l 5 (sint (n2_state n)) @ '' '',
      print_mac (n2_mac n) @ '' '', print_mac (n2_back_mac n) @ '' '',
      num_r 7 (sint (n2_trusted n)) @ '' '' @ num_r 6 (sint (n2_filter_mac n)) @ '' '' @
      pad_right 30 (null_str (n2_backend n)) @ lf]"

definition main_network2list :: "env \<Rightarrow> cmd_params \<Rightarrow> string list \<Rightarrow> (stop + int) prog" where
  "main_network2list env p args =
     command env ''network2-list'' ''h'' 0 args (\<lambda>es ops.
       if ops = [] then xl_help env ''network2-list'' 0
       else
         xl_then (xl_call (printf env
           (''Idx BE state Mac Addr.         Remote Mac Addr.  trusted filter '' @ pad_right 30 ''backend'' @ lf))) (\<lambda>u.
         done0 (xl_lib (for_domains env p (\<lambda>did.
           try_then (libxl_device_net2_list env did) (\<lambda>r.
             return (Inr (case r of None \<Rightarrow> [] | Some ns \<Rightarrow> concat (map net2_lines ns))))) 0 ops))))"

definition found_net2 :: "answer \<Rightarrow> libxl_device_net2" where
  "found_net2 a =
     \<lparr>net2_backend_domid = word_of_int (a_out a ! 0), net2_domid = word_of_int (a_out a ! 1),
      net2_devid = word_of_int (a_out a ! 2), net2_front_mac = [], net2_back_mac = [], net2_trusted = 0,
      net2_back_trusted = 0, net2_filter_mac = 0, net2_front_filter_mac = 0, net2_pdev = 0,
      net2_max_bypasses = 0, net2_bridge = None\<rparr>"

definition main_network2detach :: "env \<Rightarrow> nat \<Rightarrow> cmd_params \<Rightarrow> string list \<Rightarrow> (stop + int) prog" where
  "main_network2detach env fuel p args =
     command env ''network2-detach'' ''h'' 0 args (\<lambda>es ops.
       if length ops \<noteq> 2 then xl_help env ''network2-detach'' 0
       else
         on_qualified env p (ops ! 0) 0 (\<lambda>did.
           xl_then (xl_call (ask env (Other ''libxl_devid_to_device_net2'' [uint did] [ops ! 1]))) (\<lambda>a.
             if a_int a \<noteq> 0 then return (Inr 1)
             else
               xl_then (xl_lib (libxl_device_net2_del env fuel (found_net2 a) True)) (\<lambda>rc.
                 return (Inr (if rc \<noteq> 0 then 1 else 0))))))"

end
