(* ===== verification/Nic_Store.thy ===== *)
theory Nic_Store
  imports Device_Store Xl_Device_Commands
begin

text \<open>
  Network interfaces in the store: the addresses that are printed are those that are read, by the
  list of interfaces and by \<open>network-attach\<close>, and an interface that was added is listed as it was.
\<close>

section \<open>Addresses\<close>

lemma hexdigit_digit: "n < 16 \<Longrightarrow> digit_in 16 (hexdigit n) = Some n"
  by (auto simp: digit_in_def Let_def)

lemma hexdigit_plain:
  assumes "n < 16"
  shows "\<not> isspace (hexdigit n)" "hexdigit n \<noteq> CHR ''-''" "hexdigit n \<noteq> CHR ''+''" "hexdigit n \<noteq> CHR '':''"
proof -
  have "digit_in 16 (hexdigit n) \<noteq> None" using hexdigit_digit [OF assms] by simp
  moreover have "digit_in 16 c = None" if "isspace c \<or> c \<in> {CHR ''-'', CHR ''+'', CHR '':''}" for c
    using that by (auto simp: isspace_def digit_in_def Let_def)
  ultimately show "\<not> isspace (hexdigit n)" "hexdigit n \<noteq> CHR ''-''" "hexdigit n \<noteq> CHR ''+''" "hexdigit n \<noteq> CHR '':''"
    by (metis insertCI)+
qed

lemma byte_digits: "unat (b :: u8) div 16 < 16" "unat b mod 16 < 16"
  using unsigned_less [of b, where 'a = nat] by simp_all

lemma strtoul16_hex2: "strtoul16 (hex2 b) = ucast b"
proof -
  note d = byte_digits [of b]
  have "unat b < 2 ^ 64" using unsigned_less [of b, where 'a = nat] by simp
  then show ?thesis
    using hexdigit_plain [OF d(1)]
    by (simp add: strtoul16_def hex2_def hexdigit_digit [OF d(1)] hexdigit_digit [OF d(2)] del: hexdigit.simps)
qed

lemma hex2_token: "CHR '':'' \<notin> set (hex2 b)" "hex2 b \<noteq> []"
  using hexdigit_plain(4) [OF byte_digits(1) [of b]] hexdigit_plain(4) [OF byte_digits(2) [of b]]
  by (auto simp: hex2_def simp del: hexdigit.simps)

lemma tokens_print_mac: "tokens CHR '':'' (print_mac m) = map hex2 m"
proof (induction m rule: print_mac.induct)
  case 1
  then show ?case by (simp add: tokens.simps)
next
  case (2 b)
  then show ?case using tokens_word [OF hex2_token, where rest = "[]"] by (simp add: tokens.simps [of _ "[]"])
next
  case (3 b c bs)
  then show ?case using tokens_word [OF hex2_token, where rest = "CHR '':'' # print_mac (c # bs)"] by (simp add: tokens_sep)
qed

lemma parse_print_mac: "length m = 6 \<Longrightarrow> parse_mac (print_mac m) = m"
  by (simp add: parse_mac_def tokens_print_mac strtoul16_hex2 comp_def ucast_down_ucast_id is_down)

lemma hex_token_hex2: "hex_token (hex2 b) = Some (ucast b)"
proof -
  note d = byte_digits [of b]
  have "read_sign (dropWhile isspace (hex2 b)) = (False, hex2 b)"
    using hexdigit_plain [OF d(1)] by (simp add: hex2_def del: hexdigit.simps)
  moreover have "digit_in 16 (hd (hex2 b)) = Some (unat b div 16)"
    using hexdigit_digit [OF d(1)] by (simp add: hex2_def del: hexdigit.simps)
  moreover have "(ucast (ucast b :: u64) :: u32) = ucast b"
    by (rule bit_word_eqI) (auto simp: bit_simps)
  ultimately show ?thesis by (simp add: hex_token_def strtoul16_hex2 hex2_token)
qed

lemma set_bytes_hex2:
  assumes "i + length m \<le> 6" "i + length m \<le> length old"
  shows "set_bytes i (map hex2 m) old = Some (take i old @ m @ drop (i + length m) old)"
  using assms
proof (induction m arbitrary: i old)
  case (Cons b m)
  have "\<not> (255 :: u32) < ucast b"
    using unsigned_less [of b, where 'a = nat] by (simp add: word_less_nat_alt unsigned_ucast_eq take_bit_nat_eq_self)
  moreover have "(ucast (ucast b :: u32) :: u8) = b" by (simp add: ucast_down_ucast_id is_down)
  ultimately show ?case
    using Cons.prems Cons.IH [of "i + 1" "old[i := b]"]
    by (simp add: hex_token_hex2 take_Suc_conv_app_nth drop_update_cancel)
qed simp

lemma mac_arg_print_mac: "length m = 6 \<Longrightarrow> length old = 6 \<Longrightarrow> mac_arg (print_mac m) old = Some m"
  using set_bytes_hex2 [of 0 m old] by (simp add: mac_arg_def tokens_print_mac)

section \<open>Adding and listing\<close>

text \<open>A directory made elsewhere leaves a list as it was.\<close>

lemma dir_elsewhere:
  assumes "b \<noteq> []" "flat_keys es" "\<not> under b p" "\<not> under p b"
  shows "tree_dir (new_dir b es s) p = tree_dir s p"
proof -
  have out: "\<not> child_of p x" if "under b x \<or> under x b" for x
    using that assms(3,4) under_comparable [of b x p] under_trans [of p x b] child_under [of p x] by blast
  have "filter (child_of p) (map fst (tree_rm b s)) = filter (child_of p) (map fst s)"
    using out by (auto simp: tree_rm_def filter_map intro!: arg_cong [where f = "map fst"] filter_cong)
  moreover have "filter (child_of p) (map fst (tree_mkdir b (tree_rm b s))) = filter (child_of p) (map fst (tree_rm b s))"
    using paths_make_nodes [of "ancestors b" "child_of p" "tree_rm b s"] out ancestor_under
    by (simp add: tree_mkdir_def make_node_def)
  moreover have "\<not> child_of p (b @ CHR ''/'' # k)" for k by (rule out) simp
  ultimately have "filter (child_of p) (map fst (new_dir b es s)) = filter (child_of p) (map fst s)"
    using paths_writev [OF is_node_mkdir assms(1,2), of "child_of p" "tree_rm b s"] by (simp add: new_dir_def)
  moreover have "tree_read (new_dir b es s) p = tree_read s p"
    using assms ancestor_under [of p b] by (auto simp: read_new_dir_other)
  ultimately show ?thesis by (simp add: tree_dir_paths)
qed

text \<open>The device of an interface, and the store after it was added.\<close>

definition vif :: "libxl_device_nic \<Rightarrow> libxl__device" where
  "vif nic = same_device DEVICE_VIF (nic_devid nic) (nic_backend_domid nic) (nic_domid nic)"

definition with_nic :: "libxl_device_nic \<Rightarrow> string option \<Rightarrow> string option \<Rightarrow> xs_tree \<Rightarrow> xs_tree" where
  "with_nic nic ip bridge s =
     new_dir (dev_backend (vif nic)) ((''frontend'', Some (dev_frontend (vif nic))) # nic_backend_entries nic ip bridge)
       (new_dir (dev_frontend (vif nic)) ((''backend'', Some (dev_backend (vif nic))) # nic_frontend_entries nic) s)"

lemma vif_sides:
  "dev_frontend (vif nic) = domain_path (nic_domid nic) @ ''/device/vif/'' @ print_int (sint (nic_devid nic))"
  "dev_backend (vif nic) =
     domain_path (nic_backend_domid nic) @ ''/backend/vif/'' @ print_u (nic_domid nic) @ ''/'' @ print_int (sint (nic_devid nic))"
  by (simp_all add: vif_def same_device_def dev_frontend_def dev_backend_def frontend_path_in_def backend_path_in_def)

lemma flat_nic [simp]:
  "flat_keys ((''frontend'', x) # nic_backend_entries nic ip bridge)"
  "flat_keys ((''backend'', x) # nic_frontend_entries nic)"
  by (simp_all add: flat_keys_def nic_backend_entries_def nic_frontend_entries_def)

lemma with_nic_reads:
  "tree_read (with_nic nic ip bridge s) (dev_backend (vif nic) @ CHR ''/'' # k) =
     (case map_of ((''frontend'', Some (dev_frontend (vif nic))) # nic_backend_entries nic ip bridge) k of
        Some (Some v) \<Rightarrow> Some v | _ \<Rightarrow> None)"
  "tree_read (with_nic nic ip bridge s) (dev_frontend (vif nic) @ CHR ''/'' # k) =
     (case map_of ((''backend'', Some (dev_backend (vif nic))) # nic_frontend_entries nic) k of
        Some (Some v) \<Rightarrow> Some v | _ \<Rightarrow> None)"
  using read_sides [OF device_paths(2,1) flat_nic sides_apart_self with_nic_def] by blast+

text \<open>The directory of the interfaces of a domain.\<close>

definition vifs_of :: "u32 \<Rightarrow> string" where
  "vifs_of d = domain_path d @ ''/device/vif''"

lemma with_nic_dir:
  assumes "absent (vifs_of (nic_domid nic)) s"
  shows "tree_dir (with_nic nic ip bridge s) (vifs_of (nic_domid nic)) = Some [print_int (sint (nic_devid nic))]"
proof -
  let ?p = "vifs_of (nic_domid nic)"
  have f: "dev_frontend (vif nic) = ?p @ CHR ''/'' # print_int (sint (nic_devid nic))"
    by (simp add: vif_sides vifs_of_def)
  have "\<not> under (dev_backend (vif nic)) ?p" "\<not> under ?p (dev_backend (vif nic))"
    by (auto simp: vif_sides vifs_of_def under_domain_path under_iff [of "x # xs" for x xs])
  then have "tree_dir (with_nic nic ip bridge s) ?p =
      tree_dir (new_dir (dev_frontend (vif nic)) ((''backend'', Some (dev_backend (vif nic))) # nic_frontend_entries nic) s) ?p"
    unfolding with_nic_def by (intro dir_elsewhere) simp_all
  also have "\<dots> = Some [print_int (sint (nic_devid nic))]"
    using only_child [OF assms _ _ _ flat_nic(2)] by (simp add: f vifs_of_def)
  finally show ?thesis .
qed

text \<open>There is memory for the arrays and the list.\<close>

definition has_memory :: "env \<Rightarrow> bool" where
  "has_memory env \<longleftrightarrow>
     (\<forall>tr n. a_int (env tr (Other ''flexarray_make'' [16, 1] [])) \<noteq> 0 \<and> a_int (env tr (Other ''calloc'' [n] [])) \<noteq> 0)"

text \<open>What the list says of an interface.\<close>

definition nic_info :: "libxl_device_nic \<Rightarrow> libxl_nicinfo" where
  "nic_info nic =
     \<lparr>ni_backend = Some (dev_backend (vif nic)), ni_backend_id = nic_backend_domid nic,
      ni_frontend = Some (dev_frontend (vif nic)), ni_frontend_id = nic_domid nic, ni_devid = nic_devid nic,
      ni_state = 1, ni_script = nic_script nic, ni_mac = nic_mac nic, ni_evtch = -1, ni_rref_tx = -1, ni_rref_rx = -1\<rparr>"

lemma zero_back: "print_int 0 = ''0''" "to_int (fst (strtoull10 ''0'')) = 0"
proof -
  have d: "decimal 0 = ''0''" by (simp add: decimal.simps [of 0] digit_char_def char_of_def bit_nat_def)
  then show "print_int 0 = ''0''" by (simp add: print_int_def)
  show "to_int (fst (strtoull10 ''0'')) = 0"
    using number_print_u [of 0] by (simp add: print_u_def d number_or_minus1_def)
qed

context xenstore
begin

lemma nic_add_view:
  assumes "has_memory env" "valid DEVICE_VIF" "nic_devid nic = -1" "absent (vifs_of (nic_domid nic)) (view tr 0)"
  shows "\<exists>ip bridge tr'. run_state (libxl_device_nic_add env (Suc fuel) valid (nic_domid nic) nic) tr =
      (Inr (0, nic\<lparr>nic_devid := 0\<rparr>), tr') \<and> view tr' 0 = with_nic (nic\<lparr>nic_devid := 0\<rparr>) ip bridge (view tr 0)"
proof -
  let ?d = "nic_domid nic" and ?nic = "nic\<lparr>nic_devid := 0\<rparr>"
  define tr1 where "tr1 = after env (after env tr (Other ''flexarray_make'' [16, 1] [])) (Other ''flexarray_make'' [16, 1] [])"
  define tr2 where "tr2 = after env (after env tr1 (Xs_get_domain_path ?d)) (Xs_directory 0 (vifs_of ?d))"
  have v2: "view tr2 = view tr" by (simp add: tr2_def tr1_def)
  have none: "tree_dir (view tr 0) (vifs_of ?d) = None" using assms(4) by (simp add: tree_dir_def absent_def)
  have n: "run_state (next_devid env (domain_path ?d) ''vif'') (after env tr1 (Xs_get_domain_path ?d)) = (Inr 0, tr2)"
    using none by (simp add: next_devid_def vifs_of_def [symmetric] tr2_def tr1_def)
  obtain ip tr3 where ip: "run_state (if nic_ip nic = None then return None else xl_strdup env (nic_ip nic)) tr2 = (ip, tr3)"
    "view tr3 = view tr"
    by (cases "nic_ip nic") (auto simp: xl_strdup_def v2)
  obtain bridge tr4 where br: "run_state (xl_strdup env (nic_bridge nic)) tr3 = (bridge, tr4)" "view tr4 = view tr"
    by (auto simp: xl_strdup_def ip(2))
  obtain tr5 where g: "run_state (libxl__device_generic_add env (Suc fuel) valid (vif ?nic)
        (Some (nic_backend_entries ?nic ip bridge)) (Some (nic_frontend_entries ?nic))) tr4 = (Inr 0, tr5)"
      "view tr5 0 = with_nic ?nic ip bridge (view tr 0)"
    using generic_add_view [of valid "vif ?nic" fuel "nic_backend_entries ?nic ip bridge" "nic_frontend_entries ?nic" tr4] assms(2)
    by (auto simp: br(2) vif_def same_device_def with_nic_def)
  have "run_state (libxl_device_nic_add env (Suc fuel) valid ?d nic) tr = (Inr (0, ?nic), tr5)"
    using assms(1,3) n ip(1) br(1) g(1)
    by (cases "nic_ip nic") (simp_all add: libxl_device_nic_add_def with_flexarrays_def flexarray_make_def
        has_memory_def tr1_def [symmetric] vif_def Let_def)
  then show ?thesis using g(2) by blast
qed

lemma nics_listed:
  assumes "view tr 0 = with_nic nic ip bridge s" "has_memory env" "nic_devid nic = 0" "length (nic_mac nic) = 6"
    and "unat (nic_domid nic) < 2 ^ 31" "unat (nic_backend_domid nic) < 2 ^ 31" "absent (vifs_of (nic_domid nic)) s"
  shows "fst (run_state (libxl_list_nics env (nic_domid nic)) tr) = Inr (Some [nic_info nic])"
proof -
  note b = with_nic_reads(1) [of nic ip bridge s]
  have f: "tree_read (with_nic nic ip bridge s) (domain_path (nic_domid nic) @ ''/device/vif/'' @ ''0'' @ CHR ''/'' # k) =
      (case map_of ((''backend'', Some (dev_backend (vif nic))) # nic_frontend_entries nic) k of
        Some (Some v) \<Rightarrow> Some v | _ \<Rightarrow> None)" for k
    using with_nic_reads(2) [of nic ip bridge s k] by (simp add: vif_sides assms(3) zero_back)
  note dir = with_nic_dir [OF assms(7), of ip bridge]
  show ?thesis
    using assms(1,2,3) dir f
    by (simp add: libxl_list_nics_def list_devices_def nic_of_entry_def null_str_def b vifs_of_def has_memory_def
        nic_frontend_entries_def nic_backend_entries_def print_d_small [OF assms(5)] print_d_small [OF assms(6)]
        number_print_u number_one nic_info_def mac_of_def parse_print_mac [OF assms(4)] zero_back signed_or_minus1_def split: option.split)
qed

end

text \<open>C28. The first network interface of a domain: adding it succeeds with the number 0, the list of the
  interfaces of the domain then holds exactly it, with both sides, domains, script, address and state, no
  event channel and no rings, and its address as \<open>network-list\<close> prints it, given to \<open>network-attach\<close>, is
  the same address.\<close>

theorem network_interface_listed:
  assumes "has_memory others" "valid DEVICE_VIF" "nic_devid nic = -1"
    and "length (nic_mac nic) = 6" "length old = 6"
    and "unat (nic_domid nic) < 2 ^ 31" "unat (nic_backend_domid nic) < 2 ^ 31"
    and "absent (vifs_of (nic_domid nic)) (committed s0 tr)"
    and "run_state (libxl_device_nic_add (store_env others s0) (Suc fuel) valid (nic_domid nic) nic) tr = (r, tr')"
  shows "r = Inr (0, nic\<lparr>nic_devid := 0\<rparr>) \<and>
    fst (run_state (libxl_list_nics (store_env others s0) (nic_domid nic)) tr') =
      Inr (Some [nic_info (nic\<lparr>nic_devid := 0\<rparr>)]) \<and>
    mac_arg (print_mac (ni_mac (nic_info (nic\<lparr>nic_devid := 0\<rparr>)))) old = Some (nic_mac nic)"
proof -
  let ?nic = "nic\<lparr>nic_devid := 0\<rparr>"
  have m: "has_memory (store_env others s0)" using assms(1) by (simp add: has_memory_def store_env_def)
  from store.nic_add_view [where valid = valid, OF m assms(2,3), of tr fuel] assms(8,9) obtain ip bridge
    where a: "r = Inr (0, ?nic)" "xs_view (xs_replay s0 tr') 0 = with_nic ?nic ip bridge (committed s0 tr)"
    by (auto simp: committed_view)
  have "fst (run_state (libxl_list_nics (store_env others s0) (nic_domid ?nic)) tr') = Inr (Some [nic_info ?nic])"
    by (rule store.nics_listed [OF a(2) m]) (use assms in simp_all)
  with a(1) mac_arg_print_mac [OF assms(4,5)] show ?thesis by (simp add: nic_info_def)
qed

definition guest_nic :: libxl_device_nic where
  "guest_nic =
     \<lparr>nic_backend_domid = 0, nic_domid = 5, nic_devid = -1, nic_mtu = 1492, nic_model = Some ''rtl8139'',
      nic_mac = [0x00, 0x16, 0x3e, 0x01, 0x02, 0xff], nic_ip = None, nic_bridge = Some ''xenbr0'', nic_ifname = None,
      nic_script = Some ''/etc/xen/scripts/vif-bridge'', nic_nictype = NICTYPE_IOEMU\<rparr>"

lemma network_interface_listed_witness:
  "fst (run_state (libxl_list_nics (store_env (\<lambda>_ _. ans 1) []) 5)
     (snd (run_state (libxl_device_nic_add (store_env (\<lambda>_ _. ans 1) []) 1 (\<lambda>_. True) 5 guest_nic) []))) =
   Inr (Some [nic_info (guest_nic\<lparr>nic_devid := 0\<rparr>)])"
  using network_interface_listed [OF _ _ _ _ _ _ _ _ prod.collapse [symmetric], where others = "\<lambda>_ _. ans 1"
      and nic = guest_nic and valid = "\<lambda>_. True" and old = "replicate 6 0" and fuel = 0 and tr = "[]" and ?s0.0 = "[]"]
  by (simp add: guest_nic_def has_memory_def ans_def)

end
