(* ===== verification/Libxl_Version.thy ===== *)
theory Libxl_Version
  imports Libxl_Domain
begin

text \<open>
  The version of the hypervisor (\<open>libxl_get_version_info\<close>), which the context keeps once it has
  been asked for: the state is the context's copy, None before the first call.
\<close>

record libxl_version_info =
  xen_version_major :: int
  xen_version_minor :: int
  xen_version_extra :: "string option"
  vi_compiler :: "string option"
  vi_compile_by :: "string option"
  vi_compile_domain :: "string option"
  vi_compile_date :: "string option"
  capabilities :: "string option"
  changeset :: "string option"
  virt_start :: u64
  pagesize :: u64
  commandline :: "string option"

definition zero_version :: libxl_version_info where
  "zero_version =
     \<lparr>xen_version_major = 0, xen_version_minor = 0, xen_version_extra = None, vi_compiler = None,
      vi_compile_by = None, vi_compile_domain = None, vi_compile_date = None, capabilities = None,
      changeset = None, virt_start = 0, pagesize = 0, commandline = None\<rparr>"

text \<open>A string of the hypervisor's answer, copied; the copy is NULL when there is no memory.\<close>

definition copied :: "env \<Rightarrow> string option \<Rightarrow> string option prog" where
  "copied env s = str_of env (Other ''strdup'' [] [null_str s])"

text \<open>One request for one string.\<close>

definition version_string :: "env \<Rightarrow> string \<Rightarrow> string option prog" where
  "version_string env what =
     do {a \<leftarrow> ask env (Other ''xc_version'' [] [what]); copied env (a_str a)}"

text \<open>The compile information is four strings at once.\<close>

definition nth_string :: "answer \<Rightarrow> nat \<Rightarrow> string option" where
  "nth_string a i = (case a_list a of None \<Rightarrow> None | Some l \<Rightarrow> if i < length l then Some (l ! i) else None)"

definition libxl_get_version_info :: "env \<Rightarrow> libxl_version_info \<Rightarrow> libxl_version_info prog" where
  "libxl_get_version_info env info =
     (if xen_version_extra info \<noteq> None then return info
      else
        do {
          v \<leftarrow> int_of env (Other ''xc_version'' [] [''XENVER_version'']);
          extra \<leftarrow> version_string env ''XENVER_extraversion'';
          cc \<leftarrow> ask env (Other ''xc_version'' [] [''XENVER_compile_info'']);
          comp \<leftarrow> copied env (nth_string cc 0);
          byw \<leftarrow> copied env (nth_string cc 1);
          domw \<leftarrow> copied env (nth_string cc 2);
          date \<leftarrow> copied env (nth_string cc 3);
          caps \<leftarrow> version_string env ''XENVER_capabilities'';
          chg \<leftarrow> version_string env ''XENVER_changeset'';
          parms \<leftarrow> ask env (Other ''xc_version'' [] [''XENVER_platform_parameters'']);
          page \<leftarrow> int_of env (Other ''xc_version'' [] [''XENVER_pagesize'']);
          cmd \<leftarrow> version_string env ''XENVER_commandline'';
          return
            \<lparr>xen_version_major = v div 2 ^ 16, xen_version_minor = v mod 256, xen_version_extra = extra,
             vi_compiler = comp, vi_compile_by = byw, vi_compile_domain = domw, vi_compile_date = date,
             capabilities = caps, changeset = chg, virt_start = word_of_int (a_out parms ! 0),
             pagesize = word_of_int page, commandline = cmd\<rparr>
        })"

lemma version_kept:
  assumes "xen_version_extra info \<noteq> None"
  shows "run_state (libxl_get_version_info env info) tr = (info, tr)"
  using assms by (simp add: libxl_get_version_info_def)

end
