(* ===== verification/Xl_Vcpu_Commands.thy ===== *)
theory Xl_Vcpu_Commands
  imports Xl_Domain_Commands Libxl_Version Libxl_Cpupool
begin

text \<open>
  The commands of \<open>xl\<close> on virtual processors, on the credit scheduler and on the host.
\<close>

section \<open>Printing a map of processors\<close>

text \<open>The loop of \<open>print_bitmap\<close>: \<open>n\<close> bits are left from bit \<open>i\<close> on; \<open>pmap\<close> is the byte at hand and
  \<open>bm\<close> its bit.  State 0 has seen no bit set, state 1 is in the first range, 2 after a range and 3 in
  a later one; \<open>firstset\<close> is where the range began.\<close>

definition range_text :: "nat \<Rightarrow> nat \<Rightarrow> nat \<Rightarrow> string" where
  "range_text state firstset i =
     (if 1 < state then '','' else []) @ decimal firstset @
     (if firstset < i - 1 then ''-'' @ decimal (i - 1) else [])"

fun bitmap_loop ::
  "u8 list \<Rightarrow> nat \<Rightarrow> nat \<Rightarrow> u8 \<Rightarrow> u8 \<Rightarrow> nat \<Rightarrow> nat \<Rightarrow> string \<Rightarrow> fault + nat \<times> nat \<times> string" where
  "bitmap_loop m 0 i pmap bm firstset state txt = Inr (firstset, state, txt)"
| "bitmap_loop m (Suc n) i pmap bm firstset state txt =
     (if i mod 8 = 0 \<and> length m \<le> i div 8 then Inl Out_of_bounds
      else
        (let pmap' = (if i mod 8 = 0 then m ! (i div 8) else pmap);
             bm' = (if i mod 8 = 0 then 1 else push_bit 1 bm) in
         if state = 0 \<or> state = 2 then
           (if and pmap' bm' \<noteq> 0 then bitmap_loop m n (i + 1) pmap' bm' i (state + 1) txt
            else bitmap_loop m n (i + 1) pmap' bm' firstset state txt)
         else
           (if and pmap' bm' = 0
            then bitmap_loop m n (i + 1) pmap' bm' firstset 2 (txt @ range_text state firstset i)
            else bitmap_loop m n (i + 1) pmap' bm' firstset state txt)))"

definition print_bitmap :: "u8 list \<Rightarrow> int \<Rightarrow> fault + string" where
  "print_bitmap m maplen =
     (case bitmap_loop m (nat maplen) 0 0 0 0 0 [] of
        Inl e \<Rightarrow> Inl e
      | Inr (firstset, state, txt) \<Rightarrow>
          Inr
            (txt @
             (if state = 0 then ''none''
              else if state = 2 then []
              else if state = 1 \<and> firstset = 0 then ''any cpu''
              else range_text state firstset (nat maplen))))"

section \<open>Listing virtual processors\<close>

definition vcpu_line :: "(u64 \<Rightarrow> string) \<Rightarrow> u32 \<Rightarrow> libxl_vcpuinfo \<Rightarrow> string option \<Rightarrow> string" where
  "vcpu_line seconds did v name =
     pad_right 32 (null_str name) @ '' '' @ pad_left 5 CHR '' '' (print_u did) @ '' '' @
     pad_left 5 CHR '' '' (decimal (vcpuid v)) @
     (if \<not> vcpu_online_now v then ''    -   --p ''
      else
        pad_left 5 CHR '' '' (print_u (word_of_int (vcpu_cpu v))) @ ''   '' @ [flag CHR ''r'' (vcpu_running v)] @
        [flag CHR ''b'' (vcpu_blocked v)] @ ''- '') @
     seconds (word_of_int (vcpu_time v)) @ ''  ''"

fun print_vcpus :: "env \<Rightarrow> (u64 \<Rightarrow> string) \<Rightarrow> u32 \<Rightarrow> u32 \<Rightarrow> libxl_vcpuinfo list \<Rightarrow> (fault + unit) prog" where
  "print_vcpus env seconds did ncpu [] = return (Inr ())"
| "print_vcpus env seconds did ncpu (v # vs) =
     do {
       name \<leftarrow> str_of env (Other ''libxl_domid_to_name'' [uint did] []);
       _ \<leftarrow> printf env (vcpu_line seconds did v name);
       try_then (lift_fault (print_bitmap (map word_of_int (vcpu_map v)) (sint ncpu))) (\<lambda>txt.
         do {
           _ \<leftarrow> printf env (txt @ lf);
           print_vcpus env seconds did ncpu vs
         })
     }"

definition print_domain_vcpuinfo :: "env \<Rightarrow> (u64 \<Rightarrow> string) \<Rightarrow> u32 \<Rightarrow> u32 \<Rightarrow> (fault + unit) prog" where
  "print_domain_vcpuinfo env seconds did ncpu =
     do {
       r \<leftarrow> libxl_list_vcpu env did;
       (case r of None \<Rightarrow> return (Inr ()) | Some (vs, n) \<Rightarrow> print_vcpus env seconds did ncpu vs)
     }"

fun print_all_vcpus :: "env \<Rightarrow> (u64 \<Rightarrow> string) \<Rightarrow> u32 \<Rightarrow> u32 list \<Rightarrow> (fault + unit) prog" where
  "print_all_vcpus env seconds ncpu [] = return (Inr ())"
| "print_all_vcpus env seconds ncpu (d # ds) =
     try_then (print_domain_vcpuinfo env seconds d ncpu) (\<lambda>u. print_all_vcpus env seconds ncpu ds)"

text \<open>The domains that are named, until one is not found; \<open>old\<close> is the domain found before.\<close>

fun print_named_vcpus :: "env \<Rightarrow> cmd_params \<Rightarrow> u32 \<Rightarrow> u32 \<Rightarrow> string list \<Rightarrow> (fault + unit) prog" where
  "print_named_vcpus env p ncpu old [] = return (Inr ())"
| "print_named_vcpus env p ncpu old (s # ss) =
     do {
       r \<leftarrow> domain_qualifier_to_domid env (xp_dominf (cp_xl p)) s old;
       (case r of (rc, did, was_name) \<Rightarrow>
         if rc < 0 then return (Inr ())
         else
           try_then (print_domain_vcpuinfo env (cp_seconds p 9) did ncpu) (\<lambda>u.
             print_named_vcpus env p ncpu did ss))
     }"

definition vcpulist :: "env \<Rightarrow> cmd_params \<Rightarrow> string list \<Rightarrow> (fault + unit) prog" where
  "vcpulist env p ops =
     do {
       (rc, info) \<leftarrow> libxl_get_physinfo env;
       if rc \<noteq> 0 then return (Inr ())
       else
         do {
           _ \<leftarrow> printf env
             (pad_right 32 ''Name'' @ ''    ID  VCPU   CPU State   Time(s) CPU Affinity'' @ lf);
           if ops = [] then
             do {
               l \<leftarrow> libxl_list_domain env (xp_dominf (cp_xl p));
               (case l of
                  None \<Rightarrow> return (Inr ())
                | Some ds \<Rightarrow> print_all_vcpus env (cp_seconds p 9) (nr_cpus (the info)) (map dom_id ds))
             }
           else print_named_vcpus env p (nr_cpus (the info)) 0 ops
         }
     }"

definition main_vcpulist :: "env \<Rightarrow> cmd_params \<Rightarrow> string list \<Rightarrow> (stop + int) prog" where
  "main_vcpulist env p args = command env ''vcpu-list'' ''h'' 0 args (\<lambda>es ops. done0 (xl_lib (vcpulist env p ops)))"

section \<open>Pinning\<close>

text \<open>The processors of a range, one after the other in 32 bits: a range that ends with the largest
  number is never left.\<close>

fun cpu_range :: "nat \<Rightarrow> u32 \<Rightarrow> u32 \<Rightarrow> fault + u32 list" where
  "cpu_range 0 a b = Inl Diverges"
| "cpu_range (Suc fuel) a b =
     (if a \<le> b then (case cpu_range fuel (a + 1) b of Inl e \<Rightarrow> Inl e | Inr l \<Rightarrow> Inr (a # l)) else Inr [])"

text \<open>A number or a range; None for an invalid argument.\<close>

definition cpu_token :: "nat \<Rightarrow> string \<Rightarrow> fault + u32 list option" where
  "cpu_token fuel tok =
     (let (a, e) = strtoull10 tok in
      if e = tok then Inr None
      else if e \<noteq> [] \<and> hd e = CHR ''-'' then
        (let (b, e2) = strtoull10 (tl e) in
         if e2 = tl e \<or> (ucast b :: u32) < ucast a then Inr None
         else map_sum id Some (cpu_range fuel (ucast a) (ucast b)))
      else Inr (Some [ucast a]))"

fun cpu_tokens :: "nat \<Rightarrow> string list \<Rightarrow> fault + u32 list option" where
  "cpu_tokens fuel [] = Inr (Some [])"
| "cpu_tokens fuel (t # ts) =
     (case cpu_token fuel t of
        Inl e \<Rightarrow> Inl e
      | Inr None \<Rightarrow> Inr None
      | Inr (Some l) \<Rightarrow>
          (case cpu_tokens fuel ts of
             Inl e \<Rightarrow> Inl e
           | Inr None \<Rightarrow> Inr None
           | Inr (Some l') \<Rightarrow> Inr (Some (l @ l'))))"

text \<open>The processors a list names.\<close>

definition cpu_list :: "nat \<Rightarrow> string \<Rightarrow> fault + u32 list option" where
  "cpu_list fuel cpu = cpu_tokens fuel (tokens CHR '','' cpu)"

text \<open>A map without processors, or None.\<close>

definition new_cpumap :: "env \<Rightarrow> libxl_cpumap option prog" where
  "new_cpumap env =
     do {
       m \<leftarrow> cpumap_alloc env;
       return (map_option (\<lambda>sz. \<lparr>cpumap_size = sz, cpumap_map = replicate (unat sz) 0\<rparr>) m)
     }"

text \<open>A failure is told from the others by the value -1, which the library does not return.\<close>

fun pin_all :: "env \<Rightarrow> u32 \<Rightarrow> libxl_cpumap \<Rightarrow> libxl_vcpuinfo list \<Rightarrow> unit prog" where
  "pin_all env did m [] = return ()"
| "pin_all env did m (v # vs) =
     do {_ \<leftarrow> libxl_set_vcpuaffinity env did (of_nat (vcpuid v)) m; pin_all env did m vs}"

definition pin :: "env \<Rightarrow> u32 \<Rightarrow> u32 \<Rightarrow> libxl_cpumap \<Rightarrow> unit prog" where
  "pin env did vcpu m =
     (if vcpu \<noteq> -1 then do {_ \<leftarrow> libxl_set_vcpuaffinity env did vcpu m; return ()}
      else
        do {
          r \<leftarrow> libxl_list_vcpu env did;
          (case r of None \<Rightarrow> return () | Some (vs, n) \<Rightarrow> pin_all env did m vs)
        })"

definition vcpupin :: "env \<Rightarrow> nat \<Rightarrow> cmd_params \<Rightarrow> string \<Rightarrow> string \<Rightarrow> string \<Rightarrow> (stop + unit) prog" where
  "vcpupin env fuel p d vcpu cpu =
     (let (v, e) = strtoull10 vcpu in
      if e = vcpu \<and> vcpu \<noteq> ''all'' then return (Inr ())
      else
        on_domain env p d (\<lambda>did.
          xl_then (xl_call (new_cpumap env)) (\<lambda>m.
            case m of
              None \<Rightarrow> return (Inr ())
            | Some m0 \<Rightarrow>
                xl_then
                  (xl_lib (lift_fault
                     (if cpu \<noteq> ''all'' then map_sum id (map_option (\<lambda>l. foldl (cp_set p) m0 l)) (cpu_list fuel cpu)
                      else Inr (Some (m0\<lparr>cpumap_map := replicate (unat (cpumap_size m0)) 255\<rparr>))))) (\<lambda>r.
                  case r of
                    None \<Rightarrow> return (Inr ())
                  | Some m1 \<Rightarrow> xl_call (pin env did (if e = vcpu then -1 else ucast v) m1)))))"

definition main_vcpupin :: "env \<Rightarrow> nat \<Rightarrow> cmd_params \<Rightarrow> string list \<Rightarrow> (stop + int) prog" where
  "main_vcpupin env fuel p args =
     command env ''vcpu-pin'' ''h'' 0 args (\<lambda>es ops.
       if length ops \<noteq> 3 then xl_help env ''vcpu-pin'' 2
       else done0 (vcpupin env fuel p (ops ! 0) (ops ! 1) (ops ! 2)))"

definition vcpuset :: "env \<Rightarrow> nat \<Rightarrow> cmd_params \<Rightarrow> string \<Rightarrow> string \<Rightarrow> (stop + unit) prog" where
  "vcpuset env fuel p d nr =
     (let (n, e) = strtoull10 nr in
      if e = nr then return (Inr ())
      else
        on_domain env p d (\<lambda>did.
          xl_then (xl_call (new_cpumap env)) (\<lambda>m.
            case m of
              None \<Rightarrow> return (Inr ())
            | Some m0 \<Rightarrow>
                xl_then
                  (xl_lib (libxl_set_vcpuonline env fuel (xp_dominf (cp_xl p)) (cp_ops p) did
                     (foldl (cp_set p) m0 (map of_nat [0..<unat (ucast n :: u32)]))))
                  (\<lambda>rc. return (Inr ())))))"

definition main_vcpuset :: "env \<Rightarrow> nat \<Rightarrow> cmd_params \<Rightarrow> string list \<Rightarrow> (stop + int) prog" where
  "main_vcpuset env fuel p args =
     command env ''vcpu-set'' ''h'' 2 args (\<lambda>es ops. done0 (vcpuset env fuel p (ops ! 0) (ops ! 1)))"

end
