(* ===== verification/Cpu_Lists.thy ===== *)
theory Cpu_Lists
  imports Xl_Vcpu_Commands
begin

text \<open>
  The lists of processors \<open>xl\<close> prints are those it reads: what \<open>vcpu-list\<close> shows as the affinity
  of a virtual processor, \<open>vcpu-pin\<close> takes for the same processors.
\<close>

section \<open>The ranges of a map\<close>

definition cpu_in :: "u8 list \<Rightarrow> nat \<Rightarrow> bool" where
  "cpu_in m i = bit (m ! (i div 8)) (i mod 8)"

text \<open>The maximal ranges of set bits among \<open>n\<close> bits from \<open>i\<close> on; inside a range its start is known.\<close>

fun runs :: "(nat \<Rightarrow> bool) \<Rightarrow> nat \<Rightarrow> nat \<Rightarrow> nat option \<Rightarrow> (nat \<times> nat) list" where
  "runs b 0 i None = []"
| "runs b 0 i (Some f) = [(f, i - 1)]"
| "runs b (Suc n) i None = runs b n (i + 1) (if b i then Some i else None)"
| "runs b (Suc n) i (Some f) =
     (if b i then runs b n (i + 1) (Some f) else (f, i - 1) # runs b n (i + 1) None)"

definition cpus_of :: "(nat \<times> nat) list \<Rightarrow> nat list" where
  "cpus_of rs = concat (map (\<lambda>(x, y). [x..<Suc y]) rs)"

lemma cpus_of_simps [simp]:
  "cpus_of [] = []" "cpus_of ((x, y) # rs) = [x..<Suc y] @ cpus_of rs"
  by (simp_all add: cpus_of_def del: upt_Suc)

lemma cpus_of_runs:
  "(case fs of None \<Rightarrow> True | Some f \<Rightarrow> f < i) \<Longrightarrow>
     cpus_of (runs b n i fs) = (case fs of None \<Rightarrow> [] | Some f \<Rightarrow> [f..<i]) @ filter b [i..<i + n]"
proof (induction b n i fs rule: runs.induct)
  case (3 b n i)
  then show ?case by (cases "b i") (auto simp: upt_conv_Cons simp del: upt_Suc)
next
  case (4 b n i f)
  have "[f..<Suc i] = [f..<i] @ [i]" using 4 by simp
  with 4 show ?case by (cases "b i") (auto simp: upt_conv_Cons simp del: upt_Suc)
qed (auto simp del: upt_Suc)

lemma runs_bounds:
  "(case fs of None \<Rightarrow> True | Some f \<Rightarrow> f < i) \<Longrightarrow> (x, y) \<in> set (runs b n i fs) \<Longrightarrow> x \<le> y \<and> y < i + n"
proof (induction b n i fs rule: runs.induct)
  case (3 b n i)
  then show ?case by (force split: if_splits)
next
  case (4 b n i f)
  then show ?case by (force split: if_splits)
qed auto

section \<open>Printing\<close>

definition show_range :: "nat \<times> nat \<Rightarrow> string" where
  "show_range r = decimal (fst r) @ (if fst r < snd r then ''-'' @ decimal (snd r) else [])"

text \<open>Ranges after others, and the first ones.\<close>

definition more_ranges :: "(nat \<times> nat) list \<Rightarrow> string" where
  "more_ranges rs = concat (map (\<lambda>r. '','' @ show_range r) rs)"

definition show_ranges :: "(nat \<times> nat) list \<Rightarrow> string" where
  "show_ranges rs = (case rs of [] \<Rightarrow> [] | r # rs' \<Rightarrow> show_range r @ more_ranges rs')"

lemma more_ranges_simps [simp]:
  "more_ranges [] = []" "more_ranges (r # rs) = '','' @ show_range r @ more_ranges rs"
  by (simp_all add: more_ranges_def)

text \<open>What is printed from a state of the loop on.\<close>

definition rest_text :: "nat \<Rightarrow> (nat \<times> nat) list \<Rightarrow> string" where
  "rest_text state rs = (if 1 < state then more_ranges rs else show_ranges rs)"

definition finish :: "nat \<Rightarrow> nat \<times> nat \<times> string \<Rightarrow> string" where
  "finish n x =
     (case x of (firstset, state, txt) \<Rightarrow>
        txt @ (if state = 1 \<or> state = 3 then range_text state firstset n else []))"

lemma range_text_show: "range_text state f i = (if 1 < state then '','' else []) @ show_range (f, i - 1)"
  by (simp add: range_text_def show_range_def)

text \<open>The byte and its bit stand for the bit of the map.\<close>

definition at_bit :: "u8 list \<Rightarrow> nat \<Rightarrow> u8 \<Rightarrow> u8 \<Rightarrow> bool" where
  "at_bit m i pmap bm \<longleftrightarrow>
     i mod 8 \<noteq> 0 \<longrightarrow> pmap = m ! (i div 8) \<and> bm = push_bit (i mod 8 - 1) 1"

lemma step_bit:
  assumes "at_bit m i pmap bm"
  defines "pmap' \<equiv> (if i mod 8 = 0 then m ! (i div 8) else pmap)"
  defines "bm' \<equiv> (if i mod 8 = 0 then 1 else push_bit 1 bm)"
  shows "pmap' = m ! (i div 8)" "bm' = push_bit (i mod 8) 1" "(and pmap' bm' \<noteq> 0) = cpu_in m i"
    "at_bit m (i + 1) pmap' bm'"
proof -
  show p: "pmap' = m ! (i div 8)" using assms by (auto simp: at_bit_def)
  have "push_bit 1 (push_bit (i mod 8 - 1) 1) = (push_bit (i mod 8) 1 :: u8)" if "i mod 8 \<noteq> 0"
    using that by (simp add: push_bit_push_bit del: push_bit_of_1)
  then show b: "bm' = push_bit (i mod 8) 1" using assms by (auto simp: at_bit_def)
  show "(and pmap' bm' \<noteq> 0) = cpu_in m i"
    by (simp add: p b cpu_in_def bit_iff_and_push_bit_not_eq_0)
  have "(i + 1) div 8 = i div 8 \<and> (i + 1) mod 8 = i mod 8 + 1" if "(i + 1) mod 8 \<noteq> 0"
    using that by (simp add: div_Suc mod_Suc split: if_splits)
  then show "at_bit m (i + 1) pmap' bm'" by (auto simp: at_bit_def p b)
qed

lemma loop_text:
  assumes "i + n \<le> 8 * length m" "at_bit m i pmap bm" "state \<le> 3" "odd state \<longrightarrow> firstset < i"
  shows "\<exists>fs st t. bitmap_loop m n i pmap bm firstset state acc = Inr (fs, st, t) \<and>
    finish (i + n) (fs, st, t) =
      acc @ rest_text state (runs (cpu_in m) n i (if odd state then Some firstset else None)) \<and>
    (st = 0 \<longleftrightarrow> state = 0 \<and> (\<forall>j\<in>{i..<i + n}. \<not> cpu_in m j)) \<and>
    (st = 1 \<and> fs = 0 \<longrightarrow> state \<le> 1 \<and> (state = 1 \<longrightarrow> firstset = 0) \<and> (state = 0 \<longrightarrow> 0 < n \<longrightarrow> i = 0) \<and>
       (\<forall>j\<in>{i..<i + n}. cpu_in m j)) \<and> st \<le> 3"
  using assms
proof (induction n arbitrary: i pmap bm firstset state acc)
  case 0
  then have "state \<in> {0, 1, 2, 3}" by auto
  then show ?case
    using 0 by (auto simp: finish_def rest_text_def show_ranges_def range_text_show)
next
  case (Suc n)
  define pmap' where "pmap' = (if i mod 8 = 0 then m ! (i div 8) else pmap)"
  define bm' where "bm' = (if i mod 8 = 0 then 1 else push_bit 1 bm)"
  note b = step_bit [OF Suc.prems(2), folded pmap'_def bm'_def]
  have len: "\<not> length m \<le> i div 8" using Suc.prems(1) by linarith
  have split: "{i..<i + Suc n} = insert i {Suc i..<Suc i + n}" by auto
  note IH = Suc.IH [of "i + 1" pmap' bm']
  have st: "state \<in> {0, 1, 2, 3}" using Suc.prems(3) by auto
  show ?case
  proof (cases "odd state")
    case True
    then have s: "state = 1 \<or> state = 3" using st by auto
    show ?thesis
    proof (cases "cpu_in m i")
      case True
      have "bitmap_loop m (Suc n) i pmap bm firstset state acc = bitmap_loop m n (i + 1) pmap' bm' firstset state acc"
        using s True len b(3) by (auto simp: Let_def pmap'_def bm'_def)
      with IH [of state firstset acc] Suc.prems b(4) s True show ?thesis
        unfolding split by auto
    next
      case False
      have "bitmap_loop m (Suc n) i pmap bm firstset state acc =
          bitmap_loop m n (i + 1) pmap' bm' firstset 2 (acc @ range_text state firstset i)"
        using s False len b(3) by (auto simp: Let_def pmap'_def bm'_def)
      with IH [of 2 firstset "acc @ range_text state firstset i"] Suc.prems b(4) s False show ?thesis
        unfolding split by (auto simp: rest_text_def show_ranges_def range_text_show)
    qed
  next
    case False
    then have s: "state = 0 \<or> state = 2" using st by auto
    show ?thesis
    proof (cases "cpu_in m i")
      case True
      have "bitmap_loop m (Suc n) i pmap bm firstset state acc =
          bitmap_loop m n (i + 1) pmap' bm' i (state + 1) acc"
        using s True len b(3) by (auto simp: Let_def pmap'_def bm'_def)
      with IH [of "state + 1" i acc] Suc.prems b(4) s True show ?thesis
        unfolding split by (auto simp: rest_text_def)
    next
      case False
      have "bitmap_loop m (Suc n) i pmap bm firstset state acc =
          bitmap_loop m n (i + 1) pmap' bm' firstset state acc"
        using s False len b(3) by (auto simp: Let_def pmap'_def bm'_def)
      with IH [of state firstset acc] Suc.prems b(4) s False show ?thesis
        unfolding split by auto
    qed
  qed
qed

text \<open>A map with a bit set that is not all set is printed as its ranges.\<close>

lemma print_bitmap_ranges:
  assumes "n \<le> 8 * length m" "\<exists>i<n. cpu_in m i" "\<exists>i<n. \<not> cpu_in m i"
  shows "print_bitmap m (int n) = Inr (show_ranges (runs (cpu_in m) n 0 None))"
proof -
  obtain fs st t where l: "bitmap_loop m n 0 0 0 0 0 [] = Inr (fs, st, t)"
      "finish n (fs, st, t) = show_ranges (runs (cpu_in m) n 0 None)"
      "st = 0 \<longleftrightarrow> (\<forall>j\<in>{0..<n}. \<not> cpu_in m j)"
      "st = 1 \<and> fs = 0 \<longrightarrow> (\<forall>j\<in>{0..<n}. cpu_in m j)" "st \<le> 3"
    using loop_text [of 0 n m 0 0 0 0 "[]"] assms(1) by (auto simp: at_bit_def rest_text_def)
  have "st \<noteq> 0" "\<not> (st = 1 \<and> fs = 0)" using l(3,4) assms(2,3) by auto
  then have "print_bitmap m (int n) = Inr (finish n (fs, st, t))"
    using l(1,5) by (auto simp: print_bitmap_def finish_def)
  with l(2) show ?thesis by simp
qed

section \<open>Reading\<close>

lemma no_comma: "CHR '','' \<notin> set (show_range r)"
  using decimal_digits [of "CHR '',''"] by (auto simp: show_range_def isdigit_def)

lemma show_range_not_Nil: "show_range r \<noteq> []"
  by (simp add: show_range_def)

text \<open>A list with its separators is split at them.\<close>

lemma tokens_more_ranges: "tokens CHR '','' (more_ranges rs) = map show_range rs"
proof (induction rs)
  case Nil
  then show ?case by (simp add: tokens.simps)
next
  case (Cons r rs)
  have "more_ranges rs = [] \<or> hd (more_ranges rs) = CHR '',''" by (cases rs) simp_all
  then show ?case using Cons tokens_word [OF no_comma show_range_not_Nil] by (simp add: tokens_sep)
qed

lemma tokens_show_ranges: "tokens CHR '','' (show_ranges rs) = map show_range rs"
  using tokens_more_ranges [of rs]
  by (cases rs) (simp_all add: show_ranges_def tokens_sep)

text \<open>A range of processors in 32 bits.\<close>

lemma cpu_range_upt:
  assumes "y < 2 ^ 32 - 1" "x \<le> Suc y" "Suc y - x < fuel"
  shows "cpu_range fuel (of_nat x) (of_nat y) = Inr (map of_nat [x..<Suc y])"
  using assms
proof (induction fuel arbitrary: x)
  case (Suc fuel)
  have le: "((of_nat x :: u32) \<le> of_nat y) = (x \<le> y)"
    using Suc.prems by (simp add: word_le_nat_alt unat_of_nat)
  show ?case
  proof (cases "x \<le> y")
    case True
    have "cpu_range fuel (of_nat (Suc x)) (of_nat y) = Inr (map of_nat [Suc x..<Suc y])"
      using Suc.IH [of "Suc x"] Suc.prems True by simp
    with True le show ?thesis by (simp add: upt_conv_Cons add.commute del: upt_Suc)
  next
    case False
    then have "x = Suc y" using Suc.prems(2) by simp
    with le show ?thesis by simp
  qed
qed simp

lemma cpu_token_range:
  assumes "x \<le> y" "y < 2 ^ 32 - 1" "Suc y < fuel"
  shows "cpu_token fuel (show_range (x, y)) = Inr (Some (map of_nat [x..<Suc y]))"
proof -
  have u: "ucast (of_nat z :: u64) = (of_nat z :: u32)" for z
    by (simp add: unsigned_of_nat word_of_nat_eq_iff)
  have y64: "x < 2 ^ 64" "y < 2 ^ 64" using assms by simp_all
  have rest: "strtoull10 (decimal x @ ''-'' @ decimal y) = (of_nat x, ''-'' @ decimal y)"
    using strtoull10_decimal [of "''-'' @ decimal y" x] y64 by (simp add: isdigit_def)
  have last: "strtoull10 (decimal y) = (of_nat y, [])"
    using strtoull10_decimal [of "[]" y] y64 by simp
  have first: "strtoull10 (decimal x) = (of_nat x, [])"
    using strtoull10_decimal [of "[]" x] y64 by simp
  have ord: "\<not> (of_nat y :: u32) < of_nat x"
    using assms by (simp add: word_less_nat_alt unat_of_nat)
  have ne: "''-'' @ decimal y \<noteq> decimal x @ ''-'' @ decimal y" by simp
  show ?thesis
  proof (cases "x < y")
    case True
    then have "show_range (x, y) = decimal x @ ''-'' @ decimal y" by (simp add: show_range_def)
    then show ?thesis
      using rest last ord cpu_range_upt [of y x fuel] assms
      by (simp add: cpu_token_def u Let_def decimal_not_Nil [symmetric])
  next
    case False
    then have "x = y" using assms(1) by simp
    then have "show_range (x, y) = decimal x" by (simp add: show_range_def)
    then show ?thesis using first \<open>x = y\<close> by (simp add: cpu_token_def u decimal_not_Nil [symmetric])
  qed
qed

lemma cpu_tokens_ranges:
  assumes "\<forall>(x, y)\<in>set rs. x \<le> y \<and> y < 2 ^ 32 - 1 \<and> Suc y < fuel"
  shows "cpu_tokens fuel (map show_range rs) = Inr (Some (map of_nat (cpus_of rs)))"
  using assms
proof (induction rs)
  case (Cons r rs)
  obtain x y where r: "r = (x, y)" by fastforce
  show ?case using Cons cpu_token_range [of x y fuel] by (simp add: r del: upt_Suc)
qed simp

section \<open>The round trip\<close>

text \<open>C37. The processors \<open>vcpu-list\<close> prints for a virtual processor, when they are some but not all, are
  read by \<open>vcpu-pin\<close> as the same processors in ascending order.\<close>

theorem cpu_list_roundtrip:
  assumes "n \<le> 8 * length m" "n < 2 ^ 32" "n < fuel" "\<exists>i<n. cpu_in m i" "\<exists>i<n. \<not> cpu_in m i"
  shows "\<exists>s. print_bitmap m (int n) = Inr s \<and>
    cpu_list fuel s = Inr (Some (map of_nat (filter (cpu_in m) [0..<n])))"
proof -
  let ?rs = "runs (cpu_in m) n 0 None"
  have "\<forall>(x, y)\<in>set ?rs. x \<le> y \<and> y < n" using runs_bounds [where fs = None and i = 0 and b = "cpu_in m" and n = n] by auto
  then have "\<forall>(x, y)\<in>set ?rs. x \<le> y \<and> y < 2 ^ 32 - 1 \<and> Suc y < fuel"
    using assms(2,3) by auto
  then have "cpu_list fuel (show_ranges ?rs) = Inr (Some (map of_nat (cpus_of ?rs)))"
    using cpu_tokens_ranges by (simp add: cpu_list_def tokens_show_ranges)
  then show ?thesis
    using print_bitmap_ranges [OF assms(1,4,5)] cpus_of_runs [where fs = None and i = 0 and b = "cpu_in m" and n = n] by simp
qed

lemma cpus_45: "filter (cpu_in [45]) [0..<8] = [0, 2, 3, 5]"
  by code_simp

theorem cpu_list_roundtrip_witness:
  "\<exists>s. print_bitmap [45] 8 = Inr s \<and> cpu_list 9 s = Inr (Some [0, 2, 3, 5])"
proof -
  have "cpu_in [45] 0" "\<not> cpu_in [45] 1" by code_simp+
  then have "\<exists>i<8. cpu_in [45] i" "\<exists>i<8. \<not> cpu_in [45] i" by (auto intro: exI [of _ 0] exI [of _ 1])
  then show ?thesis
    using cpu_list_roundtrip [of 8 "[45]" 9] by (auto simp: cpus_45 simp del: upt_rec_numeral)
qed

text \<open>A range that ends with the largest number does not end.\<close>

lemma cpu_range_endless: "cpu_range fuel a (-1) = Inl Diverges"
  by (induction fuel arbitrary: a) simp_all

text \<open>The loop over a range of processors ends exactly when the last processor is not the largest
  32-bit number.\<close>

theorem cpu_range_ends: "(\<exists>fuel l. cpu_range fuel a b = Inr l) \<longleftrightarrow> b \<noteq> -1"
proof
  assume "\<exists>fuel l. cpu_range fuel a b = Inr l"
  then show "b \<noteq> -1" using cpu_range_endless by force
next
  assume b: "b \<noteq> -1"
  show "\<exists>fuel l. cpu_range fuel a b = Inr l"
  proof (cases "a \<le> b")
    case True
    have "unat b \<noteq> unat (-1 :: u32)" using b by (simp only: word_unat_eq_iff) simp
    then have "unat b < 2 ^ 32 - 1" using unsigned_less [of b, where 'a = nat]
      by (simp add: unsigned_minus_1_eq_mask mask_eq_exp_minus_1)
    moreover have "unat a \<le> unat b" using True by (simp add: word_le_nat_alt)
    ultimately have "cpu_range (unat b + 2) (of_nat (unat a)) (of_nat (unat b)) = Inr (map of_nat [unat a..<Suc (unat b)])"
      by (intro cpu_range_upt) auto
    then have "cpu_range (unat b + 2) a b = Inr (map of_nat [unat a..<Suc (unat b)])"
      by (simp only: of_nat_unat ucast_id)
    then show ?thesis by blast
  next
    case False
    then have "cpu_range 1 a b = Inr []" by simp
    then show ?thesis by blast
  qed
qed

end
