(* ===== verification/Xl_Life_Commands.thy ===== *)
theory Xl_Life_Commands
  imports Xl_Domain_Commands
begin

text \<open>
  The commands of \<open>xl\<close> that create, save, restore and move domains, that list them, and that send
  them keys and triggers.
\<close>

section \<open>Creating\<close>

text \<open>The settings on the command line go to an array of 1024 bytes.  \<open>snprintf\<close> is told the room
  that is left and answers the length the setting needs, by which the position moves on: the position
  may move past the end of the array, where the room, an unsigned number, is huge and the next
  setting is written out of bounds.  \<open>text\<close> is the string in the array.\<close>

fun extra_config :: "nat \<Rightarrow> string \<Rightarrow> string list \<Rightarrow> fault + nat \<times> string" where
  "extra_config off txt [] = Inr (off, txt)"
| "extra_config off txt (s # ss) =
     (if 1024 < off then Inl Stack_overflow
      else extra_config (off + length s + 1) (txt @ take (1023 - off) (s @ lf)) ss)"

text \<open>The operands: settings contain a sign of equality, and one other operand may name the file.
  None when the usage is to be printed.\<close>

fun create_operands ::
  "nat \<Rightarrow> string \<Rightarrow> string option \<Rightarrow> string list \<Rightarrow> fault + (string \<times> string option) option" where
  "create_operands off txt filename [] = Inr (Some (txt, filename))"
| "create_operands off txt filename (s # ss) =
     (if CHR ''='' \<in> set s then
        (case extra_config off txt [s] of
           Inl e \<Rightarrow> Inl e
         | Inr (off', txt') \<Rightarrow> create_operands off' txt' filename ss)
      else if filename = None then create_operands off txt (Some s) ss
      else Inr None)"

definition create_options :: "long_option list" where
  "create_options =
     [\<lparr>lo_name = ''dryrun'', lo_has_arg = False, lo_val = CHR ''n''\<rparr>,
      \<lparr>lo_name = ''quiet'', lo_has_arg = False, lo_val = CHR ''q''\<rparr>,
      \<lparr>lo_name = ''help'', lo_has_arg = False, lo_val = CHR ''h''\<rparr>,
      \<lparr>lo_name = ''defconfig'', lo_has_arg = True, lo_val = CHR ''f''\<rparr>]"

text \<open>A first argument that is no option and no setting names the file.\<close>

definition first_filename :: "string list \<Rightarrow> string option \<times> string list" where
  "first_filename args =
     (case args of
        [] \<Rightarrow> (None, [])
      | a # rest \<Rightarrow>
          if (a = [] \<or> hd a \<noteq> CHR ''-'') \<and> CHR ''='' \<notin> set a then (Some a, rest) else (None, a # rest))"

definition create_result :: "created \<Rightarrow> (stop + int) prog" where
  "create_result cr = return (Inr (if cr_ret cr < 0 then - cr_ret cr else 0))"

definition main_create :: "env \<Rightarrow> nat \<Rightarrow> cmd_params \<Rightarrow> string list \<Rightarrow> (stop + int) prog" where
  "main_create env fuel p args =
     (let (first, rest) = first_filename args;
          (es, ops) = getopt_long ''hnqf:pcde'' create_options rest in
      if given_opt CHR ''h'' es then xl_help env ''create'' 0
      else
        (case create_operands 0 [] (opt_arg CHR ''f'' es first) ops of
           Inl e \<Rightarrow> return (Inl (Faults e))
         | Inr None \<Rightarrow> xl_help env ''create'' 2
         | Inr (Some (extra, filename)) \<Rightarrow>
             xl_then
               (create_domain env fuel (cp_xl p)
                  \<lparr>cd_debug = given_opt CHR ''d'' es, cd_daemonize = \<not> given_opt CHR ''e'' es,
                   cd_paused = given_opt CHR ''p'' es, cd_dryrun = given_opt CHR ''n'' es,
                   cd_quiet = given_opt CHR ''q'' es, cd_console_autoconnect = given_opt CHR ''c'' es,
                   cd_config_file = filename, cd_extra_config = Some extra,
                   cd_restore_file = None, cd_migrate_fd = -1\<rparr> None (-1))
               create_result))"

definition main_restore :: "env \<Rightarrow> nat \<Rightarrow> cmd_params \<Rightarrow> string list \<Rightarrow> (stop + int) prog" where
  "main_restore env fuel p args =
     command env ''restore'' ''chpde'' 0 args (\<lambda>es ops.
       if length ops \<noteq> 1 \<and> length ops \<noteq> 2 then xl_help env ''restore'' 2
       else
         xl_then
           (create_domain env fuel (cp_xl p)
              \<lparr>cd_debug = given_opt CHR ''d'' es, cd_daemonize = \<not> given_opt CHR ''e'' es,
               cd_paused = given_opt CHR ''p'' es, cd_dryrun = False, cd_quiet = False,
               cd_console_autoconnect = given_opt CHR ''c'' es,
               cd_config_file = (if length ops = 2 then Some (ops ! 0) else None), cd_extra_config = None,
               cd_restore_file = Some (ops ! (length ops - 1)), cd_migrate_fd = -1\<rparr> None (-1))
           create_result)"

section \<open>Saving and moving\<close>

text \<open>This command prints its usage as a failure.\<close>

definition main_migrate_receive :: "env \<Rightarrow> nat \<Rightarrow> cmd_params \<Rightarrow> string list \<Rightarrow> (stop + int) prog" where
  "main_migrate_receive env fuel p args =
     (let (es, ops) = getopt ''hed'' args in
      if given_opt CHR ''h'' es \<or> ops \<noteq> [] then xl_help env ''migrate-receive'' 2
      else done0 (migrate_receive env fuel (cp_xl p) (given_opt CHR ''d'' es) (\<not> given_opt CHR ''e'' es)))"

text \<open>The third operand is read even when there is only one, past the NULL that ends the arguments.\<close>

definition main_save :: "env \<Rightarrow> nat \<Rightarrow> cmd_params \<Rightarrow> string list \<Rightarrow> (stop + int) prog" where
  "main_save env fuel p args =
     command env ''save'' ''hc'' 1 args (\<lambda>es ops.
       if 3 < length ops then xl_help env ''save'' 2
       else if length ops = 1 then return (Inl (Faults Out_of_bounds))
       else
         done0 (save_domain env fuel (cp_xl p) 0 (ops ! 0) (ops ! 1) (given_opt CHR ''c'' es)
           (if length ops = 3 then Some (ops ! 2) else None)))"

definition migrate_rune :: "string \<Rightarrow> string \<Rightarrow> bool \<Rightarrow> bool \<Rightarrow> string" where
  "migrate_rune ssh host daemonize debug =
     ''exec '' @ ssh @ '' '' @ host @ '' xl migrate-receive'' @
       (if daemonize then [] else '' -e'') @ (if debug then '' -d'' else [])"

definition main_migrate :: "env \<Rightarrow> nat \<Rightarrow> cmd_params \<Rightarrow> string list \<Rightarrow> (stop + int) prog" where
  "main_migrate env fuel p args =
     command env ''migrate'' ''hC:s:ed'' 2 args (\<lambda>es ops.
       if 2 < length ops then xl_help env ''migrate'' 2
       else
         (let ssh = null_str (opt_arg CHR ''s'' es (Some ''ssh''));
              rune = migrate_rune ssh (ops ! 1) (\<not> given_opt CHR ''e'' es) (given_opt CHR ''d'' es);
              go = (\<lambda>r. done0 (migrate_domain env fuel (cp_xl p) 0 (ops ! 0) r (opt_arg CHR ''C'' es None))) in
          if ssh = [] then go (ops ! 1)
          else
            xl_then (xl_call (int_of env (Other ''asprintf'' [] [rune]))) (\<lambda>n.
              if n < 0 then return (Inr 1) else go rune)))"

section \<open>Lists\<close>

definition list_options :: "long_option list" where
  "list_options =
     [\<lparr>lo_name = ''long'', lo_has_arg = False, lo_val = CHR ''l''\<rparr>,
      \<lparr>lo_name = ''help'', lo_has_arg = False, lo_val = CHR ''h''\<rparr>,
      \<lparr>lo_name = ''verbose'', lo_has_arg = False, lo_val = CHR ''v''\<rparr>]"

text \<open>The configuration is read with all fields zero before.\<close>

definition parse_stored :: "env \<Rightarrow> cmd_params \<Rightarrow> string \<Rightarrow> (stop + domain_config) prog" where
  "parse_stored env p txt =
     parse_config_data env (xp_dominf (cp_xl p)) (xp_defaults (cp_xl p)) (xp_readdata (cp_xl p)) txt
       (xp_config0 (cp_xl p))"

definition main_list :: "env \<Rightarrow> cmd_params \<Rightarrow> string list \<Rightarrow> (stop + int) prog" where
  "main_list env p args =
     (let (es, ops) = getopt_long ''lvh'' list_options args;
          show = (\<lambda>infos.
            if given_opt CHR ''l'' es
            then done0 (list_domains_details env (xp_dominf (cp_xl p)) (cp_rest p) (parse_stored env p) infos)
            else done0 (xl_call (list_domains env (cp_seconds p 8) (given_opt CHR ''v'' es) infos))) in
      if given_opt CHR ''h'' es then xl_help env ''list'' 0
      else if ops = [] then
        xl_then (xl_call (libxl_list_domain env (xp_dominf (cp_xl p)))) (\<lambda>l.
          case l of None \<Rightarrow> return (Inr 1) | Some infos \<Rightarrow> show infos)
      else if length ops = 1 then
        on_domain env p (ops ! 0) (\<lambda>did.
          xl_then (xl_call (libxl_domain_info env (xp_dominf (cp_xl p)) did)) (\<lambda>(rc, info).
            if rc \<noteq> 0 then return (Inr (- rc)) else show [the info]))
      else xl_help env ''list'' 2)"

definition main_list_vm :: "env \<Rightarrow> cmd_params \<Rightarrow> string list \<Rightarrow> (stop + int) prog" where
  "main_list_vm env p args = command env ''list-vm'' ''h'' 0 args (\<lambda>es ops. done0 (list_vm env (cp_junk p)))"

section \<open>Names\<close>

definition main_domid :: "env \<Rightarrow> cmd_params \<Rightarrow> string list \<Rightarrow> (stop + int) prog" where
  "main_domid env p args =
     command env ''domid'' ''h'' 0 args (\<lambda>es ops.
       if ops = [] then xl_help env ''domid'' 1
       else
         xl_then (xl_call (ask env (Other ''libxl_name_to_domid'' [] [ops ! 0]))) (\<lambda>a.
           if a_int a \<noteq> 0 then return (Inr 1)
           else done0 (xl_call (printf env (print_d (word_of_int (a_out a ! 0)) @ lf)))))"

text \<open>The number is kept in 32 bits.\<close>

definition main_domname :: "env \<Rightarrow> cmd_params \<Rightarrow> string list \<Rightarrow> (stop + int) prog" where
  "main_domname env p args =
     command env ''domname'' ''h'' 0 args (\<lambda>es ops.
       if ops = [] then xl_help env ''domname'' 1
       else
         (let did = word_of_int (fst (strtol10 (ops ! 0))) :: u32 in
          if did = 0 \<and> snd (strtol10 (ops ! 0)) = ops ! 0 then return (Inr 1)
          else
            xl_then (xl_call (str_of env (Other ''libxl_domid_to_name'' [uint did] []))) (\<lambda>name.
              if name = None then return (Inr 1)
              else done0 (xl_call (printf env (null_str name @ lf))))))"

definition main_rename :: "env \<Rightarrow> nat \<Rightarrow> cmd_params \<Rightarrow> string list \<Rightarrow> (stop + int) prog" where
  "main_rename env fuel p args =
     command env ''rename'' ''h'' 0 args (\<lambda>es ops.
       if length ops < 2 then xl_help env ''rename'' 1
       else
         xl_then (find_it env p (ops ! 0)) (\<lambda>(did, name).
         xl_then (xl_lib (libxl_domain_rename env fuel did name (ops ! 1) 0)) (\<lambda>rc.
           return (Inr (if rc \<noteq> 0 then 1 else 0)))))"

section \<open>Buttons, triggers and keys\<close>

definition button_press :: "env \<Rightarrow> cmd_params \<Rightarrow> string \<Rightarrow> string \<Rightarrow> (stop + int) prog" where
  "button_press env p spec b =
     on_domain env p spec (\<lambda>did.
       if b = ''power'' then xl_call (libxl_button_press env (cp_trigger p) did POWER_BUTTON)
       else if b = ''sleep'' then xl_call (libxl_button_press env (cp_trigger p) did SLEEP_BUTTON)
       else xl_exit 2)"

definition main_button_press :: "env \<Rightarrow> cmd_params \<Rightarrow> string list \<Rightarrow> (stop + int) prog" where
  "main_button_press env p args =
     command env ''button-press'' ''h'' 2 args (\<lambda>es ops. done0 (button_press env p (ops ! 0) (ops ! 1)))"

text \<open>A processor that is no number is 0.\<close>

definition main_trigger :: "env \<Rightarrow> cmd_params \<Rightarrow> string list \<Rightarrow> (stop + int) prog" where
  "main_trigger env p args =
     command env ''trigger'' ''h'' 0 args (\<lambda>es ops.
       if length ops < 2 then xl_help env ''trigger'' 1
       else
         on_domain env p (ops ! 0) (\<lambda>did.
           (let vcpu = (if 2 < length ops then word_of_int (fst (strtol10 (ops ! 2))) else 0) in
            done0 (xl_call (libxl_send_trigger env (cp_trigger p) did (ops ! 1) vcpu)))))"

text \<open>The second byte of the key is tested, which is past the end of an empty key.\<close>

definition main_sysrq :: "env \<Rightarrow> cmd_params \<Rightarrow> string list \<Rightarrow> (stop + int) prog" where
  "main_sysrq env p args =
     command env ''sysrq'' ''h'' 0 args (\<lambda>es ops.
       if length ops < 2 then xl_help env ''sysrq'' 1
       else
         on_domain env p (ops ! 0) (\<lambda>did.
           if ops ! 1 = [] then return (Inl (Faults Out_of_bounds))
           else if length (ops ! 1) \<noteq> 1 then xl_help env ''sysrq'' 1
           else done0 (xl_call (libxl_send_sysrq env did (hd (ops ! 1))))))"

definition main_debug_keys :: "env \<Rightarrow> string list \<Rightarrow> (stop + int) prog" where
  "main_debug_keys env args =
     command env ''debug-keys'' ''h'' 1 args (\<lambda>es ops.
       xl_then (xl_call (libxl_send_debug_keys env (ops ! 0))) (\<lambda>rc. return (Inr (if rc \<noteq> 0 then 1 else 0))))"

section \<open>The console ring of the hypervisor\<close>

text \<open>A reader that was not made is freed like one that was.\<close>

definition libxl_xen_console_read_finish :: "libxl_xen_console_reader option \<Rightarrow> fault + unit" where
  "libxl_xen_console_read_finish cr = (case cr of None \<Rightarrow> Inl Null_pointer | Some c \<Rightarrow> Inr ())"

text \<open>The line is what the call assigned, or what the variable held.\<close>

fun dmesg_loop ::
  "env \<Rightarrow> nat \<Rightarrow> libxl_xen_console_reader \<Rightarrow> string option \<Rightarrow> (fault + int) prog" where
  "dmesg_loop env 0 cr l = return (Inl Diverges)"
| "dmesg_loop env (Suc fuel) cr l =
     do {
       (r, l', cr') \<leftarrow> libxl_xen_console_read_line env cr l;
       if 0 < r then do {_ \<leftarrow> printf env (null_str l'); dmesg_loop env fuel cr' l'}
       else return (Inr r)
     }"

definition main_dmesg :: "env \<Rightarrow> nat \<Rightarrow> cmd_params \<Rightarrow> string list \<Rightarrow> (stop + int) prog" where
  "main_dmesg env fuel p args =
     command env ''dmesg'' ''hc'' 0 args (\<lambda>es ops.
       xl_then (xl_call (libxl_xen_console_read_start env (of_bool (given_opt CHR ''c'' es)))) (\<lambda>cr.
       xl_then (case cr of None \<Rightarrow> return (Inr 1) | Some c \<Rightarrow> xl_lib (dmesg_loop env fuel c (cp_line p))) (\<lambda>ret.
       xl_then (xl_lib (lift_fault (libxl_xen_console_read_finish cr))) (\<lambda>u. return (Inr ret)))))"

definition main_top :: "env \<Rightarrow> string list \<Rightarrow> (stop + int) prog" where
  "main_top env args =
     command env ''top'' ''h'' 0 args (\<lambda>es ops. xl_call (int_of env (Other ''system'' [] [''xentop''])))"

end
