(* ===== verification/Xl_Host_Commands.thy ===== *)
theory Xl_Host_Commands
  imports Xl_Vcpu_Commands
begin

text \<open>
  The commands of \<open>xl\<close> on the host, the credit scheduler, the time the domains are up, and
  transcendent memory.
\<close>

section \<open>The host\<close>

definition info_line :: "env \<Rightarrow> string \<Rightarrow> string \<Rightarrow> unit prog" where
  "info_line env key val = printf env (pad_right 23 key @ '': '' @ val @ lf)"

fun info_lines :: "env \<Rightarrow> (string \<times> string) list \<Rightarrow> unit prog" where
  "info_lines env [] = return ()"
| "info_lines env (kv # kvs) = do {_ \<leftarrow> info_line env (fst kv) (snd kv); info_lines env kvs}"

definition output_xeninfo :: "env \<Rightarrow> libxl_version_info \<Rightarrow> unit prog" where
  "output_xeninfo env vi =
     do {
       v \<leftarrow> libxl_get_version_info env vi;
       sid \<leftarrow> libxl_get_sched_id env;
       if sid < 0 then return ()
       else
         do {
           _ \<leftarrow> info_lines env
             [(''xen_major'', print_int (xen_version_major v)), (''xen_minor'', print_int (xen_version_minor v)),
              (''xen_extra'', null_str (xen_version_extra v)), (''xen_caps'', null_str (capabilities v))];
           sname \<leftarrow> str_of env (Other ''libxl_schedid_to_name'' [sid] []);
           info_lines env
             [(''xen_scheduler'', null_str sname), (''xen_pagesize'', decimal (unat (pagesize v))),
              (''platform_params'', ''virt_start=0x'' @ hex (unat (virt_start v))),
              (''xen_changeset'', null_str (changeset v)), (''xen_commandline'', null_str (commandline v)),
              (''cc_compiler'', null_str (vi_compiler v)), (''cc_compile_by'', null_str (vi_compile_by v)),
              (''cc_compile_domain'', null_str (vi_compile_domain v)),
              (''cc_compile_date'', null_str (vi_compile_date v))]
         }
     }"

text \<open>\<open>uname\<close> answers four strings.\<close>

definition output_nodeinfo :: "env \<Rightarrow> unit prog" where
  "output_nodeinfo env =
     do {
       a \<leftarrow> ask env (Other ''uname'' [] []);
       if a_int a < 0 then return ()
       else
         info_lines env
           [(''host'', null_str (nth_string a 0)), (''release'', null_str (nth_string a 1)),
            (''version'', null_str (nth_string a 2)), (''machine'', null_str (nth_string a 3))]
     }"

text \<open>Pages per megabyte; the number is kept in 32 bits, and is zero for pages of more than a
  megabyte.\<close>

definition pages_per_mb :: "u64 \<Rightarrow> fault + u32" where
  "pages_per_mb page = (if page = 0 then Inl Division_by_zero else Inr (ucast (push_bit 20 1 div page)))"

definition megabytes :: "u64 \<Rightarrow> u64 \<Rightarrow> fault + string" where
  "megabytes page pages =
     (case pages_per_mb page of
        Inl e \<Rightarrow> Inl e
      | Inr i \<Rightarrow> if i = 0 then Inl Division_by_zero else Inr (decimal (unat (pages div ucast i))))"

definition caps_text :: "cmd_params \<Rightarrow> libxl_physinfo \<Rightarrow> string" where
  "caps_text p i =
     (if and (phys_cap i) (XEN_SYSCTL_PHYSCAP_hvm p) \<noteq> 0 then '' hvm'' else []) @
     (if and (phys_cap i) (XEN_SYSCTL_PHYSCAP_hvm_directio p) \<noteq> 0 then '' hvm_directio'' else [])"

definition hw_caps_text :: "u32 list \<Rightarrow> string" where
  "hw_caps_text caps =
     concat (map (\<lambda>i. hex0 8 (unat (caps ! i)) @ (if i < 7 then '':'' else lf)) [0..<8])"

definition free_cpus_line :: "env \<Rightarrow> cmd_params \<Rightarrow> unit prog" where
  "free_cpus_line env p =
     do {
       (rc, m) \<leftarrow> libxl_get_freecpus env;
       if rc \<noteq> 0 then return ()
       else
         info_line env ''free_cpus''
           (decimal (length (filter (cpumap_test (cp_ops p) (the m)) (cpumap_range (cp_ops p) (the m)))))
     }"

text \<open>The value is the context's version afterwards.\<close>

definition output_physinfo :: "env \<Rightarrow> cmd_params \<Rightarrow> (fault + libxl_version_info) prog" where
  "output_physinfo env p =
     do {
       (rc, pinfo) \<leftarrow> libxl_get_physinfo env;
       if rc \<noteq> 0 then return (Inr zero_version)
       else
         (let i = the pinfo in
          do {
            _ \<leftarrow> info_lines env
              [(''nr_cpus'', print_d (nr_cpus i)), (''nr_nodes'', print_d (nr_nodes i)),
               (''cores_per_socket'', print_d (cores_per_socket i)), (''threads_per_core'', print_d (threads_per_core i)),
               (''cpu_mhz'', print_d (cpu_khz i div 1000))];
            _ \<leftarrow> printf env (pad_right 23 ''hw_caps'' @ '': '' @ hw_caps_text (hw_cap i));
            _ \<leftarrow> printf env (pad_right 23 ''virt_caps'' @ '':'' @ caps_text p i @ lf);
            v \<leftarrow> libxl_get_version_info env zero_version;
            try_then (lift_fault (megabytes (pagesize v) (total_pages i))) (\<lambda>total.
            try_then (lift_fault (megabytes (pagesize v) (free_pages i))) (\<lambda>free.
              do {
                _ \<leftarrow> info_lines env [(''total_memory'', total), (''free_memory'', free)];
                _ \<leftarrow> free_cpus_line env p;
                return (Inr v)
              }))
          })
     }"

definition topology_line :: "libxl_topologyinfo \<Rightarrow> nat \<Rightarrow> string" where
  "topology_line t i =
     pad_left 3 CHR '' '' (decimal i) @ '':    '' @ pad_left 4 CHR '' '' (print_d (coremap t ! i)) @ ''     '' @
     pad_left 4 CHR '' '' (print_d (socketmap t ! i)) @ ''     '' @ pad_left 4 CHR '' '' (print_d (nodemap t ! i))"

definition output_topologyinfo :: "env \<Rightarrow> cmd_params \<Rightarrow> unit prog" where
  "output_topologyinfo env p =
     do {
       (rc, topo) \<leftarrow> libxl_get_topologyinfo env (cp_invalid p);
       if rc \<noteq> 0 then return ()
       else
         print_lines env
           ([pad_right 23 ''cpu_topology'' @ '':'', ''cpu:    core    socket     node''] @
            map (topology_line (the topo))
              (filter (\<lambda>i. coremap (the topo) ! i \<noteq> LIBXL_CPUARRAY_INVALID_ENTRY) [0..<length (coremap (the topo))]) @
            [pad_right 23 ''numa_info'' @ '': none''])
     }"

definition info_host :: "env \<Rightarrow> cmd_params \<Rightarrow> bool \<Rightarrow> (fault + unit) prog" where
  "info_host env p numa =
     do {
       _ \<leftarrow> output_nodeinfo env;
       try_then (output_physinfo env p) (\<lambda>v.
         do {
           _ \<leftarrow> (if numa then output_topologyinfo env p else return ());
           _ \<leftarrow> output_xeninfo env v;
           _ \<leftarrow> info_line env ''xend_config_format'' ''4'';
           return (Inr ())
         })
     }"

definition info_options :: "long_option list" where
  "info_options =
     [\<lparr>lo_name = ''help'', lo_has_arg = False, lo_val = CHR ''h''\<rparr>,
      \<lparr>lo_name = ''numa'', lo_has_arg = False, lo_val = CHR ''n''\<rparr>]"

definition main_info :: "env \<Rightarrow> cmd_params \<Rightarrow> string list \<Rightarrow> (stop + int) prog" where
  "main_info env p args =
     (let (es, ops) = getopt_long ''hn'' info_options args in
      if given_opt CHR ''h'' es then xl_help env ''info'' 0
      else done0 (xl_lib (info_host env p (given_opt CHR ''n'' es))))"

section \<open>The credit scheduler\<close>

definition credit_line :: "string option \<Rightarrow> u32 \<Rightarrow> libxl_sched_credit \<Rightarrow> string" where
  "credit_line name did sc =
     pad_right 33 (null_str name) @ '' '' @ pad_left 4 CHR '' '' (print_d did) @ '' '' @
     pad_left 6 CHR '' '' (print_int (weight sc)) @ '' '' @ pad_left 4 CHR '' '' (print_int (cap sc)) @ lf"

definition credit_head :: string where
  "credit_head = pad_right 33 ''Name'' @ ''   ID Weight  Cap'' @ lf"

definition sched_credit_domain_get :: "env \<Rightarrow> u32 \<Rightarrow> (int \<times> libxl_sched_credit) prog" where
  "sched_credit_domain_get env did = libxl_sched_credit_domain_get env did \<lparr>weight = 0, cap = 0\<rparr>"

definition sched_credit_domain_set :: "env \<Rightarrow> u32 \<Rightarrow> libxl_sched_credit \<Rightarrow> int prog" where
  "sched_credit_domain_set env did sc = libxl_sched_credit_domain_set env did sc"

definition sched_credit_domain_output :: "env \<Rightarrow> u32 \<Rightarrow> libxl_sched_credit \<Rightarrow> unit prog" where
  "sched_credit_domain_output env did sc =
     do {
       name \<leftarrow> str_of env (Other ''libxl_domid_to_name'' [uint did] []);
       printf env (credit_line name did sc)
     }"

fun credit_list :: "env \<Rightarrow> u32 list \<Rightarrow> int prog" where
  "credit_list env [] = return 0"
| "credit_list env (d # ds) =
     do {
       (rc, sc) \<leftarrow> sched_credit_domain_get env d;
       if rc \<noteq> 0 then return (- rc)
       else do {_ \<leftarrow> sched_credit_domain_output env d sc; credit_list env ds}
     }"

definition int_arg :: "string option \<Rightarrow> int" where
  "int_arg s = sint (word_of_int (fst (strtol10 (null_str s))) :: c_int)"

definition main_sched_credit :: "env \<Rightarrow> cmd_params \<Rightarrow> string list \<Rightarrow> (stop + int) prog" where
  "main_sched_credit env p args =
     command env ''sched-credit'' ''hd:w:c:'' 0 args (\<lambda>es ops.
       (let wo = opt_arg CHR ''w'' es None; co = opt_arg CHR ''c'' es None in
        case opt_arg CHR ''d'' es None of
          None \<Rightarrow>
            if wo \<noteq> None \<or> co \<noteq> None then return (Inr 1)
            else
              xl_then (xl_call (libxl_list_domain env (xp_dominf (cp_xl p)))) (\<lambda>l.
                case l of
                  None \<Rightarrow> return (Inr 1)
                | Some ds \<Rightarrow>
                    xl_then (xl_call (printf env credit_head)) (\<lambda>u. xl_call (credit_list env (map dom_id ds))))
        | Some spec \<Rightarrow>
            on_domain env p spec (\<lambda>did.
              xl_then (xl_call (sched_credit_domain_get env did)) (\<lambda>(rc, sc).
                if rc \<noteq> 0 then return (Inr (- rc))
                else if wo = None \<and> co = None then
                  done0 (xl_call (do {
                    _ \<leftarrow> printf env credit_head;
                    sched_credit_domain_output env did sc
                  }))
                else
                  xl_then
                    (xl_call (sched_credit_domain_set env did
                       \<lparr>weight = (if wo = None then weight sc else int_arg wo),
                        cap = (if co = None then cap sc else int_arg co)\<rparr>))
                    (\<lambda>rc2. return (Inr (- rc2)))))))"

section \<open>The time a domain is up\<close>

text \<open>Days, hours, minutes and seconds.  The days are counted in an \<open>int\<close>, which holds those of any
  32-bit number of seconds the callers pass.\<close>

definition two :: "nat \<Rightarrow> string" where "two n = pad_left 2 CHR ''0'' (decimal n)"
definition wide :: "nat \<Rightarrow> string" where "wide n = pad_left 2 CHR '' '' (decimal n)"

definition uptime_text :: "u32 \<Rightarrow> bool \<Rightarrow> string" where
  "uptime_text t short =
     (let secs = unat t; day = secs div 86400; r1 = secs - day * 86400;
          hour = r1 div 3600; r2 = r1 - hour * 3600; minute = r2 div 60; sec = r2 - minute * 60;
          clock = wide hour @ '':'' @ two minute @ (if short then [] else '':'' @ two sec) in
      if 1 < day then decimal day @ '' days, '' @ clock
      else if day = 1 then decimal day @ '' day, '' @ clock
      else clock)"

definition uptime_to_string :: "env \<Rightarrow> u32 \<Rightarrow> bool \<Rightarrow> string option prog" where
  "uptime_to_string env t short =
     do {
       n \<leftarrow> int_of env (Other ''asprintf'' [] [uptime_text t short]);
       return (if n < 0 then None else Some (uptime_text t short))
     }"

definition current_time_to_string :: "env \<Rightarrow> int \<Rightarrow> (stop + string option) prog" where
  "current_time_to_string env now =
     xl_then (xl_call (xs_do env (Other ''localtime'' [now] []))) (\<lambda>ok.
     if \<not> ok then xl_exit (-1)
     else
       xl_then (xl_call (ask env (Other ''strftime'' [100] [''%H:%M:%S'']))) (\<lambda>a.
         if a_int a = 0 then xl_exit (-1)
         else xl_call (str_of env (Other ''strdup'' [] [null_str (a_str a)]))))"

text \<open>The line of a domain: its time in one form or the other.\<close>

definition uptime_line ::
  "env \<Rightarrow> bool \<Rightarrow> int \<Rightarrow> u32 \<Rightarrow> string option \<Rightarrow> u32 \<Rightarrow> (stop + unit) prog" where
  "uptime_line env short now did name up =
     (if short then
        xl_then (current_time_to_string env now) (\<lambda>now_str.
        xl_call (do {
          s \<leftarrow> uptime_to_string env up True;
          printf env ('' '' @ null_str now_str @ '' up '' @ null_str s @ '', '' @ null_str name @ '' ('' @ print_d did @ '')'' @ lf)
        }))
      else
        xl_call (do {
          s \<leftarrow> uptime_to_string env up False;
          printf env (pad_right 33 (null_str name) @ '' '' @ pad_left 4 CHR '' '' (print_d did) @ '' '' @ null_str s @ lf)
        }))"

text \<open>The file's first number ends with a point or a blank.\<close>

definition print_dom0_uptime :: "env \<Rightarrow> bool \<Rightarrow> int \<Rightarrow> (stop + unit) prog" where
  "print_dom0_uptime env short now =
     xl_then (xl_call (int_of env (Other ''open'' [] [''/proc/uptime'']))) (\<lambda>fd.
     if fd = -1 then xl_exit (-1)
     else
       xl_then (xl_call (ask env (Other ''read'' [fd, 512] []))) (\<lambda>a.
       xl_then (xl_call (close_fd env fd)) (\<lambda>u.
         if a_int a = -1 then xl_exit (-1)
         else
           xl_then (xl_call (str_of env (Other ''libxl_domid_to_name'' [0] []))) (\<lambda>name.
             uptime_line env short now 0 name (ucast (fst (strtoull10 (null_str (a_str a)))))))))"

definition print_domU_uptime :: "env \<Rightarrow> u32 \<Rightarrow> bool \<Rightarrow> int \<Rightarrow> (stop + unit) prog" where
  "print_domU_uptime env did short now =
     xl_then (xl_call (libxl_vm_get_start_time env did)) (\<lambda>st.
       if st = -1 then return (Inr ())
       else
         xl_then (xl_call (str_of env (Other ''libxl_domid_to_name'' [uint did] []))) (\<lambda>name.
           uptime_line env short now did name (word_of_int now - st)))"

fun print_uptimes :: "env \<Rightarrow> bool \<Rightarrow> int \<Rightarrow> bool \<Rightarrow> u32 list \<Rightarrow> (stop + unit) prog" where
  "print_uptimes env short now listed [] = return (Inr ())"
| "print_uptimes env short now listed (d # ds) =
     xl_then
       (if listed \<and> d = 0 then print_dom0_uptime env short now else print_domU_uptime env d short now)
       (\<lambda>u. print_uptimes env short now listed ds)"

definition print_uptime :: "env \<Rightarrow> cmd_params \<Rightarrow> bool \<Rightarrow> u32 list \<Rightarrow> (stop + unit) prog" where
  "print_uptime env p short doms =
     xl_then (xl_call (int_of env (Other ''time'' [] []))) (\<lambda>now.
     xl_then (if short then return (Inr ())
              else xl_call (printf env (pad_right 33 ''Name'' @ ''   ID Uptime'' @ lf))) (\<lambda>u.
       if doms = [] then
         xl_then (print_dom0_uptime env short now) (\<lambda>u.
         xl_then (xl_call (libxl_list_vm env)) (\<lambda>vms.
           case vms of
             None \<Rightarrow> if 0 < cp_junk p then return (Inl (Faults Null_pointer)) else return (Inr ())
           | Some l \<Rightarrow> print_uptimes env short now False (map snd l)))
       else print_uptimes env short now True doms))"

text \<open>The array holds a hundred domains.\<close>

fun find_domains :: "env \<Rightarrow> cmd_params \<Rightarrow> nat \<Rightarrow> string list \<Rightarrow> (stop + u32 list) prog" where
  "find_domains env p n [] = return (Inr [])"
| "find_domains env p n (s # ss) =
     on_domain env p s (\<lambda>did.
       if 100 \<le> n then return (Inl (Faults Stack_overflow))
       else xl_then (find_domains env p (n + 1) ss) (\<lambda>ds. return (Inr (did # ds))))"

definition main_uptime :: "env \<Rightarrow> cmd_params \<Rightarrow> string list \<Rightarrow> (stop + int) prog" where
  "main_uptime env p args =
     command env ''uptime'' ''hs'' 0 args (\<lambda>es ops.
       xl_then (find_domains env p 0 ops) (\<lambda>doms. done0 (print_uptime env p (given_opt CHR ''s'' es) doms)))"

section \<open>Transcendent memory\<close>

text \<open>All domains, or the one that is named.\<close>

definition all_or_one ::
  "env \<Rightarrow> cmd_params \<Rightarrow> string \<Rightarrow> opt list \<Rightarrow> string list \<Rightarrow> (u32 \<Rightarrow> (stop + int) prog) \<Rightarrow> (stop + int) prog" where
  "all_or_one env p name es ops f =
     (if given_opt CHR ''a'' es then f (-1)
      else if ops = [] then xl_help env name 1
      else on_domain env p (ops ! 0) f)"

definition main_tmem_list :: "env \<Rightarrow> cmd_params \<Rightarrow> tmem_constants \<Rightarrow> string list \<Rightarrow> (stop + int) prog" where
  "main_tmem_list env p c args =
     command env ''tmem-list'' ''alh'' 0 args (\<lambda>es ops. all_or_one env p ''tmem-list'' es ops (\<lambda>did.
       xl_then (xl_call (libxl_tmem_list env c did (of_bool (given_opt CHR ''l'' es)))) (\<lambda>buf.
         case buf of None \<Rightarrow> return (Inr (-1)) | Some s \<Rightarrow> done0 (xl_call (printf env (s @ lf))))))"

definition main_tmem_freeze :: "env \<Rightarrow> cmd_params \<Rightarrow> tmem_constants \<Rightarrow> string list \<Rightarrow> (stop + int) prog" where
  "main_tmem_freeze env p c args =
     command env ''tmem-freeze'' ''ah'' 0 args (\<lambda>es ops.
       all_or_one env p ''tmem-freeze'' es ops (\<lambda>did. done0 (xl_call (libxl_tmem_freeze env c did))))"

definition main_tmem_destroy :: "env \<Rightarrow> cmd_params \<Rightarrow> tmem_constants \<Rightarrow> string list \<Rightarrow> (stop + int) prog" where
  "main_tmem_destroy env p c args =
     command env ''tmem-destroy'' ''ah'' 0 args (\<lambda>es ops.
       all_or_one env p ''tmem-destroy'' es ops (\<lambda>did. done0 (xl_call (libxl_tmem_destroy env c did))))"

definition main_tmem_thaw :: "env \<Rightarrow> cmd_params \<Rightarrow> tmem_constants \<Rightarrow> string list \<Rightarrow> (stop + int) prog" where
  "main_tmem_thaw env p c args =
     command env ''tmem-thaw'' ''ah'' 0 args (\<lambda>es ops.
       all_or_one env p ''tmem-thaw'' es ops (\<lambda>did. done0 (xl_call (libxl_tmem_thaw env c did))))"

text \<open>The values that are given are set one after the other.\<close>

definition tmem_set_given :: "env \<Rightarrow> tmem_constants \<Rightarrow> u32 \<Rightarrow> string \<Rightarrow> string option \<Rightarrow> unit prog" where
  "tmem_set_given env c did name arg =
     (case arg of
        None \<Rightarrow> return ()
      | Some a \<Rightarrow> do {_ \<leftarrow> libxl_tmem_set env c did name (word_of_int (fst (strtol10 a))); return ()})"

definition main_tmem_set :: "env \<Rightarrow> cmd_params \<Rightarrow> tmem_constants \<Rightarrow> string list \<Rightarrow> (stop + int) prog" where
  "main_tmem_set env p c args =
     command env ''tmem-set'' ''aw:c:p:h'' 0 args (\<lambda>es ops. all_or_one env p ''tmem-set'' es ops (\<lambda>did.
       (let wo = opt_arg CHR ''w'' es None; co = opt_arg CHR ''c'' es None; po = opt_arg CHR ''p'' es None in
        if wo = None \<and> co = None \<and> po = None then xl_help env ''tmem-set'' 1
        else
          done0 (xl_call (do {
            _ \<leftarrow> tmem_set_given env c did ''weight'' wo;
            _ \<leftarrow> tmem_set_given env c did ''cap'' co;
            tmem_set_given env c did ''compress'' po
          })))))"

definition main_tmem_shared_auth :: "env \<Rightarrow> cmd_params \<Rightarrow> string list \<Rightarrow> (stop + int) prog" where
  "main_tmem_shared_auth env p args =
     command env ''tmem-shared-auth'' ''au:A:h'' 0 args (\<lambda>es ops. all_or_one env p ''tmem-shared-auth'' es ops (\<lambda>did.
       (case (opt_arg CHR ''u'' es None, opt_arg CHR ''A'' es None) of
          (Some uuid, Some autharg) \<Rightarrow>
            if snd (strtol10 autharg) \<noteq> [] then return (Inr 1)
            else
              done0 (xl_call (libxl_tmem_shared_auth env did uuid (int_arg (Some autharg))))
        | _ \<Rightarrow> xl_help env ''tmem-shared-auth'' 1)))"

text \<open>A failure is told by the value -1, which the library does not return.\<close>

definition main_tmem_freeable :: "env \<Rightarrow> tmem_constants \<Rightarrow> string list \<Rightarrow> (stop + int) prog" where
  "main_tmem_freeable env c args =
     command env ''tmem-freeable'' ''h'' 0 args (\<lambda>es ops.
       xl_then (xl_call (libxl_tmem_freeable env c)) (\<lambda>mb.
         if mb = -1 then return (Inr (-1)) else done0 (xl_call (printf env (print_int mb @ lf)))))"

end
