(* ===== verification/Xl_Pool_Commands.thy ===== *)
theory Xl_Pool_Commands
  imports Xl_Vcpu_Commands
begin

text \<open>
  The commands of \<open>xl\<close> on processor pools.
\<close>

section \<open>Creating a pool\<close>

text \<open>The operands: a setting is left out when the array of 1024 bytes has no room for it; one other
  operand may name the file.  None when the usage is to be printed.\<close>

fun pool_operands :: "string \<Rightarrow> string option \<Rightarrow> string list \<Rightarrow> (string \<times> string option) option" where
  "pool_operands txt filename [] = Some (txt, filename)"
| "pool_operands txt filename (s # ss) =
     (if CHR ''='' \<in> set s then
        pool_operands (if length txt + 1 + length s < 1024 then txt @ lf @ s else txt) filename ss
      else if filename = None then pool_operands txt (Some s) ss
      else None)"

definition pool_options :: "long_option list" where
  "pool_options =
     [\<lparr>lo_name = ''help'', lo_has_arg = False, lo_val = CHR ''h''\<rparr>,
      \<lparr>lo_name = ''defconfig'', lo_has_arg = True, lo_val = CHR ''f''\<rparr>,
      \<lparr>lo_name = ''dryrun'', lo_has_arg = False, lo_val = CHR ''n''\<rparr>]"

text \<open>The failure of the commands on pools.\<close>

definition pool_failed :: "(stop + 'a option) prog" where
  "pool_failed = return (Inr None)"

text \<open>The configuration: the file, and the settings on lines of their own.\<close>

definition pool_config :: "env \<Rightarrow> string \<Rightarrow> string \<Rightarrow> (stop + string option) prog" where
  "pool_config env filename extra =
     xl_then (xl_call (ask env (Other ''libxl_read_file_contents'' [] [filename]))) (\<lambda>a.
       if a_int a \<noteq> 0 then pool_failed
       else
         (let txt = null_str (a_str a) in
          if extra = [] then return (Inr (Some txt))
          else if 2 ^ 31 - 1 - (int (length extra) + 2) < int (length txt) then pool_failed
          else
            xl_then (xrealloc env (of_nat (length txt + length extra + 2))) (\<lambda>ok.
              return (Inr (if ok then Some (txt @ extra @ lf) else None)))))"

text \<open>The scheduler that is named, or the one of the host.\<close>

definition pool_sched :: "env \<Rightarrow> xlu_cfg \<Rightarrow> int prog" where
  "pool_sched env cfg =
     (case cfg_string cfg ''sched'' of
        Some s \<Rightarrow> int_of env (Other ''libxl_name_to_schedid'' [] [s])
      | None \<Rightarrow> libxl_get_sched_id env)"

text \<open>The processors of the nodes that are free, with repetitions.\<close>

definition node_cpus :: "(nat \<Rightarrow> bool) \<Rightarrow> u32 list \<Rightarrow> string list \<Rightarrow> nat list" where
  "node_cpus isfree nodes bufs =
     concat (map (\<lambda>buf. filter (\<lambda>i. nodes ! i = atoi buf \<and> isfree i) [0..<length nodes]) bufs)"

text \<open>The processors that are listed, each of which must be free.\<close>

fun listed_cpus :: "(nat \<Rightarrow> bool) \<Rightarrow> u32 \<Rightarrow> string list \<Rightarrow> nat list option" where
  "listed_cpus isfree sz [] = Some []"
| "listed_cpus isfree sz (buf # bufs) =
     (let i = atoi buf in
      if sint i < 0 \<or> sz * 8 \<le> i \<or> \<not> isfree (unat i) then None
      else map_option ((#) (unat i)) (listed_cpus isfree sz bufs))"

text \<open>The processors of the new pool, by their number.\<close>

definition pool_cpus :: "env \<Rightarrow> cmd_params \<Rightarrow> xlu_cfg \<Rightarrow> libxl_cpumap \<Rightarrow> nat list option prog" where
  "pool_cpus env p cfg freemap =
     (let isfree = cpumap_test (cp_ops p) freemap in
      case cfg_list cfg ''nodes'' of
        Inr nodes \<Rightarrow>
          do {
            (rc, topo) \<leftarrow> libxl_get_topologyinfo env (cp_invalid p);
            return
              (if rc \<noteq> 0 then None
               else (case node_cpus isfree (nodemap (the topo)) (items_to_null nodes) of
                       [] \<Rightarrow> None
                     | c # cs \<Rightarrow> Some (c # cs)))
          }
      | Inl e \<Rightarrow>
          (case cfg_list cfg ''cpus'' of
             Inr cpus \<Rightarrow> return (listed_cpus isfree (cpumap_size freemap) (items_to_null cpus))
           | Inl e2 \<Rightarrow>
               return (case filter isfree (cpumap_range (cp_ops p) freemap) of [] \<Rightarrow> None | c # cs \<Rightarrow> Some [c])))"

text \<open>What the pool is made of: its name, its scheduler and its processors.\<close>

definition pool_spec ::
  "env \<Rightarrow> cmd_params \<Rightarrow> string \<Rightarrow> xlu_cfg \<Rightarrow> (string \<times> int \<times> string option \<times> nat list \<times> libxl_cpumap) option prog" where
  "pool_spec env p filename cfg =
     do {
       name \<leftarrow> (case cfg_string cfg ''name'' of
                  Some s \<Rightarrow> str_of env (Other ''strdup'' [] [s])
                | None \<Rightarrow> str_of env (Other ''libxl_basename'' [] [filename]));
       taken \<leftarrow> int_of env (Other ''libxl_name_to_cpupoolid'' [] [null_str name]);
       if taken = 0 then return None
       else
         do {
           sid \<leftarrow> pool_sched env cfg;
           if sid < 0 then return None
           else
             do {
               sched \<leftarrow> str_of env (Other ''libxl_schedid_to_name'' [sid] []);
               (rc, freemap) \<leftarrow> libxl_get_freecpus env;
               if rc \<noteq> 0 then return None
               else
                 do {
                   m \<leftarrow> new_cpumap env;
                   (case m of
                      None \<Rightarrow> return None
                    | Some m0 \<Rightarrow>
                        do {
                          cpus \<leftarrow> pool_cpus env p cfg (the freemap);
                          return (map_option (\<lambda>l. (null_str name, sid, sched, l, m0)) cpus)
                        })
                 }
             }
         }
     }"

definition make_pool :: "env \<Rightarrow> nat \<Rightarrow> cmd_params \<Rightarrow> string \<Rightarrow> bool \<Rightarrow> xlu_cfg \<Rightarrow> (fault + int) prog" where
  "make_pool env fuel p filename dryrun cfg =
     do {
       spec \<leftarrow> pool_spec env p filename cfg;
       (case spec of
          None \<Rightarrow> return (Inr (- ERROR_FAIL))
        | Some (name, sid, sched, cpus, m0) \<Rightarrow>
            do {
              uuid \<leftarrow> str_of env (Other ''libxl_uuid_generate'' [] []);
              _ \<leftarrow> print_lines env
                [''Using config file '' @ [CHR 0x22] @ filename @ [CHR 0x22],
                 ''cpupool name:   '' @ name, ''scheduler:      '' @ null_str sched,
                 ''number of cpus: '' @ decimal (length cpus)];
              if dryrun then return (Inr 0)
              else
                try_then
                  (libxl_create_cpupool env fuel (cp_ops p) name sid
                     (foldl (cp_set p) m0 (map of_nat cpus)) (null_str uuid) 0)
                  (\<lambda>(rc, pid). return (Inr (if rc \<noteq> 0 then - ERROR_FAIL else 0)))
            })
     }"

definition main_cpupoolcreate :: "env \<Rightarrow> nat \<Rightarrow> cmd_params \<Rightarrow> string list \<Rightarrow> (stop + int) prog" where
  "main_cpupoolcreate env fuel p args =
     (let (es, ops) = getopt_long ''hnf:'' pool_options args in
      if given_opt CHR ''h'' es then xl_help env ''cpupool-create'' 0
      else
        (case pool_operands [] (opt_arg CHR ''f'' es None) ops of
           Some (extra, Some filename) \<Rightarrow>
             xl_then (pool_config env filename extra) (\<lambda>config.
               case config of
                 None \<Rightarrow> return (Inr (- ERROR_FAIL))
               | Some txt \<Rightarrow>
                   xl_then (xl_call (xs_do env (Other ''xlu_cfg_init'' [] []))) (\<lambda>ok.
                     case (ok, xp_readdata (cp_xl p) txt) of
                       (True, Inr cfg) \<Rightarrow> xl_lib (make_pool env fuel p filename (given_opt CHR ''n'' es) cfg)
                     | _ \<Rightarrow> return (Inr (- ERROR_FAIL))))
         | _ \<Rightarrow> xl_help env ''cpupool-create'' (- ERROR_FAIL)))"

section \<open>Listing\<close>

definition pool_list_options :: "long_option list" where
  "pool_list_options =
     [\<lparr>lo_name = ''help'', lo_has_arg = False, lo_val = CHR ''h''\<rparr>,
      \<lparr>lo_name = ''long'', lo_has_arg = False, lo_val = CHR ''l''\<rparr>,
      \<lparr>lo_name = ''cpus'', lo_has_arg = False, lo_val = CHR ''c''\<rparr>]"

fun comma_list :: "nat list \<Rightarrow> string" where
  "comma_list [] = []"
| "comma_list [c] = decimal c"
| "comma_list (c # cs) = decimal c @ '','' @ comma_list cs"

text \<open>The lines of the pools, or of the one that is asked for; after a name that is missing nothing
  more is printed.\<close>

fun pool_lines :: "env \<Rightarrow> cmd_params \<Rightarrow> bool \<Rightarrow> u32 option \<Rightarrow> libxl_cpupoolinfo list \<Rightarrow> int prog" where
  "pool_lines env p cpus only [] = return 0"
| "pool_lines env p cpus only (i # is) =
     (if only \<noteq> None \<and> only \<noteq> Some (poolid i) then pool_lines env p cpus only is
      else
        do {
          name \<leftarrow> str_of env (Other ''libxl_cpupoolid_to_name'' [uint (poolid i)] []);
          (case name of
             None \<Rightarrow> return (- ERROR_NOMEM)
           | Some s \<Rightarrow>
               (let cs = filter (cpumap_test (cp_ops p) (pool_cpumap i)) (cpumap_range (cp_ops p) (pool_cpumap i)) in
                do {
                  _ \<leftarrow> printf env (pad_right 19 s @ (if cpus then comma_list cs else []));
                  _ \<leftarrow> (if cpus then return ()
                        else
                          do {
                            sched \<leftarrow> str_of env (Other ''libxl_schedid_to_name'' [sched_id i] []);
                            printf env (pad_left 3 CHR '' '' (decimal (length cs)) @ '' '' @
                              pad_left 9 CHR '' '' (null_str sched) @ ''       y       '' @
                              pad_left 4 CHR '' '' (print_d (n_dom i)))
                          });
                  _ \<leftarrow> printf env lf;
                  pool_lines env p cpus only is
                }))
        })"

definition main_cpupoollist :: "env \<Rightarrow> nat \<Rightarrow> cmd_params \<Rightarrow> string list \<Rightarrow> (stop + int) prog" where
  "main_cpupoollist env fuel p args =
     (let (es, ops) = getopt_long ''hlc'' pool_list_options args; cpus = given_opt CHR ''c'' es in
      if given_opt CHR ''h'' es then xl_help env ''cpupool-list'' 0
      else if 1 < length ops then xl_help env ''cpupool-list'' (- ERROR_FAIL)
      else
        xl_then
          (if ops = [] then return (Inr (Some None))
           else
             xl_call (do {
               a \<leftarrow> ask env (Other ''libxl_name_to_cpupoolid'' [] [ops ! 0]);
               return (if a_int a \<noteq> 0 then None else Some (Some (word_of_int (a_out a ! 0))))
             })) (\<lambda>only.
          case only of
            None \<Rightarrow> return (Inr (- ERROR_FAIL))
          | Some pid \<Rightarrow>
              xl_then (xl_lib (libxl_list_cpupool env fuel)) (\<lambda>l.
                case l of
                  None \<Rightarrow> return (Inr (- ERROR_NOMEM))
                | Some infos \<Rightarrow>
                    xl_call (do {
                      _ \<leftarrow> printf env (pad_right 19 ''Name'' @
                        (if cpus then ''CPU list'' else ''CPUs   Sched     Active   Domain count'') @ lf);
                      pool_lines env p cpus pid infos
                    }))))"

section \<open>Changing pools\<close>

text \<open>The pool of an operand, which must have a name.\<close>

definition on_pool :: "env \<Rightarrow> string \<Rightarrow> (u32 \<Rightarrow> (stop + int) prog) \<Rightarrow> (stop + int) prog" where
  "on_pool env s f =
     xl_then (xl_call (cpupool_qualifier_to_cpupoolid env s 0)) (\<lambda>(rc, pid, was_name).
     if rc \<noteq> 0 then return (Inr (- ERROR_FAIL))
     else
       xl_then (xl_call (str_of env (Other ''libxl_cpupoolid_to_name'' [uint pid] []))) (\<lambda>name.
         if name = None then return (Inr (- ERROR_FAIL)) else f pid))"

text \<open>The negated result of a call of the library.\<close>

definition negated :: "(fault + int) prog \<Rightarrow> (stop + int) prog" where
  "negated m = xl_then (xl_lib m) (\<lambda>rc. return (Inr (- rc)))"

definition main_cpupooldestroy :: "env \<Rightarrow> nat \<Rightarrow> cmd_params \<Rightarrow> string list \<Rightarrow> (stop + int) prog" where
  "main_cpupooldestroy env fuel p args =
     command env ''cpupool-destroy'' ''h'' 0 args (\<lambda>es ops.
       if ops = [] then xl_help env ''cpupool-destroy'' (- ERROR_FAIL)
       else on_pool env (ops ! 0) (\<lambda>pid. negated (libxl_destroy_cpupool env fuel (cp_ops p) pid)))"

definition main_cpupoolrename :: "env \<Rightarrow> nat \<Rightarrow> string list \<Rightarrow> (stop + int) prog" where
  "main_cpupoolrename env fuel args =
     command env ''cpupool-rename'' ''h'' 0 args (\<lambda>es ops.
       if length ops < 2 then xl_help env ''cpupool-rename'' 1
       else on_pool env (ops ! 0) (\<lambda>pid.
         xl_then (xl_lib (libxl_cpupool_rename env fuel (ops ! 1) pid)) (\<lambda>rc.
           return (Inr (if rc \<noteq> 0 then 1 else 0)))))"

text \<open>A processor, or a node and the processor -1; a negative processor is taken for a node -1.\<close>

definition cpu_or_node :: "string \<Rightarrow> int \<times> int" where
  "cpu_or_node s =
     (if take 5 s = ''node:'' then (-1, sint (atoi (drop 5 s))) else (sint (atoi s), -1))"

definition main_cpupoolcpuadd :: "env \<Rightarrow> cmd_params \<Rightarrow> string list \<Rightarrow> (stop + int) prog" where
  "main_cpupoolcpuadd env p args =
     command env ''cpupool-cpu-add'' ''h'' 0 args (\<lambda>es ops.
       if length ops < 2 then xl_help env ''cpupool-cpu-add'' (- ERROR_FAIL)
       else on_pool env (ops ! 0) (\<lambda>pid.
         (let (cpu, node) = cpu_or_node (ops ! 1) in
          if 0 \<le> cpu then
            xl_then (xl_call (libxl_cpupool_cpuadd env pid (nat cpu))) (\<lambda>rc. return (Inr (- rc)))
          else
            xl_then (xl_call (libxl_cpupool_cpuadd_node env (cp_invalid p) (cp_ops p) pid node)) (\<lambda>(rc, n).
              return (Inr (if rc \<noteq> 0 then - ERROR_FAIL else if 0 < the n then 0 else - ERROR_FAIL))))))"

definition main_cpupoolcpuremove :: "env \<Rightarrow> nat \<Rightarrow> cmd_params \<Rightarrow> string list \<Rightarrow> (stop + int) prog" where
  "main_cpupoolcpuremove env fuel p args =
     command env ''cpupool-cpu-remove'' ''h'' 0 args (\<lambda>es ops.
       if length ops < 2 then xl_help env ''cpupool-cpu-remove'' (- ERROR_FAIL)
       else on_pool env (ops ! 0) (\<lambda>pid.
         (let (cpu, node) = cpu_or_node (ops ! 1) in
          if 0 \<le> cpu then
            xl_then (xl_call (libxl_cpupool_cpuremove env pid (nat cpu))) (\<lambda>rc. return (Inr (- rc)))
          else
            xl_then (xl_lib (libxl_cpupool_cpuremove_node env fuel (cp_invalid p) (cp_ops p) pid node)) (\<lambda>(rc, n).
              return (Inr (if rc \<noteq> 0 then - ERROR_FAIL else if the n = 0 then - ERROR_FAIL else 0))))))"

definition main_cpupoolmigrate :: "env \<Rightarrow> nat \<Rightarrow> cmd_params \<Rightarrow> string list \<Rightarrow> (stop + int) prog" where
  "main_cpupoolmigrate env fuel p args =
     command env ''cpupool-migrate'' ''h'' 0 args (\<lambda>es ops.
       if length ops < 2 then xl_help env ''cpupool-migrate'' (- ERROR_FAIL)
       else
         xl_then (xl_call (domain_qualifier_to_domid env (xp_dominf (cp_xl p)) (ops ! 0) 0)) (\<lambda>(rc, did, was_name).
         if rc \<noteq> 0 then return (Inr (- ERROR_FAIL))
         else
           xl_then (xl_call (str_of env (Other ''libxl_domid_to_name'' [uint did] []))) (\<lambda>name.
             if name = None then return (Inr (- ERROR_FAIL))
             else on_pool env (ops ! 1) (\<lambda>pid. negated (libxl_cpupool_movedomain env fuel pid did)))))"

section \<open>One pool per node\<close>

definition node_name :: "int \<Rightarrow> string" where
  "node_name node = take 14 (''Pool-node'' @ print_int node)"

text \<open>The nodes of the processors that are left, in their order; the processors of a node that has its
  pool are marked.\<close>

fun split_loop ::
  "env \<Rightarrow> nat \<Rightarrow> cmd_params \<Rightarrow> int \<Rightarrow> libxl_cpumap \<Rightarrow> nat \<Rightarrow> u32 list \<Rightarrow> (fault + int) prog" where
  "split_loop env fuel p sid m 0 nodes = return (Inr 0)"
| "split_loop env fuel p sid m (Suc k) [] = return (Inr 0)"
| "split_loop env fuel p sid m (Suc k) (node # nodes) =
     (if node = LIBXL_CPUARRAY_INVALID_ENTRY then split_loop env fuel p sid m k nodes
      else
        try_then (libxl_cpupool_cpuremove_node env fuel (cp_invalid p) (cp_ops p) 0 (sint node)) (\<lambda>(rc, n).
        if rc \<noteq> 0 then return (Inr (- rc))
        else
          do {
            uuid \<leftarrow> str_of env (Other ''libxl_uuid_generate'' [] []);
            try_then (libxl_create_cpupool env fuel (cp_ops p) (node_name (sint node)) sid m (null_str uuid) 0) (\<lambda>(rc2, pid).
            if rc2 \<noteq> 0 then return (Inr (- rc2))
            else
              do {
                (rc3, n3) \<leftarrow> libxl_cpupool_cpuadd_node env (cp_invalid p) (cp_ops p) pid (sint node);
                if rc3 \<noteq> 0 then return (Inr (- rc3))
                else split_loop env fuel p sid m k
                       (map (\<lambda>x. if x = node then LIBXL_CPUARRAY_INVALID_ENTRY else x) nodes)
              })
          }))"

text \<open>At most ten looks at the control domain, a second apart, until it has \<open>n\<close> virtual processors; the
  last look, or None when one fails.\<close>

fun offline_loop :: "env \<Rightarrow> dominf \<Rightarrow> u32 \<Rightarrow> nat \<Rightarrow> libxl_dominfo \<Rightarrow> libxl_dominfo option prog" where
  "offline_loop env k n 0 seen = return (Some seen)"
| "offline_loop env k n (Suc c) seen =
     do {
       (rc, info) \<leftarrow> libxl_domain_info env k 0;
       if rc \<noteq> 0 then return None
       else if vcpu_online (the info) = n then return (Some (the info))
       else do {_ \<leftarrow> ask env (Other ''sleep'' [1] []); offline_loop env k n c (the info)}
     }"

text \<open>The control domain gives up the processors of the other nodes; the first pool keeps the node of
  the first processor.  A failure after the pool is renamed leaves the result 0.\<close>

definition numa_rest ::
  "env \<Rightarrow> nat \<Rightarrow> cmd_params \<Rightarrow> libxl_dominfo \<Rightarrow> int \<Rightarrow> libxl_cpumap \<Rightarrow> u32 list \<Rightarrow> (fault + int) prog" where
  "numa_rest env fuel p uninit sid m0 nodes =
     (let node = hd nodes; n = length (filter (\<lambda>x. x = node) nodes);
          left = map (\<lambda>x. if x = node then LIBXL_CPUARRAY_INVALID_ENTRY else x) nodes;
          online = foldl (cp_set p) m0 (map of_nat [0..<n]) in
      try_then (libxl_set_vcpuonline env fuel (xp_dominf (cp_xl p)) (cp_ops p) 0 online) (\<lambda>rc.
      if rc \<noteq> 0 then return (Inr 0)
      else
        do {
          seen \<leftarrow> offline_loop env (xp_dominf (cp_xl p)) (of_nat n) 10 uninit;
          (case seen of
             None \<Rightarrow> return (Inr 0)
           | Some info \<Rightarrow>
               if of_nat n < vcpu_online info then return (Inr 0)
               else split_loop env fuel p sid (m0\<lparr>cpumap_map := replicate (unat (cpumap_size m0)) 0\<rparr>)
                      (length left) left)
        }))"

definition numa_split :: "env \<Rightarrow> nat \<Rightarrow> cmd_params \<Rightarrow> libxl_dominfo \<Rightarrow> (fault + int) prog" where
  "numa_split env fuel p uninit =
     try_then (libxl_list_cpupool env fuel) (\<lambda>l.
       case l of
         None \<Rightarrow> return (Inr (- ERROR_NOMEM))
       | Some pools \<Rightarrow>
           if 1 < length pools then return (Inr (- ERROR_FAIL))
           else
             do {
               (rc, topo) \<leftarrow> libxl_get_topologyinfo env (cp_invalid p);
               if rc \<noteq> 0 then return (Inr (- ERROR_FAIL))
               else
                 do {
                   m \<leftarrow> new_cpumap env;
                   (case m of
                      None \<Rightarrow> return (Inr (- ERROR_FAIL))
                    | Some m0 \<Rightarrow>
                        if nodemap (the topo) = [] then return (Inl Out_of_bounds)
                        else
                          (let nodes = nodemap (the topo); node = sint (hd nodes) in
                           do {
                             (rc2, n2) \<leftarrow> libxl_cpupool_cpuadd_node env (cp_invalid p) (cp_ops p) 0 node;
                             if rc2 \<noteq> 0 then return (Inr (- ERROR_FAIL))
                             else
                               try_then (libxl_cpupool_rename env fuel (node_name node) 0) (\<lambda>rc3.
                                 if rc3 \<noteq> 0 then return (Inr (- rc3))
                                 else numa_rest env fuel p uninit (sched_id (hd pools)) m0 nodes)
                           }))
                 }
             })"

text \<open>\<open>uninit\<close> is what the variable for the control domain's state holds.\<close>

definition main_cpupoolnumasplit :: "env \<Rightarrow> nat \<Rightarrow> cmd_params \<Rightarrow> libxl_dominfo \<Rightarrow> string list \<Rightarrow> (stop + int) prog" where
  "main_cpupoolnumasplit env fuel p uninit args =
     command env ''cpupool-numa-split'' ''h'' 0 args (\<lambda>es ops. xl_lib (numa_split env fuel p uninit))"

end
