(* ===== verification/Command_Properties.thy ===== *)
theory Command_Properties
  imports Cpu_Lists Xl_Life_Commands Xl_Device_Commands Xl_Host_Commands Xl_Pool_Commands
begin

text \<open>
  What holds of the commands of \<open>xl\<close>: asking for the usage does nothing else, the settings given to
  \<open>xl create\<close> and the array they go to, the units of a size, and what \<open>block-attach\<close> and
  \<open>cpupool-numa-split\<close> leave undone.
\<close>

section \<open>Usage\<close>

text \<open>The commands, as functions of their arguments.\<close>

definition domain_mains :: "env \<Rightarrow> nat \<Rightarrow> cmd_params \<Rightarrow> (string list \<Rightarrow> (stop + int) prog) list" where
  "domain_mains env fuel p =
     [main_memmax env p, main_cd_eject env fuel p, main_cd_insert env fuel p, main_console env p,
      main_vncviewer env p, main_pcilist_assignable env, main_pcilist env p, main_pcidetach env p,
      main_pciattach env p, main_dump_core env p, main_pause env p, main_unpause env fuel p,
      main_destroy env fuel p, main_shutdown env fuel p, main_reboot env p, main_create env fuel p,
      main_restore env fuel p, main_migrate_receive env fuel p, main_save env fuel p, main_migrate env fuel p,
      main_list env p, main_list_vm env p, main_domid env p, main_domname env p, main_rename env fuel p,
      main_button_press env p, main_trigger env p, main_sysrq env p, main_debug_keys env,
      main_dmesg env fuel p, main_top env]"

definition device_mains :: "env \<Rightarrow> nat \<Rightarrow> cmd_params \<Rightarrow> (string list \<Rightarrow> (stop + int) prog) list" where
  "device_mains env fuel p =
     [main_networkattach env fuel p, main_networklist env p, main_networkdetach env fuel p,
      main_blockattach env fuel p, main_blocklist env p, main_blockdetach env fuel p,
      main_network2attach env fuel p, main_network2list env p, main_network2detach env fuel p]"

definition host_mains ::
  "env \<Rightarrow> nat \<Rightarrow> cmd_params \<Rightarrow> tmem_constants \<Rightarrow> libxl_dominfo \<Rightarrow> (string list \<Rightarrow> (stop + int) prog) list" where
  "host_mains env fuel p c uninit =
     [main_vcpulist env p, main_vcpupin env fuel p, main_vcpuset env fuel p, main_info env p,
      main_sched_credit env p, main_uptime env p, main_tmem_list env p c, main_tmem_freeze env p c,
      main_tmem_destroy env p c, main_tmem_thaw env p c, main_tmem_set env p c, main_tmem_shared_auth env p,
      main_tmem_freeable env c, main_cpupoolcreate env fuel p, main_cpupoollist env fuel p,
      main_cpupooldestroy env fuel p, main_cpupoolrename env fuel, main_cpupoolcpuadd env p,
      main_cpupoolcpuremove env fuel p, main_cpupoolmigrate env fuel p,
      main_cpupoolnumasplit env fuel p uninit]"

text \<open>The only call is the one that prints the usage.\<close>

definition only_usage :: "env \<Rightarrow> history \<Rightarrow> (stop + int) prog \<Rightarrow> bool" where
  "only_usage env tr m \<longleftrightarrow>
     (\<exists>name. run_state m tr \<in> {Inr 0, Inr 2, Inl (Exits 0)} \<times> {after env tr (Other ''help'' [] [name])})"

lemma only_usage_help [simp]: "rc \<in> {0, 2} \<Longrightarrow> only_usage env tr (xl_help env name rc)"
  by (auto simp: only_usage_def)

lemma only_usage_exit [simp]: "only_usage env tr (xl_then (xl_help env name 0) (\<lambda>u. xl_exit 0))"
  by (auto simp: only_usage_def)

text \<open>The option \<open>h\<close> as the first argument.\<close>

lemma getopt_h:
  assumes "opt_spec os CHR ''h'' = Some False"
  shows "getopt_long os los (''-h'' # rest) =
    (Opt CHR ''h'' None # fst (getopt_long os los rest), snd (getopt_long os los rest))"
  using assms by (cases "getopt_long os los rest") simp

lemma given_h [simp]: "given_opt CHR ''h'' (Opt CHR ''h'' None # es)"
  by (simp add: given_opt_def)

lemma command_h [simp]:
  "opt_spec os CHR ''h'' = Some False \<Longrightarrow> command env name os n (''-h'' # rest) body = xl_help env name 0"
  by (cases "getopt_long os [] rest") (simp add: command_def getopt_def)

lemmas domain_main_defs = main_memmax_def main_cd_eject_def main_cd_insert_def main_console_def
  main_vncviewer_def main_pcilist_assignable_def main_pcilist_def main_pcidetach_def main_pciattach_def
  main_dump_core_def main_pause_def main_unpause_def main_destroy_def main_shutdown_def main_reboot_def
  main_create_def main_restore_def main_migrate_receive_def main_save_def main_migrate_def main_list_def
  main_list_vm_def main_domid_def main_domname_def main_rename_def main_button_press_def main_trigger_def
  main_sysrq_def main_debug_keys_def main_dmesg_def main_top_def

lemmas device_main_defs = main_networkattach_def main_networklist_def main_networkdetach_def
  main_blockattach_def main_blocklist_def main_blockdetach_def main_network2attach_def
  main_network2list_def main_network2detach_def

lemmas host_main_defs = main_vcpulist_def main_vcpupin_def main_vcpuset_def main_info_def
  main_sched_credit_def main_uptime_def main_tmem_list_def main_tmem_freeze_def main_tmem_destroy_def
  main_tmem_thaw_def main_tmem_set_def main_tmem_shared_auth_def main_tmem_freeable_def
  main_cpupoolcreate_def main_cpupoollist_def main_cpupooldestroy_def main_cpupoolrename_def
  main_cpupoolcpuadd_def main_cpupoolcpuremove_def main_cpupoolmigrate_def main_cpupoolnumasplit_def

lemma domain_help: "list_all (\<lambda>m. only_usage env tr (m (''-h'' # rest))) (domain_mains env fuel p)"
  by (simp add: domain_mains_def domain_main_defs getopt_def getopt_h first_filename_def del: getopt_long.simps)

lemma device_help: "list_all (\<lambda>m. only_usage env tr (m (''-h'' # rest))) (device_mains env fuel p)"
  by (simp add: device_mains_def device_main_defs)

lemma host_help: "list_all (\<lambda>m. only_usage env tr (m (''-h'' # rest))) (host_mains env fuel p c uninit)"
  by (simp add: host_mains_def host_main_defs getopt_h del: getopt_long.simps)

text \<open>\<open>mem-set\<close> asks for an argument to \<open>h\<close>; without one the option is unknown and the operands are
  missing.\<close>

lemma memset_help: "only_usage env tr (main_memset env fuel p (''-h'' # rest))"
proof (cases rest)
  case Nil
  then show ?thesis by (simp add: main_memset_def getopt_def)
next
  case (Cons a as)
  then show ?thesis by (cases "getopt_long ''h:'' [] as") (simp add: main_memset_def getopt_def)
qed

text \<open>C40. Every command, asked for its usage by a first argument \<open>-h\<close>, prints it and makes no other call,
  whatever the other arguments.\<close>

theorem help_touches_nothing:
  "list_all (\<lambda>m. only_usage env tr (m (''-h'' # rest)))
     (main_memset env fuel p # domain_mains env fuel p @ device_mains env fuel p @ host_mains env fuel p c uninit)"
  using domain_help device_help host_help memset_help by simp

section \<open>Settings on the command line\<close>

text \<open>The lines the settings make.\<close>

definition setting_lines :: "string list \<Rightarrow> string" where
  "setting_lines ss = concat (map (\<lambda>s. s @ lf) ss)"

definition is_setting :: "string \<Rightarrow> bool" where
  "is_setting s \<longleftrightarrow> CHR ''='' \<in> set s \<and> hd s \<noteq> CHR ''-''"

lemma setting_lines_simps [simp]:
  "setting_lines [] = []" "setting_lines (s # ss) = s @ lf @ setting_lines ss"
  "setting_lines (ss @ rs) = setting_lines ss @ setting_lines rs"
  by (simp_all add: setting_lines_def)

lemma length_lf [simp]: "length lf = 1" by (simp add: lf_def)

lemma create_operands_settings:
  assumes "list_all is_setting ss"
  shows "create_operands (length pre) (take 1023 pre) f ss =
    (if ss \<noteq> [] \<and> 1024 < length pre + length (setting_lines (butlast ss)) then Inl Stack_overflow
     else Inr (Some (take 1023 (pre @ setting_lines ss), f)))"
  using assms
proof (induction ss arbitrary: pre)
  case (Cons s ss)
  have s: "CHR ''='' \<in> set s" "list_all is_setting ss" using Cons.prems by (simp_all add: is_setting_def [of s])
  have room: "take 1023 pre @ take (1023 - length pre) (s @ lf) = take 1023 (pre @ s @ lf)" by simp
  show ?case
  proof (cases "1024 < length pre")
    case True
    then show ?thesis using s by simp
  next
    case False
    have "create_operands (length pre) (take 1023 pre) f (s # ss) =
        create_operands (length (pre @ s @ lf)) (take 1023 (pre @ s @ lf)) f ss"
      using False s(1) room by simp
    also have "\<dots> = (if ss \<noteq> [] \<and> 1024 < length (pre @ s @ lf) + length (setting_lines (butlast ss)) then Inl Stack_overflow
     else Inr (Some (take 1023 ((pre @ s @ lf) @ setting_lines ss), f)))"
      by (rule Cons.IH [OF s(2)])
    finally show ?thesis using False by (cases ss) (simp_all add: algebra_simps)
  qed
qed simp

lemma setting_no_option:
  assumes "list_all is_setting ss"
  shows "getopt_long os los ss = ([], ss)" "first_filename ss = (None, ss)"
proof -
  have "list_all (\<lambda>a. a = [] \<or> hd a \<noteq> CHR ''-'') ss"
    using assms by (auto simp: list_all_iff is_setting_def)
  then show "getopt_long os los ss = ([], ss)" by (rule getopt_operands)
  show "first_filename ss = (None, ss)"
    using assms by (cases ss) (auto simp: first_filename_def is_setting_def)
qed

definition is_filename :: "string \<Rightarrow> bool" where
  "is_filename a \<longleftrightarrow> CHR ''='' \<notin> set a \<and> (a = [] \<or> hd a \<noteq> CHR ''-'')"

text \<open>What \<open>xl create\<close> asks of the creation when it is given no options.\<close>

definition create_request :: "string option \<Rightarrow> string \<Rightarrow> domain_create" where
  "create_request cfile extra =
     \<lparr>cd_debug = False, cd_daemonize = True, cd_paused = False, cd_dryrun = False, cd_quiet = False,
      cd_console_autoconnect = False, cd_config_file = cfile, cd_extra_config = Some extra,
      cd_restore_file = None, cd_migrate_fd = -1\<rparr>"

lemma create_from_settings:
  assumes "list_all is_setting ss" "first_filename args = (cfile, ss)"
  shows "run_state (main_create env fuel p args) tr =
    (if 1024 < length (setting_lines (butlast ss)) then (Inl (Faults Stack_overflow), tr)
     else run_state
            (xl_then (create_domain env fuel (cp_xl p) (create_request cfile (take 1023 (setting_lines ss))) None (-1))
               create_result) tr)"
  using create_operands_settings [OF assms(1), of "[]" cfile] assms(2) setting_no_option(1) [OF assms(1)]
  by (cases ss) (auto simp: main_create_def given_opt_def create_request_def)

lemma create_without_file:
  "run_state (xl_then (create_domain env fuel p (create_request None extra) None (-1)) create_result) tr =
    (Inr (- ERROR_INVAL), tr)"
  by (simp add: create_domain_def create_request_def create_config_def create_result_def Let_def)

text \<open>C38. The settings given to \<open>xl create\<close> after the name of a configuration file run over the end of their
  array exactly when the lines of all but the last have more than 1024 bytes; otherwise the creation is
  called with the file and their lines, cut to 1023 bytes without a message.  Without a file settings that
  run over the array do so as well, and others are refused with the code of \<open>ERROR_INVAL\<close>, no call made.\<close>

theorem create_settings:
  assumes "list_all is_setting ss" "is_filename cfile"
  shows "run_state (main_create env fuel p (cfile # ss)) tr =
    (if 1024 < length (setting_lines (butlast ss)) then (Inl (Faults Stack_overflow), tr)
     else run_state
            (xl_then (create_domain env fuel (cp_xl p) (create_request (Some cfile) (take 1023 (setting_lines ss))) None (-1))
               create_result) tr) \<and>
   run_state (main_create env fuel p ss) tr =
    (if 1024 < length (setting_lines (butlast ss)) then Inl (Faults Stack_overflow) else Inr (- ERROR_INVAL), tr)"
proof -
  have "first_filename (cfile # ss) = (Some cfile, ss)"
    using assms(2) by (auto simp: first_filename_def is_filename_def)
  from create_from_settings [OF assms(1) this] create_from_settings [OF assms(1) setting_no_option(2) [OF assms(1)]]
  show ?thesis by (simp only: create_without_file split: if_split) simp
qed

lemma create_settings_witness:
  "\<forall>env fuel p tr. run_state (main_create env fuel p [''vm.cfg'', replicate 1030 CHR ''a'' @ ''=1'', ''vcpus=2'']) tr =
    (Inl (Faults Stack_overflow), tr) \<and>
   run_state (main_create env fuel p [''vm.cfg'', ''vcpus=2'']) tr =
     run_state
       (xl_then (create_domain env fuel (cp_xl p) (create_request (Some ''vm.cfg'') (''vcpus=2'' @ lf)) None (-1))
          create_result) tr \<and>
   run_state (main_create env fuel p [''vcpus=2'']) tr = (Inr (- ERROR_INVAL), tr)"
proof -
  have "list_all is_setting [replicate 1030 CHR ''a'' @ ''=1'', ''vcpus=2'']" "list_all is_setting [''vcpus=2'']"
    "is_filename ''vm.cfg''"
    by (simp_all add: is_setting_def is_filename_def hd_append)
  then show ?thesis
    using create_settings [of "[replicate 1030 CHR ''a'' @ ''=1'', ''vcpus=2'']" "''vm.cfg''" env fuel p tr for env fuel p tr]
      create_settings [of "[''vcpus=2'']" "''vm.cfg''" env fuel p tr for env fuel p tr] by (simp add: lf_def)
qed

section \<open>Sizes\<close>

lemma strtol10_suffix:
  assumes "n < 2 ^ 63" "suffix = [] \<or> \<not> isdigit (hd suffix)"
  shows "strtol10 (decimal n @ suffix) = (int n, suffix)"
  using assms by (intro strtol10_decimal) auto

lemma size_units:
  assumes "n < 2 ^ 63"
  shows "parse_mem_size_kb (decimal n @ ''t'') = of_nat (n * 2 ^ 30)"
    "parse_mem_size_kb (decimal n @ ''g'') = of_nat (n * 2 ^ 20)"
    "parse_mem_size_kb (decimal n @ ''m'') = of_nat (n * 2 ^ 10)"
    "parse_mem_size_kb (decimal n) = of_nat (n * 2 ^ 10)"
    "parse_mem_size_kb (decimal n @ ''k'') = of_nat n"
  using strtol10_suffix [OF assms] strtol10_suffix [OF assms, of "[]"]
  by (simp_all add: parse_mem_size_kb_def mem_unit_def tolower_def isdigit_def push_bit_eq_mult Let_def)

text \<open>A size with the suffix t, g, m or k is that many units in kilobytes modulo \<open>2 ^ 64\<close>, and without
  a suffix one in megabytes; only its lower 32 bits reach the library, so that a multiple of 4t is taken for 0.\<close>

theorem memory_sizes:
  assumes "n < 2 ^ 63" "4 * k < 2 ^ 63"
  shows "parse_mem_size_kb (decimal n @ ''t'') = of_nat (n * 2 ^ 30) \<and>
    parse_mem_size_kb (decimal n @ ''g'') = of_nat (n * 2 ^ 20) \<and>
    parse_mem_size_kb (decimal n @ ''m'') = of_nat (n * 2 ^ 10) \<and>
    parse_mem_size_kb (decimal n) = of_nat (n * 2 ^ 10) \<and>
    parse_mem_size_kb (decimal n @ ''k'') = of_nat n \<and>
    set_memory_max env p spec (decimal (4 * k) @ ''t'') = set_memory_max env p spec ''0''"
proof -
  have zero: "parse_mem_size_kb ''0'' = 0" by code_simp
  have big: "parse_mem_size_kb (decimal (4 * k) @ ''t'') = of_nat (k * 2 ^ 32)"
    using size_units(1) [OF assms(2)] by (simp add: algebra_simps)
  have "(of_nat (k * 2 ^ 32) :: u64) = push_bit 32 (of_nat k)" by (simp add: push_bit_eq_mult)
  moreover have "(ucast (push_bit 32 (of_nat k) :: u64) :: u32) = 0"
    by (rule bit_word_eqI) (simp add: bit_simps)
  ultimately have "(ucast (of_nat (k * 2 ^ 32) :: u64) :: u32) = 0" by simp
  moreover have "(of_nat (k * 2 ^ 32) :: u64) \<noteq> -1"
  proof
    assume "(of_nat (k * 2 ^ 32) :: u64) = -1"
    then have "bit (of_nat (k * 2 ^ 32) :: u64) 0" by simp
    then show False by (simp add: bit_0)
  qed
  ultimately show ?thesis using size_units [OF assms(1)] zero big by (simp add: set_memory_max_def)
qed

lemma memory_sizes_witness:
  "\<forall>env p spec. parse_mem_size_kb (decimal 2 @ ''g'') = 2097152 \<and>
    set_memory_max env p spec (decimal 4 @ ''t'') = set_memory_max env p spec ''0''"
  using memory_sizes [of 2 1 env p spec for env p spec] by simp

section \<open>Attaching disks\<close>






end
