(* ===== verification/Spec2Isabelle.thy ===== *)
theory Spec2Isabelle
  imports Store_Properties Block_Preservation Disktype Block_Aio Block_Log Virtdisk Disk_Config
    Device_Store Domain_Store Transactions Libxl_Waits Saved_Domain Creation_Lock
    Driver_Life Nic_Store Command_Properties
begin

text \<open>
  \<^bold>\<open>LogDrive.\<close>  LogDrive keeps every write to a virtual disk: a preservation file holds, for each block
  of the disk, all its versions with their time stamps, and the disk can be opened read-only as it
  was at any second.  The C code of the repository lies under
  \<open>src/setup/xen-with-blktap/src/tools/\<close>: the drivers of tapdisk in \<open>blktap2/drivers/\<close>, and the tool
  stack of Xen with the changes LogDrive needs in \<open>libxl/\<close>.

  \<^bold>\<open>The parts and how they interact.\<close>  A guest's requests reach a tapdisk driver; the two drivers of
  LogDrive (\<open>block-preservation.c\<close>, \<open>block-timetravel.c\<close>) turn them into requests on a preservation
  store (\<open>preservation.c\<close>), and the store appends to and reads from its file through a buffered
  descriptor (\<open>utils.c\<close>).  Tapdisk chooses a driver by the prefix of the name of an image
  (\<open>tapdisk-disktype.c\<close>).  On the other side, \<open>xl\<close> (\<open>xl_cmdimpl.c\<close>) reads the configuration of a
  domain, whose disk lines name such images, and calls \<open>libxl\<close> (\<open>libxl.c\<close>, \<open>libxl_device.c\<close>), which
  describes the devices in xenstore and asks the hypervisor for the rest.
\<close>

section \<open>The theories and the code\<close>

text \<open>
  \<^bold>\<open>Shared vocabulary.\<close>
  \<open>Prelude\<close>: machine words of an LP64 platform, byte memories as functions from offsets, loads and stores
  in little-endian order, the \<open>fault\<close> datatype.
  \<open>C_Library\<close>: \<open>errno\<close> values, \<open>strchr\<close>, \<open>strtol\<close> and its relatives, decimal printing.
  \<open>Posix_File\<close>: an open file with its bytes, its size, its offset and a script of the outcomes of coming
  \<open>read\<close> and \<open>write\<close> calls (complete, short or failed).

  \<^bold>\<open>The preservation store.\<close>
  \<open>Buffered_IO\<close> is \<open>utils.c\<close> (\<open>bio_init\<close> to \<open>bio_finalize\<close>); \<open>Buffered_IO_Laws\<close> shows what a buffered
  descriptor stands for, one log of bytes.
  \<open>Preservation_Format\<close> is \<open>preservation.h\<close>: the byte layout of the two headers and the record of an open
  disk.  \<open>Preservation\<close> and \<open>Preservation_Request\<close> are \<open>preservation.c\<close>: opening, closing and single
  blocks, and the requests \<open>pd_read\<close> and \<open>pd_write\<close>.
  \<open>Version_Log\<close> says what a file means: for every block a list of versions, newest first; \<open>chain\<close> relates
  an index entry to such a list, and the locale \<open>append_log\<close> states what is asked of the log (interpreted
  on \<open>utils.c\<close> as \<open>bio_log\<close>).
  \<open>Preservation_Read\<close>, \<open>Request_Read\<close> and \<open>Request_Write\<close> show that blocks and requests read and write
  these lists; the locale \<open>block_source\<close> covers reading the latest version and reading at a time at once
  (interpreted as \<open>latest_source\<close> and \<open>timed_source\<close>).
  \<open>Lifecycle\<close> treats closing and opening again, with \<open>mkimage\<close> as the initial file \<open>mkimage.rb\<close> writes;
  \<open>Sessions\<close> composes sessions into the life of a file; \<open>Store_Properties\<close> states the properties.

  \<^bold>\<open>Drivers of tapdisk.\<close>
  \<open>Block_Preservation\<close> holds both drivers over the store, and \<open>Driver_Life\<close> composes them: a disk
  written by the one and read back by the other.
  \<open>Aio_Pool\<close>, \<open>Block_Aio\<close> and \<open>Block_Log\<close> are \<open>block-aio.c\<close> and \<open>block-log.c\<close>; the locale
  \<open>request_pool\<close>, interpreted on both, has the invariant of the pool of request slots.
  \<open>Disktype\<close> is \<open>tapdisk-disktype.c\<close>.

  \<^bold>\<open>The environment of the tool stack.\<close>
  \<open>Xen_Env\<close>: a program is a state transformer on the history of its calls and their answers, and an
  environment is any function from histories and calls to answers.  \<open>Xenstore\<close>: the laws of the xenstore
  daemon as a locale, with transactions on copies of a tree, and an interpretation by an executable store.

  \<^bold>\<open>libxl.\<close>
  \<open>Virtdisk\<close> and \<open>Libxl_Device\<close> are \<open>libxl_device.c\<close>.  The others are \<open>libxl.c\<close>: \<open>Libxl_Disk\<close> (virtual
  disks), \<open>Libxl_Devices\<close> (network interfaces, consoles, keyboards, framebuffers), \<open>Libxl_Domain\<close>
  (contexts, names, life cycle, events), \<open>Libxl_Memory\<close>, \<open>Libxl_Hypervisor\<close> (virtual processors,
  scheduler, triggers, console ring, tmem), \<open>Libxl_Cpupool\<close>, \<open>Libxl_Console\<close> (the processes that become a
  console client or a viewer) and \<open>Libxl_Version\<close>.
  \<open>Device_Store\<close>, \<open>Nic_Store\<close> and \<open>Domain_Store\<close> show what operations do to the store; \<open>Transactions\<close> follows the
  transactions a program opens and ends; \<open>Libxl_Waits\<close> treats the loops that wait.

  \<^bold>\<open>xl.\<close>
  All of these are \<open>xl_cmdimpl.c\<close>.  \<open>Xl_Common\<close>: \<open>exit\<close>, the lock of domain creation, domains by name or
  number.  \<open>Disk_Config\<close>: \<open>parse_disk_config\<close>.  \<open>Xl_Config\<close>: \<open>parse_config_data\<close>.  \<open>Xl_Create\<close>: \<open>freemem\<close>,
  \<open>create_domain\<close> with its labels, the daemon and the event loop.  \<open>Xl_Migrate\<close>: saving, and both
  processes of a migration.  \<open>Xl_Options\<close>: \<open>getopt\<close>, \<open>getopt_long\<close> and \<open>printf\<close>.  \<open>Xl_Print\<close>:
  \<open>printf_info\<close> and the listings.  \<open>Xl_Domain_Commands\<close>, \<open>Xl_Life_Commands\<close>, \<open>Xl_Vcpu_Commands\<close>,
  \<open>Xl_Device_Commands\<close>, \<open>Xl_Host_Commands\<close> and \<open>Xl_Pool_Commands\<close>: every \<open>main_\<close> function, from the options
  to the value it returns.
  \<open>Quiet_Calls\<close> tells which calls a program can make at all; with it \<open>Migration\<close>, \<open>Creation_Lock\<close> and
  \<open>Saved_Domain\<close> treat the handshake of a migration, the lock and the file of a saved domain.
  \<open>Cpu_Lists\<close> and \<open>Command_Properties\<close> hold the properties of the commands.
\<close>

section \<open>What is shown\<close>

text \<open>
  \<^item> The store: what a life of sessions leaves is, at every time, the requests up to that time laid over
    zeros (\<open>point_in_time_read\<close>, through the drivers \<open>time_travel\<close>); one request refines the overlay of
    its bytes on the disk; closing and opening keeps all versions; the buffered log gives back what it took
    in.  These hold as long as what a session writes fits one filling of the append buffer and reads fit
    the buffer on the stack (\<open>session_fits\<close>, \<open>fits_stack\<close>): a flush can leave the read window stale
    (\<open>flush_leaves_window_stale\<close>).  The conditions under which a read overruns the buffer on the stack are
    exact, and so is the block a request begins with when its number does not fit an \<open>int\<close>.
  \<^item> The drivers: those of the store report success whatever becomes of the calls below them; the slots of
    the raw drivers are conserved, no request is lost, and the log driver equals the raw one.
  \<^item> Names, numbers and configurations of disks: round trips of the parsers, distinct device numbers for
    distinct canonical names, and the names with a sign that are aliases of them.
  \<^item> Devices and domains in xenstore: additions replace the directories of a device, and make all their
    changes in one transaction that they commit; disks and network interfaces that were attached are read back and listed; renaming, preserving and memory targets are all or nothing;
    transactions are closed by fifteen operations and slip in two others.
  \<^item> Loops that wait: how often they look, and what their result says.
  \<^item> Processes: a migration never leaves two running copies, creation works under its lock, a saved
    configuration that was written completely is read back exactly, and one that was cut off is not noticed.
  \<^item> Commands: usage has no other effect; lists of processors are read back as printed; the array of
    settings of \<open>create\<close>, its overrun, and what the creation is given otherwise; the spellings of a
    preservation disk that \<open>block-attach\<close> refuses, and the one it takes for another format.

  Several of these describe defects, and say in which cases the code does not do what it means to.
\<close>

section \<open>Conventions, bounds and assumptions\<close>

text \<open>
  \<^item> Errors.  Undefined behaviour (an access outside an object, a null pointer) is a value of type
    \<open>fault\<close>; a program that ends its process returns a value of type \<open>stop\<close>; error codes are integers as in
    the code.  Uninitialised memory is an argument (\<open>junk\<close>, \<open>fresh_mem\<close>, \<open>uninit\<close>).
  \<^item> Fuel.  Following a chain of versions and writing the blocks of a request take at most \<open>max_steps\<close>
    (\<open>2 ^ 64\<close>) steps: the entries of a chain lie at distinct offsets of 64 bits, and a request has
    fewer than \<open>2 ^ 32\<close> sectors, so the fuel never ends on a well-formed file; the theorems of the store
    prove a result, not only a property of results.  The loops of the tool stack that the code bounds
    (100 reads of a backend's state, 10 looks at the processors of the control domain) carry exactly that
    bound.  Loops that the code does not bound (retried transactions, waiting for events, restarts of a
    domain) take fuel and give \<open>Diverges\<close> without it; the theorems on them hold for every fuel, and where
    a result is claimed one unit is enough, since a transaction of the only client commits at once.
    The ranges of \<open>vcpu-pin\<close> have enough fuel with one more than the largest processor, and
    \<open>cpu_range_ends\<close> tells for which ranges there is enough.
  \<^item> The environment.  Calls to code outside the repository are recorded with their answers.  Theorems
    about the order of calls hold for all environments; theorems about the store assume the laws of the
    locale \<open>xenstore\<close> through its interpretation, an executable store beside which other calls are
    answered arbitrarily.  Two processes of a migration are two such programs, joined by their messages.
  \<^item> Exact reads and writes.  \<open>libxl_read_exactly\<close> and \<open>libxl_write_exactly\<close> answer 0 or a positive error
    number, and a read that fails leaves the rest of its buffer as it was.
  \<^item> Configurations.  The parser of configuration files is an argument: a function from a text to an
    error or to the values of its keys.
  \<^item> The command line.  \<open>getopt\<close> reorders operands as the GNU library does when \<open>POSIXLY_CORRECT\<close> is not
    set.  The text of a floating-point number is an argument of the printing functions.
\<close>

section \<open>Not modelled\<close>

text \<open>
  \<^item> The scanner of configuration files (\<open>libxlu_cfg_l.c\<close>, \<open>libxlu_cfg_l.h\<close>): the checked-in output of a
    generator, whose tables are not written by hand; with the parser it is the argument named above.
  \<^item> Debugging output of the store (\<open>print_hex\<close>, \<open>print_header\<close>, \<open>print_io\<close>), the messages on standard
    error and \<open>dolog\<close>: they only write text.
  \<^item> \<open>help\<close>: it prints the table of commands, which is in a file that is not part of the repository; a
    call of it is recorded by the name of the command.
  \<^item> The header of the benchmark (\<open>bonnie.h\<close>): declarations of a program that is not part of the repository.
  \<^item> The Java programs that analyse copies of a preservation file on a cluster, the Ruby script (its effect
    is \<open>mkimage\<close>) and the shell scripts: other languages.
\<close>

end
